(* ===== verification/Prelude.thy ===== *)
theory Prelude
  imports Main "HOL-Library.Word" "HOL-Library.AList" "HOL-Library.Multiset"
begin

text \<open>
  Vocabulary shared by the components: byte strings, Rust's \<open>Result\<close> as a sum type with the
  propagation operator \<open>?\<close>, loops that stop at the first error, the little- and big-endian
  encodings of the standard library, UTF-8 validity of a Rust \<open>String\<close>, and the iterator
  adaptor \<open>unique_by\<close>.  A Rust \<open>String\<close> is represented by its UTF-8 bytes.
\<close>

unbundle bit_operations_syntax

named_theorems res_simps \<open>rewriting of Result pipelines\<close>
named_theorems store_simps \<open>what reads return after writes\<close>

type_synonym byte = "8 word"
type_synonym bytes = "byte list"
type_synonym u16 = "16 word"
type_synonym u32 = "32 word"
type_synonym u64 = "64 word"
type_synonym u128 = "128 word"

section \<open>Results\<close>

text \<open>\<open>Inl\<close> is \<open>Err\<close>, \<open>Inr\<close> is \<open>Ok\<close>; \<open>bindE r f\<close> is \<open>f(r?)\<close>.\<close>

definition bindE :: "'e + 'a \<Rightarrow> ('a \<Rightarrow> 'e + 'b) \<Rightarrow> 'e + 'b" where
  "bindE r f = (case r of Inl e \<Rightarrow> Inl e | Inr x \<Rightarrow> f x)"

definition mapR :: "('a \<Rightarrow> 'b) \<Rightarrow> 'e + 'a \<Rightarrow> 'e + 'b" where
  "mapR f r = (case r of Inl e \<Rightarrow> Inl e | Inr x \<Rightarrow> Inr (f x))"

definition map_err :: "('e \<Rightarrow> 'f) \<Rightarrow> 'e + 'a \<Rightarrow> 'f + 'a" where
  "map_err f r = (case r of Inl e \<Rightarrow> Inl (f e) | Inr x \<Rightarrow> Inr x)"

definition ok_or :: "'e \<Rightarrow> 'a option \<Rightarrow> 'e + 'a" where
  "ok_or e x = (case x of None \<Rightarrow> Inl e | Some y \<Rightarrow> Inr y)"

definition okay :: "'e + 'a \<Rightarrow> 'a option" where
  "okay r = (case r of Inl _ \<Rightarrow> None | Inr x \<Rightarrow> Some x)"

definition is_ok :: "'e + 'a \<Rightarrow> bool" where
  "is_ok r = (case r of Inl _ \<Rightarrow> False | Inr _ \<Rightarrow> True)"

text \<open>\<open>for x in xs { f(x)?; }\<close> over a threaded state.\<close>

primrec foldE :: "('a \<Rightarrow> 's \<Rightarrow> 'e + 's) \<Rightarrow> 'a list \<Rightarrow> 's \<Rightarrow> 'e + 's" where
  "foldE f [] s = Inr s"
| "foldE f (x # xs) s = bindE (f x s) (foldE f xs)"

text \<open>\<open>xs.map(f).collect::<Result<Vec<_>, _>>()\<close>.\<close>

primrec mapE :: "('a \<Rightarrow> 'e + 'b) \<Rightarrow> 'a list \<Rightarrow> 'e + 'b list" where
  "mapE f [] = Inr []"
| "mapE f (x # xs) = bindE (f x) (\<lambda>y. bindE (mapE f xs) (\<lambda>ys. Inr (y # ys)))"

lemma bindE_simps [simp, res_simps]:
  "bindE (Inl e) f = Inl e"
  "bindE (Inr x) f = f x"
  by (simp_all add: bindE_def)

lemma mapR_simps [simp, res_simps]:
  "mapR f (Inl e) = Inl e"
  "mapR f (Inr x) = Inr (f x)"
  by (simp_all add: mapR_def)

lemma map_err_simps [simp, res_simps]:
  "map_err f (Inl e) = Inl (f e)"
  "map_err f (Inr x) = Inr x"
  by (simp_all add: map_err_def)

lemma ok_or_simps [simp, res_simps]:
  "ok_or e None = Inl e"
  "ok_or e (Some x) = Inr x"
  by (simp_all add: ok_or_def)

lemma okay_simps [simp, res_simps]:
  "okay (Inl e) = None"
  "okay (Inr x) = Some x"
  by (simp_all add: okay_def)

lemma is_ok_simps [simp, res_simps]:
  "is_ok (Inl e) = False"
  "is_ok (Inr x) = True"
  by (simp_all add: is_ok_def)

lemma bindE_eq_Inr [res_simps]: "bindE r f = Inr y \<longleftrightarrow> (\<exists>x. r = Inr x \<and> f x = Inr y)"
  by (cases r) simp_all

lemma bindE_eq_Inl [res_simps]: "bindE r f = Inl e \<longleftrightarrow> r = Inl e \<or> (\<exists>x. r = Inr x \<and> f x = Inl e)"
  by (cases r) simp_all

lemma mapR_eq_Inr [res_simps]: "mapR f r = Inr y \<longleftrightarrow> (\<exists>x. r = Inr x \<and> y = f x)"
  by (cases r) auto

lemma mapR_eq_Inl [res_simps]: "mapR f r = Inl e \<longleftrightarrow> r = Inl e"
  by (cases r) auto

lemma map_err_eq_Inr [res_simps]: "map_err f r = Inr y \<longleftrightarrow> r = Inr y"
  by (cases r) auto

lemma ok_or_eq_Inr [res_simps]: "ok_or e x = Inr y \<longleftrightarrow> x = Some y"
  by (cases x) auto

lemma okay_eq_Some [res_simps]: "okay r = Some x \<longleftrightarrow> r = Inr x"
  by (cases r) auto

lemma is_ok_iff: "is_ok r \<longleftrightarrow> (\<exists>x. r = Inr x)"
  by (cases r) auto

lemma bindE_assoc: "bindE (bindE r f) g = bindE r (\<lambda>x. bindE (f x) g)"
  by (cases r) simp_all

lemma foldE_append: "foldE f (xs @ ys) s = bindE (foldE f xs s) (foldE f ys)"
  by (induction xs arbitrary: s) (auto simp: bindE_def split: sum.splits)

text \<open>A property of the state that every step keeps holds after a successful loop.\<close>

lemma foldE_invariant:
  assumes "foldE f xs s = Inr s'" and "P s"
    and "\<And>x t t'. x \<in> set xs \<Longrightarrow> P t \<Longrightarrow> f x t = Inr t' \<Longrightarrow> P t'"
  shows "P s'"
  using assms
proof (induction xs arbitrary: s)
  case (Cons x xs)
  then obtain t where "f x s = Inr t" "foldE f xs t = Inr s'"
    by (auto simp: res_simps)
  with Cons show ?case by (metis list.set_intros)
qed simp

lemma mapE_total: "(\<And>x. x \<in> set xs \<Longrightarrow> f x = Inr (g x)) \<Longrightarrow> mapE f xs = Inr (map g xs)"
  by (induction xs) simp_all

lemma mapE_eq_Inr: "mapE f xs = Inr ys \<longleftrightarrow> list_all2 (\<lambda>x y. f x = Inr y) xs ys"
proof (induction xs arbitrary: ys)
  case (Cons x xs)
  then show ?case by (cases ys) (auto simp: res_simps)
qed auto

lemma mapE_map: "mapE f (map g xs) = mapE (\<lambda>x. f (g x)) xs"
  by (induction xs) simp_all

section \<open>Iterators\<close>

text \<open>
  \<open>Itertools::unique_by\<close>: keep the first element of every key, remembering the keys seen.
\<close>

primrec unique_by_from :: "('a \<Rightarrow> 'k) \<Rightarrow> 'k list \<Rightarrow> 'a list \<Rightarrow> 'a list" where
  "unique_by_from key seen [] = []"
| "unique_by_from key seen (x # xs) =
     (if key x \<in> set seen then unique_by_from key seen xs
      else x # unique_by_from key (key x # seen) xs)"

definition unique_by :: "('a \<Rightarrow> 'k) \<Rightarrow> 'a list \<Rightarrow> 'a list" where
  "unique_by key xs = unique_by_from key [] xs"

lemma find_unique_by_from:
  "k \<notin> set seen \<Longrightarrow>
     find (\<lambda>x. key x = k) (unique_by_from key seen xs) = find (\<lambda>x. key x = k) xs"
  by (induction xs arbitrary: seen) auto

lemma find_unique_by:
  "find (\<lambda>x. key x = k) (unique_by key xs) = find (\<lambda>x. key x = k) xs"
  by (simp add: unique_by_def find_unique_by_from)

lemma key_unique_by_from:
  "x \<in> set (unique_by_from key seen xs) \<Longrightarrow> key x \<notin> set seen"
proof (induction xs arbitrary: seen)
  case (Cons a xs)
  then show ?case
    by (cases "key a \<in> set seen") (auto dest: Cons.IH)
qed simp

lemma distinct_unique_by_from: "distinct (map key (unique_by_from key seen xs))"
proof (induction xs arbitrary: seen)
  case (Cons x xs)
  then show ?case
    by (auto dest!: key_unique_by_from)
qed simp

lemma distinct_unique_by: "distinct (map key (unique_by key xs))"
  by (simp add: unique_by_def distinct_unique_by_from)

lemma set_unique_by_from: "set (unique_by_from key seen xs) \<subseteq> set xs"
  by (induction xs arbitrary: seen) auto

lemma set_unique_by: "set (unique_by key xs) \<subseteq> set xs"
  by (simp add: unique_by_def set_unique_by_from)

lemma unique_by_id_from:
  "distinct (map key xs) \<Longrightarrow> set seen \<inter> key ` set xs = {} \<Longrightarrow> unique_by_from key seen xs = xs"
  by (induction xs arbitrary: seen) auto

lemma unique_by_id: "distinct (map key xs) \<Longrightarrow> unique_by key xs = xs"
  by (simp add: unique_by_def unique_by_id_from)

lemma find_filter:
  "find P (filter Q xs) = find (\<lambda>x. P x \<and> Q x) xs"
  by (induction xs) auto

lemma find_append: "find P (xs @ ys) = (case find P xs of None \<Rightarrow> find P ys | Some x \<Rightarrow> Some x)"
  by (induction xs) auto

lemma find_map: "find P (map f xs) = map_option f (find (\<lambda>x. P (f x)) xs)"
  by (induction xs) auto

lemma find_key_in: "find (\<lambda>x. key x = k) xs = Some y \<Longrightarrow> y \<in> set xs \<and> key y = k"
  by (induction xs) (auto split: if_splits)

lemma find_key_distinct:
  "distinct (map key xs) \<Longrightarrow> x \<in> set xs \<Longrightarrow> find (\<lambda>y. key y = key x) xs = Some x"
  by (induction xs) (auto simp: rev_image_eqI)

lemma distinct_map_filter_snoc:
  "distinct (map key xs) \<Longrightarrow> distinct (map key (filter (\<lambda>y. key y \<noteq> key x) xs @ [x]))"
  by (auto simp: distinct_map inj_on_def)

lemma find_eq_subset:
  assumes "distinct (map f xs)" "\<And>x. x \<in> set xs \<Longrightarrow> find (\<lambda>y. f y = f x) xs = find (\<lambda>y. f y = f x) ys"
  shows "set xs \<subseteq> set ys"
proof
  fix x assume x: "x \<in> set xs"
  then have "find (\<lambda>y. f y = f x) ys = Some x"
    using find_key_distinct[OF assms(1) x] assms(2)[OF x] by simp
  then show "x \<in> set ys"
    using find_key_in by fastforce
qed

text \<open>Lists with distinct keys that answer every lookup alike hold the same elements.\<close>

lemma find_eq_mset_eq:
  assumes "distinct (map f xs)" "distinct (map f ys)"
    and "\<And>x. x \<in> set xs \<union> set ys \<Longrightarrow> find (\<lambda>y. f y = f x) xs = find (\<lambda>y. f y = f x) ys"
  shows "mset xs = mset ys"
proof -
  have "set xs \<subseteq> set ys"
    by (rule find_eq_subset[OF assms(1)]) (simp add: assms(3))
  moreover have "set ys \<subseteq> set xs"
    by (rule find_eq_subset[OF assms(2)]) (simp add: assms(3))
  ultimately show ?thesis
    using assms(1,2) by (metis distinct_map set_eq_iff_mset_eq_distinct subset_antisym)
qed

section \<open>Integer encodings of the standard library\<close>

primrec to_le_bytes :: "nat \<Rightarrow> 'a::len word \<Rightarrow> bytes" where
  "to_le_bytes 0 w = []"
| "to_le_bytes (Suc n) w = ucast w # to_le_bytes n (drop_bit 8 w)"

primrec from_le_bytes :: "bytes \<Rightarrow> 'a::len word" where
  "from_le_bytes [] = 0"
| "from_le_bytes (b # bs) = (ucast b OR push_bit 8 (from_le_bytes bs))"

definition to_be_bytes :: "nat \<Rightarrow> 'a::len word \<Rightarrow> bytes" where
  "to_be_bytes n w = rev (to_le_bytes n w)"

definition from_be_bytes :: "bytes \<Rightarrow> 'a::len word" where
  "from_be_bytes bs = from_le_bytes (rev bs)"

lemma length_to_le_bytes [simp]: "length (to_le_bytes n w) = n"
  by (induction n arbitrary: w) simp_all

lemma length_to_be_bytes [simp]: "length (to_be_bytes n w) = n"
  by (simp add: to_be_bytes_def)

lemma from_to_le_bytes_take: "from_le_bytes (to_le_bytes n w) = take_bit (8 * n) (w :: 'a::len word)"
proof (induction n arbitrary: w)
  case (Suc n)
  show ?case
    by (rule bit_eqI) (auto simp: Suc bit_simps)
qed simp

lemma from_to_le_bytes:
  "LENGTH('a) \<le> 8 * n \<Longrightarrow> from_le_bytes (to_le_bytes n w) = (w :: 'a::len word)"
  by (simp add: from_to_le_bytes_take take_bit_word_eq_self)

lemma from_to_be_bytes:
  "LENGTH('a) \<le> 8 * n \<Longrightarrow> from_be_bytes (to_be_bytes n w) = (w :: 'a::len word)"
  by (simp add: from_be_bytes_def to_be_bytes_def from_to_le_bytes)

lemma to_from_le_bytes:
  "8 * length bs \<le> LENGTH('a) \<Longrightarrow> to_le_bytes (length bs) (from_le_bytes bs :: 'a::len word) = bs"
proof (induction bs)
  case (Cons b bs)
  let ?w = "from_le_bytes bs :: 'a word"
  have "ucast (ucast b OR push_bit 8 ?w) = b"
    using Cons.prems by (intro bit_word_eqI) (auto simp: bit_simps)
  moreover have "drop_bit 8 (ucast b OR push_bit 8 ?w) = take_bit (LENGTH('a) - 8) ?w"
    using Cons.prems by (intro bit_eqI) (auto simp: bit_simps dest: bit_imp_le_length)
  moreover have "take_bit (LENGTH('a) - 8) ?w = ?w"
  proof (rule bit_eqI)
    fix n
    have high: "\<not> bit ?w n" if "8 * length bs \<le> n" for n
      using that
    proof (induction bs arbitrary: n)
      case (Cons c cs)
      then show ?case
        by (auto simp: bit_simps dest: bit_imp_le_length)
    qed simp
    show "bit (take_bit (LENGTH('a) - 8) ?w) n \<longleftrightarrow> bit ?w n"
      using Cons.prems high[of n] by (cases "8 * length bs \<le> n") (auto simp: bit_simps)
  qed
  ultimately show ?case
    using Cons by simp
qed simp

section \<open>UTF-8\<close>

text \<open>
  \<open>str::from_utf8\<close> accepts exactly the well-formed byte sequences of the Unicode standard
  (table 3-7): no overlong forms, no surrogates, nothing above U+10FFFF.
\<close>

definition cont :: "byte \<Rightarrow> bool" where
  "cont b \<longleftrightarrow> 0x80 \<le> b \<and> b \<le> 0xBF"

fun utf8_valid :: "bytes \<Rightarrow> bool" where
  "utf8_valid [] = True"
| "utf8_valid (a # rest) =
     (if a \<le> 0x7F then utf8_valid rest
      else case rest of
        [] \<Rightarrow> False
      | b # rest1 \<Rightarrow>
          if 0xC2 \<le> a \<and> a \<le> 0xDF then cont b \<and> utf8_valid rest1
          else case rest1 of
            [] \<Rightarrow> False
          | c # rest2 \<Rightarrow>
              if 0xE0 \<le> a \<and> a \<le> 0xEF then
                (if a = 0xE0 then 0xA0 \<le> b \<and> b \<le> 0xBF
                 else if a = 0xED then 0x80 \<le> b \<and> b \<le> 0x9F else cont b)
                \<and> cont c \<and> utf8_valid rest2
              else case rest2 of
                [] \<Rightarrow> False
              | d # rest3 \<Rightarrow>
                  0xF0 \<le> a \<and> a \<le> 0xF4
                  \<and> (if a = 0xF0 then 0x90 \<le> b \<and> b \<le> 0xBF
                     else if a = 0xF4 then 0x80 \<le> b \<and> b \<le> 0x8F else cont b)
                  \<and> cont c \<and> cont d \<and> utf8_valid rest3)"

definition from_utf8 :: "bytes \<Rightarrow> bytes option" where
  "from_utf8 bs = (if utf8_valid bs then Some bs else None)"

definition ascii :: "string \<Rightarrow> bytes" where
  "ascii s = map of_char s"

lemma utf8_valid_ascii_append: "\<forall>b\<in>set xs. b \<le> 0x7F \<Longrightarrow> utf8_valid (xs @ ys) = utf8_valid ys"
  by (induction xs) simp_all

lemma utf8_valid_low: "\<forall>b\<in>set xs. b \<le> 0x7F \<Longrightarrow> utf8_valid xs"
  using utf8_valid_ascii_append[of xs "[]"] by simp

end
