(* ===== verification/Sql_Store.thy ===== *)
theory Sql_Store
  imports Prelude
begin

text \<open>
  The SQL statements the keystore issues, over tables given by the schema it creates
  (\<open>keystore/src/connection/platform/generic/migrations\<close>, summarised in
  \<open>composite-schema.sql\<close>).  A table is a list of rows in rowid order, a row an association
  list from column names to values.  Values keep SQLite's storage classes apart: a text never
  equals a blob, and \<open>NULL\<close> equals nothing.  \<open>INSERT\<close> fails on a uniqueness conflict,
  \<open>INSERT OR REPLACE\<close> first removes the conflicting rows.  A timestamp written by
  \<open>datetime(n, 'unixepoch')\<close> is kept as the number it denotes, which
  \<open>unixepoch\<close> reads back; outside the years -4713 to 9999 the function yields \<open>NULL\<close>.
  The helpers of \<open>entities/platform/generic/mod.rs\<close> are the last section.
\<close>

datatype sql_value =
    Null
  | Integer int
  | Text bytes
  | Blob bytes
  | Datetime int

datatype sql_error =
    NoSuchTable string
  | NoSuchColumn string
  | UniqueViolation string
  | InvalidColumnType string
  | ToSqlConversionFailure
  | EngineFailure nat

type_synonym row = "(string \<times> sql_value) list"

record sql_table =
  columns :: "string list"
  unique_columns :: "string list"
  rows :: "row list"

type_synonym sql_db = "string \<rightharpoonup> sql_table"

record insert_stmt =
  or_replace :: bool
  into_table :: string
  assigned :: "(string \<times> sql_value) list"

section \<open>Values\<close>

text \<open>The operator \<open>=\<close> of SQL as a condition: \<open>NULL\<close> on either side does not match.\<close>

definition sql_eq :: "sql_value \<Rightarrow> sql_value \<Rightarrow> bool" where
  "sql_eq v w \<longleftrightarrow> v \<noteq> Null \<and> w \<noteq> Null \<and> v = w"

definition row_value :: "row \<Rightarrow> string \<Rightarrow> sql_value" where
  "row_value r c = (case map_of r c of None \<Rightarrow> Null | Some v \<Rightarrow> v)"

definition sql_datetime :: "int \<Rightarrow> sql_value" where
  "sql_datetime n =
     (if - 210866760000 \<le> n \<and> n \<le> 253402300799 then Datetime n else Null)"

definition sql_unixepoch :: "sql_value \<Rightarrow> sql_value" where
  "sql_unixepoch v = (case v of Datetime n \<Rightarrow> Integer n | _ \<Rightarrow> Null)"

text \<open>
  \<open>row.get::<_, T>(c)?\<close> for the types of the entities' fields: a value of another storage
  class, or an integer out of the type's range, is an error.
\<close>

definition get_blob :: "row \<Rightarrow> string \<Rightarrow> sql_error + bytes" where
  "get_blob r c = (case map_of r c of
       None \<Rightarrow> Inl (NoSuchColumn c)
     | Some (Blob b) \<Rightarrow> Inr b
     | Some _ \<Rightarrow> Inl (InvalidColumnType c))"

definition get_opt_blob :: "row \<Rightarrow> string \<Rightarrow> sql_error + bytes option" where
  "get_opt_blob r c = (case map_of r c of
       None \<Rightarrow> Inl (NoSuchColumn c)
     | Some (Blob b) \<Rightarrow> Inr (Some b)
     | Some Null \<Rightarrow> Inr None
     | Some _ \<Rightarrow> Inl (InvalidColumnType c))"

definition get_text :: "row \<Rightarrow> string \<Rightarrow> sql_error + bytes" where
  "get_text r c = (case map_of r c of
       None \<Rightarrow> Inl (NoSuchColumn c)
     | Some (Text t) \<Rightarrow> Inr t
     | Some _ \<Rightarrow> Inl (InvalidColumnType c))"

definition int_value :: "int \<Rightarrow> string \<Rightarrow> sql_value option \<Rightarrow> sql_error + int" where
  "int_value bound c v = (case v of
       None \<Rightarrow> Inl (NoSuchColumn c)
     | Some (Integer n) \<Rightarrow> if 0 \<le> n \<and> n < bound then Inr n else Inl (InvalidColumnType c)
     | Some _ \<Rightarrow> Inl (InvalidColumnType c))"

definition get_u16 :: "row \<Rightarrow> string \<Rightarrow> sql_error + u16" where
  "get_u16 r c = mapR word_of_int (int_value (2 ^ 16) c (map_of r c))"

definition get_u64 :: "row \<Rightarrow> string \<Rightarrow> sql_error + u64" where
  "get_u64 r c = mapR word_of_int (int_value (2 ^ 63) c (map_of r c))"

definition opt_blob :: "bytes option \<Rightarrow> sql_value" where
  "opt_blob x = (case x of None \<Rightarrow> Null | Some b \<Rightarrow> Blob b)"

section \<open>Statements\<close>

definition mk_row :: "string list \<Rightarrow> (string \<times> sql_value) list \<Rightarrow> row" where
  "mk_row cs vs = map (\<lambda>c. (c, case map_of vs c of None \<Rightarrow> Null | Some v \<Rightarrow> v)) cs"

definition conflicts :: "sql_table \<Rightarrow> row \<Rightarrow> row \<Rightarrow> bool" where
  "conflicts t new old \<longleftrightarrow>
     (\<exists>c \<in> set (unique_columns t). sql_eq (row_value new c) (row_value old c))"

definition unknown_column :: "sql_table \<Rightarrow> (string \<times> sql_value) list \<Rightarrow> string option" where
  "unknown_column t vs = find (\<lambda>c. c \<notin> set (columns t)) (map fst vs)"

definition table_of :: "string \<Rightarrow> sql_db \<Rightarrow> sql_error + sql_table" where
  "table_of n db = ok_or (NoSuchTable n) (db n)"

definition exec_insert :: "insert_stmt \<Rightarrow> sql_db \<Rightarrow> sql_error + sql_db" where
  "exec_insert st db = bindE (table_of (into_table st) db) (\<lambda>t.
     case unknown_column t (assigned st) of
       Some c \<Rightarrow> Inl (NoSuchColumn c)
     | None \<Rightarrow>
         let new = mk_row (columns t) (assigned st) in
         if or_replace st then
           Inr (db(into_table st \<mapsto> t\<lparr>rows := filter (\<lambda>r. \<not> conflicts t new r) (rows t) @ [new]\<rparr>))
         else if list_ex (conflicts t new) (rows t) then Inl (UniqueViolation (into_table st))
         else Inr (db(into_table st \<mapsto> t\<lparr>rows := rows t @ [new]\<rparr>)))"

definition select_all :: "string \<Rightarrow> sql_db \<Rightarrow> sql_error + row list" where
  "select_all n db = mapR rows (table_of n db)"

definition select_where :: "string \<Rightarrow> string \<Rightarrow> sql_value \<Rightarrow> sql_db \<Rightarrow> sql_error + row list" where
  "select_where n c v db = bindE (table_of n db) (\<lambda>t.
     if c \<in> set (columns t) then Inr (filter (\<lambda>r. sql_eq (row_value r c) v) (rows t))
     else Inl (NoSuchColumn c))"

definition delete_where :: "string \<Rightarrow> string \<Rightarrow> sql_value \<Rightarrow> sql_db \<Rightarrow> sql_error + nat \<times> sql_db" where
  "delete_where n c v db = bindE (table_of n db) (\<lambda>t.
     if c \<in> set (columns t) then
       let hit = (\<lambda>r. sql_eq (row_value r c) v) in
       Inr (length (filter hit (rows t)), db(n \<mapsto> t\<lparr>rows := filter (\<lambda>r. \<not> hit r) (rows t)\<rparr>))
     else Inl (NoSuchColumn c))"

definition delete_all :: "string \<Rightarrow> sql_db \<Rightarrow> sql_error + nat \<times> sql_db" where
  "delete_all n db = bindE (table_of n db) (\<lambda>t.
     Inr (length (rows t), db(n \<mapsto> t\<lparr>rows := []\<rparr>)))"

text \<open>\<open>query_row(..).optional()\<close>: the first row of the result, if there is one.\<close>

definition first_row :: "(row \<Rightarrow> sql_error + 'a) \<Rightarrow> row list \<Rightarrow> sql_error + 'a option" where
  "first_row from_row rs = (case rs of [] \<Rightarrow> Inr None | r # _ \<Rightarrow> mapR Some (from_row r))"

section \<open>The query helpers\<close>

definition get_helper ::
  "string \<Rightarrow> string \<Rightarrow> sql_value \<Rightarrow> (row \<Rightarrow> sql_error + 'a) \<Rightarrow> sql_db \<Rightarrow> sql_error + 'a option" where
  "get_helper collection_name primary_key_column_name primary_key from_row db =
     bindE (select_where collection_name primary_key_column_name primary_key db) (first_row from_row)"

definition count_helper :: "string \<Rightarrow> sql_db \<Rightarrow> sql_error + u32" where
  "count_helper collection_name db = mapR (\<lambda>rs. of_nat (length rs)) (select_all collection_name db)"

definition count_helper_tx :: "string \<Rightarrow> sql_db \<Rightarrow> sql_error + u32" where
  "count_helper_tx collection_name tx = mapR (\<lambda>rs. of_nat (length rs)) (select_all collection_name tx)"

definition load_all_helper :: "string \<Rightarrow> (row \<Rightarrow> sql_error + 'a) \<Rightarrow> sql_db \<Rightarrow> sql_error + 'a list" where
  "load_all_helper collection_name from_row db =
     bindE (select_all collection_name db) (mapE from_row)"

definition delete_helper :: "string \<Rightarrow> string \<Rightarrow> sql_value \<Rightarrow> sql_db \<Rightarrow> sql_error + bool \<times> sql_db" where
  "delete_helper collection_name primary_key_column_name primary_key tx =
     mapR (\<lambda>(updated, tx'). (0 < updated, tx'))
       (delete_where collection_name primary_key_column_name primary_key tx)"

lemma table_of_upd [simp]:
  "table_of n (db(m \<mapsto> t)) = (if n = m then Inr t else table_of n db)"
  by (simp add: table_of_def)

lemma row_value_mk_row:
  "row_value (mk_row cs vs) c =
     (if c \<in> set cs then case map_of vs c of None \<Rightarrow> Null | Some v \<Rightarrow> v else Null)"
  by (simp add: row_value_def mk_row_def map_of_map_restrict restrict_map_def)

lemma exec_insert_other:
  "exec_insert st db = Inr db' \<Longrightarrow> n \<noteq> into_table st \<Longrightarrow> db' n = db n"
  by (auto simp: exec_insert_def Let_def res_simps split: option.splits if_splits)

lemma delete_where_other:
  "delete_where n c v db = Inr (k, db') \<Longrightarrow> m \<noteq> n \<Longrightarrow> db' m = db m"
  by (auto simp: delete_where_def Let_def res_simps split: if_splits)

end
