(* ===== verification/Key_Type.thy ===== *)
theory Key_Type
  imports Sql_Store
begin

text \<open>
  Primary and search keys (\<open>keystore/src/traits/key_type.rs\<close>, \<open>keystore/src/hash.rs\<close>,
  \<open>keystore/src/entities/mls/mls_pending_message.rs\<close>): the key types the entities use, their
  binary form and its inverse, the errors of the keystore
  (\<open>keystore/src/error.rs\<close>), and the two hash functions, which are library code and so a
  parameter \<open>H\<close> of whatever uses them.
\<close>

record hashes =
  sha256 :: "bytes \<Rightarrow> bytes"
  xxh3_128 :: "bytes \<Rightarrow> u128"

text \<open>SHA-256 digests have 32 bytes; nothing else about the hash functions is used.\<close>

definition sha256_sized :: "hashes \<Rightarrow> bool" where
  "sha256_sized H \<longleftrightarrow> (\<forall>x. length (sha256 H x) = 32)"

datatype CryptoKeystoreError =
    KeyReprError
  | MutatingOperationWithoutTransaction
  | TransactionInProgress
  | TryFromSliceError
  | IncorrectApiUsage string
  | SignatureKeyPairDoesNotBelongToCredential
  | AlreadyExists string
  | BlobTooBig
  | Closed
  | KeyStoreValueTransformError
  | DbError sql_error
  | InvalidKeySize nat nat string
  | NoFreePrekeyId
  | MlsKeyStoreError string
  | TimestampError
  | NotFound string
  | MigrationFailed string
  | InvalidPrimaryKeyBytes string
  | UnknownCollectionName string
  | Panicked string

type_synonym 'a keystore_result = "CryptoKeystoreError + 'a"

datatype key_type = UnitK | BytesK | StringK | U16K | U64K | Sha256K | PendingMessageK

datatype key =
    UnitKey
  | BytesKey bytes
  | StringKey bytes
  | U16Key u16
  | U64Key u64
  | Sha256Hash bytes
  | MlsPendingMessagePrimaryKey u128

fun type_of_key :: "key \<Rightarrow> key_type" where
  "type_of_key UnitKey = UnitK"
| "type_of_key (BytesKey _) = BytesK"
| "type_of_key (StringKey _) = StringK"
| "type_of_key (U16Key _) = U16K"
| "type_of_key (U64Key _) = U64K"
| "type_of_key (Sha256Hash _) = Sha256K"
| "type_of_key (MlsPendingMessagePrimaryKey _) = PendingMessageK"

text \<open>A Rust \<open>String\<close> is valid UTF-8, a \<open>Sha256Hash\<close> an array of 32 bytes.\<close>

fun wf_key :: "key \<Rightarrow> bool" where
  "wf_key (StringKey s) = utf8_valid s"
| "wf_key (Sha256Hash h) = (length h = 32)"
| "wf_key _ = True"

text \<open>\<open>impl_keytype_for_integer\<close>, for an integer type of \<open>n\<close> bytes.\<close>

definition int_from_bytes :: "nat \<Rightarrow> bytes \<Rightarrow> 'a::len word option" where
  "int_from_bytes n bs = (if length bs = n then Some (from_le_bytes bs) else None)"

fun key_bytes :: "key \<Rightarrow> bytes" where
  "key_bytes UnitKey = []"
| "key_bytes (BytesKey b) = b"
| "key_bytes (StringKey s) = s"
| "key_bytes (U16Key w) = to_le_bytes 2 w"
| "key_bytes (U64Key w) = to_le_bytes 8 w"
| "key_bytes (Sha256Hash h) = h"
| "key_bytes (MlsPendingMessagePrimaryKey w) = to_be_bytes 16 w"

fun key_from_bytes :: "key_type \<Rightarrow> bytes \<Rightarrow> key option" where
  "key_from_bytes UnitK bs = (if bs = [] then Some UnitKey else None)"
| "key_from_bytes BytesK bs = Some (BytesKey bs)"
| "key_from_bytes StringK bs = map_option StringKey (from_utf8 bs)"
| "key_from_bytes U16K bs = map_option U16Key (int_from_bytes 2 bs)"
| "key_from_bytes U64K bs = map_option U64Key (int_from_bytes 8 bs)"
| "key_from_bytes Sha256K bs = (if length bs = 32 then Some (Sha256Hash bs) else None)"
| "key_from_bytes PendingMessageK bs =
     (if length bs = 16 then Some (MlsPendingMessagePrimaryKey (from_be_bytes bs)) else None)"

definition hash_from :: "hashes \<Rightarrow> bytes \<Rightarrow> key" where
  "hash_from H input = Sha256Hash (sha256 H input)"

definition from_existing_hash :: "bytes \<Rightarrow> key keystore_result" where
  "from_existing_hash hash =
     (if length hash = 32 then Inr (Sha256Hash hash) else Inl TryFromSliceError)"

text \<open>The hexadecimal digits of the digest (\<open>Display\<close>), as the function \<open>sha256\<close> returns them.\<close>

definition hex_digit :: "byte \<Rightarrow> byte" where
  "hex_digit d = (if d < 10 then 48 + d else 87 + d)"

definition hex_encode :: "bytes \<Rightarrow> bytes" where
  "hex_encode bs = concat (map (\<lambda>b. [hex_digit (drop_bit 4 b), hex_digit (b AND 0x0F)]) bs)"

definition sha256_string :: "hashes \<Rightarrow> bytes \<Rightarrow> bytes" where
  "sha256_string H data = hex_encode (sha256 H data)"

text \<open>
  How a key is bound to a statement's placeholder: integers as integers, everything else
  through its byte form.
\<close>

definition key_param :: "key \<Rightarrow> sql_value" where
  "key_param k = (case k of
       U16Key w \<Rightarrow> Integer (uint w)
     | U64Key w \<Rightarrow> Integer (uint w)
     | _ \<Rightarrow> Blob (key_bytes k))"

lemma key_from_key_bytes [simp]:
  "wf_key k \<Longrightarrow> key_from_bytes (type_of_key k) (key_bytes k) = Some k"
  by (cases k) (simp_all add: from_utf8_def int_from_bytes_def from_to_le_bytes from_to_be_bytes)

lemma key_from_bytes_type: "key_from_bytes t bs = Some k \<Longrightarrow> type_of_key k = t"
  by (cases t) (auto split: if_splits)

lemma key_from_bytes_wf: "key_from_bytes t bs = Some k \<Longrightarrow> wf_key k"
  by (cases t) (auto simp: from_utf8_def split: if_splits)

lemma key_bytes_from_bytes: "key_from_bytes t bs = Some k \<Longrightarrow> key_bytes k = bs"
proof -
  assume k: "key_from_bytes t bs = Some k"
  have u16: "to_le_bytes 2 (from_le_bytes bs :: u16) = bs" if "length bs = 2"
    using to_from_le_bytes[of bs, where 'a = 16] that by simp
  have u64: "to_le_bytes 8 (from_le_bytes bs :: u64) = bs" if "length bs = 8"
    using to_from_le_bytes[of bs, where 'a = 64] that by simp
  have u128: "rev (to_le_bytes 16 (from_le_bytes (rev bs) :: u128)) = bs" if "length bs = 16"
    using to_from_le_bytes[of "rev bs", where 'a = 128] that by simp
  from k u16 u64 u128 show ?thesis
    by (cases t)
       (auto simp: from_utf8_def int_from_bytes_def to_be_bytes_def from_be_bytes_def split: if_splits)
qed

lemma key_bytes_inj:
  assumes "type_of_key k = type_of_key k'" "wf_key k" "wf_key k'" "key_bytes k = key_bytes k'"
  shows "k = k'"
  using key_from_key_bytes[OF assms(2)] key_from_key_bytes[OF assms(3)] assms(1,4)
  by (metis option.inject)

end
