(* ===== verification/Entities.thy ===== *)
theory Entities
  imports Key_Type
begin

text \<open>
  The persisted entities (\<open>keystore/src/entities\<close>, native backend): one record per struct,
  the row-mapping function \<open>from_row\<close>, and the insert statement of \<open>save\<close>.  Entities that
  derive \<open>core_crypto_macros::Entity\<close> get their statement from \<open>derived_insert\<close>, the
  macro's \<open>sql_insert_parts\<close>; the others write it out.  Search predicates and
  searches follow the entity they belong to.
\<close>

section \<open>The derive macro\<close>

text \<open>
  \<open>store_expression\<close> binds a field as it is: a \<open>String\<close> as text, a \<open>Vec<u8>\<close> as a blob,
  an absent optional as \<open>NULL\<close>.
\<close>

definition derived_insert ::
  "bool \<Rightarrow> string \<Rightarrow> string \<times> sql_value \<Rightarrow> (string \<times> sql_value) list \<Rightarrow> insert_stmt" where
  "derived_insert upsert collection_name id_column other_columns =
     \<lparr>or_replace = upsert, into_table = collection_name, assigned = id_column # other_columns\<rparr>"

text \<open>
  Without upsert the error of executing the statement becomes \<open>AlreadyExists\<close>; the errors of
  preparing it stay database errors.
\<close>

definition derived_map_err :: "bool \<Rightarrow> string \<Rightarrow> sql_error \<Rightarrow> CryptoKeystoreError" where
  "derived_map_err upsert collection_name e =
     (case e of UniqueViolation _ \<Rightarrow> if upsert then DbError e else AlreadyExists collection_name
              | _ \<Rightarrow> DbError e)"

section \<open>MLS key material\<close>

record stored_hpke_private_key =
  hpke_sk :: bytes
  hpke_pk :: bytes

definition hpke_from_row :: "row \<Rightarrow> sql_error + stored_hpke_private_key" where
  "hpke_from_row r = bindE (get_blob r ''pk'') (\<lambda>pk. bindE (get_blob r ''sk'') (\<lambda>sk.
     Inr \<lparr>hpke_sk = sk, hpke_pk = pk\<rparr>))"

definition hpke_insert :: "stored_hpke_private_key \<Rightarrow> insert_stmt" where
  "hpke_insert e = \<lparr>or_replace = True, into_table = ''mls_hpke_private_keys'',
     assigned = [(''pk_sha256'', Blob (hpke_pk e)), (''pk'', Blob (hpke_pk e)),
                 (''sk'', Blob (hpke_sk e))]\<rparr>"

record stored_encryption_key_pair =
  enc_sk :: bytes
  enc_pk :: bytes

definition enc_from_row :: "row \<Rightarrow> sql_error + stored_encryption_key_pair" where
  "enc_from_row r = bindE (get_blob r ''pk'') (\<lambda>pk. bindE (get_blob r ''sk'') (\<lambda>sk.
     Inr \<lparr>enc_sk = sk, enc_pk = pk\<rparr>))"

definition enc_insert :: "stored_encryption_key_pair \<Rightarrow> insert_stmt" where
  "enc_insert e = \<lparr>or_replace = True, into_table = ''mls_encryption_keypairs'',
     assigned = [(''pk_sha256'', Blob (enc_pk e)), (''pk'', Blob (enc_pk e)),
                 (''sk'', Blob (enc_sk e))]\<rparr>"

record stored_psk_bundle =
  psk_id :: bytes
  psk :: bytes

definition psk_from_row :: "row \<Rightarrow> sql_error + stored_psk_bundle" where
  "psk_from_row r = bindE (get_blob r ''psk_id'') (\<lambda>i. bindE (get_blob r ''psk'') (\<lambda>p.
     Inr \<lparr>psk_id = i, psk = p\<rparr>))"

definition psk_insert :: "stored_psk_bundle \<Rightarrow> insert_stmt" where
  "psk_insert e = \<lparr>or_replace = True, into_table = ''mls_psk_bundles'',
     assigned = [(''id_sha256'', Blob (psk_id e)), (''psk_id'', Blob (psk_id e)),
                 (''psk'', Blob (psk e))]\<rparr>"

record stored_epoch_encryption_keypair =
  epoch_keypair_id :: bytes
  keypairs :: bytes

definition epoch_from_row :: "row \<Rightarrow> sql_error + stored_epoch_encryption_keypair" where
  "epoch_from_row r = bindE (get_blob r ''id'') (\<lambda>i. bindE (get_blob r ''keypairs'') (\<lambda>k.
     Inr \<lparr>epoch_keypair_id = i, keypairs = k\<rparr>))"

definition epoch_insert :: "stored_epoch_encryption_keypair \<Rightarrow> insert_stmt" where
  "epoch_insert e = derived_insert True ''mls_epoch_encryption_keypairs''
     (''id'', Blob (epoch_keypair_id e)) [(''keypairs'', Blob (keypairs e))]"

record stored_keypackage =
  keypackage_ref :: bytes
  keypackage :: bytes

definition keypackage_from_row :: "row \<Rightarrow> sql_error + stored_keypackage" where
  "keypackage_from_row r = bindE (get_blob r ''keypackage_ref'') (\<lambda>k.
     bindE (get_blob r ''keypackage'') (\<lambda>p. Inr \<lparr>keypackage_ref = k, keypackage = p\<rparr>))"

definition keypackage_insert :: "stored_keypackage \<Rightarrow> insert_stmt" where
  "keypackage_insert e = derived_insert True ''mls_keypackages''
     (''keypackage_ref'', Blob (keypackage_ref e)) [(''keypackage'', Blob (keypackage e))]"

section \<open>Credentials\<close>

record stored_credential =
  session_id :: bytes
  credential :: bytes
  created_at :: u64
  ciphersuite :: u16
  public_key :: bytes
  private_key :: bytes

record CredentialFindFilters =
  find_hash :: "bytes option"
  find_public_key :: "bytes option"
  find_session_id :: "bytes option"
  find_ciphersuite :: "u16 option"
  find_earliest_validity :: "u64 option"

definition credential_primary_key :: "hashes \<Rightarrow> stored_credential \<Rightarrow> key" where
  "credential_primary_key H c = hash_from H (public_key c)"

text \<open>The columns of the queries: \<open>created_at\<close> is read through \<open>unixepoch\<close>.\<close>

definition credential_query_row :: "row \<Rightarrow> row" where
  "credential_query_row r =
     [(''session_id'', row_value r ''session_id''), (''credential'', row_value r ''credential''),
      (''created_at'', sql_unixepoch (row_value r ''created_at'')),
      (''ciphersuite'', row_value r ''ciphersuite''),
      (''public_key'', row_value r ''public_key''), (''private_key'', row_value r ''private_key'')]"

definition credential_from_row :: "row \<Rightarrow> sql_error + stored_credential" where
  "credential_from_row r =
     bindE (get_blob r ''session_id'') (\<lambda>s. bindE (get_blob r ''credential'') (\<lambda>c.
     bindE (get_u64 r ''created_at'') (\<lambda>t. bindE (get_u16 r ''ciphersuite'') (\<lambda>cs.
     bindE (get_blob r ''public_key'') (\<lambda>pk. bindE (get_blob r ''private_key'') (\<lambda>sk.
     Inr \<lparr>session_id = s, credential = c, created_at = t, ciphersuite = cs,
          public_key = pk, private_key = sk\<rparr>))))))"

text \<open>\<open>now\<close> is the seconds since the epoch, \<open>None\<close> for a clock set before it.\<close>

definition credential_pre_save ::
  "u64 option \<Rightarrow> stored_credential \<Rightarrow> (u64 \<times> stored_credential) keystore_result" where
  "credential_pre_save now c = bindE (ok_or TimestampError now) (\<lambda>t. Inr (t, c\<lparr>created_at := t\<rparr>))"

definition credential_insert :: "hashes \<Rightarrow> stored_credential \<Rightarrow> insert_stmt" where
  "credential_insert H c = \<lparr>or_replace = False, into_table = ''mls_credentials'',
     assigned = [(''public_key_sha256'', Blob (key_bytes (credential_primary_key H c))),
                 (''public_key'', Blob (public_key c)), (''session_id'', Blob (session_id c)),
                 (''credential'', Blob (credential c)),
                 (''created_at'', sql_datetime (uint (created_at c))),
                 (''ciphersuite'', Integer (uint (ciphersuite c))),
                 (''private_key'', Blob (private_key c))]\<rparr>"

text \<open>An unsigned 64-bit parameter above \<open>i64::MAX\<close> cannot be bound.\<close>

definition credential_save :: "hashes \<Rightarrow> stored_credential \<Rightarrow> sql_db \<Rightarrow> sql_error + sql_db" where
  "credential_save H c tx =
     (if uint (created_at c) < 2 ^ 63 then exec_insert (credential_insert H c) tx
      else Inl ToSqlConversionFailure)"

definition credential_get :: "hashes \<Rightarrow> key \<Rightarrow> sql_db \<Rightarrow> sql_error + stored_credential option" where
  "credential_get H k db = bindE (select_where ''mls_credentials'' ''public_key_sha256'' (key_param k) db)
     (first_row (\<lambda>r. credential_from_row (credential_query_row r)))"

definition credential_load_all :: "sql_db \<Rightarrow> sql_error + stored_credential list" where
  "credential_load_all db = bindE (select_all ''mls_credentials'' db)
     (mapE (\<lambda>r. credential_from_row (credential_query_row r)))"

definition is_none_or :: "'a option \<Rightarrow> ('a \<Rightarrow> bool) \<Rightarrow> bool" where
  "is_none_or x P = (case x of None \<Rightarrow> True | Some y \<Rightarrow> P y)"

definition credential_matches :: "hashes \<Rightarrow> CredentialFindFilters \<Rightarrow> stored_credential \<Rightarrow> bool" where
  "credential_matches H f c \<longleftrightarrow>
     is_none_or (find_hash f) (\<lambda>h. Sha256Hash h = credential_primary_key H c)
     \<and> is_none_or (find_public_key f) (\<lambda>k. k = public_key c)
     \<and> is_none_or (find_session_id f) (\<lambda>s. s = session_id c)
     \<and> is_none_or (find_ciphersuite f) (\<lambda>cs. cs = ciphersuite c)
     \<and> is_none_or (find_earliest_validity f) (\<lambda>t. t = created_at c)"

text \<open>
  With a hash or a public key the search is a lookup; otherwise the query gets one conjunct per
  filter that is set (the one on the session id twice).
\<close>

definition credential_where :: "CredentialFindFilters \<Rightarrow> row \<Rightarrow> bool" where
  "credential_where f r \<longleftrightarrow>
     is_none_or (find_ciphersuite f) (\<lambda>cs. sql_eq (row_value r ''ciphersuite'') (Integer (uint cs)))
     \<and> is_none_or (find_earliest_validity f)
         (\<lambda>t. sql_eq (sql_unixepoch (row_value r ''created_at'')) (Integer (uint t)))
     \<and> is_none_or (find_session_id f) (\<lambda>s. sql_eq (row_value r ''session_id'') (Blob s))
     \<and> is_none_or (find_session_id f) (\<lambda>s. sql_eq (row_value r ''session_id'') (Blob s))"

definition credential_find_all_matching ::
  "hashes \<Rightarrow> CredentialFindFilters \<Rightarrow> sql_db \<Rightarrow> sql_error + stored_credential list" where
  "credential_find_all_matching H f db =
     (case (case find_hash f of Some h \<Rightarrow> Some (Sha256Hash h)
            | None \<Rightarrow> map_option (hash_from H) (find_public_key f)) of
        Some hash \<Rightarrow>
          mapR (\<lambda>found. filter (credential_matches H f) (case found of None \<Rightarrow> [] | Some c \<Rightarrow> [c]))
            (credential_get H hash db)
      | None \<Rightarrow>
          if is_none_or (find_earliest_validity f) (\<lambda>t. uint t < 2 ^ 63) then
            bindE (select_all ''mls_credentials'' db)
              (\<lambda>rs. mapE (\<lambda>r. credential_from_row (credential_query_row r)) (filter (credential_where f) rs))
          else Inl ToSqlConversionFailure)"

section \<open>Groups, pending groups, buffered commits and messages\<close>

record stored_buffered_commit =
  commit_conversation_id :: bytes
  commit_data :: bytes

definition buffered_commit_from_row :: "row \<Rightarrow> sql_error + stored_buffered_commit" where
  "buffered_commit_from_row r = bindE (get_blob r ''conversation_id'') (\<lambda>i.
     bindE (get_blob r ''commit_data'') (\<lambda>d.
     Inr \<lparr>commit_conversation_id = i, commit_data = d\<rparr>))"

definition buffered_commit_insert :: "stored_buffered_commit \<Rightarrow> insert_stmt" where
  "buffered_commit_insert e = derived_insert True ''mls_buffered_commits''
     (''conversation_id'', Blob (commit_conversation_id e)) [(''commit_data'', Blob (commit_data e))]"

record persisted_mls_group =
  group_id :: bytes
  group_state :: bytes
  parent_id :: "bytes option"

definition group_from_row :: "row \<Rightarrow> sql_error + persisted_mls_group" where
  "group_from_row r = bindE (get_blob r ''id'') (\<lambda>i. bindE (get_blob r ''state'') (\<lambda>s.
     bindE (get_opt_blob r ''parent_id'') (\<lambda>p.
     Inr \<lparr>group_id = i, group_state = s, parent_id = p\<rparr>)))"

definition group_insert :: "persisted_mls_group \<Rightarrow> insert_stmt" where
  "group_insert e = derived_insert True ''mls_groups'' (''id'', Blob (group_id e))
     [(''state'', Blob (group_state e)), (''parent_id'', opt_blob (parent_id e))]"

definition group_matches :: "bytes \<Rightarrow> persisted_mls_group \<Rightarrow> bool" where
  "group_matches parent g \<longleftrightarrow> parent_id g = Some parent"

definition group_find_all_matching :: "bytes \<Rightarrow> sql_db \<Rightarrow> sql_error + persisted_mls_group list" where
  "group_find_all_matching parent db =
     bindE (select_where ''mls_groups'' ''parent_id'' (Blob parent) db) (mapE group_from_row)"

definition parent_group :: "persisted_mls_group \<Rightarrow> sql_db \<Rightarrow> sql_error + persisted_mls_group option" where
  "parent_group g db = (case parent_id g of
       None \<Rightarrow> Inr None
     | Some p \<Rightarrow> get_helper ''mls_groups'' ''id'' (Blob p) group_from_row db)"

definition entity_child_groups :: "persisted_mls_group \<Rightarrow> sql_db \<Rightarrow> sql_error + persisted_mls_group list" where
  "entity_child_groups g db = group_find_all_matching (group_id g) db"

record persisted_mls_pending_group =
  pending_id :: bytes
  pending_state :: bytes
  pending_parent_id :: "bytes option"
  custom_configuration :: bytes

definition pending_group_from_row :: "row \<Rightarrow> sql_error + persisted_mls_pending_group" where
  "pending_group_from_row r = bindE (get_blob r ''id'') (\<lambda>i. bindE (get_blob r ''state'') (\<lambda>s.
     bindE (get_opt_blob r ''parent_id'') (\<lambda>p. bindE (get_blob r ''cfg'') (\<lambda>c.
     Inr \<lparr>pending_id = i, pending_state = s, pending_parent_id = p, custom_configuration = c\<rparr>))))"

definition pending_group_insert :: "persisted_mls_pending_group \<Rightarrow> insert_stmt" where
  "pending_group_insert e = \<lparr>or_replace = True, into_table = ''mls_pending_groups'',
     assigned = [(''id'', Blob (pending_id e)), (''state'', Blob (pending_state e)),
                 (''parent_id'', opt_blob (pending_parent_id e)),
                 (''cfg'', Blob (custom_configuration e))]\<rparr>"

record mls_pending_message =
  foreign_id :: bytes
  message :: bytes

text \<open>The hasher is fed the two fields one after the other.\<close>

definition pending_message_primary_key :: "hashes \<Rightarrow> mls_pending_message \<Rightarrow> key" where
  "pending_message_primary_key H m =
     MlsPendingMessagePrimaryKey (xxh3_128 H (foreign_id m @ message m))"

definition pending_message_from_row :: "row \<Rightarrow> sql_error + mls_pending_message" where
  "pending_message_from_row r = bindE (get_blob r ''id'') (\<lambda>i. bindE (get_blob r ''message'') (\<lambda>m.
     Inr \<lparr>foreign_id = i, message = m\<rparr>))"

definition pending_message_insert :: "mls_pending_message \<Rightarrow> insert_stmt" where
  "pending_message_insert e = \<lparr>or_replace = False, into_table = ''mls_pending_messages'',
     assigned = [(''id'', Blob (foreign_id e)), (''message'', Blob (message e))]\<rparr>"

definition pending_message_find_all_matching :: "bytes \<Rightarrow> sql_db \<Rightarrow> sql_error + mls_pending_message list" where
  "pending_message_find_all_matching conversation_id db =
     bindE (select_where ''mls_pending_messages'' ''id'' (Blob conversation_id) db)
       (mapE pending_message_from_row)"

definition pending_message_matches :: "bytes \<Rightarrow> mls_pending_message \<Rightarrow> bool" where
  "pending_message_matches conversation_id m \<longleftrightarrow> conversation_id = foreign_id m"

definition pending_message_delete_all_matching :: "bytes \<Rightarrow> sql_db \<Rightarrow> sql_error + sql_db" where
  "pending_message_delete_all_matching conversation_id tx =
     mapR snd (delete_helper ''mls_pending_messages'' ''id'' (Blob conversation_id) tx)"

section \<open>End-to-end identity\<close>

record stored_e2ei_enrollment =
  enrollment_id :: bytes
  enrollment_content :: bytes

definition enrollment_from_row :: "row \<Rightarrow> sql_error + stored_e2ei_enrollment" where
  "enrollment_from_row r = bindE (get_blob r ''id'') (\<lambda>i. bindE (get_blob r ''content'') (\<lambda>c.
     Inr \<lparr>enrollment_id = i, enrollment_content = c\<rparr>))"

definition enrollment_insert :: "stored_e2ei_enrollment \<Rightarrow> insert_stmt" where
  "enrollment_insert e = derived_insert False ''e2ei_enrollment'' (''id'', Blob (enrollment_id e))
     [(''content'', Blob (enrollment_content e))]"

record e2ei_intermediate_cert =
  ski_aki_pair :: bytes
  intermediate_content :: bytes

definition intermediate_from_row :: "row \<Rightarrow> sql_error + e2ei_intermediate_cert" where
  "intermediate_from_row r = bindE (get_text r ''ski_aki_pair'') (\<lambda>i. bindE (get_blob r ''content'') (\<lambda>c.
     Inr \<lparr>ski_aki_pair = i, intermediate_content = c\<rparr>))"

definition intermediate_insert :: "e2ei_intermediate_cert \<Rightarrow> insert_stmt" where
  "intermediate_insert e = derived_insert True ''e2ei_intermediate_certs''
     (''ski_aki_pair'', Text (ski_aki_pair e)) [(''content'', Blob (intermediate_content e))]"

record e2ei_crl =
  distribution_point :: bytes
  crl_content :: bytes

definition crl_from_row :: "row \<Rightarrow> sql_error + e2ei_crl" where
  "crl_from_row r = bindE (get_text r ''distribution_point'') (\<lambda>i. bindE (get_blob r ''content'') (\<lambda>c.
     Inr \<lparr>distribution_point = i, crl_content = c\<rparr>))"

definition crl_insert :: "e2ei_crl \<Rightarrow> insert_stmt" where
  "crl_insert e = derived_insert True ''e2ei_crls''
     (''distribution_point'', Text (distribution_point e)) [(''content'', Blob (crl_content e))]"

record e2ei_acme_ca =
  acme_ca_content :: bytes

record consumer_data =
  consumer_content :: bytes

text \<open>The two unique entities share the implementation of \<open>UniqueEntityImplementationHelper\<close>.\<close>

definition unique_key :: key where
  "unique_key = U64Key 0"

definition unique_from_row :: "(bytes \<Rightarrow> 'a) \<Rightarrow> row \<Rightarrow> sql_error + 'a" where
  "unique_from_row new r = mapR new (get_blob r ''content'')"

definition unique_insert :: "string \<Rightarrow> bytes \<Rightarrow> insert_stmt" where
  "unique_insert collection_name content = \<lparr>or_replace = True, into_table = collection_name,
     assigned = [(''id'', key_param unique_key), (''content'', Blob content)]\<rparr>"

section \<open>Proteus\<close>

record proteus_identity =
  identity_sk :: bytes
  identity_pk :: bytes

definition identity_from_row :: "row \<Rightarrow> sql_error + proteus_identity" where
  "identity_from_row r = bindE (get_blob r ''sk'') (\<lambda>s. bindE (get_blob r ''pk'') (\<lambda>p.
     Inr \<lparr>identity_sk = s, identity_pk = p\<rparr>))"

definition identity_insert :: "proteus_identity \<Rightarrow> insert_stmt" where
  "identity_insert e = \<lparr>or_replace = False, into_table = ''proteus_identities'',
     assigned = [(''sk'', Blob (identity_sk e)), (''pk'', Blob (identity_pk e))]\<rparr>"

definition identity_get :: "sql_db \<Rightarrow> sql_error + proteus_identity option" where
  "identity_get db = bindE (select_all ''proteus_identities'' db) (first_row identity_from_row)"

definition identity_delete :: "sql_db \<Rightarrow> sql_error + bool \<times> sql_db" where
  "identity_delete tx = mapR (\<lambda>(updates, tx'). (0 < updates, tx')) (delete_all ''proteus_identities'' tx)"

record proteus_prekey =
  prekey_id :: u16
  prekey_id_bytes :: bytes
  prekey :: bytes

definition prekey_from_raw :: "u16 \<Rightarrow> bytes \<Rightarrow> proteus_prekey" where
  "prekey_from_raw i p = \<lparr>prekey_id = i, prekey_id_bytes = to_le_bytes 2 i, prekey = p\<rparr>"

definition id_from_slice :: "bytes \<Rightarrow> u16 keystore_result" where
  "id_from_slice buf =
     (if length buf < 2 then Inl (Panicked ''Oops, Proteus Prekey id slice is too small!'')
      else Inr (from_le_bytes (take 2 buf)))"

definition prekey_set_id :: "u16 \<Rightarrow> proteus_prekey \<Rightarrow> proteus_prekey" where
  "prekey_set_id i p = p\<lparr>prekey_id := i, prekey_id_bytes := to_le_bytes 2 i\<rparr>"

definition prekey_from_row :: "row \<Rightarrow> sql_error + proteus_prekey" where
  "prekey_from_row r = bindE (get_u16 r ''id'') (\<lambda>i. bindE (get_blob r ''key'') (\<lambda>p.
     Inr (prekey_from_raw i p)))"

definition prekey_insert :: "proteus_prekey \<Rightarrow> insert_stmt" where
  "prekey_insert e = \<lparr>or_replace = False, into_table = ''proteus_prekeys'',
     assigned = [(''id'', Integer (uint (prekey_id e))), (''key'', Blob (prekey e))]\<rparr>"

record proteus_session =
  proteus_session_id :: bytes
  session_record :: bytes

definition session_from_row :: "row \<Rightarrow> sql_error + proteus_session" where
  "session_from_row r = bindE (get_text r ''id'') (\<lambda>i. bindE (get_blob r ''session'') (\<lambda>s.
     Inr \<lparr>proteus_session_id = i, session_record = s\<rparr>))"

definition session_insert :: "proteus_session \<Rightarrow> insert_stmt" where
  "session_insert e = derived_insert True ''proteus_sessions''
     (''id'', Text (proteus_session_id e)) [(''session'', Blob (session_record e))]"

lemma id_from_slice_of_bytes:
  "id_from_slice (to_le_bytes 2 i @ rest) = Inr i"
  by (simp add: id_from_slice_def from_to_le_bytes)

end
