(* ===== verification/Dispatch.thy ===== *)
theory Dispatch
  imports Entities
begin

text \<open>
  Dynamic dispatch over the entities (\<open>keystore/src/transaction/dynamic_dispatch\<close>): the
  enumeration of entity types with their collection names, the enumeration of entities with
  the operations every entity implements (\<open>get\<close>, \<open>load_all\<close>, \<open>count\<close>, \<open>save\<close>,
  \<open>delete\<close>, \<open>pre_save\<close>), identifiers made of a type and key bytes, and the two operations a
  commit executes.  A type argument \<open>E\<close> of the code is a value of \<open>EntityType\<close> here.
\<close>

section \<open>Entity types\<close>

datatype EntityType =
    HpkePrivateKeyT
  | KeyPackageT
  | PskBundleT
  | EncryptionKeyPairT
  | EpochEncryptionKeyPairT
  | StoredCredentialT
  | StoredBufferedCommitT
  | PersistedMlsGroupT
  | PersistedMlsPendingGroupT
  | MlsPendingMessageT
  | StoredE2eiEnrollmentT
  | E2eiAcmeCAT
  | E2eiIntermediateCertT
  | E2eiCrlT
  | ProteusIdentityT
  | ProteusPrekeyT
  | ProteusSessionT
  | ConsumerDataT

fun collection_name :: "EntityType \<Rightarrow> string" where
  "collection_name KeyPackageT = ''mls_keypackages''"
| "collection_name PskBundleT = ''mls_psk_bundles''"
| "collection_name EncryptionKeyPairT = ''mls_encryption_keypairs''"
| "collection_name EpochEncryptionKeyPairT = ''mls_epoch_encryption_keypairs''"
| "collection_name StoredCredentialT = ''mls_credentials''"
| "collection_name StoredBufferedCommitT = ''mls_buffered_commits''"
| "collection_name PersistedMlsGroupT = ''mls_groups''"
| "collection_name PersistedMlsPendingGroupT = ''mls_pending_groups''"
| "collection_name MlsPendingMessageT = ''mls_pending_messages''"
| "collection_name StoredE2eiEnrollmentT = ''e2ei_enrollment''"
| "collection_name E2eiAcmeCAT = ''e2ei_acme_ca''"
| "collection_name E2eiIntermediateCertT = ''e2ei_intermediate_certs''"
| "collection_name E2eiCrlT = ''e2ei_crls''"
| "collection_name ProteusIdentityT = ''proteus_identities''"
| "collection_name ProteusPrekeyT = ''proteus_prekeys''"
| "collection_name ProteusSessionT = ''proteus_sessions''"
| "collection_name HpkePrivateKeyT = ''mls_hpke_private_keys''"
| "collection_name ConsumerDataT = ''consumer_data''"

definition from_collection_name :: "string \<Rightarrow> EntityType option" where
  "from_collection_name n =
    (if n = ''mls_hpke_private_keys'' then Some HpkePrivateKeyT
     else if n = ''mls_keypackages'' then Some KeyPackageT
     else if n = ''mls_psk_bundles'' then Some PskBundleT
     else if n = ''mls_encryption_keypairs'' then Some EncryptionKeyPairT
     else if n = ''mls_epoch_encryption_keypairs'' then Some EpochEncryptionKeyPairT
     else if n = ''mls_buffered_commits'' then Some StoredBufferedCommitT
     else if n = ''mls_groups'' then Some PersistedMlsGroupT
     else if n = ''mls_pending_groups'' then Some PersistedMlsPendingGroupT
     else if n = ''mls_credentials'' then Some StoredCredentialT
     else if n = ''mls_pending_messages'' then Some MlsPendingMessageT
     else if n = ''e2ei_enrollment'' then Some StoredE2eiEnrollmentT
     else if n = ''e2ei_crls'' then Some E2eiCrlT
     else if n = ''e2ei_acme_ca'' then Some E2eiAcmeCAT
     else if n = ''e2ei_intermediate_certs'' then Some E2eiIntermediateCertT
     else if n = ''proteus_identities'' then Some ProteusIdentityT
     else if n = ''proteus_prekeys'' then Some ProteusPrekeyT
     else if n = ''proteus_sessions'' then Some ProteusSessionT
     else if n = ''consumer_data'' then Some ConsumerDataT
     else None)"

section \<open>Entities\<close>

datatype Entity =
    ConsumerData consumer_data
  | HpkePrivateKey stored_hpke_private_key
  | StoredKeypackage stored_keypackage
  | PskBundle stored_psk_bundle
  | EncryptionKeyPair stored_encryption_key_pair
  | StoredEpochEncryptionKeypair stored_epoch_encryption_keypair
  | StoredCredential stored_credential
  | StoredBufferedCommit stored_buffered_commit
  | PersistedMlsGroup persisted_mls_group
  | PersistedMlsPendingGroup persisted_mls_pending_group
  | MlsPendingMessage mls_pending_message
  | StoredE2eiEnrollment stored_e2ei_enrollment
  | E2eiAcmeCA e2ei_acme_ca
  | E2eiIntermediateCert e2ei_intermediate_cert
  | E2eiCrl e2ei_crl
  | ProteusIdentity proteus_identity
  | ProteusPrekey proteus_prekey
  | ProteusSession proteus_session

fun type_of :: "Entity \<Rightarrow> EntityType" where
  "type_of (ConsumerData _) = ConsumerDataT"
| "type_of (HpkePrivateKey _) = HpkePrivateKeyT"
| "type_of (StoredKeypackage _) = KeyPackageT"
| "type_of (PskBundle _) = PskBundleT"
| "type_of (EncryptionKeyPair _) = EncryptionKeyPairT"
| "type_of (StoredEpochEncryptionKeypair _) = EpochEncryptionKeyPairT"
| "type_of (StoredCredential _) = StoredCredentialT"
| "type_of (StoredBufferedCommit _) = StoredBufferedCommitT"
| "type_of (PersistedMlsGroup _) = PersistedMlsGroupT"
| "type_of (PersistedMlsPendingGroup _) = PersistedMlsPendingGroupT"
| "type_of (MlsPendingMessage _) = MlsPendingMessageT"
| "type_of (StoredE2eiEnrollment _) = StoredE2eiEnrollmentT"
| "type_of (E2eiAcmeCA _) = E2eiAcmeCAT"
| "type_of (E2eiIntermediateCert _) = E2eiIntermediateCertT"
| "type_of (E2eiCrl _) = E2eiCrlT"
| "type_of (ProteusIdentity _) = ProteusIdentityT"
| "type_of (ProteusPrekey _) = ProteusPrekeyT"
| "type_of (ProteusSession _) = ProteusSessionT"

text \<open>\<open>Entity::downcast::<E>\<close>: the entity itself when it is of the requested type.\<close>

definition downcast :: "EntityType \<Rightarrow> Entity \<Rightarrow> Entity option" where
  "downcast E e = (if type_of e = E then Some e else None)"

fun primary_key_type :: "EntityType \<Rightarrow> key_type" where
  "primary_key_type StoredCredentialT = Sha256K"
| "primary_key_type MlsPendingMessageT = PendingMessageK"
| "primary_key_type E2eiAcmeCAT = U64K"
| "primary_key_type ConsumerDataT = U64K"
| "primary_key_type E2eiIntermediateCertT = StringK"
| "primary_key_type E2eiCrlT = StringK"
| "primary_key_type ProteusIdentityT = UnitK"
| "primary_key_type ProteusPrekeyT = U16K"
| "primary_key_type ProteusSessionT = StringK"
| "primary_key_type _ = BytesK"

fun primary_key :: "hashes \<Rightarrow> Entity \<Rightarrow> key" where
  "primary_key H (ConsumerData _) = unique_key"
| "primary_key H (HpkePrivateKey e) = BytesKey (hpke_pk e)"
| "primary_key H (StoredKeypackage e) = BytesKey (keypackage_ref e)"
| "primary_key H (PskBundle e) = BytesKey (psk_id e)"
| "primary_key H (EncryptionKeyPair e) = BytesKey (enc_pk e)"
| "primary_key H (StoredEpochEncryptionKeypair e) = BytesKey (epoch_keypair_id e)"
| "primary_key H (StoredCredential e) = credential_primary_key H e"
| "primary_key H (StoredBufferedCommit e) = BytesKey (commit_conversation_id e)"
| "primary_key H (PersistedMlsGroup e) = BytesKey (group_id e)"
| "primary_key H (PersistedMlsPendingGroup e) = BytesKey (pending_id e)"
| "primary_key H (MlsPendingMessage e) = pending_message_primary_key H e"
| "primary_key H (StoredE2eiEnrollment e) = BytesKey (enrollment_id e)"
| "primary_key H (E2eiAcmeCA _) = unique_key"
| "primary_key H (E2eiIntermediateCert e) = StringKey (ski_aki_pair e)"
| "primary_key H (E2eiCrl e) = StringKey (distribution_point e)"
| "primary_key H (ProteusIdentity _) = UnitKey"
| "primary_key H (ProteusPrekey e) = U16Key (prekey_id e)"
| "primary_key H (ProteusSession e) = StringKey (proteus_session_id e)"

text \<open>
  \<open>pre_save\<close> returns the generated fields, here the creation time of a credential, with the
  adjusted entity; it leaves the other entities alone.
\<close>

fun pre_save :: "u64 option \<Rightarrow> Entity \<Rightarrow> (u64 option \<times> Entity) keystore_result" where
  "pre_save now (StoredCredential c) =
     mapR (\<lambda>(t, c'). (Some t, StoredCredential c')) (credential_pre_save now c)"
| "pre_save now e = Inr (None, e)"

section \<open>Reading\<close>

fun from_row :: "EntityType \<Rightarrow> row \<Rightarrow> sql_error + Entity" where
  "from_row HpkePrivateKeyT r = mapR HpkePrivateKey (hpke_from_row r)"
| "from_row KeyPackageT r = mapR StoredKeypackage (keypackage_from_row r)"
| "from_row PskBundleT r = mapR PskBundle (psk_from_row r)"
| "from_row EncryptionKeyPairT r = mapR EncryptionKeyPair (enc_from_row r)"
| "from_row EpochEncryptionKeyPairT r = mapR StoredEpochEncryptionKeypair (epoch_from_row r)"
| "from_row StoredCredentialT r =
     mapR StoredCredential (credential_from_row (credential_query_row r))"
| "from_row StoredBufferedCommitT r = mapR StoredBufferedCommit (buffered_commit_from_row r)"
| "from_row PersistedMlsGroupT r = mapR PersistedMlsGroup (group_from_row r)"
| "from_row PersistedMlsPendingGroupT r = mapR PersistedMlsPendingGroup (pending_group_from_row r)"
| "from_row MlsPendingMessageT r = mapR MlsPendingMessage (pending_message_from_row r)"
| "from_row StoredE2eiEnrollmentT r = mapR StoredE2eiEnrollment (enrollment_from_row r)"
| "from_row E2eiAcmeCAT r = unique_from_row (\<lambda>c. E2eiAcmeCA \<lparr>acme_ca_content = c\<rparr>) r"
| "from_row E2eiIntermediateCertT r = mapR E2eiIntermediateCert (intermediate_from_row r)"
| "from_row E2eiCrlT r = mapR E2eiCrl (crl_from_row r)"
| "from_row ProteusIdentityT r = mapR ProteusIdentity (identity_from_row r)"
| "from_row ProteusPrekeyT r = mapR ProteusPrekey (prekey_from_row r)"
| "from_row ProteusSessionT r = mapR ProteusSession (session_from_row r)"
| "from_row ConsumerDataT r = unique_from_row (\<lambda>c. ConsumerData \<lparr>consumer_content = c\<rparr>) r"

text \<open>The column that \<open>get\<close> and \<open>delete\<close> of a type compare with the key.\<close>

fun key_column :: "EntityType \<Rightarrow> string" where
  "key_column HpkePrivateKeyT = ''pk''"
| "key_column KeyPackageT = ''keypackage_ref''"
| "key_column PskBundleT = ''id''"
| "key_column EncryptionKeyPairT = ''pk''"
| "key_column EpochEncryptionKeyPairT = ''id''"
| "key_column StoredCredentialT = ''public_key_sha256''"
| "key_column StoredBufferedCommitT = ''conversation_id''"
| "key_column PersistedMlsGroupT = ''id''"
| "key_column PersistedMlsPendingGroupT = ''id''"
| "key_column MlsPendingMessageT = ''id''"
| "key_column StoredE2eiEnrollmentT = ''id''"
| "key_column E2eiAcmeCAT = ''id''"
| "key_column E2eiIntermediateCertT = ''ski_aki_pair''"
| "key_column E2eiCrlT = ''distribution_point''"
| "key_column ProteusIdentityT = ''rowid''"
| "key_column ProteusPrekeyT = ''id''"
| "key_column ProteusSessionT = ''id''"
| "key_column ConsumerDataT = ''id''"

definition entity_get :: "EntityType \<Rightarrow> key \<Rightarrow> sql_db \<Rightarrow> Entity option keystore_result" where
  "entity_get E k db =
     (if E = MlsPendingMessageT then
        Inl (Panicked ''cannot get MlsPendingMessage by primary key as it has no distinct primary key'')
      else map_err DbError
        (if E = ProteusIdentityT then mapR (map_option ProteusIdentity) (identity_get db)
         else get_helper (collection_name E) (key_column E) (key_param k) (from_row E) db))"

definition entity_load_all :: "EntityType \<Rightarrow> sql_db \<Rightarrow> Entity list keystore_result" where
  "entity_load_all E db = map_err DbError (load_all_helper (collection_name E) (from_row E) db)"

definition entity_count :: "EntityType \<Rightarrow> sql_db \<Rightarrow> u32 keystore_result" where
  "entity_count E db = map_err DbError (count_helper (collection_name E) db)"

section \<open>Writing\<close>

fun insert_of :: "hashes \<Rightarrow> Entity \<Rightarrow> insert_stmt" where
  "insert_of H (ConsumerData e) = unique_insert ''consumer_data'' (consumer_content e)"
| "insert_of H (HpkePrivateKey e) = hpke_insert e"
| "insert_of H (StoredKeypackage e) = keypackage_insert e"
| "insert_of H (PskBundle e) = psk_insert e"
| "insert_of H (EncryptionKeyPair e) = enc_insert e"
| "insert_of H (StoredEpochEncryptionKeypair e) = epoch_insert e"
| "insert_of H (StoredCredential e) = credential_insert H e"
| "insert_of H (StoredBufferedCommit e) = buffered_commit_insert e"
| "insert_of H (PersistedMlsGroup e) = group_insert e"
| "insert_of H (PersistedMlsPendingGroup e) = pending_group_insert e"
| "insert_of H (MlsPendingMessage e) = pending_message_insert e"
| "insert_of H (StoredE2eiEnrollment e) = enrollment_insert e"
| "insert_of H (E2eiAcmeCA e) = unique_insert ''e2ei_acme_ca'' (acme_ca_content e)"
| "insert_of H (E2eiIntermediateCert e) = intermediate_insert e"
| "insert_of H (E2eiCrl e) = crl_insert e"
| "insert_of H (ProteusIdentity e) = identity_insert e"
| "insert_of H (ProteusPrekey e) = prekey_insert e"
| "insert_of H (ProteusSession e) = session_insert e"

definition entity_save :: "hashes \<Rightarrow> Entity \<Rightarrow> sql_db \<Rightarrow> sql_db keystore_result" where
  "entity_save H e tx = (case e of
       StoredCredential c \<Rightarrow> map_err DbError (credential_save H c tx)
     | StoredE2eiEnrollment _ \<Rightarrow>
         map_err (derived_map_err False ''e2ei_enrollment'') (exec_insert (insert_of H e) tx)
     | _ \<Rightarrow> map_err DbError (exec_insert (insert_of H e) tx))"

definition entity_delete :: "EntityType \<Rightarrow> key \<Rightarrow> sql_db \<Rightarrow> (bool \<times> sql_db) keystore_result" where
  "entity_delete E k tx =
     (if E = MlsPendingMessageT then
        Inl (Panicked ''cannot delete MlsPendingMessage by primary key as it has no distinct primary key'')
      else map_err DbError
        (if E = ProteusIdentityT then identity_delete tx
         else delete_helper (collection_name E) (key_column E) (key_param k) tx))"

text \<open>The convenience methods of a unique entity (\<open>UniqueEntityExt\<close>).\<close>

definition get_unique :: "EntityType \<Rightarrow> sql_db \<Rightarrow> Entity option keystore_result" where
  "get_unique E db = entity_get E (if E = ProteusIdentityT then UnitKey else unique_key) db"

definition set_and_replace :: "hashes \<Rightarrow> Entity \<Rightarrow> sql_db \<Rightarrow> (bool \<times> sql_db) keystore_result" where
  "set_and_replace H e tx =
     bindE (entity_delete (type_of e) (primary_key H e) tx) (\<lambda>(deleted, tx1).
     bindE (entity_save H e tx1) (\<lambda>tx2. Inr (deleted, tx2)))"

definition set_if_absent :: "hashes \<Rightarrow> Entity \<Rightarrow> sql_db \<Rightarrow> (bool \<times> sql_db) keystore_result" where
  "set_if_absent H e tx =
     bindE (map_err DbError (count_helper_tx (collection_name (type_of e)) tx)) (\<lambda>count.
       if 0 < count then Inr (False, tx)
       else bindE (entity_save H e tx) (\<lambda>tx'. Inr (True, tx')))"

definition unique_exists :: "EntityType \<Rightarrow> sql_db \<Rightarrow> bool keystore_result" where
  "unique_exists E db = mapR (\<lambda>count. 0 < count) (entity_count E db)"

definition execute_save :: "hashes \<Rightarrow> Entity \<Rightarrow> sql_db \<Rightarrow> sql_db keystore_result" where
  "execute_save H e tx = (case e of
       ConsumerData _ \<Rightarrow> mapR snd (set_and_replace H e tx)
     | E2eiAcmeCA _ \<Rightarrow> mapR snd (set_and_replace H e tx)
     | _ \<Rightarrow> entity_save H e tx)"

section \<open>Identifiers\<close>

record EntityId =
  id_typ :: EntityType
  key_id :: bytes

definition entity_id_primary_key :: "EntityId \<Rightarrow> key keystore_result" where
  "entity_id_primary_key i =
     ok_or (InvalidPrimaryKeyBytes (collection_name (id_typ i)))
       (key_from_bytes (primary_key_type (id_typ i)) (key_id i))"

definition from_key :: "EntityType \<Rightarrow> bytes \<Rightarrow> EntityId option" where
  "from_key E b = map_option (\<lambda>t. \<lparr>id_typ = t, key_id = b\<rparr>) (from_collection_name (collection_name E))"

definition from_entity :: "hashes \<Rightarrow> Entity \<Rightarrow> EntityId option" where
  "from_entity H e = from_key (type_of e) (key_bytes (primary_key H e))"

definition from_primary_key :: "EntityType \<Rightarrow> key \<Rightarrow> EntityId option" where
  "from_primary_key E k = from_key E (key_bytes k)"

definition execute_delete :: "EntityId \<Rightarrow> sql_db \<Rightarrow> (bool \<times> sql_db) keystore_result" where
  "execute_delete i tx =
     (if id_typ i = MlsPendingMessageT then
        map_err DbError (mapR (\<lambda>tx'. (False, tx')) (pending_message_delete_all_matching (key_id i) tx))
      else bindE (entity_id_primary_key i) (\<lambda>k. entity_delete (id_typ i) k tx))"

section \<open>The schema\<close>

text \<open>The tables of the latest schema version, empty.\<close>

fun schema_columns :: "EntityType \<Rightarrow> string list" where
  "schema_columns HpkePrivateKeyT = [''pk_sha256'', ''pk'', ''sk'']"
| "schema_columns KeyPackageT = [''keypackage_ref'', ''keypackage'']"
| "schema_columns PskBundleT = [''id_sha256'', ''psk_id'', ''psk'']"
| "schema_columns EncryptionKeyPairT = [''pk_sha256'', ''pk'', ''sk'']"
| "schema_columns EpochEncryptionKeyPairT = [''id'', ''keypairs'']"
| "schema_columns StoredCredentialT = [''public_key_sha256'', ''public_key'', ''session_id'',
     ''credential'', ''created_at'', ''ciphersuite'', ''private_key'']"
| "schema_columns StoredBufferedCommitT = [''conversation_id'', ''commit_data'']"
| "schema_columns PersistedMlsGroupT = [''id'', ''state'', ''parent_id'']"
| "schema_columns PersistedMlsPendingGroupT = [''id'', ''state'', ''cfg'', ''parent_id'']"
| "schema_columns MlsPendingMessageT = [''id'', ''message'']"
| "schema_columns StoredE2eiEnrollmentT = [''id'', ''content'']"
| "schema_columns E2eiAcmeCAT = [''id'', ''content'']"
| "schema_columns E2eiIntermediateCertT = [''ski_aki_pair'', ''content'']"
| "schema_columns E2eiCrlT = [''distribution_point'', ''content'']"
| "schema_columns ProteusIdentityT = [''sk'', ''pk'']"
| "schema_columns ProteusPrekeyT = [''id'', ''key'']"
| "schema_columns ProteusSessionT = [''id'', ''session'']"
| "schema_columns ConsumerDataT = [''id'', ''content'']"

fun schema_unique :: "EntityType \<Rightarrow> string list" where
  "schema_unique HpkePrivateKeyT = [''pk_sha256'']"
| "schema_unique KeyPackageT = [''keypackage_ref'']"
| "schema_unique PskBundleT = [''id_sha256'']"
| "schema_unique EncryptionKeyPairT = [''pk_sha256'']"
| "schema_unique EpochEncryptionKeyPairT = [''id'']"
| "schema_unique StoredCredentialT = [''public_key_sha256'']"
| "schema_unique StoredBufferedCommitT = [''conversation_id'']"
| "schema_unique PersistedMlsGroupT = [''id'']"
| "schema_unique PersistedMlsPendingGroupT = []"
| "schema_unique MlsPendingMessageT = []"
| "schema_unique StoredE2eiEnrollmentT = [''id'']"
| "schema_unique E2eiAcmeCAT = [''id'']"
| "schema_unique E2eiIntermediateCertT = [''ski_aki_pair'']"
| "schema_unique E2eiCrlT = [''distribution_point'']"
| "schema_unique ProteusIdentityT = []"
| "schema_unique ProteusPrekeyT = [''id'']"
| "schema_unique ProteusSessionT = [''id'']"
| "schema_unique ConsumerDataT = [''id'']"

definition schema_table :: "EntityType \<Rightarrow> row list \<Rightarrow> sql_table" where
  "schema_table E rs = \<lparr>columns = schema_columns E, unique_columns = schema_unique E, rows = rs\<rparr>"

definition empty_db :: sql_db where
  "empty_db n = map_option (\<lambda>E. schema_table E []) (from_collection_name n)"

section \<open>Names and identifiers\<close>

lemma from_collection_name_collection_name [simp]:
  "from_collection_name (collection_name E) = Some E"
  by (cases E) (simp_all add: from_collection_name_def)

lemma collection_name_from_collection_name:
  "from_collection_name n = Some E \<Longrightarrow> collection_name E = n"
  by (auto simp: from_collection_name_def split: if_splits)

lemma collection_name_inj [simp]: "collection_name E = collection_name F \<longleftrightarrow> E = F"
  by (metis from_collection_name_collection_name option.inject)

lemma from_key_eq [simp]: "from_key E b = Some \<lparr>id_typ = E, key_id = b\<rparr>"
  by (simp add: from_key_def)

lemma into_table_insert_of [simp]: "into_table (insert_of H e) = collection_name (type_of e)"
  by (cases e) (simp_all add: unique_insert_def hpke_insert_def keypackage_insert_def psk_insert_def
      enc_insert_def epoch_insert_def credential_insert_def buffered_commit_insert_def
      group_insert_def pending_group_insert_def pending_message_insert_def enrollment_insert_def
      intermediate_insert_def crl_insert_def identity_insert_def prekey_insert_def
      session_insert_def derived_insert_def)

lemma type_of_primary_key [simp]: "type_of_key (primary_key H e) = primary_key_type (type_of e)"
  by (cases e)
     (simp_all add: unique_key_def credential_primary_key_def hash_from_def pending_message_primary_key_def)

end
