(* ===== verification/Entity_Store.thy ===== *)
theory Entity_Store
  imports Dispatch
begin

text \<open>
  What the entities' statements do to the tables of the schema.  The contract of a store of
  records addressed by identifier is the locale \<open>record_store\<close>; it is interpreted on the
  statements a commit executes, for the entity types whose table enforces the primary key
  (\<open>keyed\<close>).  The remaining types are the subject of the last section.
\<close>

section \<open>The contract of a record store\<close>

locale record_store =
  fixes fetch :: "'db \<Rightarrow> 'id \<Rightarrow> 'e option"
    and put :: "'e \<Rightarrow> 'db \<Rightarrow> 'err + 'db"
    and del :: "'id \<Rightarrow> 'db \<Rightarrow> 'err + 'db"
    and ident :: "'e \<Rightarrow> 'id"
    and fits :: "'e \<Rightarrow> bool"
    and tracked :: "'id \<Rightarrow> bool"
    and invar :: "'db \<Rightarrow> bool"
  assumes put_invar: "invar db \<Longrightarrow> fits e \<Longrightarrow> put e db = Inr db' \<Longrightarrow> invar db'"
    and put_fetch: "invar db \<Longrightarrow> fits e \<Longrightarrow> put e db = Inr db' \<Longrightarrow> tracked i \<Longrightarrow>
      fetch db' i = (if ident e = i then Some e else fetch db i)"
    and del_invar: "invar db \<Longrightarrow> del i db = Inr db' \<Longrightarrow> invar db'"
    and del_fetch: "invar db \<Longrightarrow> del i db = Inr db' \<Longrightarrow> tracked j \<Longrightarrow>
      fetch db' j = (if j = i then None else fetch db j)"
begin

lemma puts_invar:
  assumes "invar db" "list_all fits es" "foldE put es db = Inr db'"
  shows "invar db'"
  using foldE_invariant[of put es db db' invar] assms put_invar
  by (metis list_all_iff)

lemma puts_fetch:
  assumes "invar db" "list_all fits es" "foldE put es db = Inr db'"
    and "distinct (map ident es)" "tracked i"
  shows "fetch db' i = (case find (\<lambda>e. ident e = i) es of Some e \<Rightarrow> Some e | None \<Rightarrow> fetch db i)"
  using assms
proof (induction es arbitrary: db)
  case (Cons e es)
  then obtain db1 where db1: "put e db = Inr db1" "foldE put es db1 = Inr db'"
    by (auto simp: res_simps)
  have "invar db1"
    using Cons.prems db1 by (auto intro: put_invar)
  then have IH: "fetch db' i = (case find (\<lambda>e. ident e = i) es of Some e \<Rightarrow> Some e | None \<Rightarrow> fetch db1 i)"
    using Cons db1 by simp
  have none: "find (\<lambda>x. ident x = i) es = None" if "ident e = i"
    unfolding find_None_iff using that Cons.prems(4)
    by (metis distinct.simps(2) image_eqI list.simps(9) set_map)
  show ?case
    using Cons.prems db1 IH none put_fetch[OF Cons.prems(1) _ db1(1) Cons.prems(5)]
    by (auto split: option.splits)
qed simp

lemma dels_invar:
  assumes "invar db" "foldE del is db = Inr db'"
  shows "invar db'"
  using foldE_invariant[of del "is" db db' invar] assms del_invar by blast

lemma dels_fetch:
  assumes "invar db" "foldE del is db = Inr db'" "tracked j"
  shows "fetch db' j = (if j \<in> set is then None else fetch db j)"
  using assms
proof (induction "is" arbitrary: db)
  case (Cons i "is")
  then obtain db1 where db1: "del i db = Inr db1" "foldE del is db1 = Inr db'"
    by (auto simp: res_simps)
  then show ?case
    using Cons del_invar[OF Cons.prems(1) db1(1)] del_fetch[OF Cons.prems(1) db1(1) Cons.prems(3)] by auto
qed simp

text \<open>Saves followed by deletes: the overlay wins over the store, and deletes win over saves.\<close>

lemma overlay_fetch:
  assumes "invar db" "list_all fits es" "distinct (map ident es)"
    and "bindE (foldE put es db) (foldE del is) = Inr db'" and "tracked i"
  shows "invar db'"
    and "fetch db' i =
      (if i \<in> set is then None
       else case find (\<lambda>e. ident e = i) es of Some e \<Rightarrow> Some e | None \<Rightarrow> fetch db i)"
proof -
  obtain db1 where db1: "foldE put es db = Inr db1" "foldE del is db1 = Inr db'"
    using assms(4) by (auto simp: res_simps)
  have inv1: "invar db1"
    using puts_invar[OF assms(1,2) db1(1)] .
  show "invar db'"
    using dels_invar[OF inv1 db1(2)] .
  show "fetch db' i =
      (if i \<in> set is then None
       else case find (\<lambda>e. ident e = i) es of Some e \<Rightarrow> Some e | None \<Rightarrow> fetch db i)"
    using dels_fetch[OF inv1 db1(2) assms(5)] puts_fetch[OF assms(1,2) db1(1) assms(3,5)] by simp
qed

end

section \<open>Rows of entities\<close>

definition encode :: "hashes \<Rightarrow> Entity \<Rightarrow> row" where
  "encode H e = mk_row (schema_columns (type_of e)) (assigned (insert_of H e))"

text \<open>
  The entities that come back as they were saved: a creation time up to the end of the year
  9999, and a prekey whose byte form is the one of its id, as \<open>from_raw\<close> builds it.
\<close>

definition storable :: "Entity \<Rightarrow> bool" where
  "storable e = (case e of
       StoredCredential c \<Rightarrow> uint (created_at c) \<le> 253402300799
     | ProteusPrekey p \<Rightarrow> prekey_id_bytes p = to_le_bytes 2 (prekey_id p)
     | _ \<Rightarrow> True)"

definition keyed :: "EntityType \<Rightarrow> bool" where
  "keyed E \<longleftrightarrow> E \<notin> {PskBundleT, PersistedMlsPendingGroupT, MlsPendingMessageT,
     E2eiIntermediateCertT, E2eiCrlT, ProteusIdentityT, ProteusSessionT}"

lemmas insert_defs = unique_insert_def hpke_insert_def keypackage_insert_def psk_insert_def
  enc_insert_def epoch_insert_def credential_insert_def buffered_commit_insert_def
  group_insert_def pending_group_insert_def pending_message_insert_def enrollment_insert_def
  intermediate_insert_def crl_insert_def identity_insert_def prekey_insert_def
  session_insert_def derived_insert_def

lemmas from_row_defs = hpke_from_row_def keypackage_from_row_def psk_from_row_def
  enc_from_row_def epoch_from_row_def credential_from_row_def buffered_commit_from_row_def
  group_from_row_def pending_group_from_row_def pending_message_from_row_def
  enrollment_from_row_def intermediate_from_row_def crl_from_row_def identity_from_row_def
  prekey_from_row_def session_from_row_def unique_from_row_def

lemmas column_defs = get_blob_def get_opt_blob_def get_text_def get_u16_def get_u64_def int_value_def

lemma schema_table_sel [simp]:
  "columns (schema_table E rs) = schema_columns E"
  "unique_columns (schema_table E rs) = schema_unique E"
  "rows (schema_table E rs) = rs"
  by (simp_all add: schema_table_def)

lemma schema_table_rows_upd [simp]: "schema_table E rs\<lparr>rows := rs'\<rparr> = schema_table E rs'"
  by (simp add: schema_table_def)

lemma no_unknown_column [simp]:
  "unknown_column (schema_table (type_of e) rs) (assigned (insert_of H e)) = None"
  by (cases e) (simp_all add: unknown_column_def insert_defs)

lemma uint_u16_bounds: "0 \<le> uint (w :: u16)" "uint (w :: u16) < 65536"
  using uint_lt2p[of w] by simp_all

lemma uint_datetime_bound: "- 210866760000 \<le> uint (w :: u64)"
  by (rule order.trans[of _ 0]) simp_all

lemma from_row_encode [simp]: "storable e \<Longrightarrow> from_row (type_of e) (encode H e) = Inr e"
  using uint_u16_bounds uint_datetime_bound
  by (cases e)
     (simp_all add: encode_def mk_row_def insert_defs from_row_defs column_defs storable_def
       credential_query_row_def row_value_def sql_datetime_def sql_unixepoch_def opt_blob_def
       prekey_from_raw_def split: option.splits)

lemma row_key_encode:
  "keyed (type_of e) \<Longrightarrow> row_value (encode H e) (key_column (type_of e)) = key_param (primary_key H e)"
  by (cases e)
     (simp_all add: encode_def row_value_mk_row insert_defs keyed_def key_param_def
       credential_primary_key_def hash_from_def)

lemma key_param_not_Null [simp]: "key_param k \<noteq> Null"
  by (cases k) (simp_all add: key_param_def)

lemma key_param_inj:
  "type_of_key k = type_of_key k' \<Longrightarrow> type_of_key k \<in> {BytesK, U16K, U64K, Sha256K} \<Longrightarrow>
     key_param k = key_param k' \<longleftrightarrow> k = k'"
  by (cases k; cases k') (auto simp: key_param_def word_uint_eq_iff)

lemma keyed_key_type: "keyed E \<Longrightarrow> primary_key_type E \<in> {BytesK, U16K, U64K, Sha256K}"
  by (cases E) (simp_all add: keyed_def)

lemma row_key_hit:
  assumes "keyed (type_of e)" "type_of_key k = primary_key_type (type_of e)"
  shows "sql_eq (row_value (encode H e) (key_column (type_of e))) (key_param k) \<longleftrightarrow> primary_key H e = k"
  using assms key_param_inj[of "primary_key H e" k] keyed_key_type[OF assms(1)]
  by (simp add: sql_eq_def row_key_encode)

lemma unique_column_value:
  "keyed (type_of e) \<Longrightarrow> \<exists>c. schema_unique (type_of e) = [c]
     \<and> row_value (encode H e) c = key_param (primary_key H e)"
  by (cases e)
     (simp_all add: encode_def row_value_mk_row insert_defs keyed_def key_param_def
       credential_primary_key_def hash_from_def)

lemma conflicts_encode:
  assumes "keyed E" "type_of e = E" "type_of e' = E"
  shows "conflicts (schema_table E rs) (encode H e) (encode H e') \<longleftrightarrow> primary_key H e' = primary_key H e"
proof -
  obtain c where c: "schema_unique E = [c]" "row_value (encode H e) c = key_param (primary_key H e)"
    "row_value (encode H e') c = key_param (primary_key H e')"
    using unique_column_value[of e H] unique_column_value[of e' H] assms by auto
  then show ?thesis
    using key_param_inj[of "primary_key H e" "primary_key H e'"] keyed_key_type[OF assms(1)] assms(2,3)
    by (auto simp: conflicts_def sql_eq_def)
qed

section \<open>Well-formed databases\<close>

definition table_holds :: "hashes \<Rightarrow> sql_db \<Rightarrow> EntityType \<Rightarrow> Entity list \<Rightarrow> bool" where
  "table_holds H db E es \<longleftrightarrow>
     db (collection_name E) = Some (schema_table E (map (encode H) es))
     \<and> (\<forall>e \<in> set es. type_of e = E \<and> storable e)
     \<and> (keyed E \<longrightarrow> distinct (map (primary_key H) es))"

definition db_ok :: "hashes \<Rightarrow> sql_db \<Rightarrow> bool" where
  "db_ok H db \<longleftrightarrow> (\<forall>E. \<exists>es. table_holds H db E es)"

lemma db_okE: "db_ok H db \<Longrightarrow> (\<And>es. table_holds H db E es \<Longrightarrow> thesis) \<Longrightarrow> thesis"
  unfolding db_ok_def by blast

lemma db_ok_empty: "db_ok H empty_db"
  unfolding db_ok_def
proof
  fix E
  show "\<exists>es. table_holds H empty_db E es"
    by (rule exI[of _ "[]"]) (simp add: table_holds_def empty_db_def)
qed

lemma load_all_table:
  assumes "table_holds H db E es"
  shows "entity_load_all E db = Inr es"
proof -
  have "mapE (from_row E) (map (encode H) es) = Inr (map (\<lambda>e. e) es)"
    unfolding mapE_map using assms by (intro mapE_total) (auto simp: table_holds_def)
  then show ?thesis
    using assms
    by (simp add: entity_load_all_def load_all_helper_def select_all_def table_of_def table_holds_def)
qed

lemma count_table: "table_holds H db E es \<Longrightarrow> entity_count E db = Inr (of_nat (length es))"
  by (simp add: entity_count_def count_helper_def select_all_def table_of_def table_holds_def)

lemma first_row_filter:
  assumes "\<forall>e \<in> set es. type_of e = E \<and> storable e"
  shows "first_row (from_row E) (filter P (map (encode H) es)) = Inr (find (\<lambda>e. P (encode H e)) es)"
  using assms by (induction es) (auto simp: first_row_def)

lemma get_table:
  assumes "table_holds H db E es" "keyed E" "type_of_key k = primary_key_type E"
  shows "entity_get E k db = Inr (find (\<lambda>e. primary_key H e = k) es)"
proof -
  have "E \<noteq> MlsPendingMessageT" "E \<noteq> ProteusIdentityT"
    using assms(2) by (auto simp: keyed_def)
  moreover have "key_column E \<in> set (schema_columns E)"
    using assms(2) by (cases E) (simp_all add: keyed_def)
  moreover have "find (\<lambda>e. sql_eq (row_value (encode H e) (key_column E)) (key_param k)) es
      = find (\<lambda>e. primary_key H e = k) es"
    using assms row_key_hit by (intro find_cong) (auto simp: table_holds_def)
  moreover have "first_row (from_row E)
        (filter (\<lambda>r. sql_eq (row_value r (key_column E)) (key_param k)) (map (encode H) es))
      = Inr (find (\<lambda>e. sql_eq (row_value (encode H e) (key_column E)) (key_param k)) es)"
    using assms(1) by (intro first_row_filter) (simp add: table_holds_def)
  ultimately show ?thesis
    using assms(1)
    by (simp add: entity_get_def get_helper_def select_where_def table_of_def table_holds_def)
qed

section \<open>Writing to a well-formed database\<close>

lemma insert_table:
  assumes "table_holds H db E es" "type_of e = E" "exec_insert (insert_of H e) db = Inr db'"
  shows "db' = db(collection_name E \<mapsto> schema_table E (map (encode H)
           (filter (\<lambda>x. \<not> conflicts (schema_table E []) (encode H e) (encode H x)) es @ [e])))"
proof -
  have t: "db (collection_name E) = Some (schema_table E (map (encode H) es))"
    using assms(1) by (simp add: table_holds_def)
  have c: "conflicts (schema_table E rs) = conflicts (schema_table E [])" for rs
    by (simp add: conflicts_def fun_eq_iff)
  have "filter (\<lambda>r. \<not> conflicts (schema_table E []) (encode H e) r) (map (encode H) es)
      = map (encode H) (filter (\<lambda>x. \<not> conflicts (schema_table E []) (encode H e) (encode H x)) es)"
    by (simp add: filter_map comp_def)
  moreover have "filter (\<lambda>x. \<not> conflicts (schema_table E []) (encode H e) (encode H x)) es = es"
    if "\<not> list_ex (conflicts (schema_table E []) (encode H e)) (map (encode H) es)"
    using that by (auto simp: list_ex_iff intro!: filter_True)
  ultimately show ?thesis
    using assms(2,3) t no_unknown_column[of e "map (encode H) es" H] c[of "map (encode H) es"]
    by (auto simp: exec_insert_def table_of_def Let_def encode_def[symmetric] split: if_splits)
qed

lemma save_exec_insert:
  "entity_save H e db = Inr db' \<Longrightarrow> exec_insert (insert_of H e) db = Inr db'"
  by (auto simp: entity_save_def credential_save_def res_simps split: Entity.splits if_splits)

lemma save_table:
  assumes "table_holds H db E es" "type_of e = E" "storable e" "entity_save H e db = Inr db'"
  shows "table_holds H db' E
           (filter (\<lambda>x. \<not> conflicts (schema_table E []) (encode H e) (encode H x)) es @ [e])"
  using insert_table[OF assms(1,2) save_exec_insert[OF assms(4)]] assms(1-3)
    conflicts_encode[of E e _ "[]" H]
  by (auto simp: table_holds_def distinct_map inj_on_def)

lemma save_keyed:
  assumes "table_holds H db E es" "type_of e = E" "storable e" "entity_save H e db = Inr db'" "keyed E"
  shows "table_holds H db' E (filter (\<lambda>x. primary_key H x \<noteq> primary_key H e) es @ [e])"
proof -
  have "filter (\<lambda>x. \<not> conflicts (schema_table E []) (encode H e) (encode H x)) es
      = filter (\<lambda>x. primary_key H x \<noteq> primary_key H e) es"
    using assms(1,2,5) conflicts_encode[of E e _ "[]" H] by (intro filter_cong) (auto simp: table_holds_def)
  then show ?thesis
    using save_table[OF assms(1-4)] by simp
qed

lemma save_other:
  assumes "entity_save H e db = Inr db'" "E \<noteq> type_of e"
  shows "table_holds H db' E es \<longleftrightarrow> table_holds H db E es"
  using exec_insert_other[OF save_exec_insert[OF assms(1)], of "collection_name E"] assms(2)
  by (simp add: table_holds_def)

lemma delete_where_table:
  assumes "table_holds H db E es" "delete_where (collection_name E) c v db = Inr (n, db')"
  shows "table_holds H db' E (filter (\<lambda>e. \<not> sql_eq (row_value (encode H e) c) v) es)"
proof -
  have t: "db (collection_name E) = Some (schema_table E (map (encode H) es))"
    using assms(1) by (simp add: table_holds_def)
  have "filter (\<lambda>r. \<not> sql_eq (row_value r c) v) (map (encode H) es)
      = map (encode H) (filter (\<lambda>e. \<not> sql_eq (row_value (encode H e) c) v) es)"
    by (simp add: filter_map comp_def)
  then show ?thesis
    using assms t
    by (auto simp: delete_where_def table_of_def Let_def table_holds_def distinct_map inj_on_def
        split: if_splits)
qed

lemma delete_helper_Inr:
  "delete_helper n c v db = Inr (b, db') \<longleftrightarrow> (\<exists>k. delete_where n c v db = Inr (k, db') \<and> b = (0 < k))"
  by (auto simp: delete_helper_def res_simps)

lemma delete_other:
  assumes "entity_delete E k db = Inr (b, db')" "F \<noteq> E"
  shows "table_holds H db' F es \<longleftrightarrow> table_holds H db F es"
proof -
  have "db' (collection_name F) = db (collection_name F)"
  proof (cases "E = ProteusIdentityT")
    case True
    then have "collection_name F \<noteq> ''proteus_identities''"
      using assms(2) collection_name_inj[of F ProteusIdentityT] by simp
    then show ?thesis
      using assms(1) True by (auto simp: entity_delete_def identity_delete_def delete_all_def res_simps)
  next
    case False
    then obtain n where "delete_where (collection_name E) (key_column E) (key_param k) db = Inr (n, db')"
      using assms(1) by (auto simp: entity_delete_def delete_helper_Inr res_simps split: if_splits)
    from delete_where_other[OF this] show ?thesis
      using assms(2) by simp
  qed
  then show ?thesis by (simp add: table_holds_def)
qed

lemma delete_keyed:
  assumes "table_holds H db E es" "keyed E" "type_of_key k = primary_key_type E"
    and "entity_delete E k db = Inr (b, db')"
  shows "table_holds H db' E (filter (\<lambda>e. primary_key H e \<noteq> k) es)"
proof -
  have "E \<noteq> MlsPendingMessageT" "E \<noteq> ProteusIdentityT"
    using assms(2) by (auto simp: keyed_def)
  then obtain n where "delete_where (collection_name E) (key_column E) (key_param k) db = Inr (n, db')"
    using assms(4) by (auto simp: entity_delete_def delete_helper_Inr res_simps)
  from delete_where_table[OF assms(1) this]
  have "table_holds H db' E
      (filter (\<lambda>e. \<not> sql_eq (row_value (encode H e) (key_column E)) (key_param k)) es)" .
  moreover have "filter (\<lambda>e. \<not> sql_eq (row_value (encode H e) (key_column E)) (key_param k)) es
      = filter (\<lambda>e. primary_key H e \<noteq> k) es"
    using assms(1-3) row_key_hit[of _ k H] by (intro filter_cong) (auto simp: table_holds_def)
  ultimately show ?thesis by simp
qed

lemma delete_holds:
  assumes "table_holds H db E es" "entity_delete E k db = Inr (b, db')"
  shows "\<exists>es'. table_holds H db' E es'"
proof (cases "E = ProteusIdentityT")
  case True
  then have "table_holds H db' E []"
    using assms by (auto simp: entity_delete_def identity_delete_def delete_all_def table_of_def
        table_holds_def res_simps keyed_def split: if_splits)
  then show ?thesis by blast
next
  case False
  then obtain n where "delete_where (collection_name E) (key_column E) (key_param k) db = Inr (n, db')"
    using assms(2) by (auto simp: entity_delete_def delete_helper_Inr res_simps split: if_splits)
  from delete_where_table[OF assms(1) this] show ?thesis by blast
qed

section \<open>The operations a commit executes\<close>

definition ident :: "hashes \<Rightarrow> Entity \<Rightarrow> EntityId" where
  "ident H e = \<lparr>id_typ = type_of e, key_id = key_bytes (primary_key H e)\<rparr>"

definition fetch_id :: "sql_db \<Rightarrow> EntityId \<Rightarrow> Entity option" where
  "fetch_id db i = (case bindE (entity_id_primary_key i) (\<lambda>k. entity_get (id_typ i) k db) of
       Inl _ \<Rightarrow> None | Inr found \<Rightarrow> found)"

definition delete_id :: "EntityId \<Rightarrow> sql_db \<Rightarrow> sql_db keystore_result" where
  "delete_id i db = mapR snd (execute_delete i db)"

lemma from_entity_ident [simp]: "from_entity H e = Some (ident H e)"
  by (simp add: from_entity_def ident_def)

lemma ident_typ [simp]: "id_typ (ident H e) = type_of e"
  by (simp add: ident_def)

lemma wf_primary_key: "sha256_sized H \<Longrightarrow> keyed (type_of e) \<Longrightarrow> wf_key (primary_key H e)"
  by (cases e) (simp_all add: keyed_def unique_key_def credential_primary_key_def hash_from_def sha256_sized_def)

lemma ident_eq_iff:
  assumes "sha256_sized H" "keyed (type_of e)" "type_of e = id_typ i"
    and "entity_id_primary_key i = Inr k"
  shows "ident H e = i \<longleftrightarrow> primary_key H e = k"
proof -
  have k: "key_from_bytes (primary_key_type (id_typ i)) (key_id i) = Some k"
    using assms(4) by (simp add: entity_id_primary_key_def res_simps)
  have "key_bytes (primary_key H e) = key_bytes k \<longleftrightarrow> primary_key H e = k"
    using key_bytes_inj[of "primary_key H e" k] wf_primary_key[OF assms(1,2)]
      key_from_bytes_wf[OF k] key_from_bytes_type[OF k] assms(3) by auto
  then show ?thesis
    using key_bytes_from_bytes[OF k] assms(3) by (cases i) (auto simp: ident_def)
qed

lemma entity_id_primary_key_ident:
  "wf_key (primary_key H e) \<Longrightarrow> entity_id_primary_key (ident H e) = Inr (primary_key H e)"
  using key_from_key_bytes[of "primary_key H e"] by (simp add: entity_id_primary_key_def ident_def)

lemma fetch_table:
  assumes "sha256_sized H" "table_holds H db (id_typ i) es" "keyed (id_typ i)"
  shows "fetch_id db i = find (\<lambda>e. ident H e = i) es"
proof -
  have typed: "keyed (type_of e)" "type_of e = id_typ i" if "e \<in> set es" for e
    using that assms(2,3) by (simp_all add: table_holds_def)
  show ?thesis
  proof (cases "entity_id_primary_key i")
    case (Inl err)
    have "ident H e \<noteq> i" if "e \<in> set es" for e
      using Inl entity_id_primary_key_ident[OF wf_primary_key[OF assms(1) typed(1)[OF that]]]
      by (metis Inl_Inr_False)
    then have "find (\<lambda>e. ident H e = i) es = None"
      unfolding find_None_iff by blast
    then show ?thesis
      using Inl by (simp add: fetch_id_def)
  next
    case (Inr k)
    then have "type_of_key k = primary_key_type (id_typ i)"
      by (simp add: entity_id_primary_key_def res_simps key_from_bytes_type)
    then have "fetch_id db i = find (\<lambda>e. primary_key H e = k) es"
      using Inr get_table[OF assms(2,3)] by (simp add: fetch_id_def)
    also have "\<dots> = find (\<lambda>e. ident H e = i) es"
      using ident_eq_iff[OF assms(1) typed Inr] by (intro find_cong) simp_all
    finally show ?thesis .
  qed
qed

lemma table_idents_distinct:
  assumes "sha256_sized H" "table_holds H db E es" "keyed E"
  shows "distinct (map (ident H) es)"
proof -
  have "primary_key H x = primary_key H y"
    if "x \<in> set es" "y \<in> set es" "ident H x = ident H y" for x y
  proof (rule key_bytes_inj)
    have "type_of x = E" "type_of y = E"
      using that(1,2) assms(2) by (simp_all add: table_holds_def)
    then show "wf_key (primary_key H x)" "wf_key (primary_key H y)"
      using wf_primary_key[OF assms(1)] assms(3) by simp_all
    show "type_of_key (primary_key H x) = type_of_key (primary_key H y)"
      using \<open>type_of x = E\<close> \<open>type_of y = E\<close> by simp
    show "key_bytes (primary_key H x) = key_bytes (primary_key H y)"
      using that(3) by (simp add: ident_def)
  qed
  moreover have "distinct es" "inj_on (primary_key H) (set es)"
    using assms(2,3) by (simp_all add: table_holds_def distinct_map)
  ultimately show ?thesis
    unfolding distinct_map inj_on_def by blast
qed

lemma set_and_replace_Inr:
  assumes "set_and_replace H e db = Inr (b, db')"
  obtains b1 db1 where "entity_delete (type_of e) (primary_key H e) db = Inr (b1, db1)"
    and "entity_save H e db1 = Inr db'"
  using assms by (auto simp: set_and_replace_def res_simps)

lemma execute_save_Inr:
  assumes "execute_save H e db = Inr db'"
  obtains "entity_save H e db = Inr db'"
  | b1 db1 where "entity_delete (type_of e) (primary_key H e) db = Inr (b1, db1)"
      and "entity_save H e db1 = Inr db'"
  using assms
  by (cases e) (auto simp: execute_save_def res_simps elim!: set_and_replace_Inr)

lemma execute_save_keyed:
  assumes "table_holds H db E es" "type_of e = E" "storable e" "keyed E"
    and "execute_save H e db = Inr db'"
  shows "table_holds H db' E (filter (\<lambda>x. primary_key H x \<noteq> primary_key H e) es @ [e])"
  using assms(5)
proof (cases rule: execute_save_Inr)
  case 1
  then show ?thesis using save_keyed[OF assms(1-3) _ assms(4)] by simp
next
  case (2 b1 db1)
  have "table_holds H db1 E (filter (\<lambda>x. primary_key H x \<noteq> primary_key H e) es)"
    using 2(1) delete_keyed[OF assms(1,4)] assms(2) by simp
  from save_keyed[OF this assms(2,3) 2(2) assms(4)] show ?thesis by simp
qed

lemma execute_save_other:
  assumes "execute_save H e db = Inr db'" "E \<noteq> type_of e"
  shows "table_holds H db' E es \<longleftrightarrow> table_holds H db E es"
  using assms(1)
  by (cases rule: execute_save_Inr) (use save_other delete_other assms(2) in blast)+

lemma execute_save_ok:
  assumes "db_ok H db" "storable e" "execute_save H e db = Inr db'"
  shows "db_ok H db'"
  unfolding db_ok_def
proof
  fix E
  obtain es where es: "table_holds H db E es"
    using assms(1) by (auto elim: db_okE)
  show "\<exists>es. table_holds H db' E es"
  proof (cases "E = type_of e")
    case True
    from assms(3) show ?thesis
    proof (cases rule: execute_save_Inr)
      case 1
      from save_table[OF es True[symmetric] assms(2) 1] show ?thesis by blast
    next
      case (2 b1 db1)
      obtain es1 where "table_holds H db1 E es1"
        using delete_holds[OF es] 2(1) True by blast
      from save_table[OF this True[symmetric] assms(2) 2(2)] show ?thesis by blast
    qed
  next
    case False
    then show ?thesis using es execute_save_other[OF assms(3) False] by blast
  qed
qed

lemma delete_id_message:
  "id_typ i = MlsPendingMessageT \<Longrightarrow> delete_id i db = Inr db' \<Longrightarrow>
     \<exists>n. delete_where (collection_name MlsPendingMessageT) ''id'' (Blob (key_id i)) db = Inr (n, db')"
  by (auto simp: delete_id_def execute_delete_def pending_message_delete_all_matching_def
      delete_helper_Inr res_simps)

lemma delete_id_entity:
  "id_typ i \<noteq> MlsPendingMessageT \<Longrightarrow> delete_id i db = Inr db' \<Longrightarrow>
     \<exists>k b. entity_id_primary_key i = Inr k \<and> entity_delete (id_typ i) k db = Inr (b, db')"
  by (auto simp: delete_id_def execute_delete_def res_simps)

lemma delete_id_other:
  assumes "delete_id i db = Inr db'" "E \<noteq> id_typ i"
  shows "table_holds H db' E es \<longleftrightarrow> table_holds H db E es"
proof (cases "id_typ i = MlsPendingMessageT")
  case True
  then obtain n where n: "delete_where (collection_name MlsPendingMessageT) ''id'' (Blob (key_id i)) db = Inr (n, db')"
    using delete_id_message[OF True assms(1)] by blast
  have "collection_name E \<noteq> collection_name MlsPendingMessageT"
    using assms(2) True by (simp del: collection_name.simps)
  from delete_where_other[OF n this] show ?thesis by (simp add: table_holds_def)
next
  case False
  then show ?thesis
    using delete_id_entity[OF False assms(1)] delete_other assms(2) by blast
qed

lemma delete_id_ok:
  assumes "db_ok H db" "delete_id i db = Inr db'"
  shows "db_ok H db'"
  unfolding db_ok_def
proof
  fix E
  obtain es where es: "table_holds H db E es"
    using assms(1) by (auto elim: db_okE)
  show "\<exists>es. table_holds H db' E es"
  proof (cases "E = id_typ i")
    case True
    show ?thesis
    proof (cases "id_typ i = MlsPendingMessageT")
      case True
      with delete_id_message[OF True assms(2)] delete_where_table[of H db E es] es \<open>E = id_typ i\<close>
      show ?thesis by metis
    next
      case False
      with delete_id_entity[OF False assms(2)] delete_holds[of H db E es] es True
      show ?thesis by metis
    qed
  next
    case False
    then show ?thesis using es delete_id_other[OF assms(2) False] by blast
  qed
qed

lemma delete_id_keyed:
  assumes "sha256_sized H" "table_holds H db (id_typ i) es" "keyed (id_typ i)" "delete_id i db = Inr db'"
  shows "table_holds H db' (id_typ i) (filter (\<lambda>e. ident H e \<noteq> i) es)"
proof -
  have "id_typ i \<noteq> MlsPendingMessageT"
    using assms(3) by (auto simp: keyed_def)
  then obtain k b where k: "entity_id_primary_key i = Inr k" "entity_delete (id_typ i) k db = Inr (b, db')"
    using delete_id_entity assms(4) by blast
  then have "type_of_key k = primary_key_type (id_typ i)"
    by (auto simp: entity_id_primary_key_def res_simps dest: key_from_bytes_type)
  from delete_keyed[OF assms(2,3) this k(2)]
  have "table_holds H db' (id_typ i) (filter (\<lambda>e. primary_key H e \<noteq> k) es)" .
  moreover have "filter (\<lambda>e. primary_key H e \<noteq> k) es = filter (\<lambda>e. ident H e \<noteq> i) es"
    using assms(2,3) ident_eq_iff[OF assms(1) _ _ k(1)] by (intro filter_cong) (auto simp: table_holds_def)
  ultimately show ?thesis by simp
qed

lemma fetch_after_save:
  assumes "sha256_sized H" "db_ok H db" "storable e" "execute_save H e db = Inr db'" "keyed (id_typ i)"
  shows "fetch_id db' i = (if ident H e = i then Some e else fetch_id db i)"
proof -
  obtain es where es: "table_holds H db (id_typ i) es"
    using assms(2) by (auto elim: db_okE)
  show ?thesis
  proof (cases "id_typ i = type_of e")
    case True
    have "table_holds H db' (id_typ i) (filter (\<lambda>x. primary_key H x \<noteq> primary_key H e) es @ [e])"
      using execute_save_keyed[OF es True[symmetric] assms(3,5,4)] .
    then have "fetch_id db' i
        = find (\<lambda>x. ident H x = i) (filter (\<lambda>x. primary_key H x \<noteq> primary_key H e) es @ [e])"
      using fetch_table[OF assms(1) _ assms(5)] by simp
    moreover have "primary_key H x \<noteq> primary_key H e \<longleftrightarrow> ident H x \<noteq> ident H e" if "x \<in> set es" for x
      using that es True assms(1,5) wf_primary_key[of H x] wf_primary_key[of H e]
        key_bytes_inj[of "primary_key H x" "primary_key H e"]
      by (auto simp: table_holds_def ident_def)
    then have "find (\<lambda>x. ident H x = i \<and> primary_key H x \<noteq> primary_key H e) es
        = (if ident H e = i then None else find (\<lambda>x. ident H x = i) es)"
      by (auto simp: find_None_iff intro!: find_cong)
    ultimately show ?thesis
      using fetch_table[OF assms(1) es assms(5)]
      by (simp add: find_append find_filter split: option.splits)
  next
    case False
    then show ?thesis
      using es execute_save_other[OF assms(4) False] fetch_table[OF assms(1) _ assms(5), of db]
        fetch_table[OF assms(1) _ assms(5), of db'] by auto
  qed
qed

lemma fetch_after_delete:
  assumes "sha256_sized H" "db_ok H db" "delete_id i db = Inr db'" "keyed (id_typ j)"
  shows "fetch_id db' j = (if j = i then None else fetch_id db j)"
proof -
  obtain es where es: "table_holds H db (id_typ j) es"
    using assms(2) by (auto elim: db_okE)
  show ?thesis
  proof (cases "id_typ j = id_typ i")
    case True
    have "table_holds H db' (id_typ j) (filter (\<lambda>e. ident H e \<noteq> i) es)"
      using delete_id_keyed[OF assms(1) _ _ assms(3)] es assms(4) True by simp
    from fetch_table[OF assms(1) this assms(4)] fetch_table[OF assms(1) es assms(4)]
    show ?thesis
      by (auto simp: find_filter find_None_iff intro!: find_cong)
  next
    case False
    then show ?thesis
      using es delete_id_other[OF assms(3) False] fetch_table[OF assms(1) _ assms(4), of db]
        fetch_table[OF assms(1) _ assms(4), of db'] by auto
  qed
qed

text \<open>The store of keyed entities, with what the hash functions promise as part of the invariant.\<close>

interpretation sql: record_store fetch_id "execute_save H" delete_id "ident H" storable
  "\<lambda>i. keyed (id_typ i)" "\<lambda>db. sha256_sized H \<and> db_ok H db" for H
  by unfold_locales
     (auto intro: execute_save_ok delete_id_ok simp: fetch_after_save fetch_after_delete)

section \<open>The types whose key the tables do not enforce\<close>

text \<open>
  \<open>StoredPskBundle\<close> is looked up by a column its table does not have; the types keyed by a
  \<open>String\<close> store the key as text and look it up as a blob.
\<close>

lemma psk_key_column_missing:
  assumes "table_holds H db PskBundleT es"
  shows "entity_get PskBundleT k db = Inl (DbError (NoSuchColumn ''id''))"
    and "entity_delete PskBundleT k db = Inl (DbError (NoSuchColumn ''id''))"
  using assms
  by (simp_all add: entity_get_def get_helper_def select_where_def entity_delete_def delete_helper_def
      delete_where_def table_of_def table_holds_def)

definition text_keyed :: "EntityType \<Rightarrow> bool" where
  "text_keyed E \<longleftrightarrow> E \<in> {E2eiIntermediateCertT, E2eiCrlT, ProteusSessionT}"

lemma text_row_never_hit:
  assumes "text_keyed (type_of e)" "type_of_key k = StringK"
  shows "\<not> sql_eq (row_value (encode H e) (key_column (type_of e))) (key_param k)"
  using assms
  by (cases e; cases k)
     (simp_all add: text_keyed_def encode_def row_value_mk_row insert_defs sql_eq_def key_param_def)

lemma text_keyed_get:
  assumes "table_holds H db E es" "text_keyed E" "type_of_key k = StringK"
  shows "entity_get E k db = Inr None"
proof -
  have col: "key_column E \<in> set (schema_columns E)" "E \<noteq> MlsPendingMessageT" "E \<noteq> ProteusIdentityT"
    using assms(2) by (auto simp: text_keyed_def)
  have "first_row (from_row E)
        (filter (\<lambda>r. sql_eq (row_value r (key_column E)) (key_param k)) (map (encode H) es))
      = Inr (find (\<lambda>e. sql_eq (row_value (encode H e) (key_column E)) (key_param k)) es)"
    using assms(1) by (intro first_row_filter) (simp add: table_holds_def)
  moreover have "find (\<lambda>e. sql_eq (row_value (encode H e) (key_column E)) (key_param k)) es = None"
    unfolding find_None_iff using assms text_row_never_hit by (auto simp: table_holds_def)
  ultimately show ?thesis
    using assms(1) col
    by (simp add: entity_get_def get_helper_def select_where_def table_of_def table_holds_def)
qed

lemma text_keyed_delete:
  assumes "table_holds H db E es" "text_keyed E" "type_of_key k = StringK"
    and "entity_delete E k db = Inr (b, db')"
  shows "table_holds H db' E es"
proof -
  have "E \<noteq> MlsPendingMessageT" "E \<noteq> ProteusIdentityT"
    using assms(2) by (auto simp: text_keyed_def)
  then obtain n where "delete_where (collection_name E) (key_column E) (key_param k) db = Inr (n, db')"
    using assms(4) by (auto simp: entity_delete_def delete_helper_Inr res_simps)
  from delete_where_table[OF assms(1) this]
  show ?thesis
    using assms(1-3) text_row_never_hit[of _ k H]
    by (metis (mono_tags, lifting) filter_True table_holds_def)
qed

text \<open>The table of pending groups has no uniqueness constraint, so an upsert only ever adds a row.\<close>

lemma pending_group_save_appends:
  assumes "table_holds H db PersistedMlsPendingGroupT es"
    and "entity_save H (PersistedMlsPendingGroup g) db = Inr db'"
  shows "table_holds H db' PersistedMlsPendingGroupT (es @ [PersistedMlsPendingGroup g])"
  using save_table[OF assms(1) _ _ assms(2)] by (simp add: conflicts_def storable_def)

end
