(* ===== verification/Keystore_Transaction.thy ===== *)
theory Keystore_Transaction
  imports Entity_Store
begin

text \<open>
  The in-memory transaction (\<open>keystore/src/transaction/mod.rs\<close>): a cache of saved entities,
  one table per collection, and the set of deleted identifiers.  The order in which a hash map
  yields its values is not specified; it is the parameter \<open>HO\<close>, of which only that every
  value is visited once is used.  The database engine may fail any statement; which ones is the
  parameter \<open>io\<close> of \<open>commit\<close>, numbered from the statement that opens the SQL transaction.
  An SQL transaction that is not committed is rolled back by the engine, so a commit that returns
  an error has not changed the database.
\<close>

type_synonym in_memory_table = "(EntityId \<times> Entity) list"

record KeystoreTransaction =
  cache :: "(string \<times> in_memory_table) list"
  deleted :: "EntityId list"

record hash_order =
  ord_entities :: "Entity list \<Rightarrow> Entity list"
  ord_ids :: "EntityId list \<Rightarrow> EntityId list"

definition permuting :: "hash_order \<Rightarrow> bool" where
  "permuting HO \<longleftrightarrow> (\<forall>xs. mset (ord_entities HO xs) = mset xs) \<and> (\<forall>xs. mset (ord_ids HO xs) = mset xs)"

section \<open>Operations\<close>

definition new_tx :: KeystoreTransaction where
  "new_tx = \<lparr>cache = [], deleted = []\<rparr>"

definition or_default :: "string \<Rightarrow> (string \<times> in_memory_table) list \<Rightarrow> in_memory_table" where
  "or_default n c = (case map_of c n of None \<Rightarrow> [] | Some t \<Rightarrow> t)"

definition tx_save ::
  "hashes \<Rightarrow> u64 option \<Rightarrow> Entity \<Rightarrow> KeystoreTransaction \<Rightarrow> (u64 option \<times> KeystoreTransaction) keystore_result" where
  "tx_save H now entity tx =
     bindE (pre_save now entity) (\<lambda>(auto_generated_fields, entity).
     bindE (ok_or (UnknownCollectionName (collection_name (type_of entity))) (from_entity H entity))
       (\<lambda>entity_id.
          let n = collection_name (type_of entity);
              table = AList.update entity_id entity (or_default n (cache tx))
          in Inr (auto_generated_fields,
                  tx\<lparr>cache := AList.update n table (cache tx),
                     deleted := removeAll entity_id (deleted tx)\<rparr>)))"

definition remove_by_entity_id :: "EntityType \<Rightarrow> EntityId \<Rightarrow> KeystoreTransaction \<Rightarrow> KeystoreTransaction" where
  "remove_by_entity_id E i tx =
     (let n = collection_name E in
      tx\<lparr>cache := (case map_of (cache tx) n of
             None \<Rightarrow> cache tx
           | Some table \<Rightarrow> AList.update n (AList.delete i table) (cache tx)),
         deleted := List.insert i (deleted tx)\<rparr>)"

definition tx_remove :: "EntityType \<Rightarrow> key \<Rightarrow> KeystoreTransaction \<Rightarrow> KeystoreTransaction keystore_result" where
  "tx_remove E k tx =
     bindE (ok_or (UnknownCollectionName (collection_name E)) (from_primary_key E k))
       (\<lambda>entity_id. Inr (remove_by_entity_id E entity_id tx))"

definition find_in_cache :: "EntityType \<Rightarrow> EntityId \<Rightarrow> KeystoreTransaction \<Rightarrow> Entity option" where
  "find_in_cache E i tx =
     Option.bind (map_of (cache tx) (collection_name E)) (\<lambda>table.
     Option.bind (map_of table i) (downcast E))"

definition get_by_entity_id :: "EntityType \<Rightarrow> EntityId \<Rightarrow> KeystoreTransaction \<Rightarrow> Entity option option" where
  "get_by_entity_id E i tx =
     (if i \<in> set (deleted tx) then Some None else map_option Some (find_in_cache E i tx))"

definition tx_get :: "EntityType \<Rightarrow> key \<Rightarrow> KeystoreTransaction \<Rightarrow> Entity option option" where
  "tx_get E k tx = Option.bind (from_primary_key E k) (\<lambda>i. get_by_entity_id E i tx)"

text \<open>
  The values of a table, in hash order; a value of another type would panic.
\<close>

definition find_all_in_cache :: "hash_order \<Rightarrow> EntityType \<Rightarrow> KeystoreTransaction \<Rightarrow> Entity list keystore_result" where
  "find_all_in_cache HO E tx =
     (case map_of (cache tx) (collection_name E) of
        None \<Rightarrow> Inr []
      | Some table \<Rightarrow>
          mapE (\<lambda>record. ok_or (Panicked ''all entries in this table are of this type'') (downcast E record))
            (ord_entities HO (map snd table)))"

definition search_in_cache ::
  "hash_order \<Rightarrow> EntityType \<Rightarrow> (Entity \<Rightarrow> bool) \<Rightarrow> KeystoreTransaction \<Rightarrow> Entity list keystore_result" where
  "search_in_cache HO E matches tx = mapR (filter matches) (find_all_in_cache HO E tx)"

definition merge_records :: "hashes \<Rightarrow> KeystoreTransaction \<Rightarrow> Entity list \<Rightarrow> Entity list \<Rightarrow> Entity list" where
  "merge_records H tx records_a records_b =
     filter (\<lambda>record. case from_entity H record of None \<Rightarrow> False | Some i \<Rightarrow> i \<notin> set (deleted tx))
       (unique_by (\<lambda>e. key_bytes (primary_key H e)) (records_a @ records_b))"

definition find_all ::
  "hashes \<Rightarrow> hash_order \<Rightarrow> EntityType \<Rightarrow> Entity list \<Rightarrow> KeystoreTransaction \<Rightarrow> Entity list keystore_result" where
  "find_all H HO E persisted_records tx =
     mapR (\<lambda>cached_records. merge_records H tx cached_records persisted_records) (find_all_in_cache HO E tx)"

definition tx_search ::
  "hashes \<Rightarrow> hash_order \<Rightarrow> EntityType \<Rightarrow> (Entity \<Rightarrow> bool) \<Rightarrow> Entity list \<Rightarrow> KeystoreTransaction \<Rightarrow>
     Entity list keystore_result" where
  "tx_search H HO E matches persisted_records tx =
     mapR (\<lambda>cached_records. merge_records H tx cached_records persisted_records)
       (search_in_cache HO E matches tx)"

definition is_child_of :: "persisted_mls_group \<Rightarrow> Entity \<Rightarrow> bool" where
  "is_child_of g e = (case e of PersistedMlsGroup c \<Rightarrow> parent_id c = Some (group_id g) | _ \<Rightarrow> False)"

definition tx_child_groups ::
  "hashes \<Rightarrow> hash_order \<Rightarrow> persisted_mls_group \<Rightarrow> Entity list \<Rightarrow> KeystoreTransaction \<Rightarrow>
     Entity list keystore_result" where
  "tx_child_groups H HO entity persisted_records tx =
     mapR (\<lambda>cached_records. merge_records H tx (filter (is_child_of entity) cached_records) persisted_records)
       (find_all_in_cache HO PersistedMlsGroupT tx)"

definition message_of :: "bytes \<Rightarrow> Entity \<Rightarrow> bool" where
  "message_of conversation_id e =
     (case e of MlsPendingMessage m \<Rightarrow> foreign_id m = conversation_id | _ \<Rightarrow> False)"

definition tx_remove_pending_messages :: "bytes \<Rightarrow> KeystoreTransaction \<Rightarrow> KeystoreTransaction" where
  "tx_remove_pending_messages conversation_id tx =
     (let n = collection_name MlsPendingMessageT in
      tx\<lparr>cache := (case map_of (cache tx) n of
             None \<Rightarrow> cache tx
           | Some table \<Rightarrow>
               AList.update n (filter (\<lambda>(_, entity). \<not> message_of conversation_id entity) table) (cache tx)),
         deleted := List.insert \<lparr>id_typ = MlsPendingMessageT, key_id = conversation_id\<rparr> (deleted tx)\<rparr>)"

definition tx_find_pending_messages ::
  "hashes \<Rightarrow> hash_order \<Rightarrow> bytes \<Rightarrow> Entity list \<Rightarrow> KeystoreTransaction \<Rightarrow> Entity list keystore_result" where
  "tx_find_pending_messages H HO conversation_id persisted_records tx =
     mapR (\<lambda>cached_records.
         merge_records H tx (filter (message_of conversation_id) cached_records) persisted_records)
       (find_all_in_cache HO MlsPendingMessageT tx)"

section \<open>Committing\<close>

definition cached_entities :: "KeystoreTransaction \<Rightarrow> Entity list" where
  "cached_entities tx = concat (map (\<lambda>(_, table). map snd table) (cache tx))"

definition engine ::
  "(nat \<Rightarrow> sql_error option) \<Rightarrow> nat \<Rightarrow> (sql_db \<Rightarrow> sql_db keystore_result) \<Rightarrow> sql_db \<Rightarrow> sql_db keystore_result" where
  "engine io n stmt db = (case io n of Some e \<Rightarrow> Inl (DbError e) | None \<Rightarrow> stmt db)"

definition tx_commit ::
  "hashes \<Rightarrow> hash_order \<Rightarrow> (nat \<Rightarrow> sql_error option) \<Rightarrow> KeystoreTransaction \<Rightarrow> sql_db \<Rightarrow>
     sql_db keystore_result" where
  "tx_commit H HO io tx db =
     (let saves = ord_entities HO (cached_entities tx);
          deletes = ord_ids HO (deleted tx);
          stmts = map (execute_save H) saves @ map delete_id deletes
      in if saves = [] \<and> deletes = [] then Inr db
         else bindE (engine io 0 Inr db) (\<lambda>db.
              bindE (foldE (\<lambda>(n, stmt) db. engine io n stmt db) (enumerate 1 stmts) db) (\<lambda>db.
              engine io (Suc (length stmts)) Inr db)))"

section \<open>Well-formed transactions\<close>

text \<open>
  Every cached entity lies in the table of its collection, under its own identifier, and is not
  marked deleted.  The markers for pending messages name conversations instead.
\<close>

definition table_ok :: "hashes \<Rightarrow> string \<Rightarrow> in_memory_table \<Rightarrow> bool" where
  "table_ok H n table \<longleftrightarrow> distinct (map fst table)
     \<and> (\<forall>(i, e) \<in> set table. ident H e = i \<and> collection_name (type_of e) = n \<and> storable e)"

definition wf_tx :: "hashes \<Rightarrow> KeystoreTransaction \<Rightarrow> bool" where
  "wf_tx H tx \<longleftrightarrow> distinct (map fst (cache tx))
     \<and> (\<forall>(n, table) \<in> set (cache tx). table_ok H n table
          \<and> (\<forall>(i, e) \<in> set table. id_typ i \<noteq> MlsPendingMessageT \<longrightarrow> i \<notin> set (deleted tx)))"

lemma table_ok_iff:
  "table_ok H n table \<longleftrightarrow> distinct (map fst table)
     \<and> (\<forall>i e. map_of table i = Some e \<longrightarrow> ident H e = i \<and> collection_name (type_of e) = n \<and> storable e)"
  by (auto simp: table_ok_def)

lemma ball_alist:
  "distinct (map fst t) \<Longrightarrow> (\<forall>(i, e) \<in> set t. Q i e) \<longleftrightarrow> (\<forall>i e. map_of t i = Some e \<longrightarrow> Q i e)"
  by auto

lemma wf_tx_iff:
  "wf_tx H tx \<longleftrightarrow> distinct (map fst (cache tx))
     \<and> (\<forall>n table. map_of (cache tx) n = Some table \<longrightarrow> table_ok H n table
          \<and> (\<forall>i e. map_of table i = Some e \<longrightarrow> id_typ i \<noteq> MlsPendingMessageT \<longrightarrow> i \<notin> set (deleted tx)))"
  unfolding wf_tx_def
proof (rule conj_cong[OF refl])
  assume "distinct (map fst (cache tx))"
  moreover have "(\<forall>(i, e) \<in> set table. Q i e) \<longleftrightarrow> (\<forall>i e. map_of table i = Some e \<longrightarrow> Q i e)"
    if "table_ok H n table" for n table and Q :: "EntityId \<Rightarrow> Entity \<Rightarrow> bool"
    using that by (intro ball_alist) (simp add: table_ok_def)
  ultimately show "(\<forall>(n, table) \<in> set (cache tx). table_ok H n table
          \<and> (\<forall>(i, e) \<in> set table. id_typ i \<noteq> MlsPendingMessageT \<longrightarrow> i \<notin> set (deleted tx)))
      \<longleftrightarrow> (\<forall>n table. map_of (cache tx) n = Some table \<longrightarrow> table_ok H n table
          \<and> (\<forall>i e. map_of table i = Some e \<longrightarrow> id_typ i \<noteq> MlsPendingMessageT \<longrightarrow> i \<notin> set (deleted tx)))"
    by (simp only: ball_alist cong: conj_cong)
qed

lemma wf_new_tx [simp]: "wf_tx H new_tx"
  by (simp add: wf_tx_def new_tx_def)

lemma wf_tx_table:
  "wf_tx H tx \<Longrightarrow> map_of (cache tx) n = Some table \<Longrightarrow> table_ok H n table"
  by (simp add: wf_tx_iff)

lemma wf_tx_not_deleted:
  "wf_tx H tx \<Longrightarrow> map_of (cache tx) n = Some table \<Longrightarrow> map_of table i = Some e \<Longrightarrow>
     id_typ i \<noteq> MlsPendingMessageT \<Longrightarrow> i \<notin> set (deleted tx)"
  by (simp add: wf_tx_iff)

lemma table_ok_Nil [simp]: "table_ok H n []"
  by (simp add: table_ok_def)

lemma table_ok_or_default: "wf_tx H tx \<Longrightarrow> table_ok H n (or_default n (cache tx))"
  by (auto simp: or_default_def wf_tx_table split: option.splits)

lemma table_ok_update:
  "table_ok H (collection_name (type_of e)) table \<Longrightarrow> storable e \<Longrightarrow>
     table_ok H (collection_name (type_of e)) (AList.update (ident H e) e table)"
  by (auto simp: table_ok_iff distinct_update update_conv)

lemma table_ok_delete: "table_ok H n table \<Longrightarrow> table_ok H n (AList.delete i table)"
  by (auto simp: table_ok_iff distinct_delete delete_conv)

lemma map_of_filter_distinct:
  "distinct (map fst t) \<Longrightarrow> map_of (filter P t) i = (case map_of t i of None \<Rightarrow> None | Some e \<Rightarrow> if P (i, e) then Some e else None)"
  by (induction t) (auto split: option.splits dest: map_of_SomeD simp: rev_image_eqI)

lemma table_ok_filter: "table_ok H n table \<Longrightarrow> table_ok H n (filter P table)"
  by (auto simp: table_ok_def distinct_map_filter)

text \<open>What an operation writes: one table is replaced, the deletion markers change.\<close>

lemma wf_tx_replace:
  assumes "wf_tx H tx" "table_ok H n table"
    and "\<And>i e. map_of table i = Some e \<Longrightarrow> id_typ i \<noteq> MlsPendingMessageT \<Longrightarrow> i \<notin> set ds"
    and "\<And>m t i e. m \<noteq> n \<Longrightarrow> map_of (cache tx) m = Some t \<Longrightarrow> map_of t i = Some e \<Longrightarrow>
           id_typ i \<noteq> MlsPendingMessageT \<Longrightarrow> i \<notin> set ds"
  shows "wf_tx H (tx\<lparr>cache := AList.update n table (cache tx), deleted := ds\<rparr>)"
  using assms by (auto simp: wf_tx_iff distinct_update update_conv)

lemma tx_save_Inr:
  "tx_save H now e tx = Inr (g, tx') \<longleftrightarrow>
     (\<exists>e'. pre_save now e = Inr (g, e') \<and>
        tx' = tx\<lparr>cache := AList.update (collection_name (type_of e'))
                    (AList.update (ident H e') e' (or_default (collection_name (type_of e')) (cache tx))) (cache tx),
                 deleted := removeAll (ident H e') (deleted tx)\<rparr>)"
  by (auto simp: tx_save_def Let_def res_simps)

lemma wf_tx_save:
  assumes "wf_tx H tx" "pre_save now e = Inr (g, e')" "storable e'" "tx_save H now e tx = Inr (g, tx')"
  shows "wf_tx H tx'"
proof -
  have "wf_tx H (tx\<lparr>cache := AList.update (collection_name (type_of e'))
        (AList.update (ident H e') e' (or_default (collection_name (type_of e')) (cache tx))) (cache tx),
        deleted := removeAll (ident H e') (deleted tx)\<rparr>)"
    using assms(1,3)
    by (intro wf_tx_replace table_ok_update table_ok_or_default)
       (auto simp: update_conv or_default_def wf_tx_iff split: option.splits if_splits)
  then show ?thesis
    using assms(2,4) by (auto simp: tx_save_Inr)
qed

lemma find_in_cache_eq:
  assumes "wf_tx H tx"
  shows "find_in_cache E i tx =
     Option.bind (map_of (cache tx) (collection_name E)) (\<lambda>table. map_of table i)"
proof (cases "map_of (cache tx) (collection_name E)")
  case (Some table)
  then have "downcast E e = Some e" if "map_of table i = Some e" for e
    using wf_tx_table[OF assms Some] that by (auto simp: table_ok_iff downcast_def)
  then show ?thesis
    by (auto simp: find_in_cache_def Some Option.bind_eq_None_conv intro!: option.expand
        split: bind_splits)
qed (simp add: find_in_cache_def)

lemma wf_tx_remove:
  assumes "wf_tx H tx" "id_typ i = E"
  shows "wf_tx H (remove_by_entity_id E i tx)"
proof (cases "map_of (cache tx) (collection_name E)")
  case None
  have "i \<noteq> j" if "map_of (cache tx) m = Some t" "map_of t j = Some e" for m t j e
  proof
    assume "i = j"
    moreover have "m = collection_name (type_of e)" "ident H e = j"
      using wf_tx_table[OF assms(1) that(1)] that(2) by (auto simp: table_ok_iff)
    ultimately show False
      using None that(1) assms(2) by auto
  qed
  then show ?thesis
    using assms(1) None by (auto simp: remove_by_entity_id_def Let_def wf_tx_iff)
next
  case (Some table)
  have "i \<noteq> j" if "m \<noteq> collection_name E" "map_of (cache tx) m = Some t" "map_of t j = Some e" for m t j e
    using wf_tx_table[OF assms(1) that(2)] that(1,3) assms(2) by (metis ident_typ table_ok_iff)
  then have "wf_tx H (tx\<lparr>cache := AList.update (collection_name E) (AList.delete i table) (cache tx),
      deleted := List.insert i (deleted tx)\<rparr>)"
    using wf_tx_not_deleted[OF assms(1)] Some wf_tx_table[OF assms(1) Some]
    by (intro wf_tx_replace[OF assms(1)] table_ok_delete) (auto simp: delete_conv split: if_splits)
  then show ?thesis
    by (simp add: remove_by_entity_id_def Let_def Some)
qed

lemma wf_tx_remove_pending:
  assumes "wf_tx H tx"
  shows "wf_tx H (tx_remove_pending_messages conversation_id tx)"
proof -
  define i where "i = \<lparr>id_typ = MlsPendingMessageT, key_id = conversation_id\<rparr>"
  have i: "id_typ i = MlsPendingMessageT"
    by (simp add: i_def)
  show ?thesis
  proof (cases "map_of (cache tx) (collection_name MlsPendingMessageT)")
    case None
    then show ?thesis
      using assms i
      by (auto simp: tx_remove_pending_messages_def Let_def i_def[symmetric] wf_tx_iff)
  next
    case (Some table)
    let ?t = "filter (\<lambda>(_, entity). \<not> message_of conversation_id entity) table"
    have ok: "table_ok H (collection_name MlsPendingMessageT) table"
      using wf_tx_table[OF assms Some] .
    have "map_of ?t j = Some e \<Longrightarrow> map_of table j = Some e" for j e
      using ok by (auto simp: table_ok_def map_of_filter_distinct split: option.splits if_splits)
    then have "wf_tx H (tx\<lparr>cache := AList.update (collection_name MlsPendingMessageT) ?t (cache tx),
        deleted := List.insert i (deleted tx)\<rparr>)"
      using wf_tx_not_deleted[OF assms] Some ok i
      by (intro wf_tx_replace[OF assms] table_ok_filter) auto
    then show ?thesis
      using Some by (simp add: tx_remove_pending_messages_def Let_def i_def)
  qed
qed

section \<open>Reads after writes\<close>

lemma find_in_cache_save:
  assumes "tx_save H now e tx = Inr (g, tx')" "pre_save now e = Inr (g, e')" "wf_tx H tx" "storable e'"
  shows "find_in_cache E i tx' = (if i = ident H e' \<and> E = type_of e' then Some e'
           else if E = type_of e' then find_in_cache E i tx else find_in_cache E i tx)"
  using assms(1,2) find_in_cache_eq[OF assms(3)] find_in_cache_eq[OF wf_tx_save[OF assms(3,2,4,1)]]
  by (auto simp: tx_save_Inr update_conv or_default_def split: option.splits)

lemma get_after_save [store_simps]:
  assumes "tx_save H now e tx = Inr (g, tx')" "pre_save now e = Inr (g, e')" "wf_tx H tx" "storable e'"
    and "id_typ i = E"
  shows "get_by_entity_id E i tx' = (if i = ident H e' then Some (Some e') else get_by_entity_id E i tx)"
  using assms find_in_cache_save[OF assms(1-4), of E i]
  by (auto simp: get_by_entity_id_def tx_save_Inr)

lemma get_after_remove [store_simps]:
  assumes "wf_tx H tx" "id_typ i = E" "id_typ j = F"
  shows "get_by_entity_id F j (remove_by_entity_id E i tx) =
    (if j = i then Some None else get_by_entity_id F j tx)"
proof -
  have "find_in_cache F j (remove_by_entity_id E i tx) = find_in_cache F j tx" if "j \<noteq> i"
    using that find_in_cache_eq[OF assms(1)] find_in_cache_eq[OF wf_tx_remove[OF assms(1,2)]]
    by (auto simp: remove_by_entity_id_def Let_def delete_conv update_conv split: option.splits)
  then show ?thesis
    by (auto simp: get_by_entity_id_def remove_by_entity_id_def Let_def)
qed

section \<open>The cache as a list of records\<close>

lemma table_idents:
  "table_ok H n table \<Longrightarrow> map (ident H) (map snd table) = map fst table"
  by (auto simp: table_ok_def)

lemma find_table:
  "table_ok H n table \<Longrightarrow> find (\<lambda>e. ident H e = i) (map snd table) = map_of table i"
  by (induction table) (auto simp: table_ok_def)

lemma cache_idents:
  assumes "distinct (map fst c)" "\<forall>(n, t) \<in> set c. table_ok H n t"
  shows "distinct (map (ident H) (concat (map (\<lambda>(_, t). map snd t) c)))
    \<and> find (\<lambda>e. ident H e = i) (concat (map (\<lambda>(_, t). map snd t) c)) =
      Option.bind (map_of c (collection_name (id_typ i))) (\<lambda>t. map_of t i)"
  using assms
proof (induction c)
  case (Cons nt c)
  obtain n t where nt: "nt = (n, t)"
    by (cases nt)
  let ?rest = "concat (map (\<lambda>(_, t). map snd t) c)"
  have t: "table_ok H n t" and c: "distinct (map fst c)" "\<forall>(n, t) \<in> set c. table_ok H n t"
    and n: "n \<notin> fst ` set c"
    using Cons.prems by (auto simp: nt)
  have here: "collection_name (id_typ (ident H e)) = n" if "e \<in> snd ` set t" for e
    using that t by (auto simp: table_ok_def)
  have there: "collection_name (id_typ (ident H e)) \<noteq> n" if "e \<in> set ?rest" for e
  proof -
    from that obtain m t' j where m: "(m, t') \<in> set c" "(j, e) \<in> set t'"
      by auto
    then have "table_ok H m t'"
      using c(2) by blast
    then have "collection_name (type_of e) = m"
      using m(2) unfolding table_ok_def by blast
    then show ?thesis
      using n imageI[OF m(1), of fst] by auto
  qed
  have "distinct (map (ident H) (map snd t))"
    unfolding table_idents[OF t] using t by (simp add: table_ok_def)
  moreover have "\<forall>x \<in> ident H ` snd ` set t. collection_name (id_typ x) = n"
    "\<forall>x \<in> ident H ` set ?rest. collection_name (id_typ x) \<noteq> n"
    using here there by simp_all
  then have "ident H ` snd ` set t \<inter> ident H ` set ?rest = {}"
    by blast
  moreover have "find (\<lambda>e. ident H e = i) ?rest = None" if "collection_name (id_typ i) = n"
    unfolding find_None_iff using there that by metis
  moreover have "find (\<lambda>e. ident H e = i) (map snd t) = None" if "collection_name (id_typ i) \<noteq> n"
    unfolding find_None_iff using here that by (metis image_set)
  ultimately show ?case
    using Cons.IH[OF c] find_table[OF t, of i]
    by (cases "collection_name (id_typ i) = n") (simp_all add: nt image_comp find_append split: option.split)
qed simp

lemma cached_entities_distinct: "wf_tx H tx \<Longrightarrow> distinct (map (ident H) (cached_entities tx))"
  unfolding cached_entities_def by (intro cache_idents[THEN conjunct1]) (auto simp: wf_tx_def)

lemma cached_entities_find:
  assumes "wf_tx H tx"
  shows "find (\<lambda>e. ident H e = i) (cached_entities tx) = find_in_cache (id_typ i) i tx"
  unfolding cached_entities_def find_in_cache_eq[OF assms]
  using assms by (intro cache_idents[THEN conjunct2]) (auto simp: wf_tx_def)

lemma cached_entities_storable: "wf_tx H tx \<Longrightarrow> list_all storable (cached_entities tx)"
  by (fastforce simp: wf_tx_def table_ok_def cached_entities_def list_all_iff)

lemma find_perm:
  assumes "mset xs = mset ys" "distinct (map f ys)"
  shows "find (\<lambda>x. f x = k) xs = find (\<lambda>x. f x = k) ys"
proof (cases "find (\<lambda>x. f x = k) ys")
  case None
  moreover have "find (\<lambda>x. f x = k) xs = None"
    using None mset_eq_setD[OF assms(1)] by (simp add: find_None_iff)
  ultimately show ?thesis by simp
next
  case (Some y)
  have "distinct (map f xs)"
    using assms by (metis distinct_map mset_eq_imp_distinct_iff mset_eq_setD)
  moreover have "y \<in> set xs" "f y = k"
    using Some mset_eq_setD[OF assms(1)] find_key_in[of f k ys y] by auto
  ultimately have "find (\<lambda>x. f x = k) xs = Some y"
    using find_key_distinct[of f xs y] by simp
  with Some show ?thesis by simp
qed

section \<open>What a commit does\<close>

lemma foldE_engine:
  "foldE (\<lambda>(n, stmt) db. engine io n stmt db) (enumerate k stmts) db = Inr db' \<Longrightarrow>
     foldE (\<lambda>stmt. stmt) stmts db = Inr db'"
  by (induction stmts arbitrary: k db) (auto simp: engine_def res_simps split: option.splits)

lemma foldE_engine_ok:
  "foldE (\<lambda>(n, stmt) db. engine (\<lambda>_. None) n stmt db) (enumerate k stmts) db = foldE (\<lambda>stmt. stmt) stmts db"
  by (induction stmts arbitrary: k db) (auto simp: engine_def bindE_def split: sum.splits)

lemma foldE_map: "foldE (\<lambda>stmt. stmt) (map f xs) s = foldE f xs s"
  by (induction xs arbitrary: s) (auto simp: bindE_def split: sum.splits)

lemma commit_statements:
  assumes "tx_commit H HO io tx db = Inr db'"
  shows "bindE (foldE (execute_save H) (ord_entities HO (cached_entities tx)) db)
           (foldE delete_id (ord_ids HO (deleted tx))) = Inr db'"
  using assms
  by (auto simp: tx_commit_def Let_def res_simps foldE_append foldE_map engine_def
      split: if_splits option.splits dest!: foldE_engine)

lemma commit_no_failure:
  "tx_commit H HO (\<lambda>_. None) tx db =
     bindE (foldE (execute_save H) (ord_entities HO (cached_entities tx)) db)
       (foldE delete_id (ord_ids HO (deleted tx)))"
  by (auto simp: tx_commit_def Let_def foldE_engine_ok foldE_append foldE_map engine_def bindE_def
      split: sum.splits)

lemma commit_db_ok:
  assumes "db_ok H db" "wf_tx H tx" "permuting HO" "tx_commit H HO io tx db = Inr db'"
  shows "db_ok H db'"
proof -
  let ?es = "ord_entities HO (cached_entities tx)"
  obtain db1 where db1: "foldE (execute_save H) ?es db = Inr db1"
    "foldE delete_id (ord_ids HO (deleted tx)) db1 = Inr db'"
    using commit_statements[OF assms(4)] by (auto simp: res_simps)
  have "storable e" if "e \<in> set ?es" for e
    using that assms(3) cached_entities_storable[OF assms(2)]
    by (metis list_all_iff mset_eq_setD permuting_def)
  then have "db_ok H db1"
    using foldE_invariant[OF db1(1), of "db_ok H"] assms(1) execute_save_ok by blast
  then show ?thesis
    using foldE_invariant[OF db1(2), of "db_ok H"] delete_id_ok by blast
qed

lemma commit_overlay:
  assumes "sha256_sized H" "db_ok H db" "wf_tx H tx" "permuting HO"
    and "tx_commit H HO io tx db = Inr db'" "keyed (id_typ i)"
  shows "db_ok H db'"
    and "fetch_id db' i = (case get_by_entity_id (id_typ i) i tx of Some r \<Rightarrow> r | None \<Rightarrow> fetch_id db i)"
proof -
  let ?es = "ord_entities HO (cached_entities tx)" and ?is = "ord_ids HO (deleted tx)"
  have perm: "mset ?es = mset (cached_entities tx)" "mset ?is = mset (deleted tx)"
    using assms(4) by (simp_all add: permuting_def)
  have "distinct (map (ident H) ?es)"
    using cached_entities_distinct[OF assms(3)] perm(1)
    by (metis distinct_map mset_eq_imp_distinct_iff mset_eq_setD)
  moreover have "list_all storable ?es"
    using cached_entities_storable[OF assms(3)] mset_eq_setD[OF perm(1)] by (simp add: list_all_iff)
  ultimately have "db_ok H db'" and
    "fetch_id db' i = (if i \<in> set ?is then None
       else case find (\<lambda>e. ident H e = i) ?es of Some e \<Rightarrow> Some e | None \<Rightarrow> fetch_id db i)"
    using sql.overlay_fetch[of H db ?es ?is db' i] commit_statements[OF assms(5)] assms(1,2,6) by simp_all
  then show "db_ok H db'"
    and "fetch_id db' i = (case get_by_entity_id (id_typ i) i tx of Some r \<Rightarrow> r | None \<Rightarrow> fetch_id db i)"
    using mset_eq_setD[OF perm(2)] find_perm[OF perm(1) cached_entities_distinct[OF assms(3)]]
      cached_entities_find[OF assms(3)]
    by (auto simp: get_by_entity_id_def split: option.splits)
qed

section \<open>Listing\<close>

lemma ident_key:
  "type_of e = id_typ i \<Longrightarrow> ident H e = i \<longleftrightarrow> key_bytes (primary_key H e) = key_id i"
  by (cases i) (simp add: ident_def)

lemma find_all_in_cache_ok:
  assumes "wf_tx H tx" "permuting HO"
  shows "\<exists>es. find_all_in_cache HO E tx = Inr es \<and> (\<forall>e \<in> set es. type_of e = E)
     \<and> distinct (map (ident H) es)
     \<and> (\<forall>i. id_typ i = E \<longrightarrow> find (\<lambda>e. ident H e = i) es = find_in_cache E i tx)"
proof (cases "map_of (cache tx) (collection_name E)")
  case None
  then show ?thesis
    by (simp add: find_all_in_cache_def find_in_cache_def)
next
  case (Some table)
  have ok: "table_ok H (collection_name E) table"
    using wf_tx_table[OF assms(1) Some] .
  let ?es = "ord_entities HO (map snd table)"
  have perm: "mset ?es = mset (map snd table)"
    using assms(2) by (simp add: permuting_def)
  have ty: "type_of e = E" if "e \<in> set ?es" for e
    using that mset_eq_setD[OF perm] ok by (auto simp: table_ok_def)
  have dist: "distinct (map (ident H) (map snd table))"
    unfolding table_idents[OF ok] using ok by (simp add: table_ok_def)
  have "find_all_in_cache HO E tx = Inr (map (\<lambda>e. e) ?es)"
    unfolding find_all_in_cache_def Some option.case using ty
    by (intro mapE_total) (simp add: downcast_def)
  moreover have "distinct (map (ident H) ?es)"
    using dist perm by (metis distinct_map mset_eq_imp_distinct_iff mset_eq_setD)
  moreover have "find (\<lambda>e. ident H e = i) ?es = find_in_cache E i tx" for i
    using find_perm[OF perm dist, of i] find_table[OF ok, of i] find_in_cache_eq[OF assms(1), of E i] Some
    by simp
  ultimately show ?thesis
    using ty by auto
qed

lemma merge_records_find:
  assumes "\<forall>e \<in> set (xs @ ys). type_of e = id_typ i"
  shows "find (\<lambda>e. ident H e = i) (merge_records H tx xs ys) =
    (if i \<in> set (deleted tx) then None else find (\<lambda>e. ident H e = i) (xs @ ys))"
proof -
  let ?kb = "\<lambda>e. key_bytes (primary_key H e)" and ?u = "unique_by (\<lambda>e. key_bytes (primary_key H e)) (xs @ ys)"
  have ty: "type_of e = id_typ i" if "e \<in> set ?u" for e
    using that set_unique_by assms by fast
  have "find (\<lambda>e. ident H e = i) ?u = find (\<lambda>e. ?kb e = key_id i) ?u"
    using ty ident_key by (intro find_cong) auto
  also have "\<dots> = find (\<lambda>e. ?kb e = key_id i) (xs @ ys)"
    by (rule find_unique_by)
  also have "\<dots> = find (\<lambda>e. ident H e = i) (xs @ ys)"
    using assms ident_key by (intro find_cong) auto
  finally have u: "find (\<lambda>e. ident H e = i) ?u = find (\<lambda>e. ident H e = i) (xs @ ys)" .
  have "find (\<lambda>e. ident H e = i) (merge_records H tx xs ys)
      = find (\<lambda>e. ident H e = i \<and> ident H e \<notin> set (deleted tx)) ?u"
    by (simp add: merge_records_def find_filter)
  also have "\<dots> = (if i \<in> set (deleted tx) then None else find (\<lambda>e. ident H e = i) ?u)"
    by (auto simp: find_None_iff intro!: find_cong)
  finally show ?thesis
    using u by simp
qed

lemma merge_records_props:
  assumes "\<forall>e \<in> set (xs @ ys). type_of e = E"
  shows "distinct (map (ident H) (merge_records H tx xs ys))"
    and "set (merge_records H tx xs ys) \<subseteq> set (xs @ ys)"
proof -
  let ?u = "unique_by (\<lambda>e. key_bytes (primary_key H e)) (xs @ ys)"
  show sub: "set (merge_records H tx xs ys) \<subseteq> set (xs @ ys)"
    using set_unique_by[of "\<lambda>e. key_bytes (primary_key H e)" "xs @ ys"] by (auto simp: merge_records_def)
  have "distinct (map (\<lambda>e. key_bytes (primary_key H e)) ?u)"
    by (rule distinct_unique_by)
  then have "distinct (map (\<lambda>e. key_bytes (primary_key H e)) (merge_records H tx xs ys))"
    by (simp add: merge_records_def distinct_map_filter)
  then show "distinct (map (ident H) (merge_records H tx xs ys))"
    by (auto simp: distinct_map inj_on_def ident_def)
qed

text \<open>
  Listing a collection inside a transaction never panics, and lists under every identifier what a
  read of that identifier returns.
\<close>

lemma find_all_view:
  assumes "sha256_sized H" "wf_tx H tx" "permuting HO" "table_holds H db E es" "keyed E"
  shows "\<exists>rs. find_all H HO E es tx = Inr rs \<and> (\<forall>e \<in> set rs. type_of e = E)
     \<and> distinct (map (ident H) rs)
     \<and> (\<forall>i. id_typ i = E \<longrightarrow> find (\<lambda>e. ident H e = i) rs =
          (case get_by_entity_id E i tx of Some r \<Rightarrow> r | None \<Rightarrow> fetch_id db i))"
proof -
  obtain cs where cs: "find_all_in_cache HO E tx = Inr cs" "\<forall>e \<in> set cs. type_of e = E"
    "\<forall>i. id_typ i = E \<longrightarrow> find (\<lambda>e. ident H e = i) cs = find_in_cache E i tx"
    using find_all_in_cache_ok[OF assms(2,3), of E] by blast
  have ty: "\<forall>e \<in> set (cs @ es). type_of e = E"
    using cs(2) assms(4) by (auto simp: table_holds_def)
  have "find (\<lambda>e. ident H e = i) (merge_records H tx cs es) =
      (case get_by_entity_id E i tx of Some r \<Rightarrow> r | None \<Rightarrow> fetch_id db i)" if "id_typ i = E" for i
    using merge_records_find[of cs es i H tx] ty cs(3) that fetch_table[OF assms(1), of db i es] assms(4,5)
    by (auto simp: get_by_entity_id_def find_append split: option.splits)
  moreover have "find_all H HO E es tx = Inr (merge_records H tx cs es)"
    by (simp add: find_all_def cs)
  ultimately show ?thesis
    using merge_records_props[OF ty, of H tx] ty by auto
qed

end
