(* ===== verification/Database.thy ===== *)
theory Database
  imports Keystore_Transaction
begin

text \<open>
  The database handle (\<open>keystore/src/connection/mod.rs\<close>): an optional connection, at most
  one transaction in progress, and the semaphore with one permit that the transaction holds.  An
  operation that would wait for the permit is \<open>None\<close>.  Mutating operations go to the
  transaction, reads overlay the transaction on the persisted tables.  The calls of all tasks
  form one sequence of steps, since each holds the transaction lock for its whole body.
\<close>

record Database =
  conn :: "sql_db option"
  transaction :: "KeystoreTransaction option"
  permits :: nat

definition MAX_BLOB_LEN :: nat where
  "MAX_BLOB_LEN = 1000000000"

definition check_buffer_size :: "nat \<Rightarrow> unit keystore_result" where
  "check_buffer_size len =
     (if 2147483647 < len then Inl BlobTooBig
      else if MAX_BLOB_LEN \<le> len then Inl BlobTooBig else Inr ())"

definition ALLOWED_CONCURRENT_TRANSACTIONS_COUNT :: nat where
  "ALLOWED_CONCURRENT_TRANSACTIONS_COUNT = 1"

section \<open>Connection and transaction control\<close>

definition db_open :: "sql_db \<Rightarrow> Database" where
  "db_open db = \<lparr>conn = Some db, transaction = None, permits = ALLOWED_CONCURRENT_TRANSACTIONS_COUNT\<rparr>"

definition get_conn :: "Database \<Rightarrow> sql_db keystore_result" where
  "get_conn d = ok_or Closed (conn d)"

text \<open>\<open>take\<close> gives its permit back when it returns.\<close>

definition db_take :: "Database \<Rightarrow> (Database \<times> sql_db keystore_result) option" where
  "db_take d = (if permits d = 0 then None
     else Some (d\<lparr>conn := None\<rparr>, get_conn d))"

definition db_close :: "Database \<Rightarrow> (Database \<times> unit keystore_result) option" where
  "db_close d = map_option (\<lambda>(d', r). (d', mapR (\<lambda>_. ()) r)) (db_take d)"

text \<open>\<open>remove\<close> is the outcome of deleting the database file, \<open>None\<close> for success.\<close>

definition db_wipe ::
  "CryptoKeystoreError option \<Rightarrow> Database \<Rightarrow> (Database \<times> unit keystore_result) option" where
  "db_wipe remove d = map_option (\<lambda>(d', r). (d',
     bindE r (\<lambda>_. case remove of None \<Rightarrow> Inr () | Some e \<Rightarrow> Inl e))) (db_take d)"

definition new_transaction :: "Database \<Rightarrow> (Database \<times> unit keystore_result) option" where
  "new_transaction d = (if permits d = 0 then None
     else Some (d\<lparr>permits := permits d - 1, transaction := Some new_tx\<rparr>, Inr ()))"

definition try_new_immediate_transaction :: "Database \<Rightarrow> Database \<times> unit keystore_result" where
  "try_new_immediate_transaction d = (if permits d = 0 then (d, Inl TransactionInProgress)
     else (d\<lparr>permits := permits d - 1, transaction := Some new_tx\<rparr>, Inr ()))"

text \<open>Dropping the transaction returns its permit.\<close>

definition drop_transaction :: "Database \<Rightarrow> Database" where
  "drop_transaction d = d\<lparr>transaction := None, permits := permits d + 1\<rparr>"

definition commit_transaction ::
  "hashes \<Rightarrow> hash_order \<Rightarrow> (nat \<Rightarrow> sql_error option) \<Rightarrow> Database \<Rightarrow> Database \<times> unit keystore_result" where
  "commit_transaction H HO io d = (case transaction d of
       None \<Rightarrow> (d, Inl MutatingOperationWithoutTransaction)
     | Some tx \<Rightarrow>
         (case bindE (get_conn d) (tx_commit H HO io tx) of
            Inl e \<Rightarrow> (d, Inl e)
          | Inr db \<Rightarrow> (drop_transaction (d\<lparr>conn := Some db\<rparr>), Inr ())))"

definition rollback_transaction :: "Database \<Rightarrow> Database \<times> unit keystore_result" where
  "rollback_transaction d = (case transaction d of
       None \<Rightarrow> (d, Inl MutatingOperationWithoutTransaction)
     | Some _ \<Rightarrow> (drop_transaction d, Inr ()))"

section \<open>Mutations\<close>

definition db_save ::
  "hashes \<Rightarrow> u64 option \<Rightarrow> Entity \<Rightarrow> Database \<Rightarrow> Database \<times> u64 option keystore_result" where
  "db_save H now entity d = (case transaction d of
       None \<Rightarrow> (d, Inl MutatingOperationWithoutTransaction)
     | Some tx \<Rightarrow> (case tx_save H now entity tx of
          Inl e \<Rightarrow> (d, Inl e)
        | Inr (generated, tx') \<Rightarrow> (d\<lparr>transaction := Some tx'\<rparr>, Inr generated)))"

definition db_remove :: "EntityType \<Rightarrow> key \<Rightarrow> Database \<Rightarrow> Database \<times> unit keystore_result" where
  "db_remove E k d = (case transaction d of
       None \<Rightarrow> (d, Inl MutatingOperationWithoutTransaction)
     | Some tx \<Rightarrow> (case tx_remove E k tx of
          Inl e \<Rightarrow> (d, Inl e)
        | Inr tx' \<Rightarrow> (d\<lparr>transaction := Some tx'\<rparr>, Inr ())))"

definition db_remove_pending_messages :: "bytes \<Rightarrow> Database \<Rightarrow> Database \<times> unit keystore_result" where
  "db_remove_pending_messages conversation_id d = (case transaction d of
       None \<Rightarrow> (d, Inl MutatingOperationWithoutTransaction)
     | Some tx \<Rightarrow> (d\<lparr>transaction := Some (tx_remove_pending_messages conversation_id tx)\<rparr>, Inr ()))"

section \<open>Reads\<close>

definition db_get :: "EntityType \<Rightarrow> key \<Rightarrow> Database \<Rightarrow> Entity option keystore_result" where
  "db_get E k d =
     (case Option.bind (transaction d) (tx_get E k) of
        Some cached_record \<Rightarrow> Inr cached_record
      | None \<Rightarrow> bindE (get_conn d) (entity_get E k))"

definition db_load_all ::
  "hashes \<Rightarrow> hash_order \<Rightarrow> EntityType \<Rightarrow> Database \<Rightarrow> Entity list keystore_result" where
  "db_load_all H HO E d = bindE (get_conn d) (\<lambda>db. bindE (entity_load_all E db) (\<lambda>persisted_records.
     case transaction d of
       None \<Rightarrow> Inr persisted_records
     | Some tx \<Rightarrow> find_all H HO E persisted_records tx))"

definition db_count :: "hashes \<Rightarrow> hash_order \<Rightarrow> EntityType \<Rightarrow> Database \<Rightarrow> u32 keystore_result" where
  "db_count H HO E d = (case transaction d of
       Some _ \<Rightarrow> mapR (\<lambda>es. of_nat (length es)) (db_load_all H HO E d)
     | None \<Rightarrow> bindE (get_conn d) (entity_count E))"

datatype search_key =
    CredentialKey CredentialFindFilters
  | ParentGroupId bytes
  | ConversationId bytes

fun search_type :: "search_key \<Rightarrow> EntityType" where
  "search_type (CredentialKey _) = StoredCredentialT"
| "search_type (ParentGroupId _) = PersistedMlsGroupT"
| "search_type (ConversationId _) = MlsPendingMessageT"

fun search_matches :: "hashes \<Rightarrow> search_key \<Rightarrow> Entity \<Rightarrow> bool" where
  "search_matches H (CredentialKey f) (StoredCredential c) = credential_matches H f c"
| "search_matches H (ParentGroupId p) (PersistedMlsGroup g) = group_matches p g"
| "search_matches H (ConversationId c) (MlsPendingMessage m) = pending_message_matches c m"
| "search_matches H _ _ = False"

fun find_all_matching :: "hashes \<Rightarrow> search_key \<Rightarrow> sql_db \<Rightarrow> Entity list keystore_result" where
  "find_all_matching H (CredentialKey f) db =
     map_err DbError (mapR (map StoredCredential) (credential_find_all_matching H f db))"
| "find_all_matching H (ParentGroupId p) db =
     map_err DbError (mapR (map PersistedMlsGroup) (group_find_all_matching p db))"
| "find_all_matching H (ConversationId c) db =
     map_err DbError (mapR (map MlsPendingMessage) (pending_message_find_all_matching c db))"

definition db_search :: "hashes \<Rightarrow> hash_order \<Rightarrow> search_key \<Rightarrow> Database \<Rightarrow> Entity list keystore_result" where
  "db_search H HO sk d = bindE (get_conn d) (\<lambda>db. bindE (find_all_matching H sk db) (\<lambda>persisted_records.
     case transaction d of
       None \<Rightarrow> Inr persisted_records
     | Some tx \<Rightarrow> tx_search H HO (search_type sk) (search_matches H sk) persisted_records tx))"

definition db_find_pending_messages ::
  "hashes \<Rightarrow> hash_order \<Rightarrow> bytes \<Rightarrow> Database \<Rightarrow> Entity list keystore_result" where
  "db_find_pending_messages H HO conversation_id d =
     bindE (get_conn d) (\<lambda>db. bindE (find_all_matching H (ConversationId conversation_id) db)
       (\<lambda>persisted_records. case transaction d of
          None \<Rightarrow> Inr persisted_records
        | Some tx \<Rightarrow> tx_find_pending_messages H HO conversation_id persisted_records tx))"

definition db_child_groups ::
  "hashes \<Rightarrow> hash_order \<Rightarrow> persisted_mls_group \<Rightarrow> Database \<Rightarrow> Entity list keystore_result" where
  "db_child_groups H HO entity d =
     bindE (get_conn d) (\<lambda>db.
     bindE (map_err DbError (mapR (map PersistedMlsGroup) (entity_child_groups entity db)))
       (\<lambda>persisted_records. case transaction d of
          None \<Rightarrow> Inr persisted_records
        | Some tx \<Rightarrow> tx_child_groups H HO entity persisted_records tx))"

section \<open>Calls as steps\<close>

datatype mutation =
    Save "u64 option" Entity
  | Remove EntityType key
  | RemovePendingMessages bytes

text \<open>
  The mutations the library performs: prekeys are built by \<open>from_raw\<close> and the clock is before
  the year 10000.
\<close>

definition mutation_ok :: "mutation \<Rightarrow> bool" where
  "mutation_ok m = (case m of
       Save now e \<Rightarrow> is_none_or now (\<lambda>t. uint t \<le> 253402300799)
         \<and> (case e of ProteusPrekey p \<Rightarrow> storable e | _ \<Rightarrow> True)
     | _ \<Rightarrow> True)"

definition mutate :: "hashes \<Rightarrow> mutation \<Rightarrow> Database \<Rightarrow> Database" where
  "mutate H m d = (case m of
       Save now e \<Rightarrow> fst (db_save H now e d)
     | Remove E k \<Rightarrow> fst (db_remove E k d)
     | RemovePendingMessages c \<Rightarrow> fst (db_remove_pending_messages c d))"

inductive db_step :: "hashes \<Rightarrow> Database \<Rightarrow> Database \<Rightarrow> bool" for H where
  begin_tx: "new_transaction d = Some (d', r) \<Longrightarrow> db_step H d d'"
| try_begin_tx: "try_new_immediate_transaction d = (d', r) \<Longrightarrow> db_step H d d'"
| commit_tx: "permuting HO \<Longrightarrow> commit_transaction H HO io d = (d', r) \<Longrightarrow> db_step H d d'"
| rollback_tx: "rollback_transaction d = (d', r) \<Longrightarrow> db_step H d d'"
| mutate_tx: "mutation_ok m \<Longrightarrow> db_step H d (mutate H m d)"
| close_db: "db_close d = Some (d', r) \<Longrightarrow> db_step H d d'"

inductive db_reachable :: "hashes \<Rightarrow> Database \<Rightarrow> bool" for H where
  opened: "db_ok H db \<Longrightarrow> db_reachable H (db_open db)"
| stepped: "db_reachable H d \<Longrightarrow> db_step H d d' \<Longrightarrow> db_reachable H d'"

section \<open>The invariant\<close>

definition db_inv :: "hashes \<Rightarrow> Database \<Rightarrow> bool" where
  "db_inv H d \<longleftrightarrow>
     permits d + (case transaction d of None \<Rightarrow> 0 | Some _ \<Rightarrow> 1) = 1
     \<and> (case transaction d of None \<Rightarrow> True | Some tx \<Rightarrow> wf_tx H tx)
     \<and> (case conn d of None \<Rightarrow> True | Some db \<Rightarrow> db_ok H db)"

lemma pre_save_storable:
  "mutation_ok (Save now e) \<Longrightarrow> pre_save now e = Inr (g, e') \<Longrightarrow> storable e'"
  by (cases e) (auto simp: mutation_ok_def storable_def credential_pre_save_def is_none_or_def
      res_simps split: option.splits)

lemma mutate_inv:
  assumes "db_inv H d" "mutation_ok m"
  shows "db_inv H (mutate H m d)"
proof (cases "transaction d")
  case None
  then show ?thesis
    using assms(1)
    by (cases m) (simp_all add: mutate_def db_save_def db_remove_def db_remove_pending_messages_def)
next
  case (Some tx)
  have wf: "wf_tx H tx"
    using assms(1) Some by (simp add: db_inv_def)
  show ?thesis
  proof (cases m)
    case (Save now e)
    have "wf_tx H tx'" if "tx_save H now e tx = Inr (g, tx')" for g tx'
      using that wf_tx_save[OF wf _ _ that] pre_save_storable assms(2) Save by (auto simp: tx_save_Inr)
    then show ?thesis
      using assms(1) Some Save
      by (auto simp: mutate_def db_save_def db_inv_def split: sum.splits)
  next
    case (Remove E k)
    then show ?thesis
      using assms(1) Some wf_tx_remove[OF wf, of "\<lparr>id_typ = E, key_id = key_bytes k\<rparr>" E]
      by (simp add: mutate_def db_remove_def tx_remove_def from_primary_key_def db_inv_def)
  next
    case (RemovePendingMessages c)
    then show ?thesis
      using assms(1) Some wf_tx_remove_pending[OF wf]
      by (simp add: mutate_def db_remove_pending_messages_def db_inv_def)
  qed
qed

lemma commit_inv:
  assumes "db_inv H d" "permuting HO" "commit_transaction H HO io d = (d', r)"
  shows "db_inv H d'"
proof (cases "transaction d")
  case None
  then show ?thesis
    using assms by (simp add: commit_transaction_def)
next
  case (Some tx)
  show ?thesis
  proof (cases "bindE (get_conn d) (tx_commit H HO io tx)")
    case (Inl e)
    then show ?thesis
      using assms Some by (simp add: commit_transaction_def)
  next
    case (Inr db')
    then obtain db where db: "conn d = Some db" "tx_commit H HO io tx db = Inr db'"
      by (auto simp: get_conn_def res_simps)
    have "db_ok H db'"
      using commit_db_ok[OF _ _ assms(2) db(2)] assms(1) Some db(1) by (simp add: db_inv_def)
    then show ?thesis
      using assms(1,3) Some Inr by (auto simp: commit_transaction_def db_inv_def drop_transaction_def)
  qed
qed

lemma step_inv:
  assumes "db_step H d d'" "db_inv H d"
  shows "db_inv H d'"
  using assms
proof cases
  case (begin_tx r)
  then show ?thesis
    using assms(2)
    by (auto simp: new_transaction_def db_inv_def split: if_splits option.splits)
next
  case (try_begin_tx r)
  then show ?thesis
    using assms(2)
    by (auto simp: try_new_immediate_transaction_def db_inv_def split: if_splits option.splits)
next
  case (commit_tx HO io r)
  then show ?thesis using commit_inv[OF assms(2)] by blast
next
  case (rollback_tx r)
  then show ?thesis
    using assms(2)
    by (auto simp: rollback_transaction_def drop_transaction_def db_inv_def split: option.splits)
next
  case (mutate_tx m)
  then show ?thesis using mutate_inv[OF assms(2)] by simp
next
  case (close_db r)
  then show ?thesis
    using assms(2) by (auto simp: db_close_def db_take_def db_inv_def split: if_splits)
qed

lemma reachable_inv: "db_reachable H d \<Longrightarrow> db_inv H d"
proof (induction rule: db_reachable.induct)
  case (opened db)
  then show ?case
    by (simp add: db_inv_def db_open_def ALLOWED_CONCURRENT_TRANSACTIONS_COUNT_def)
next
  case (stepped d d')
  then show ?case using step_inv by blast
qed

section \<open>Reads through the overlay\<close>

lemma db_get_fetch:
  assumes "sha256_sized H" "db_inv H d" "conn d = Some db" "keyed E" "type_of_key k = primary_key_type E" "wf_key k"
  defines "i \<equiv> \<lparr>id_typ = E, key_id = key_bytes k\<rparr>"
  shows "db_get E k d = Inr (case Option.bind (transaction d) (get_by_entity_id E i) of
      Some r \<Rightarrow> r | None \<Rightarrow> fetch_id db i)"
proof -
  have i: "entity_id_primary_key i = Inr k" "id_typ i = E"
    using key_from_key_bytes[OF assms(6)] assms(5) by (simp_all add: i_def entity_id_primary_key_def)
  obtain es where "table_holds H db E es"
    using assms(2,3) by (auto simp: db_inv_def elim: db_okE)
  then have "entity_get E k db = Inr (fetch_id db i)"
    using get_table[OF _ assms(4,5)] i by (simp add: fetch_id_def)
  then show ?thesis
    using assms(3)
    by (simp add: db_get_def get_conn_def tx_get_def from_primary_key_def i_def split: option.splits bind_splits)
qed

lemma commit_transaction_Inr:
  assumes "commit_transaction H HO io d = (d', Inr ())"
  obtains tx db db' where "transaction d = Some tx" "conn d = Some db"
    "tx_commit H HO io tx db = Inr db'" "d' = drop_transaction (d\<lparr>conn := Some db'\<rparr>)"
  using assms
  by (auto simp: commit_transaction_def get_conn_def res_simps split: option.splits sum.splits)

end
