(* ===== verification/Overlay.thy ===== *)
theory Overlay
  imports Database
begin

text \<open>
  The database handle as a store with an open transaction: the contract
  \<open>transactional_store\<close> that the layers above the keystore rely on, with its interpretation
  on the handle's save, remove and get.
\<close>

section \<open>The contract\<close>

locale transactional_store =
  fixes lookup :: "'d \<Rightarrow> 'i \<Rightarrow> 'e option"
    and save :: "'e \<Rightarrow> 'd \<Rightarrow> 'd"
    and remove :: "'i \<Rightarrow> 'd \<Rightarrow> 'd"
    and ident :: "'e \<Rightarrow> 'i"
    and valid :: "'i \<Rightarrow> bool"
    and fits :: "'e \<Rightarrow> bool"
    and invar :: "'d \<Rightarrow> bool"
  assumes save_invar: "invar d \<Longrightarrow> fits e \<Longrightarrow> invar (save e d)"
    and lookup_save: "invar d \<Longrightarrow> fits e \<Longrightarrow> valid i \<Longrightarrow>
      lookup (save e d) i = (if i = ident e then Some e else lookup d i)"
    and remove_invar: "invar d \<Longrightarrow> valid i \<Longrightarrow> invar (remove i d)"
    and lookup_remove: "invar d \<Longrightarrow> valid i \<Longrightarrow> valid j \<Longrightarrow>
      lookup (remove i d) j = (if j = i then None else lookup d j)"
begin

lemma lookup_saves:
  assumes "invar d" "list_all fits es" "valid i"
  shows "lookup (fold save es d) i = (case find (\<lambda>e. ident e = i) (rev es) of Some e \<Rightarrow> Some e | None \<Rightarrow> lookup d i)"
    and "invar (fold save es d)"
proof -
  have "lookup (fold save es d) i = (case find (\<lambda>e. ident e = i) (rev es) of Some e \<Rightarrow> Some e | None \<Rightarrow> lookup d i)
      \<and> invar (fold save es d)"
    using assms
  proof (induction es arbitrary: d)
    case (Cons e es)
    then show ?case
      using Cons.IH[of "save e d"]
      by (auto simp: save_invar lookup_save find_append split: option.splits)
  qed simp
  then show "lookup (fold save es d) i = (case find (\<lambda>e. ident e = i) (rev es) of Some e \<Rightarrow> Some e | None \<Rightarrow> lookup d i)"
    and "invar (fold save es d)"
    by simp_all
qed

lemma lookup_removes:
  assumes "invar d" "list_all valid is" "valid j"
  shows "lookup (fold remove is d) j = (if j \<in> set is then None else lookup d j)"
  using assms by (induction "is" arbitrary: d) (auto simp: remove_invar lookup_remove)

lemma save_remove_lookup:
  assumes "invar d" "fits e" "valid i" "valid (ident e)"
  shows "lookup (remove (ident e) (save e d)) i = (if i = ident e then None else lookup d i)"
  using assms by (simp add: save_invar lookup_save lookup_remove)

end

section \<open>Reads through the transaction\<close>

lemma db_get_in_transaction:
  "db_get E k (d\<lparr>transaction := Some tx\<rparr>) =
     (case get_by_entity_id E \<lparr>id_typ = E, key_id = key_bytes k\<rparr> tx of
        Some r \<Rightarrow> Inr r | None \<Rightarrow> bindE (get_conn d) (entity_get E k))"
  by (simp add: db_get_def get_conn_def tx_get_def from_primary_key_def split: option.splits)

lemma db_get_in_transaction':
  "transaction d = Some tx \<Longrightarrow> db_get E k d =
     (case get_by_entity_id E \<lparr>id_typ = E, key_id = key_bytes k\<rparr> tx of
        Some r \<Rightarrow> Inr r | None \<Rightarrow> bindE (get_conn d) (entity_get E k))"
  by (simp add: db_get_def get_conn_def tx_get_def from_primary_key_def split: option.splits)

lemma db_save_Inr:
  assumes "db_save H now e d = (d', Inr g)"
  obtains tx tx' where "transaction d = Some tx" "tx_save H now e tx = Inr (g, tx')"
    "d' = d\<lparr>transaction := Some tx'\<rparr>"
  using assms by (auto simp: db_save_def split: option.splits sum.splits)

lemma db_get_after_save:
  assumes "db_inv H d" "mutation_ok (Save now e)"
    and "db_save H now e d = (d', Inr g)" "pre_save now e = Inr (g, e')"
  shows "db_get E k d' = (if \<lparr>id_typ = E, key_id = key_bytes k\<rparr> = ident H e' then Inr (Some e') else db_get E k d)"
proof -
  obtain tx tx' where tx: "transaction d = Some tx" "tx_save H now e tx = Inr (g, tx')"
    "d' = d\<lparr>transaction := Some tx'\<rparr>"
    using assms(3) by (rule db_save_Inr)
  have wf: "wf_tx H tx"
    using assms(1) tx(1) by (simp add: db_inv_def)
  have "get_by_entity_id E \<lparr>id_typ = E, key_id = key_bytes k\<rparr> tx' =
      (if \<lparr>id_typ = E, key_id = key_bytes k\<rparr> = ident H e' then Some (Some e')
       else get_by_entity_id E \<lparr>id_typ = E, key_id = key_bytes k\<rparr> tx)"
    by (rule get_after_save[OF tx(2) assms(4) wf pre_save_storable[OF assms(2,4)]]) simp
  then show ?thesis
    using tx(3) by (simp add: db_get_in_transaction db_get_in_transaction'[OF tx(1)])
qed

lemma db_remove_in_transaction:
  "transaction d = Some tx \<Longrightarrow> db_remove E k d =
     (d\<lparr>transaction := Some (remove_by_entity_id E \<lparr>id_typ = E, key_id = key_bytes k\<rparr> tx)\<rparr>, Inr ())"
  by (simp add: db_remove_def tx_remove_def from_primary_key_def)

lemma db_get_after_remove:
  assumes "db_inv H d" "db_remove E k d = (d', Inr ())"
  shows "db_get F l d' =
    (if \<lparr>id_typ = F, key_id = key_bytes l\<rparr> = \<lparr>id_typ = E, key_id = key_bytes k\<rparr> then Inr None else db_get F l d)"
proof -
  let ?i = "\<lparr>id_typ = E, key_id = key_bytes k\<rparr>"
  obtain tx where tx: "transaction d = Some tx"
    using assms(2) by (auto simp: db_remove_def split: option.splits)
  have wf: "wf_tx H tx"
    using assms(1) tx by (simp add: db_inv_def)
  have "get_by_entity_id F \<lparr>id_typ = F, key_id = key_bytes l\<rparr> (remove_by_entity_id E ?i tx)
      = (if \<lparr>id_typ = F, key_id = key_bytes l\<rparr> = ?i then Some None
         else get_by_entity_id F \<lparr>id_typ = F, key_id = key_bytes l\<rparr> tx)"
    using get_after_remove[OF wf, of ?i E "\<lparr>id_typ = F, key_id = key_bytes l\<rparr>" F] by simp
  then show ?thesis
    using assms(2) db_remove_in_transaction[OF tx, of E k]
    by (auto simp: db_get_in_transaction db_get_in_transaction'[OF tx])
qed

lemma db_save_total:
  assumes "transaction d \<noteq> None" "pre_save now e = Inr (g, e')"
  shows "\<exists>d'. db_save H now e d = (d', Inr g)"
  using assms by (auto simp: db_save_def tx_save_def Let_def)

lemma from_row_type: "from_row E r = Inr e \<Longrightarrow> type_of e = E"
  by (cases E) (auto simp: res_simps unique_from_row_def)

lemma first_row_Some: "first_row f rs = Inr (Some e) \<Longrightarrow> \<exists>r. f r = Inr e"
  by (cases rs) (auto simp: first_row_def res_simps)

lemma entity_get_type:
  assumes "entity_get E k db = Inr (Some e)"
  shows "type_of e = E"
proof (cases "E = ProteusIdentityT")
  case True
  then show ?thesis
    using assms by (auto simp: entity_get_def res_simps map_option_case split: option.splits)
next
  case False
  then show ?thesis
    using assms
    by (auto simp: entity_get_def get_helper_def res_simps dest!: first_row_Some from_row_type split: if_splits)
qed

lemma db_get_typed:
  assumes "db_get E k d = Inr (Some e)"
  shows "type_of e = E"
proof (cases "Option.bind (transaction d) (tx_get E k)")
  case None
  then show ?thesis
    using assms by (auto simp: db_get_def res_simps dest: entity_get_type)
next
  case (Some r)
  then show ?thesis
    using assms
    by (auto simp: db_get_def tx_get_def get_by_entity_id_def find_in_cache_def downcast_def
        split: if_splits bind_splits)
qed

section \<open>The handle implements the contract\<close>

text \<open>
  Entities other than credentials, which get their creation time when they are saved.
\<close>

definition plain :: "Entity \<Rightarrow> bool" where
  "plain e \<longleftrightarrow> type_of e \<noteq> StoredCredentialT \<and> storable e"

definition valid_id :: "EntityId \<Rightarrow> bool" where
  "valid_id i \<longleftrightarrow> key_from_bytes (primary_key_type (id_typ i)) (key_id i) \<noteq> None"

definition db_lookup :: "Database \<Rightarrow> EntityId \<Rightarrow> Entity option" where
  "db_lookup d i = (case bindE (entity_id_primary_key i) (\<lambda>k. db_get (id_typ i) k d) of
       Inl _ \<Rightarrow> None | Inr r \<Rightarrow> r)"

definition db_save_plain :: "hashes \<Rightarrow> Entity \<Rightarrow> Database \<Rightarrow> Database" where
  "db_save_plain H e d = fst (db_save H None e d)"

definition db_remove_id :: "EntityId \<Rightarrow> Database \<Rightarrow> Database" where
  "db_remove_id i d = (case entity_id_primary_key i of Inl _ \<Rightarrow> d | Inr k \<Rightarrow> fst (db_remove (id_typ i) k d))"

lemma plain_pre_save: "plain e \<Longrightarrow> pre_save now e = Inr (None, e)"
  by (cases e) (simp_all add: plain_def)

lemma plain_mutation_ok: "plain e \<Longrightarrow> mutation_ok (Save None e)"
  by (cases e) (simp_all add: mutation_ok_def is_none_or_def plain_def)

lemma valid_id_key:
  "valid_id i \<Longrightarrow> \<exists>k. entity_id_primary_key i = Inr k \<and> i = \<lparr>id_typ = id_typ i, key_id = key_bytes k\<rparr>"
  by (cases i) (auto simp: valid_id_def entity_id_primary_key_def key_bytes_from_bytes)

lemma db_lookup_valid: "entity_id_primary_key i = Inr k \<Longrightarrow>
  db_lookup d i = (case db_get (id_typ i) k d of Inl _ \<Rightarrow> None | Inr r \<Rightarrow> r)"
  by (simp add: db_lookup_def)

interpretation db: transactional_store db_lookup "db_save_plain H" db_remove_id "ident H" valid_id plain
  "\<lambda>d. db_inv H d \<and> transaction d \<noteq> None" for H
proof unfold_locales
  fix d e i j
  assume d: "db_inv H d \<and> transaction d \<noteq> None"
  have rm: "\<exists>k. entity_id_primary_key i = Inr k \<and> i = \<lparr>id_typ = id_typ i, key_id = key_bytes k\<rparr>
      \<and> db_remove (id_typ i) k d = (db_remove_id i d, Inr ())" if "valid_id i"
    using valid_id_key[OF that] d db_remove_in_transaction[of d _ "id_typ i"] by (auto simp: db_remove_id_def)
  show "db_inv H (db_save_plain H e d) \<and> transaction (db_save_plain H e d) \<noteq> None" if "plain e"
    using mutate_inv[of H d "Save None e"] d plain_mutation_ok[OF that] plain_pre_save[OF that]
    by (auto simp: mutate_def db_save_plain_def db_save_def split: sum.splits)
  show "db_lookup (db_save_plain H e d) i = (if i = ident H e then Some e else db_lookup d i)"
    if e: "plain e" and i: "valid_id i"
  proof -
    obtain d' where d': "db_save H None e d = (d', Inr None)"
      using db_save_total[of d None e None e H] d plain_pre_save[OF e] by blast
    obtain k where k: "entity_id_primary_key i = Inr k" "i = \<lparr>id_typ = id_typ i, key_id = key_bytes k\<rparr>"
      using valid_id_key[OF i] by blast
    show ?thesis
      using db_get_after_save[OF _ plain_mutation_ok[OF e] d' plain_pre_save[OF e], of "id_typ i" k] d d' k
      by (auto simp: db_lookup_valid[OF k(1)] db_save_plain_def)
  qed
  show "db_inv H (db_remove_id i d) \<and> transaction (db_remove_id i d) \<noteq> None" if i: "valid_id i"
  proof -
    obtain k where "db_remove (id_typ i) k d = (db_remove_id i d, Inr ())"
      using rm[OF i] by blast
    then have "db_remove_id i d = mutate H (Remove (id_typ i) k) d"
      by (simp add: mutate_def)
    then show ?thesis
      using mutate_inv[of H d "Remove (id_typ i) k"] d db_remove_in_transaction[of d]
      by (auto simp: mutate_def mutation_ok_def)
  qed
  show "db_lookup (db_remove_id i d) j = (if j = i then None else db_lookup d j)" if ij: "valid_id i" "valid_id j"
  proof -
    obtain k where k: "i = \<lparr>id_typ = id_typ i, key_id = key_bytes k\<rparr>"
      "db_remove (id_typ i) k d = (db_remove_id i d, Inr ())"
      using rm[OF ij(1)] by blast
    obtain l where l: "entity_id_primary_key j = Inr l" "j = \<lparr>id_typ = id_typ j, key_id = key_bytes l\<rparr>"
      using valid_id_key[OF ij(2)] by blast
    show ?thesis
      using db_get_after_remove[OF conjunct1[OF d] k(2), of "id_typ j" l] k l
      by (auto simp: db_lookup_valid[OF l(1)])
  qed
qed

end
