(* ===== verification/Keystore_Properties.thy ===== *)
theory Keystore_Properties
  imports Overlay
begin

text \<open>
  What the keystore promises its callers, and where it does not keep it: reads across commit and
  rollback, when a commit succeeds, and the entities that persisted reads do not find again.
\<close>

section \<open>Commit succeeds exactly when no statement conflicts\<close>

text \<open>The types saved with a plain \<open>INSERT\<close> into a table with a unique key.\<close>

definition insert_once :: "EntityType \<Rightarrow> bool" where
  "insert_once E \<longleftrightarrow> E \<in> {StoredCredentialT, StoredE2eiEnrollmentT, ProteusPrekeyT}"

definition insertable :: "hashes \<Rightarrow> sql_db \<Rightarrow> Entity \<Rightarrow> bool" where
  "insertable H db e \<longleftrightarrow> (insert_once (type_of e) \<longrightarrow> fetch_id db (ident H e) = None)"

definition deletable :: "EntityId \<Rightarrow> bool" where
  "deletable i \<longleftrightarrow> id_typ i \<noteq> PskBundleT
     \<and> (id_typ i \<noteq> MlsPendingMessageT \<longrightarrow> key_from_bytes (primary_key_type (id_typ i)) (key_id i) \<noteq> None)"

lemma insert_once_keyed: "insert_once E \<Longrightarrow> keyed E"
  by (auto simp: insert_once_def keyed_def)

lemma or_replace_insert_of:
  "or_replace (insert_of H e) \<longleftrightarrow>
     \<not> insert_once (type_of e) \<and> type_of e \<notin> {MlsPendingMessageT, ProteusIdentityT}"
  by (cases e) (simp_all add: insert_defs insert_once_def)

lemma exec_insert_ok_iff:
  assumes "table_holds H db (type_of e) es" "sha256_sized H"
  shows "(\<exists>db'. exec_insert (insert_of H e) db = Inr db') \<longleftrightarrow> insertable H db e"
proof -
  let ?E = "type_of e"
  have t: "db (collection_name ?E) = Some (schema_table ?E (map (encode H) es))"
    using assms(1) by (simp add: table_holds_def)
  have iff: "(\<exists>db'. exec_insert (insert_of H e) db = Inr db') \<longleftrightarrow>
      or_replace (insert_of H e) \<or> \<not> list_ex (conflicts (schema_table ?E (map (encode H) es)) (encode H e)) (map (encode H) es)"
    using t no_unknown_column[of e "map (encode H) es" H]
    by (auto simp: exec_insert_def table_of_def Let_def encode_def[symmetric])
  show ?thesis
  proof (cases "insert_once ?E")
    case True
    have "fetch_id db (ident H e) = find (\<lambda>x. ident H x = ident H e) es"
      using fetch_table[OF assms(2), of db "ident H e" es] assms(1) insert_once_keyed[OF True] by simp
    moreover have "conflicts (schema_table ?E (map (encode H) es)) (encode H e) (encode H x)
        \<longleftrightarrow> ident H x = ident H e" if "x \<in> set es" for x
      using that assms insert_once_keyed[OF True] conflicts_encode[of ?E e x "map (encode H) es" H]
        key_bytes_inj[of "primary_key H x" "primary_key H e"] wf_primary_key[OF assms(2), of x]
        wf_primary_key[OF assms(2), of e]
      by (auto simp: table_holds_def ident_def)
    ultimately show ?thesis
      unfolding iff insertable_def using True by (auto simp: or_replace_insert_of list_ex_iff find_None_iff)
  next
    case False
    have "conflicts (schema_table ?E (map (encode H) es)) (encode H e) r \<longleftrightarrow> False"
      if "?E \<in> {MlsPendingMessageT, ProteusIdentityT}" for r
      using that by (auto simp: conflicts_def)
    then show ?thesis
      unfolding iff insertable_def using False by (auto simp: or_replace_insert_of list_ex_iff)
  qed
qed

lemma entity_save_ok_iff:
  assumes "table_holds H db (type_of e) es" "sha256_sized H" "storable e"
  shows "(\<exists>db'. entity_save H e db = Inr db') \<longleftrightarrow> insertable H db e"
proof -
  have "(\<exists>db'. entity_save H e db = Inr db') \<longleftrightarrow> (\<exists>db'. exec_insert (insert_of H e) db = Inr db')"
    using assms(3)
    by (cases e) (auto simp: entity_save_def credential_save_def storable_def res_simps)
  then show ?thesis
    using exec_insert_ok_iff[OF assms(1,2)] by simp
qed

lemma entity_delete_ok:
  assumes "table_holds H db E es" "E \<notin> {PskBundleT, MlsPendingMessageT}"
  shows "\<exists>b db'. entity_delete E k db = Inr (b, db')"
proof (cases "E = ProteusIdentityT")
  case True
  then show ?thesis
    using assms by (simp add: entity_delete_def identity_delete_def delete_all_def table_of_def table_holds_def)
next
  case False
  then have "key_column E \<in> set (schema_columns E)"
    using assms(2) by (cases E) simp_all
  then show ?thesis
    using assms False
    by (simp add: entity_delete_def delete_helper_def delete_where_def table_of_def table_holds_def Let_def)
qed

lemma execute_save_ok_iff:
  assumes "db_ok H db" "sha256_sized H" "storable e"
  shows "(\<exists>db'. execute_save H e db = Inr db') \<longleftrightarrow> insertable H db e"
proof (cases "type_of e \<in> {ConsumerDataT, E2eiAcmeCAT}")
  case True
  then have ins: "insertable H d e" for d
    by (auto simp: insertable_def insert_once_def)
  obtain es where "table_holds H db (type_of e) es"
    using assms(1) by (auto elim: db_okE)
  then obtain b1 db1 where d1: "entity_delete (type_of e) (primary_key H e) db = Inr (b1, db1)"
    using entity_delete_ok True by fastforce
  obtain es1 where "table_holds H db1 (type_of e) es1"
    using delete_holds[OF \<open>table_holds H db (type_of e) es\<close> d1] by blast
  then obtain db2 where "entity_save H e db1 = Inr db2"
    using entity_save_ok_iff[OF _ assms(2,3)] ins by blast
  then have "set_and_replace H e db = Inr (b1, db2)"
    using d1 by (simp add: set_and_replace_def)
  then show ?thesis
    using True ins by (cases e) (auto simp: execute_save_def)
next
  case False
  then have "execute_save H e db = entity_save H e db"
    by (cases e) (simp_all add: execute_save_def)
  moreover obtain es where "table_holds H db (type_of e) es"
    using assms(1) by (auto elim: db_okE)
  ultimately show ?thesis
    using entity_save_ok_iff[OF _ assms(2,3)] by simp
qed

lemma delete_id_ok_iff:
  assumes "db_ok H db"
  shows "(\<exists>db'. delete_id i db = Inr db') \<longleftrightarrow> deletable i"
proof -
  obtain es where es: "table_holds H db (id_typ i) es"
    using assms by (auto elim: db_okE)
  show ?thesis
  proof (cases "id_typ i = MlsPendingMessageT")
    case True
    then show ?thesis
      using es by (simp add: delete_id_def execute_delete_def pending_message_delete_all_matching_def
          delete_helper_def delete_where_def table_of_def table_holds_def Let_def deletable_def)
  next
    case False
    show ?thesis
    proof (cases "id_typ i = PskBundleT")
      case True
      then show ?thesis
        using es psk_key_column_missing(2)[of H db es]
        by (auto simp: delete_id_def execute_delete_def deletable_def res_simps entity_id_primary_key_def)
    next
      case False
      have "(\<exists>db'. delete_id i db = Inr db') \<longleftrightarrow> (\<exists>k. entity_id_primary_key i = Inr k)"
        using entity_delete_ok[OF es] False \<open>id_typ i \<noteq> MlsPendingMessageT\<close>
        by (auto simp: delete_id_def execute_delete_def res_simps) blast
      then show ?thesis
        using False \<open>id_typ i \<noteq> MlsPendingMessageT\<close>
        by (auto simp: deletable_def entity_id_primary_key_def res_simps)
    qed
  qed
qed

lemma saves_ok_iff:
  assumes "db_ok H db" "sha256_sized H" "list_all storable es" "distinct (map (ident H) es)"
  shows "(\<exists>db'. foldE (execute_save H) es db = Inr db') \<longleftrightarrow> list_all (insertable H db) es"
  using assms(1,3,4)
proof (induction es arbitrary: db)
  case (Cons e es)
  have e: "(\<exists>db'. execute_save H e db = Inr db') \<longleftrightarrow> insertable H db e"
    using execute_save_ok_iff[OF Cons.prems(1) assms(2)] Cons.prems(2) by simp
  have "(\<exists>db'. foldE (execute_save H) es db1 = Inr db') \<longleftrightarrow> list_all (insertable H db) es"
    if db1: "execute_save H e db = Inr db1" for db1
  proof -
    have "insertable H db1 x \<longleftrightarrow> insertable H db x" if "x \<in> set es" for x
      using that fetch_after_save[OF assms(2) Cons.prems(1) _ db1, of "ident H x"] Cons.prems(2,3)
        insert_once_keyed[of "type_of x"] by (auto simp: insertable_def rev_image_eqI)
    moreover have "db_ok H db1"
      using execute_save_ok[OF Cons.prems(1) _ db1] Cons.prems(2) by simp
    ultimately show ?thesis
      using Cons.IH[of db1] Cons.prems(2,3) by (simp add: list_all_iff)
  qed
  then show ?case
    using e by (auto simp: res_simps)
qed simp

lemma deletes_ok_iff:
  "db_ok H db \<Longrightarrow> (\<exists>db'. foldE delete_id is db = Inr db') \<longleftrightarrow> list_all deletable is"
proof (induction "is" arbitrary: db)
  case (Cons i "is")
  then show ?case
    using delete_id_ok_iff[OF Cons.prems, of i] delete_id_ok[OF Cons.prems, of i]
    by (auto simp: res_simps)
qed simp

lemma commit_ok_iff:
  assumes "db_ok H db" "sha256_sized H" "wf_tx H tx" "permuting HO"
  shows "(\<exists>db'. tx_commit H HO (\<lambda>_. None) tx db = Inr db') \<longleftrightarrow>
    list_all (insertable H db) (cached_entities tx) \<and> list_all deletable (deleted tx)"
proof -
  let ?es = "ord_entities HO (cached_entities tx)" and ?is = "ord_ids HO (deleted tx)"
  have perm: "mset ?es = mset (cached_entities tx)" "mset ?is = mset (deleted tx)"
    using assms(4) by (simp_all add: permuting_def)
  have dist: "distinct (map (ident H) ?es)"
    using cached_entities_distinct[OF assms(3)] perm(1)
    by (metis distinct_map mset_eq_imp_distinct_iff mset_eq_setD)
  have stor: "list_all storable ?es"
    using cached_entities_storable[OF assms(3)] mset_eq_setD[OF perm(1)] by (simp add: list_all_iff)
  have "db_ok H db1" if "foldE (execute_save H) ?es db = Inr db1" for db1
    using foldE_invariant[OF that, of "db_ok H"] assms(1) stor execute_save_ok
    by (metis list_all_iff)
  then show ?thesis
    unfolding commit_no_failure
    using saves_ok_iff[OF assms(1,2) stor dist] deletes_ok_iff[of H _ ?is]
      mset_eq_setD[OF perm(1)] mset_eq_setD[OF perm(2)]
    by (auto simp: res_simps list_all_iff)
qed

section \<open>Transactions\<close>

text \<open>
  Concrete hash functions and iteration order, for the examples: a padded prefix, a length, and
  the order of insertion.
\<close>

definition example_hashes :: hashes where
  "example_hashes = \<lparr>sha256 = (\<lambda>x. take 32 (x @ replicate 32 0)), xxh3_128 = (\<lambda>x. of_nat (length x))\<rparr>"

definition example_order :: hash_order where
  "example_order = \<lparr>ord_entities = (\<lambda>xs. xs), ord_ids = (\<lambda>xs. xs)\<rparr>"

definition keypackage1 :: Entity where
  "keypackage1 = StoredKeypackage \<lparr>keypackage_ref = [1, 2], keypackage = [3]\<rparr>"

lemma example_params [simp]: "sha256_sized example_hashes" "permuting example_order"
  by (auto simp: sha256_sized_def permuting_def example_hashes_def example_order_def min_def)

lemma example_begin: "db_reachable example_hashes (fst (the (new_transaction (db_open empty_db))))"
proof -
  have "db_reachable example_hashes (db_open empty_db)"
    by (intro db_reachable.opened db_ok_empty)
  moreover have "new_transaction (db_open empty_db) = Some (fst (the (new_transaction (db_open empty_db))), Inr ())"
    by (simp add: new_transaction_def db_open_def ALLOWED_CONCURRENT_TRANSACTIONS_COUNT_def)
  ultimately show ?thesis
    using db_reachable.stepped db_step.begin_tx by blast
qed

lemma example_reachable:
  "db_reachable example_hashes (mutate example_hashes (Save None keypackage1)
     (fst (the (new_transaction (db_open empty_db)))))"
proof -
  have "db_reachable example_hashes (db_open empty_db)"
    by (intro db_reachable.opened db_ok_empty)
  moreover have "new_transaction (db_open empty_db) = Some (fst (the (new_transaction (db_open empty_db))), Inr ())"
    by (simp add: new_transaction_def db_open_def ALLOWED_CONCURRENT_TRANSACTIONS_COUNT_def)
  ultimately have "db_reachable example_hashes (fst (the (new_transaction (db_open empty_db))))"
    using db_reachable.stepped db_step.begin_tx by blast
  then show ?thesis
    by (rule db_reachable.stepped) (simp add: db_step.mutate_tx mutation_ok_def keypackage1_def is_none_or_def)
qed

lemma example_commit_ok:
  "snd (commit_transaction example_hashes example_order (\<lambda>_. None)
     (mutate example_hashes (Save None keypackage1) (fst (the (new_transaction (db_open empty_db)))))) = Inr ()"
  by (simp add: mutate_def db_save_def new_transaction_def db_open_def new_tx_def keypackage1_def
      ALLOWED_CONCURRENT_TRANSACTIONS_COUNT_def tx_save_def or_default_def Let_def commit_transaction_def
      get_conn_def commit_no_failure cached_entities_def example_order_def execute_save_def
      entity_save_def exec_insert_def table_of_def empty_db_def from_collection_name_def
      keypackage_insert_def derived_insert_def unknown_column_def)

lemma mutate_keeps:
  assumes "transaction d \<noteq> None"
  shows "transaction (mutate H m d) \<noteq> None \<and> conn (mutate H m d) = conn d \<and> permits (mutate H m d) = permits d"
  using assms
  by (cases m) (auto simp: mutate_def db_save_def db_remove_def db_remove_pending_messages_def
      split: option.splits sum.splits)

lemma commit_reads:
  assumes "sha256_sized H" "permuting HO" "db_reachable H d"
    and "commit_transaction H HO io d = (d', Inr ())"
    and "keyed E" "type_of_key k = primary_key_type E" "wf_key k"
  shows "db_get E k d' = db_get E k d"
proof -
  have inv: "db_inv H d"
    using reachable_inv[OF assms(3)] .
  obtain tx db db' where d: "transaction d = Some tx" "conn d = Some db"
    "tx_commit H HO io tx db = Inr db'" "d' = drop_transaction (d\<lparr>conn := Some db'\<rparr>)"
    using assms(4) by (rule commit_transaction_Inr)
  let ?i = "\<lparr>id_typ = E, key_id = key_bytes k\<rparr>"
  have "db_ok H db" "wf_tx H tx"
    using inv d(1,2) by (simp_all add: db_inv_def)
  then have "fetch_id db' ?i = (case get_by_entity_id E ?i tx of Some r \<Rightarrow> r | None \<Rightarrow> fetch_id db ?i)"
    using commit_overlay(2)[OF assms(1) _ _ assms(2) d(3), of ?i] assms(5) by simp
  moreover have "db_inv H d'"
    using commit_inv[OF inv assms(2,4)] .
  ultimately show ?thesis
    using db_get_fetch[OF assms(1) inv d(2) assms(5-7)] db_get_fetch[OF assms(1), of d' db' E k] assms(5-7) d
    by (simp add: drop_transaction_def)
qed



text \<open>
  C31: Reads are typed.  A read by key returns an entity of the type asked for, and listing a type on
  an open database always succeeds with entities of that type: the downcast of cached records
  never panics, although one table of the cache holds values of any type.
\<close>

theorem reads_are_typed:
  assumes "permuting HO" "db_reachable H d"
  shows "(\<forall>e. db_get E k d = Inr (Some e) \<longrightarrow> type_of e = E)
    \<and> (case conn d of None \<Rightarrow> db_load_all H HO E d = Inl Closed
       | Some _ \<Rightarrow> \<exists>es. db_load_all H HO E d = Inr es \<and> (\<forall>e \<in> set es. type_of e = E))"
proof (intro conjI allI impI)
  show "type_of e = E" if "db_get E k d = Inr (Some e)" for e
    using that by (rule db_get_typed)
  have inv: "db_inv H d"
    using reachable_inv[OF assms(2)] .
  show "case conn d of None \<Rightarrow> db_load_all H HO E d = Inl Closed
    | Some _ \<Rightarrow> \<exists>es. db_load_all H HO E d = Inr es \<and> (\<forall>e \<in> set es. type_of e = E)"
  proof (cases "conn d")
    case (Some db)
    then obtain es where es: "table_holds H db E es"
      using inv unfolding db_inv_def db_ok_def by auto
    have ty: "\<forall>e \<in> set es. type_of e = E"
      using es by (auto simp: table_holds_def)
    show ?thesis
    proof (cases "transaction d")
      case None
      then show ?thesis
        using Some load_all_table[OF es] ty by (simp add: db_load_all_def get_conn_def)
    next
      case (Some tx)
      then obtain cs where cs: "find_all_in_cache HO E tx = Inr cs" "\<forall>e \<in> set cs. type_of e = E"
        using find_all_in_cache_ok[OF _ assms(1), of H tx E] inv by (auto simp: db_inv_def)
      have "\<forall>e \<in> set (cs @ es). type_of e = E"
        using cs(2) ty by auto
      from merge_records_props(2)[OF this, of H tx] this show ?thesis
        using Some \<open>conn d = Some db\<close> cs(1) load_all_table[OF es]
        by (auto simp: db_load_all_def get_conn_def find_all_def)
    qed
  qed (simp add: db_load_all_def get_conn_def)
qed

theorem reads_are_typed_witness:
  "\<exists>es. db_load_all example_hashes example_order KeyPackageT
      (mutate example_hashes (Save None keypackage1) (fst (the (new_transaction (db_open empty_db))))) = Inr es
    \<and> (\<forall>e \<in> set es. type_of e = KeyPackageT)"
proof -
  let ?d = "mutate example_hashes (Save None keypackage1) (fst (the (new_transaction (db_open empty_db))))"
  have "conn ?d \<noteq> None"
    using mutate_keeps[of "fst (the (new_transaction (db_open empty_db)))" example_hashes "Save None keypackage1"]
    by (simp add: new_transaction_def db_open_def ALLOWED_CONCURRENT_TRANSACTIONS_COUNT_def)
  then show ?thesis
    using reads_are_typed[OF example_params(2) example_reachable, of KeyPackageT]
    by (auto split: option.splits)
qed



lemma mutates_keep:
  assumes "transaction d \<noteq> None"
  shows "transaction (foldl (\<lambda>d m. mutate H m d) d ms) \<noteq> None
     \<and> conn (foldl (\<lambda>d m. mutate H m d) d ms) = conn d \<and> permits (foldl (\<lambda>d m. mutate H m d) d ms) = permits d"
  using assms by (induction ms arbitrary: d) (use mutate_keeps in force)+

text \<open>
  Rolling a transaction back restores the database exactly: whatever was saved and removed in
  between, the handle is the one from before the transaction was opened.
\<close>

theorem rollback_restores:
  assumes "db_reachable H d" "new_transaction d = Some (d1, r)"
  shows "rollback_transaction (foldl (\<lambda>d m. mutate H m d) d1 ms) = (d, Inr ())"
proof -
  have "permits d = 1" "transaction d = None"
    using reachable_inv[OF assms(1)] assms(2)
    by (auto simp: db_inv_def new_transaction_def split: option.splits if_splits)
  moreover from this have "d1 = d\<lparr>permits := 0, transaction := Some new_tx\<rparr>"
    using assms(2) by (auto simp: new_transaction_def)
  ultimately show ?thesis
    using mutates_keep[of d1 H ms]
    by (cases d) (auto simp: rollback_transaction_def drop_transaction_def)
qed

theorem rollback_restores_witness:
  "rollback_transaction (foldl (\<lambda>d m. mutate example_hashes m d)
      (fst (the (new_transaction (db_open empty_db))))
      [Save None keypackage1, Remove KeyPackageT (BytesKey [7])]) = (db_open empty_db, Inr ())"
proof (rule rollback_restores)
  show "db_reachable example_hashes (db_open empty_db)"
    by (intro db_reachable.opened db_ok_empty)
  show "new_transaction (db_open empty_db) = Some (fst (the (new_transaction (db_open empty_db))), Inr ())"
    by (simp add: new_transaction_def db_open_def ALLOWED_CONCURRENT_TRANSACTIONS_COUNT_def)
qed

text \<open>
  C5: At most one transaction is in progress: in every reachable state opening another one waits
  exactly while a transaction is in progress, and the transaction in progress keeps each
  entity in the table of its type, under its own identifier, and not marked deleted.
\<close>

theorem one_transaction_at_a_time:
  assumes "db_reachable H d"
  shows "(new_transaction d = None \<longleftrightarrow> transaction d \<noteq> None) \<and>
     (\<forall>tx. transaction d = Some tx \<longrightarrow> wf_tx H tx)"
  using reachable_inv[OF assms] by (auto simp: db_inv_def new_transaction_def split: option.splits)

theorem one_transaction_at_a_time_witness:
  "new_transaction (mutate example_hashes (Save None keypackage1)
      (fst (the (new_transaction (db_open empty_db))))) = None"
proof -
  have "transaction (mutate example_hashes (Save None keypackage1)
      (fst (the (new_transaction (db_open empty_db))))) \<noteq> None"
    by (intro mutate_keeps[THEN conjunct1])
       (simp add: new_transaction_def db_open_def ALLOWED_CONCURRENT_TRANSACTIONS_COUNT_def)
  then show ?thesis
    using one_transaction_at_a_time[OF example_reachable] by blast
qed

text \<open>
  A commit that fails leaves the transaction in progress and the database as it was: until
  someone rolls back, opening a transaction waits, the non-waiting variant reports one in
  progress, the database cannot be closed, and reads still see the uncommitted writes.
\<close>

theorem failed_commit_keeps_transaction:
  assumes "db_reachable H d" "transaction d = Some tx" "commit_transaction H HO io d = (d', Inl e)"
  shows "d' = d \<and> new_transaction d' = None \<and> db_close d' = None
     \<and> try_new_immediate_transaction d' = (d', Inl TransactionInProgress)"
  using reachable_inv[OF assms(1)] assms(2,3)
  by (auto simp: db_inv_def commit_transaction_def new_transaction_def db_close_def db_take_def
      try_new_immediate_transaction_def split: sum.splits)

theorem failed_commit_keeps_transaction_witness:
  "let d = mutate example_hashes (Save None keypackage1) (fst (the (new_transaction (db_open empty_db))));
       d' = fst (commit_transaction example_hashes example_order (\<lambda>_. Some (EngineFailure 0)) d)
   in d' = d \<and> new_transaction d' = None"
proof -
  let ?d = "mutate example_hashes (Save None keypackage1) (fst (the (new_transaction (db_open empty_db))))"
  obtain tx where tx: "transaction ?d = Some tx" "cached_entities tx = [keypackage1]"
    by (simp add: mutate_def db_save_def new_transaction_def db_open_def new_tx_def keypackage1_def
        ALLOWED_CONCURRENT_TRANSACTIONS_COUNT_def tx_save_def or_default_def Let_def cached_entities_def)
  then have "commit_transaction example_hashes example_order (\<lambda>_. Some (EngineFailure 0)) ?d
      = (?d, Inl (DbError (EngineFailure 0)))"
    using mutate_keeps[of "fst (the (new_transaction (db_open empty_db)))" example_hashes "Save None keypackage1"]
    by (simp add: commit_transaction_def tx_commit_def engine_def example_order_def get_conn_def
        new_transaction_def db_open_def ALLOWED_CONCURRENT_TRANSACTIONS_COUNT_def)
  from failed_commit_keeps_transaction[OF example_reachable tx(1) this] this show ?thesis
    by (simp add: Let_def)
qed

text \<open>
  C15: Without engine failures a commit succeeds if and only if no entity saved with a plain insert
  is already stored, no pre-shared key bundle is deleted, and every deleted identifier decodes to
  a key of its type.  The order of the hash maps plays no part.
\<close>

theorem commit_succeeds_iff:
  assumes "sha256_sized H" "permuting HO" "db_reachable H d"
    and "transaction d = Some tx" "conn d = Some db"
  shows "snd (commit_transaction H HO (\<lambda>_. None) d) = Inr () \<longleftrightarrow>
     list_all (insertable H db) (cached_entities tx) \<and> list_all deletable (deleted tx)"
proof -
  have "db_ok H db" "wf_tx H tx"
    using reachable_inv[OF assms(3)] assms(4,5) by (simp_all add: db_inv_def)
  from commit_ok_iff[OF this(1) assms(1) this(2) assms(2)] show ?thesis
    using assms(4,5)
    by (auto simp: commit_transaction_def get_conn_def split: sum.splits)
qed

theorem commit_succeeds_iff_witness:
  "\<exists>tx. transaction (mutate example_hashes (Save None keypackage1)
        (fst (the (new_transaction (db_open empty_db))))) = Some tx
    \<and> list_all (insertable example_hashes empty_db) (cached_entities tx) \<and> list_all deletable (deleted tx)"
proof -
  let ?d = "mutate example_hashes (Save None keypackage1) (fst (the (new_transaction (db_open empty_db))))"
  have "transaction ?d \<noteq> None \<and> conn ?d = Some empty_db"
    using mutate_keeps[of "fst (the (new_transaction (db_open empty_db)))" example_hashes "Save None keypackage1"]
    by (simp add: new_transaction_def db_open_def ALLOWED_CONCURRENT_TRANSACTIONS_COUNT_def)
  then obtain tx where "transaction ?d = Some tx" "conn ?d = Some empty_db"
    by blast
  with commit_succeeds_iff[OF example_params example_reachable this] example_commit_ok show ?thesis
    by blast
qed

text \<open>
  C9: An entity saved inside a transaction is what reading its key returns, with the fields the save
  generated, and no other key of any type reads differently.
\<close>

theorem read_your_writes:
  assumes "db_reachable H d" "mutation_ok (Save now e)"
    and "db_save H now e d = (d', Inr g)" "pre_save now e = Inr (g, e')"
  shows "db_get (type_of e') (primary_key H e') d' = Inr (Some e')
     \<and> (\<forall>E k. \<lparr>id_typ = E, key_id = key_bytes k\<rparr> \<noteq> ident H e' \<longrightarrow> db_get E k d' = db_get E k d)"
  using db_get_after_save[OF reachable_inv[OF assms(1)] assms(2-4)] by (simp add: ident_def)

theorem read_your_writes_witness:
  "db_get KeyPackageT (BytesKey [1, 2])
     (mutate example_hashes (Save None keypackage1) (fst (the (new_transaction (db_open empty_db)))))
   = Inr (Some keypackage1)"
proof -
  let ?d = "fst (the (new_transaction (db_open empty_db)))"
  have "db_reachable example_hashes ?d"
    by (rule db_reachable.stepped[OF db_reachable.opened[OF db_ok_empty] db_step.begin_tx])
       (simp add: new_transaction_def db_open_def ALLOWED_CONCURRENT_TRANSACTIONS_COUNT_def)
  moreover have "db_save example_hashes None keypackage1 ?d
      = (mutate example_hashes (Save None keypackage1) ?d, Inr None)"
    by (simp add: mutate_def db_save_def new_transaction_def db_open_def keypackage1_def tx_save_def Let_def
        ALLOWED_CONCURRENT_TRANSACTIONS_COUNT_def)
  moreover have "mutation_ok (Save None keypackage1)" "pre_save None keypackage1 = Inr (None, keypackage1)"
    by (simp_all add: mutation_ok_def keypackage1_def is_none_or_def)
  ultimately show ?thesis
    using read_your_writes[of example_hashes ?d None keypackage1 _ None keypackage1]
    by (simp add: keypackage1_def)
qed

text \<open>
  An entity removed inside a transaction reads as absent, whether it was saved before in the
  same transaction or persisted, and no other key reads differently.
\<close>

theorem remove_then_absent:
  assumes "db_reachable H d" "transaction d \<noteq> None"
  shows "\<exists>d'. db_remove E k d = (d', Inr ()) \<and> db_get E k d' = Inr None
     \<and> (\<forall>F l. \<lparr>id_typ = F, key_id = key_bytes l\<rparr> \<noteq> \<lparr>id_typ = E, key_id = key_bytes k\<rparr> \<longrightarrow>
          db_get F l d' = db_get F l d)"
proof -
  obtain d' where "db_remove E k d = (d', Inr ())"
    using assms(2) db_remove_in_transaction by blast
  then show ?thesis
    using db_get_after_remove[OF reachable_inv[OF assms(1)]] by simp
qed

theorem remove_then_absent_witness:
  "\<exists>d'. db_remove KeyPackageT (BytesKey [1, 2]) (mutate example_hashes (Save None keypackage1)
        (fst (the (new_transaction (db_open empty_db))))) = (d', Inr ())
    \<and> db_get KeyPackageT (BytesKey [1, 2]) d' = Inr None"
proof -
  have "transaction (mutate example_hashes (Save None keypackage1)
      (fst (the (new_transaction (db_open empty_db))))) \<noteq> None"
    by (intro mutate_keeps[THEN conjunct1])
       (simp add: new_transaction_def db_open_def ALLOWED_CONCURRENT_TRANSACTIONS_COUNT_def)
  from remove_then_absent[OF example_reachable this] show ?thesis by blast
qed

section \<open>Searching credentials\<close>

lemma credential_row:
  assumes "table_holds H db StoredCredentialT (map StoredCredential cs)" "c \<in> set cs"
  shows "credential_from_row (credential_query_row (encode H (StoredCredential c))) = Inr c"
    and "is_none_or (find_earliest_validity f) (\<lambda>t. uint t < 2 ^ 63) \<Longrightarrow>
      credential_where f (encode H (StoredCredential c)) \<longleftrightarrow>
        credential_matches H (f\<lparr>find_hash := None, find_public_key := None\<rparr>) c"
proof -
  have "storable (StoredCredential c)"
    using assms by (auto simp: table_holds_def)
  then have "from_row (type_of (StoredCredential c)) (encode H (StoredCredential c)) = Inr (StoredCredential c)"
    by (rule from_row_encode)
  then show "credential_from_row (credential_query_row (encode H (StoredCredential c))) = Inr c"
    by (auto simp: res_simps)
  have "sql_unixepoch (sql_datetime (uint (created_at c))) = Integer (uint (created_at c))"
    using \<open>storable (StoredCredential c)\<close> uint_datetime_bound
    by (simp add: storable_def sql_datetime_def sql_unixepoch_def)
  then show "credential_where f (encode H (StoredCredential c)) \<longleftrightarrow>
        credential_matches H (f\<lparr>find_hash := None, find_public_key := None\<rparr>) c"
    by (auto simp: credential_where_def credential_matches_def is_none_or_def encode_def row_value_mk_row
        insert_defs sql_eq_def word_uint_eq_iff split: option.splits)
qed

lemma credential_lookup:
  assumes "table_holds H db StoredCredentialT (map StoredCredential cs)" "length h = 32"
  shows "credential_get H (Sha256Hash h) db = Inr (find (\<lambda>c. credential_primary_key H c = Sha256Hash h) cs)"
proof -
  have "entity_get StoredCredentialT (Sha256Hash h) db
      = Inr (find (\<lambda>e. primary_key H e = Sha256Hash h) (map StoredCredential cs))"
    using get_table[OF assms(1), of "Sha256Hash h"] by (simp add: keyed_def)
  moreover have "entity_get StoredCredentialT (Sha256Hash h) db
      = map_err DbError (mapR (map_option StoredCredential) (credential_get H (Sha256Hash h) db))"
    by (simp add: entity_get_def get_helper_def credential_get_def bindE_def mapR_def map_err_def
        first_row_def split: sum.splits list.splits)
  ultimately show ?thesis
    by (cases "credential_get H (Sha256Hash h) db") (auto simp: find_map map_option.compositionality
        dest!: option.inj_map_strong[rotated])
qed

lemma filter_find_key:
  assumes "distinct (map key xs)" "\<And>x. x \<in> set xs \<Longrightarrow> Q x \<Longrightarrow> key x = k"
  shows "filter Q (case find (\<lambda>x. key x = k) xs of None \<Rightarrow> [] | Some x \<Rightarrow> [x]) = filter Q xs"
  using assms
proof (induction xs)
  case (Cons x xs)
  have "filter Q xs = []" if "key x = k"
    using that Cons.prems by (auto simp: filter_empty_conv rev_image_eqI)
  then show ?case
    using Cons by auto
qed simp

lemma credentials_of_type:
  "\<forall>e \<in> set es. type_of e = StoredCredentialT \<Longrightarrow> \<exists>cs. es = map StoredCredential cs"
proof (induction es)
  case (Cons e es)
  then obtain cs where "es = map StoredCredential cs" by auto
  moreover obtain c where "e = StoredCredential c"
    using Cons.prems by (cases e) auto
  ultimately have "e # es = map StoredCredential (c # cs)" by simp
  then show ?case by (rule exI)
qed simp

text \<open>
  C17: The credential search, with its shortcut through the primary key and its assembled query,
  returns exactly the stored credentials that satisfy the filters, in table order.
\<close>

theorem credential_search_is_filter:
  assumes "sha256_sized H" "db_ok H db" "is_none_or (find_hash f) (\<lambda>h. length h = 32)"
    and "is_none_or (find_earliest_validity f) (\<lambda>t. uint t < 2 ^ 63)"
  shows "\<exists>cs. entity_load_all StoredCredentialT db = Inr (map StoredCredential cs)
    \<and> credential_find_all_matching H f db = Inr (filter (credential_matches H f) cs)"
proof -
  obtain es where es: "table_holds H db StoredCredentialT es"
    using assms(2) by (auto elim: db_okE)
  then obtain cs where cs: "es = map StoredCredential cs"
    using credentials_of_type[of es] by (auto simp: table_holds_def)
  note holds = es[unfolded cs]
  have dist: "distinct (map (credential_primary_key H) cs)"
    using holds by (simp add: table_holds_def keyed_def comp_def)
  have by_hash: "mapR (\<lambda>found. filter (credential_matches H f) (case found of None \<Rightarrow> [] | Some c \<Rightarrow> [c]))
      (credential_get H (Sha256Hash h) db) = Inr (filter (credential_matches H f) cs)"
    if "length h = 32" "\<And>c. credential_matches H f c \<Longrightarrow> credential_primary_key H c = Sha256Hash h" for h
    using credential_lookup[OF holds that(1)] filter_find_key[OF dist, of "credential_matches H f"] that(2) by simp
  have "credential_find_all_matching H f db = Inr (filter (credential_matches H f) cs)"
  proof (cases "find_hash f")
    case (Some h)
    then show ?thesis
      using by_hash[of h] assms(3) by (simp add: credential_find_all_matching_def is_none_or_def credential_matches_def)
  next
    case None
    show ?thesis
    proof (cases "find_public_key f")
      case (Some pk)
      then show ?thesis
        using by_hash[of "sha256 H pk"] None assms(1)
        by (simp add: credential_find_all_matching_def hash_from_def sha256_sized_def credential_matches_def
            is_none_or_def credential_primary_key_def)
    next
      case none: None
      have "filter (credential_where f) (map (encode H) es)
          = map (\<lambda>c. encode H (StoredCredential c)) (filter (credential_matches H f) cs)"
        using credential_row(2)[OF holds _ assms(4)] None none
        by (simp add: cs filter_map comp_def credential_matches_def cong: filter_cong)
      moreover have "mapE (\<lambda>r. credential_from_row (credential_query_row r))
          (map (\<lambda>c. encode H (StoredCredential c)) (filter (credential_matches H f) cs))
          = Inr (map (\<lambda>c. c) (filter (credential_matches H f) cs))"
        unfolding mapE_map using credential_row(1)[OF holds] by (intro mapE_total) simp
      ultimately show ?thesis
        using None none assms(4) es
        by (simp add: credential_find_all_matching_def select_all_def table_of_def table_holds_def)
    qed
  qed
  then show ?thesis
    using load_all_table[OF es] cs by blast
qed

theorem credential_search_is_filter_witness:
  "\<exists>cs. entity_load_all StoredCredentialT empty_db = Inr (map StoredCredential cs)
    \<and> credential_find_all_matching example_hashes
        \<lparr>find_hash = None, find_public_key = Some [1], find_session_id = Some [2],
         find_ciphersuite = Some 1, find_earliest_validity = None\<rparr> empty_db
      = Inr (filter (credential_matches example_hashes
        \<lparr>find_hash = None, find_public_key = Some [1], find_session_id = Some [2],
         find_ciphersuite = Some 1, find_earliest_validity = None\<rparr>) cs)"
  by (rule credential_search_is_filter[OF example_params(1) db_ok_empty]) (simp_all add: is_none_or_def)

section \<open>Entities that persisted reads do not find\<close>

text \<open>
  C18: Outside a transaction, Proteus sessions, revocation lists and intermediate certificates are
  never found by key, whatever is stored: their key is written as text and compared as a blob.
\<close>

theorem text_keyed_entities_unreadable:
  assumes "db_reachable H d" "transaction d = None" "conn d = Some db"
    and "text_keyed E" "type_of_key k = StringK"
  shows "db_get E k d = Inr None"
proof -
  have "db_ok H db"
    using reachable_inv[OF assms(1)] assms(3) by (simp add: db_inv_def)
  then obtain es where "table_holds H db E es"
    by (auto elim: db_okE)
  from text_keyed_get[OF this assms(4,5)] show ?thesis
    using assms(2,3) by (simp add: db_get_def get_conn_def)
qed

definition session1 :: Entity where
  "session1 = ProteusSession \<lparr>proteus_session_id = ascii ''alice'', session_record = [9]\<rparr>"

theorem text_keyed_entities_unreadable_witness:
  "\<exists>db. execute_save example_hashes session1 empty_db = Inr db
    \<and> entity_load_all ProteusSessionT db = Inr [session1]
    \<and> db_get ProteusSessionT (primary_key example_hashes session1) (db_open db) = Inr None"
proof -
  have "table_holds example_hashes empty_db ProteusSessionT []"
    using db_ok_empty[of example_hashes] by (simp add: table_holds_def empty_db_def from_collection_name_def)
  moreover have "insertable example_hashes empty_db session1" "storable session1"
    by (simp_all add: insertable_def insert_once_def session1_def storable_def)
  ultimately obtain db where db: "execute_save example_hashes session1 empty_db = Inr db"
    using execute_save_ok_iff[OF db_ok_empty example_params(1)] by blast
  have ok: "db_ok example_hashes db"
    using execute_save_ok[OF db_ok_empty \<open>storable session1\<close> db] .
  have "entity_save example_hashes session1 empty_db = Inr db"
    using db by (simp add: execute_save_def session1_def)
  from save_table[OF \<open>table_holds example_hashes empty_db ProteusSessionT []\<close> _ \<open>storable session1\<close> this]
  have "table_holds example_hashes db ProteusSessionT [session1]"
    by (simp add: session1_def)
  moreover have "db_get ProteusSessionT (primary_key example_hashes session1) (db_open db) = Inr None"
    by (rule text_keyed_entities_unreadable[OF db_reachable.opened[OF ok]])
       (simp_all add: db_open_def text_keyed_def session1_def)
  ultimately show ?thesis
    using load_all_table db by blast
qed

text \<open>
  Outside a transaction every read of a pre-shared key bundle is a database error, and so is the
  deletion of one, because the statements name a column the table does not have.
\<close>

theorem psk_bundle_reads_fail:
  assumes "db_reachable H d" "transaction d = None" "conn d = Some db"
  shows "db_get PskBundleT k d = Inl (DbError (NoSuchColumn ''id''))
    \<and> entity_delete PskBundleT k db = Inl (DbError (NoSuchColumn ''id''))"
proof -
  have "db_ok H db"
    using reachable_inv[OF assms(1)] assms(3) by (simp add: db_inv_def)
  then obtain es where "table_holds H db PskBundleT es"
    by (auto elim: db_okE)
  from psk_key_column_missing[OF this] show ?thesis
    using assms(2,3) by (simp add: db_get_def get_conn_def)
qed

theorem psk_bundle_reads_fail_witness:
  "db_get PskBundleT (BytesKey [1]) (db_open empty_db) = Inl (DbError (NoSuchColumn ''id''))"
  using psk_bundle_reads_fail[OF db_reachable.opened[OF db_ok_empty], of empty_db "BytesKey [1]"]
  by (simp add: db_open_def)

section \<open>Round trips\<close>

text \<open>
  An identifier made from a primary key gives the key and its type back, and identifiers of two
  keys of one type are equal only if the keys are.
\<close>

theorem entity_id_round_trip:
  assumes "type_of_key k = primary_key_type E" "wf_key k" "from_primary_key E k = Some i"
  shows "entity_id_primary_key i = Inr k \<and> id_typ i = E
    \<and> (\<forall>k'. type_of_key k' = primary_key_type E \<longrightarrow> wf_key k' \<longrightarrow> from_primary_key E k' = Some i \<longrightarrow> k' = k)"
  using assms key_from_key_bytes[OF assms(2)]
  by (auto simp: from_primary_key_def entity_id_primary_key_def intro: key_bytes_inj)

theorem entity_id_round_trip_witness:
  "entity_id_primary_key \<lparr>id_typ = ProteusPrekeyT, key_id = [2, 1]\<rparr> = Inr (U16Key 258)"
proof -
  have "key_bytes (U16Key 258) = [2, 1]"
    by code_simp
  then show ?thesis
    using entity_id_round_trip[of "U16Key 258" ProteusPrekeyT "\<lparr>id_typ = ProteusPrekeyT, key_id = [2, 1]\<rparr>"]
    by (simp add: from_primary_key_def del: key_bytes.simps)
qed

text \<open>
  Every entity type reads back what it saved: the row a save writes, read through the type's own
  row decoder, is the entity, for entities as the library builds them.
\<close>

theorem saved_row_reads_back:
  assumes "db_ok H db" "storable e" "entity_save H e db = Inr db'"
  shows "\<exists>es. entity_load_all (type_of e) db' = Inr es \<and> e \<in> set es"
proof -
  obtain es where "table_holds H db (type_of e) es"
    using assms(1) by (rule db_okE)
  from load_all_table[OF save_table[OF this _ assms(2,3)]] show ?thesis
    by simp
qed

theorem saved_row_reads_back_witness:
  "\<exists>db es. entity_save example_hashes session1 empty_db = Inr db
    \<and> entity_load_all ProteusSessionT db = Inr es \<and> session1 \<in> set es"
proof -
  have st: "storable session1" "type_of session1 = ProteusSessionT"
    by (simp_all add: session1_def storable_def)
  then obtain db where "execute_save example_hashes session1 empty_db = Inr db"
    using execute_save_ok_iff[OF db_ok_empty example_params(1), of session1]
    by (auto simp: insertable_def insert_once_def)
  then have "entity_save example_hashes session1 empty_db = Inr db"
    by (simp add: execute_save_def session1_def)
  with saved_row_reads_back[OF db_ok_empty st(1) this] st(2) show ?thesis
    by auto
qed

end
