(* ===== verification/Pending_Entities.thy ===== *)
theory Pending_Entities
  imports Keystore_Properties
begin

text \<open>
  Pending messages and pending groups: the two collections that are not addressed by a primary
  key of their table.  Buffered messages are removed by conversation, and the removal is executed
  after the saves of the same transaction; pending groups are upserted into a table without a
  uniqueness constraint.
\<close>

section \<open>Removal of pending messages\<close>

lemma foldE_establishes:
  assumes "foldE f xs s = Inr s'" "x \<in> set xs" "I s"
    and "\<And>y t t'. I t \<Longrightarrow> f y t = Inr t' \<Longrightarrow> I t'"
    and "\<And>t t'. I t \<Longrightarrow> f x t = Inr t' \<Longrightarrow> P t'"
    and "\<And>y t t'. I t \<Longrightarrow> P t \<Longrightarrow> f y t = Inr t' \<Longrightarrow> P t'"
  shows "P s'"
proof -
  obtain ys zs where "xs = ys @ x # zs"
    using assms(2) by (auto simp: in_set_conv_decomp)
  then obtain t t' where t: "foldE f ys s = Inr t" "f x t = Inr t'" "foldE f zs t' = Inr s'"
    using assms(1) by (auto simp: foldE_append res_simps)
  have "I t"
    by (rule foldE_invariant[where P = I, OF t(1) assms(3)]) (rule assms(4))
  then have "I t' \<and> P t'"
    using assms(4)[OF _ t(2)] assms(5)[OF _ t(2)] by simp
  then have "I s' \<and> P s'"
    by (rule foldE_invariant[where P = "\<lambda>u. I u \<and> P u", OF t(3)]) (auto intro: assms(4,6))
  then show ?thesis by simp
qed

definition no_messages :: "hashes \<Rightarrow> bytes \<Rightarrow> sql_db \<Rightarrow> bool" where
  "no_messages H c db \<longleftrightarrow>
     (\<exists>es. table_holds H db MlsPendingMessageT es \<and> (\<forall>e \<in> set es. \<not> message_of c e))"

lemma message_row:
  assumes "type_of e = MlsPendingMessageT"
  shows "sql_eq (row_value (encode H e) ''id'') (Blob c) \<longleftrightarrow> message_of c e"
  using assms
  by (cases e) (simp_all add: encode_def row_value_mk_row pending_message_insert_def sql_eq_def message_of_def)

lemma delete_id_messages:
  assumes "db_ok H db" "delete_id i db = Inr db'" "id_typ i = MlsPendingMessageT"
  shows "no_messages H (key_id i) db'"
proof -
  obtain es n where es: "table_holds H db MlsPendingMessageT es"
    "delete_where (collection_name MlsPendingMessageT) ''id'' (Blob (key_id i)) db = Inr (n, db')"
    using assms(1) delete_id_message[OF assms(3,2)] by (meson db_okE)
  have "\<not> message_of (key_id i) e"
    if "e \<in> set (filter (\<lambda>e. \<not> sql_eq (row_value (encode H e) ''id'') (Blob (key_id i))) es)" for e
    using that es(1) message_row[of e H "key_id i"] by (simp add: table_holds_def)
  then show ?thesis
    unfolding no_messages_def using delete_where_table[OF es] by blast
qed

lemma delete_id_keeps_no_messages:
  assumes "no_messages H c db" "delete_id i db = Inr db'"
  shows "no_messages H c db'"
proof -
  obtain es where es: "table_holds H db MlsPendingMessageT es" "\<forall>e \<in> set es. \<not> message_of c e"
    using assms(1) by (auto simp: no_messages_def)
  show ?thesis
  proof (cases "id_typ i = MlsPendingMessageT")
    case True
    obtain n where "delete_where (collection_name MlsPendingMessageT) ''id'' (Blob (key_id i)) db = Inr (n, db')"
      using delete_id_message[OF True assms(2)] by blast
    from delete_where_table[OF es(1) this] es(2) show ?thesis
      unfolding no_messages_def by (metis (no_types, lifting) filter_is_subset subset_iff)
  next
    case False
    then show ?thesis
      using es delete_id_other[OF assms(2), of MlsPendingMessageT H es] unfolding no_messages_def by auto
  qed
qed

lemma no_messages_found:
  assumes "no_messages H c db"
  shows "find_all_matching H (ConversationId c) db = Inr []"
proof -
  obtain es where es: "table_holds H db MlsPendingMessageT es" "\<forall>e \<in> set es. \<not> message_of c e"
    using assms by (auto simp: no_messages_def)
  then have "\<forall>e \<in> set es. \<not> sql_eq (row_value (encode H e) ''id'') (Blob c)"
    using message_row by (auto simp: table_holds_def)
  then have "filter (\<lambda>r. sql_eq (row_value r ''id'') (Blob c)) (map (encode H) es) = []"
    by (auto simp: filter_empty_conv)
  then show ?thesis
    using es(1) by (simp add: pending_message_find_all_matching_def select_where_def table_of_def table_holds_def)
qed

lemma commit_removes_messages:
  assumes "db_ok H db" "wf_tx H tx" "permuting HO" "tx_commit H HO io tx db = Inr db'"
    and "\<lparr>id_typ = MlsPendingMessageT, key_id = c\<rparr> \<in> set (deleted tx)"
  shows "no_messages H c db'"
proof -
  let ?es = "ord_entities HO (cached_entities tx)" and ?m = "\<lparr>id_typ = MlsPendingMessageT, key_id = c\<rparr>"
  obtain db1 where db1: "foldE (execute_save H) ?es db = Inr db1"
    "foldE delete_id (ord_ids HO (deleted tx)) db1 = Inr db'"
    using commit_statements[OF assms(4)] by (auto simp: res_simps)
  have "storable e" if "e \<in> set ?es" for e
    using that assms(3) cached_entities_storable[OF assms(2)]
    by (metis list_all_iff mset_eq_setD permuting_def)
  then have ok: "db_ok H db1"
    using foldE_invariant[OF db1(1), of "db_ok H"] assms(1) execute_save_ok by blast
  have m: "?m \<in> set (ord_ids HO (deleted tx))"
    using assms(3,5) by (metis mset_eq_setD permuting_def)
  show ?thesis
  proof (rule foldE_establishes[where I = "db_ok H", OF db1(2) m ok])
    show "no_messages H c t'" if "db_ok H t" "delete_id ?m t = Inr t'" for t t'
      using delete_id_messages[OF that] by simp
  qed (auto intro: delete_id_ok delete_id_keeps_no_messages)
qed

lemma mutate_keeps_marker:
  assumes "length c \<noteq> 16" "transaction d = Some tx" "\<lparr>id_typ = MlsPendingMessageT, key_id = c\<rparr> \<in> set (deleted tx)"
  shows "\<exists>tx'. transaction (mutate H m d) = Some tx' \<and> \<lparr>id_typ = MlsPendingMessageT, key_id = c\<rparr> \<in> set (deleted tx')"
proof (cases m)
  case (Save now e)
  have "ident H e' \<noteq> \<lparr>id_typ = MlsPendingMessageT, key_id = c\<rparr>" for e'
    using assms(1) by (cases e') (auto simp: ident_def pending_message_primary_key_def)
  then have "\<lparr>id_typ = MlsPendingMessageT, key_id = c\<rparr> \<in> set (deleted tx')" if "tx_save H now e tx = Inr (g, tx')" for g tx'
    using that assms(3) by (fastforce simp: tx_save_Inr)
  then show ?thesis
    using assms(2,3) Save
    by (cases "tx_save H now e tx") (auto simp: mutate_def db_save_def)
qed (use assms in \<open>auto simp: mutate_def db_remove_def tx_remove_def from_primary_key_def
      remove_by_entity_id_def Let_def db_remove_pending_messages_def tx_remove_pending_messages_def\<close>)

lemma mutates_keep_marker:
  assumes "length c \<noteq> 16" "transaction d = Some tx" "\<lparr>id_typ = MlsPendingMessageT, key_id = c\<rparr> \<in> set (deleted tx)"
  shows "\<exists>tx'. transaction (foldl (\<lambda>d m. mutate H m d) d ms) = Some tx'
     \<and> \<lparr>id_typ = MlsPendingMessageT, key_id = c\<rparr> \<in> set (deleted tx')"
  using assms(2,3)
proof (induction ms arbitrary: d tx)
  case (Cons m ms)
  obtain tx' where "transaction (mutate H m d) = Some tx'"
    "\<lparr>id_typ = MlsPendingMessageT, key_id = c\<rparr> \<in> set (deleted tx')"
    using mutate_keeps_marker[OF assms(1) Cons.prems] by blast
  then show ?case
    using Cons.IH by simp
qed simp

lemma mutates_reachable:
  assumes "db_reachable H d" "list_all mutation_ok ms"
  shows "db_reachable H (foldl (\<lambda>d m. mutate H m d) d ms)"
  using assms
proof (induction ms arbitrary: d)
  case (Cons m ms)
  then show ?case
    using db_reachable.stepped[OF Cons.prems(1) db_step.mutate_tx] by simp
qed simp

text \<open>
  C19: Once the buffered messages of a conversation have been removed in a transaction, the commit
  removes them whatever follows: messages of that conversation saved later in the same transaction
  are gone after the commit.
\<close>

theorem messages_saved_after_removal_are_lost:
  assumes "db_reachable H d" "permuting HO" "length c \<noteq> 16"
    and "db_remove_pending_messages c d = (d1, Inr ())" "list_all mutation_ok ms"
    and "commit_transaction H HO io (foldl (\<lambda>d m. mutate H m d) d1 ms) = (d2, Inr ())"
  shows "db_find_pending_messages H HO' c d2 = Inr []"
proof -
  obtain tx0 where tx0: "transaction d = Some tx0"
    "transaction d1 = Some (tx_remove_pending_messages c tx0)"
    using assms(4) by (auto simp: db_remove_pending_messages_def split: option.splits)
  have "d1 = mutate H (RemovePendingMessages c) d"
    using assms(4) by (simp add: mutate_def)
  then have reach: "db_reachable H (foldl (\<lambda>d m. mutate H m d) d1 ms)"
    using mutates_reachable[OF assms(1), of "RemovePendingMessages c # ms"] assms(5)
    by (simp add: mutation_ok_def)
  obtain tx where tx: "transaction (foldl (\<lambda>d m. mutate H m d) d1 ms) = Some tx"
    "\<lparr>id_typ = MlsPendingMessageT, key_id = c\<rparr> \<in> set (deleted tx)"
    using mutates_keep_marker[OF assms(3) tx0(2), of H ms] by (auto simp: tx_remove_pending_messages_def Let_def)
  obtain db db' where db: "conn (foldl (\<lambda>d m. mutate H m d) d1 ms) = Some db"
    "tx_commit H HO io tx db = Inr db'" "conn d2 = Some db'" "transaction d2 = None"
    using assms(6) tx(1) by (auto simp: drop_transaction_def elim!: commit_transaction_Inr)
  have "no_messages H c db'"
    using commit_removes_messages[OF _ _ assms(2) db(2) tx(2)] reachable_inv[OF reach] tx(1) db(1)
    by (simp add: db_inv_def)
  then show ?thesis
    using db(3,4) no_messages_found by (simp add: db_find_pending_messages_def get_conn_def)
qed

definition message1 :: Entity where
  "message1 = MlsPendingMessage \<lparr>foreign_id = [1], message = [5]\<rparr>"

definition example_removal :: Database where
  "example_removal = mutate example_hashes (RemovePendingMessages [1])
     (fst (the (new_transaction (db_open empty_db))))"

lemma mutate_simps:
  "mutate H (Save now e) d = fst (db_save H now e d)"
  "mutate H (Remove E k) d = fst (db_remove E k d)"
  "mutate H (RemovePendingMessages c) d = fst (db_remove_pending_messages c d)"
  by (simp_all add: mutate_def)

lemmas evaluate_tx = mutate_simps db_save_def db_remove_pending_messages_def tx_remove_pending_messages_def
  new_transaction_def db_open_def new_tx_def ALLOWED_CONCURRENT_TRANSACTIONS_COUNT_def tx_save_def
  or_default_def Let_def

lemmas evaluate_commit = commit_transaction_def get_conn_def commit_no_failure cached_entities_def
  example_order_def execute_save_def entity_save_def exec_insert_def table_of_def empty_db_def
  from_collection_name_def unknown_column_def conflicts_def delete_id_def execute_delete_def
  delete_helper_def delete_where_def

theorem messages_saved_after_removal_are_lost_witness:
  "let d = foldl (\<lambda>d m. mutate example_hashes m d) example_removal [Save None message1];
       d' = fst (commit_transaction example_hashes example_order (\<lambda>_. None) d)
   in db_find_pending_messages example_hashes example_order [1] d = Inr [message1]
      \<and> db_find_pending_messages example_hashes example_order [1] d' = Inr []"
proof -
  let ?start = "fst (the (new_transaction (db_open empty_db)))"
  let ?d = "foldl (\<lambda>d m. mutate example_hashes m d) example_removal [Save None message1]"
  let ?c = "commit_transaction example_hashes example_order (\<lambda>_. None) ?d"
  have "snd ?c = Inr ()"
    by (simp add: example_removal_def message1_def evaluate_tx evaluate_commit pending_message_insert_def
        pending_message_delete_all_matching_def)
  then have c: "?c = (fst ?c, Inr ())"
    by (metis prod.collapse)
  have rm: "db_remove_pending_messages [1] ?start = (example_removal, Inr ())"
    by (simp add: example_removal_def evaluate_tx)
  have "db_find_pending_messages example_hashes example_order [1] (fst ?c) = Inr []"
    by (rule messages_saved_after_removal_are_lost[OF example_begin example_params(2) _ rm _ c])
       (simp_all add: mutation_ok_def message1_def is_none_or_def)
  moreover have "to_be_bytes 16 w \<noteq> [1]" for w :: u128
  proof
    assume "to_be_bytes 16 w = [1]"
    then have "length (to_be_bytes 16 w) = 1" by simp
    then show False by simp
  qed
  then have "db_find_pending_messages example_hashes example_order [1] ?d = Inr [message1]"
    by (simp add: example_removal_def message1_def evaluate_tx db_find_pending_messages_def get_conn_def
        pending_message_find_all_matching_def select_where_def table_of_def empty_db_def
        from_collection_name_def tx_find_pending_messages_def find_all_in_cache_def example_order_def
        downcast_def merge_records_def message_of_def ident_def pending_message_primary_key_def
        unique_by_def)
  ultimately show ?thesis
    by (simp add: Let_def)
qed

lemma message_search_typed:
  assumes "find_all_matching H (ConversationId c) db = Inr ms" "m \<in> set ms"
  shows "type_of m = MlsPendingMessageT"
  using assms by (auto simp: res_simps)

text \<open>
  Removing the buffered messages of a conversation does not hide the persisted ones from the rest
  of the transaction: listing them afterwards still returns them, each message once.
\<close>

theorem removed_messages_still_listed:
  assumes "db_reachable H d" "conn d = Some db" "length c \<noteq> 16" "new_transaction d = Some (d1, r)"
    and "db_remove_pending_messages c d1 = (d2, Inr ())"
    and "find_all_matching H (ConversationId c) db = Inr ms"
  shows "\<exists>ms'. db_find_pending_messages H HO c d2 = Inr ms' \<and> set ms' \<subseteq> set ms
    \<and> primary_key H ` set ms' = primary_key H ` set ms"
proof -
  let ?marker = "\<lparr>id_typ = MlsPendingMessageT, key_id = c\<rparr>"
  have d2: "conn d2 = Some db" "transaction d2 = Some \<lparr>cache = [], deleted = [?marker]\<rparr>"
    using assms(2,4,5)
    by (auto simp: new_transaction_def db_remove_pending_messages_def tx_remove_pending_messages_def new_tx_def
        split: if_splits)
  let ?u = "unique_by (\<lambda>e. key_bytes (primary_key H e)) ms"
  have "ident H m \<noteq> ?marker" if "m \<in> set ms" for m
    using message_search_typed[OF assms(6) that] assms(3)
    by (cases m) (auto simp: ident_def pending_message_primary_key_def)
  then have keep: "filter (\<lambda>e. ident H e \<notin> {?marker}) ?u = ?u"
    using set_unique_by[of "\<lambda>e. key_bytes (primary_key H e)" ms] by (auto intro!: filter_True)
  have "db_find_pending_messages H HO c d2 = Inr ?u"
    using d2 assms(6) keep
    by (simp add: db_find_pending_messages_def get_conn_def tx_find_pending_messages_def find_all_in_cache_def
        merge_records_def del: find_all_matching.simps)
  moreover have "primary_key H ` set ms \<subseteq> primary_key H ` set ?u"
  proof
    fix k
    assume "k \<in> primary_key H ` set ms"
    then obtain m where m: "m \<in> set ms" "k = primary_key H m" by blast
    have "find (\<lambda>e. key_bytes (primary_key H e) = key_bytes k) ms \<noteq> None"
      using m by (auto simp: find_None_iff)
    then obtain m' where m': "find (\<lambda>e. key_bytes (primary_key H e) = key_bytes k) ?u = Some m'"
      by (auto simp: find_unique_by)
    then have u: "m' \<in> set ?u" "key_bytes (primary_key H m') = key_bytes k"
      using find_key_in[OF m'] by simp_all
    then have "type_of m' = MlsPendingMessageT" "type_of m = MlsPendingMessageT"
      using message_search_typed[OF assms(6)] set_unique_by[of "\<lambda>e. key_bytes (primary_key H e)" ms] m(1) by auto
    then have "primary_key H m' = primary_key H m"
      using u(2) m(2) by (intro key_bytes_inj) (cases m; cases m'; simp add: pending_message_primary_key_def)+
    then show "k \<in> primary_key H ` set ?u"
      using u(1) m(2) by (metis image_eqI)
  qed
  ultimately show ?thesis
    using set_unique_by[of "\<lambda>e. key_bytes (primary_key H e)" ms] by fastforce
qed

theorem removed_messages_still_listed_witness:
  "\<exists>db ms'. execute_save example_hashes message1 empty_db = Inr db
    \<and> db_find_pending_messages example_hashes example_order [1]
        (mutate example_hashes (RemovePendingMessages [1]) (fst (the (new_transaction (db_open db))))) = Inr ms'
    \<and> primary_key example_hashes message1 \<in> primary_key example_hashes ` set ms'"
proof -
  have st: "storable message1"
    by (simp add: message1_def storable_def)
  then obtain db where db: "execute_save example_hashes message1 empty_db = Inr db"
    using execute_save_ok_iff[OF db_ok_empty example_params(1), of message1]
    by (auto simp: insertable_def insert_once_def message1_def)
  have ok: "db_ok example_hashes db"
    using execute_save_ok[OF db_ok_empty st db] .
  have "table_holds example_hashes empty_db MlsPendingMessageT []"
    by (simp add: table_holds_def empty_db_def from_collection_name_def)
  then have "table_holds example_hashes db MlsPendingMessageT [message1]"
    using save_table[of example_hashes empty_db MlsPendingMessageT "[]" message1 db] st db
    by (simp add: execute_save_def message1_def)
  then have found: "find_all_matching example_hashes (ConversationId [1]) db = Inr [message1]"
    by (simp add: pending_message_find_all_matching_def select_where_def table_of_def table_holds_def
        message1_def encode_def mk_row_def pending_message_insert_def row_value_def sql_eq_def
        pending_message_from_row_def get_blob_def)
  let ?start = "fst (the (new_transaction (db_open db)))"
  have start: "new_transaction (db_open db) = Some (?start, Inr ())"
    by (simp add: new_transaction_def db_open_def ALLOWED_CONCURRENT_TRANSACTIONS_COUNT_def)
  have rm: "db_remove_pending_messages [1] ?start = (mutate example_hashes (RemovePendingMessages [1]) ?start, Inr ())"
    by (simp add: evaluate_tx)
  show ?thesis
    using removed_messages_still_listed[OF db_reachable.opened[OF ok] _ _ start rm found, of example_order] db
    by (auto simp: db_open_def)
qed

section \<open>Pending groups\<close>

lemma pending_group_row:
  "type_of e = PersistedMlsPendingGroupT \<Longrightarrow>
     sql_eq (row_value (encode H e) ''id'') (Blob i) \<longleftrightarrow> primary_key H e = BytesKey i"
  by (cases e) (simp_all add: encode_def row_value_mk_row pending_group_insert_def sql_eq_def)

lemma pending_group_get:
  assumes "table_holds H db PersistedMlsPendingGroupT es" "type_of_key k = BytesK"
  shows "entity_get PersistedMlsPendingGroupT k db = Inr (find (\<lambda>e. primary_key H e = k) es)"
proof -
  obtain i where i: "k = BytesKey i"
    using assms(2) by (cases k) auto
  have "sql_eq (row_value (encode H e) ''id'') (key_param k) \<longleftrightarrow> primary_key H e = k" if "e \<in> set es" for e
    using that assms(1) pending_group_row[of e H i] by (simp add: table_holds_def key_param_def i)
  then have "find (\<lambda>e. sql_eq (row_value (encode H e) ''id'') (key_param k)) es = find (\<lambda>e. primary_key H e = k) es"
    by (intro find_cong) auto
  moreover have "first_row (from_row PersistedMlsPendingGroupT)
        (filter (\<lambda>r. sql_eq (row_value r ''id'') (key_param k)) (map (encode H) es))
      = Inr (find (\<lambda>e. sql_eq (row_value (encode H e) ''id'') (key_param k)) es)"
    using assms(1) by (intro first_row_filter) (simp add: table_holds_def)
  ultimately show ?thesis
    using assms(1)
    by (simp add: entity_get_def get_helper_def select_where_def table_of_def table_holds_def)
qed

text \<open>
  Saving a pending group again does not replace it: the table has no uniqueness constraint, so
  the upsert adds a second row and reads keep returning the first one saved.
\<close>

theorem pending_group_upsert_is_stale:
  assumes "db_ok H db" "entity_save H (PersistedMlsPendingGroup g) db = Inr db'"
    and "entity_get PersistedMlsPendingGroupT (BytesKey (pending_id g)) db = Inr (Some old)"
  shows "entity_get PersistedMlsPendingGroupT (BytesKey (pending_id g)) db' = Inr (Some old)"
proof -
  obtain es where es: "table_holds H db PersistedMlsPendingGroupT es"
    using assms(1) by (auto elim: db_okE)
  have "table_holds H db' PersistedMlsPendingGroupT (es @ [PersistedMlsPendingGroup g])"
    using pending_group_save_appends[OF es assms(2)] .
  from pending_group_get[OF this] pending_group_get[OF es] assms(3) show ?thesis
    by (simp add: find_append)
qed

theorem pending_group_upsert_is_stale_witness:
  "\<exists>db db'.
     entity_save example_hashes (PersistedMlsPendingGroup
       \<lparr>pending_id = [1], pending_state = [2], pending_parent_id = None, custom_configuration = []\<rparr>) empty_db = Inr db
     \<and> entity_save example_hashes (PersistedMlsPendingGroup
       \<lparr>pending_id = [1], pending_state = [3], pending_parent_id = None, custom_configuration = []\<rparr>) db = Inr db'
     \<and> entity_get PersistedMlsPendingGroupT (BytesKey [1]) db' = Inr (Some (PersistedMlsPendingGroup
       \<lparr>pending_id = [1], pending_state = [2], pending_parent_id = None, custom_configuration = []\<rparr>))"
proof -
  let ?g = "\<lambda>s. \<lparr>pending_id = [1], pending_state = [s], pending_parent_id = None, custom_configuration = []\<rparr>"
  have savable: "\<exists>db'. entity_save example_hashes (PersistedMlsPendingGroup (?g s)) db = Inr db'"
    if "db_ok example_hashes db" for s db
    using execute_save_ok_iff[OF that example_params(1), of "PersistedMlsPendingGroup (?g s)"]
    by (simp add: insertable_def insert_once_def storable_def execute_save_def)
  obtain db where db: "entity_save example_hashes (PersistedMlsPendingGroup (?g 2)) empty_db = Inr db"
    using savable[OF db_ok_empty] by blast
  have ok: "db_ok example_hashes db"
    using execute_save_ok[OF db_ok_empty _, of "PersistedMlsPendingGroup (?g 2)"] db
    by (simp add: execute_save_def storable_def)
  obtain db' where db': "entity_save example_hashes (PersistedMlsPendingGroup (?g 3)) db = Inr db'"
    using savable[OF ok] by blast
  have "table_holds example_hashes empty_db PersistedMlsPendingGroupT []"
    by (simp add: table_holds_def empty_db_def from_collection_name_def)
  from pending_group_save_appends[OF this db]
  have "entity_get PersistedMlsPendingGroupT (BytesKey [1]) db = Inr (Some (PersistedMlsPendingGroup (?g 2)))"
    using pending_group_get[of example_hashes db "[PersistedMlsPendingGroup (?g 2)]" "BytesKey [1]"] by simp
  with pending_group_upsert_is_stale[OF ok db'] show ?thesis
    using db db' by auto
qed

section \<open>Searching inside a transaction\<close>

lemma groups_of_type:
  "\<forall>e \<in> set es. type_of e = PersistedMlsGroupT \<Longrightarrow> \<exists>gs. es = map PersistedMlsGroup gs"
proof (induction es)
  case (Cons e es)
  then obtain gs where "es = map PersistedMlsGroup gs" by auto
  moreover obtain g where "e = PersistedMlsGroup g"
    using Cons.prems by (cases e) auto
  ultimately have "e # es = map PersistedMlsGroup (g # gs)" by simp
  then show ?case by (rule exI)
qed simp

lemma group_row:
  "sql_eq (row_value (encode H (PersistedMlsGroup g)) ''parent_id'') (Blob p) \<longleftrightarrow> group_matches p g"
  "group_from_row (encode H (PersistedMlsGroup g)) = Inr g"
  using from_row_encode[of "PersistedMlsGroup g" H]
  by (simp_all add: encode_def row_value_mk_row group_insert_def derived_insert_def sql_eq_def opt_blob_def
      group_matches_def storable_def mapR_def split: option.splits sum.splits)

lemma group_search_table:
  assumes "table_holds H db PersistedMlsGroupT es"
  shows "find_all_matching H (ParentGroupId p) db = Inr (filter (search_matches H (ParentGroupId p)) es)"
proof -
  obtain gs where gs: "es = map PersistedMlsGroup gs"
    using groups_of_type[of es] assms by (auto simp: table_holds_def)
  have "filter (\<lambda>r. sql_eq (row_value r ''parent_id'') (Blob p)) (map (encode H) es)
      = map (\<lambda>g. encode H (PersistedMlsGroup g)) (filter (group_matches p) gs)"
    by (simp add: gs filter_map comp_def group_row)
  moreover have "mapE group_from_row (map (\<lambda>g. encode H (PersistedMlsGroup g)) (filter (group_matches p) gs))
      = Inr (map (\<lambda>g. g) (filter (group_matches p) gs))"
    unfolding mapE_map by (intro mapE_total) (rule group_row)
  ultimately show ?thesis
    using assms
    by (simp add: group_find_all_matching_def select_where_def table_of_def table_holds_def gs filter_map comp_def)
qed

text \<open>
  A search inside a transaction still returns a persisted group as a child of its old parent
  after the transaction has overwritten it with a version that has another parent, or none.
\<close>

theorem search_returns_overwritten_record:
  assumes "sha256_sized H" "permuting HO" "db_reachable H d" "conn d = Some db" "transaction d = Some tx"
    and "entity_get PersistedMlsGroupT (BytesKey i) db = Inr (Some (PersistedMlsGroup g))" "parent_id g = Some p"
    and "db_get PersistedMlsGroupT (BytesKey i) d = Inr (Some (PersistedMlsGroup g'))" "parent_id g' \<noteq> Some p"
  shows "\<exists>rs. db_search H HO (ParentGroupId p) d = Inr rs \<and> PersistedMlsGroup g \<in> set rs"
proof -
  let ?i = "\<lparr>id_typ = PersistedMlsGroupT, key_id = i\<rparr>" and ?m = "search_matches H (ParentGroupId p)"
  have inv: "db_ok H db" "wf_tx H tx"
    using reachable_inv[OF assms(3)] assms(4,5) by (simp_all add: db_inv_def)
  obtain es where es: "table_holds H db PersistedMlsGroupT es"
    using inv(1) by (rule db_okE)
  obtain cs where cs: "find_all_in_cache HO PersistedMlsGroupT tx = Inr cs" "\<forall>e \<in> set cs. type_of e = PersistedMlsGroupT"
    "distinct (map (ident H) cs)" "find (\<lambda>e. ident H e = ?i) cs = find_in_cache PersistedMlsGroupT ?i tx"
    using find_all_in_cache_ok[OF inv(2) assms(2), of PersistedMlsGroupT] by auto
  have keyed: "keyed PersistedMlsGroupT"
    by (simp add: keyed_def)
  have "find (\<lambda>e. primary_key H e = BytesKey i) es = Some (PersistedMlsGroup g)"
    using get_table[OF es keyed] assms(6) by simp
  then have g: "PersistedMlsGroup g \<in> set es" "ident H (PersistedMlsGroup g) = ?i"
    using find_key_in by (force simp: ident_def)+
  have g': "find_in_cache PersistedMlsGroupT ?i tx = Some (PersistedMlsGroup g')" "?i \<notin> set (deleted tx)"
    using assms(5-9) assms(4)
    by (auto simp: db_get_in_transaction'[OF assms(5)] get_by_entity_id_def get_conn_def split: if_splits option.splits)
  have "find (\<lambda>e. ident H e = ?i) (filter ?m cs) = None"
    unfolding find_None_iff
  proof
    assume "\<exists>x. x \<in> set (filter ?m cs) \<and> ident H x = ?i"
    then obtain x where "x \<in> set cs" "?m x" "ident H x = ?i"
      by auto
    with find_key_distinct[OF cs(3), of x] cs(4) g'(1) assms(9) show False
      by (auto simp: group_matches_def)
  qed
  moreover have "find (\<lambda>e. ident H e = ?i) (filter ?m es) = Some (PersistedMlsGroup g)"
    using find_key_distinct[of "ident H" "filter ?m es" "PersistedMlsGroup g"] g assms(7)
      distinct_map_filter[OF table_idents_distinct[OF assms(1) es keyed]] by (simp add: group_matches_def)
  ultimately have "find (\<lambda>e. ident H e = ?i) (merge_records H tx (filter ?m cs) (filter ?m es)) = Some (PersistedMlsGroup g)"
    using merge_records_find[of "filter ?m cs" "filter ?m es" ?i H tx] g'(2) cs(2) es
    by (auto simp: find_append table_holds_def)
  then have "PersistedMlsGroup g \<in> set (merge_records H tx (filter ?m cs) (filter ?m es))"
    using find_key_in by fast
  then show ?thesis
    using assms(4,5) cs(1) group_search_table[OF es, of p]
    by (simp add: db_search_def get_conn_def tx_search_def search_in_cache_def del: find_all_matching.simps)
qed

definition group1 :: "bytes option \<Rightarrow> persisted_mls_group" where
  "group1 p = \<lparr>group_id = [1], group_state = [], parent_id = p\<rparr>"

theorem search_returns_overwritten_record_witness:
  "\<exists>db rs. execute_save example_hashes (PersistedMlsGroup (group1 (Some [9]))) empty_db = Inr db
    \<and> db_search example_hashes example_order (ParentGroupId [9])
        (mutate example_hashes (Save None (PersistedMlsGroup (group1 None)))
          (fst (the (new_transaction (db_open db))))) = Inr rs
    \<and> PersistedMlsGroup (group1 (Some [9])) \<in> set rs"
proof -
  let ?old = "PersistedMlsGroup (group1 (Some [9]))" and ?new = "PersistedMlsGroup (group1 None)"
  have st: "storable ?old"
    by (simp add: storable_def)
  then obtain db where db: "execute_save example_hashes ?old empty_db = Inr db"
    using execute_save_ok_iff[OF db_ok_empty example_params(1), of ?old]
    by (auto simp: insertable_def insert_once_def)
  have ok: "db_ok example_hashes db"
    using execute_save_ok[OF db_ok_empty st db] .
  have "table_holds example_hashes empty_db PersistedMlsGroupT []"
    by (simp add: table_holds_def empty_db_def from_collection_name_def)
  from execute_save_keyed[OF this _ st _ db]
  have holds: "table_holds example_hashes db PersistedMlsGroupT [?old]"
    by (simp add: keyed_def)
  let ?start = "fst (the (new_transaction (db_open db)))"
  let ?d = "mutate example_hashes (Save None ?new) ?start"
  have "new_transaction (db_open db) = Some (?start, Inr ())"
    by (simp add: new_transaction_def db_open_def ALLOWED_CONCURRENT_TRANSACTIONS_COUNT_def)
  then have "db_reachable example_hashes ?start"
    using db_reachable.stepped[OF db_reachable.opened[OF ok]] db_step.begin_tx by blast
  then have reach: "db_reachable example_hashes ?d"
    by (rule db_reachable.stepped) (simp add: db_step.mutate_tx mutation_ok_def is_none_or_def)
  have d: "conn ?d = Some db" "\<exists>tx. transaction ?d = Some tx"
    by (simp_all add: evaluate_tx)
  have get: "db_get PersistedMlsGroupT (BytesKey [1]) ?d = Inr (Some ?new)"
    by (simp add: evaluate_tx group1_def db_get_def tx_get_def from_primary_key_def get_by_entity_id_def
        find_in_cache_def ident_def downcast_def)
  have "entity_get PersistedMlsGroupT (BytesKey [1]) db = Inr (Some ?old)"
    using get_table[OF holds, of "BytesKey [1]"] by (simp add: keyed_def group1_def)
  from search_returns_overwritten_record[OF example_params reach d(1) _ this _ get]
  show ?thesis
    using d(2) db by (auto simp: group1_def)
qed

end
