(* ===== verification/State_Result.thy ===== *)
theory State_Result
  imports Prelude
begin

text \<open>
  Fallible operations on a state.  A Rust method on \<open>&mut self\<close> that returns a
  \<open>Result\<close> keeps the changes it made before it failed, so an operation yields the result
  together with the state in both cases.
\<close>

type_synonym ('s, 'e, 'a) fallible = "'s \<Rightarrow> ('e + 'a) \<times> 's"

named_theorems op_simps

definition okS :: "'a \<Rightarrow> ('s, 'e, 'a) fallible" where
  [op_simps]: "okS a s = (Inr a, s)"

definition errS :: "'e \<Rightarrow> ('s, 'e, 'a) fallible" where
  [op_simps]: "errS e s = (Inl e, s)"

definition bindS :: "('s, 'e, 'a) fallible \<Rightarrow> ('a \<Rightarrow> ('s, 'e, 'b) fallible) \<Rightarrow> ('s, 'e, 'b) fallible" where
  "bindS m f s = (case m s of (Inl e, s') \<Rightarrow> (Inl e, s') | (Inr a, s') \<Rightarrow> f a s')"

definition getS :: "('s \<Rightarrow> 'a) \<Rightarrow> ('s, 'e, 'a) fallible" where
  [op_simps]: "getS f s = (Inr (f s), s)"

definition putS :: "('s \<Rightarrow> 's) \<Rightarrow> ('s, 'e, unit) fallible" where
  [op_simps]: "putS f s = (Inr (), f s)"

definition liftS :: "('e + 'a) \<Rightarrow> ('s, 'e, 'a) fallible" where
  [op_simps]: "liftS r s = (r, s)"

text \<open>The result of an operation as a value, for code that inspects it with \<open>match\<close>.\<close>

definition catchS :: "('s, 'e, 'a) fallible \<Rightarrow> ('s, 'e, 'e + 'a) fallible" where
  "catchS m s = (case m s of (r, s') \<Rightarrow> (Inr r, s'))"

primrec mapS :: "('a \<Rightarrow> ('s, 'e, 'b) fallible) \<Rightarrow> 'a list \<Rightarrow> ('s, 'e, 'b list) fallible" where
  "mapS f [] = okS []"
| "mapS f (x # xs) = bindS (f x) (\<lambda>y. bindS (mapS f xs) (\<lambda>ys. okS (y # ys)))"

definition eachS :: "('a \<Rightarrow> ('s, 'e, 'b) fallible) \<Rightarrow> 'a list \<Rightarrow> ('s, 'e, unit) fallible" where
  "eachS f xs = bindS (mapS f xs) (\<lambda>_. okS ())"

lemma bindS_simps [op_simps]:
  "m s = (Inl e, s') \<Longrightarrow> bindS m f s = (Inl e, s')"
  "m s = (Inr a, s') \<Longrightarrow> bindS m f s = f a s'"
  by (simp_all add: bindS_def)

lemma bindS_liftS [op_simps]: "bindS (liftS (Inr x)) f = f x" "bindS (okS x) f = f x"
  by (simp_all add: bindS_def liftS_def okS_def fun_eq_iff)

lemma catchS_simps [op_simps]: "m s = (r, s') \<Longrightarrow> catchS m s = (Inr r, s')"
  by (simp add: catchS_def)

lemma bindS_Inr:
  "bindS m f s = (Inr b, s'') \<longleftrightarrow> (\<exists>a s'. m s = (Inr a, s') \<and> f a s' = (Inr b, s''))"
  by (auto simp: bindS_def split: prod.splits sum.splits)

lemma bindS_Inl:
  "bindS m f s = (Inl e, s'') \<longleftrightarrow>
     m s = (Inl e, s'') \<or> (\<exists>a s'. m s = (Inr a, s') \<and> f a s' = (Inl e, s''))"
  by (auto simp: bindS_def split: prod.splits sum.splits)

lemma catchS_eq: "catchS m s = (r, s') \<longleftrightarrow> (\<exists>x. m s = (x, s') \<and> r = Inr x)"
  by (auto simp: catchS_def split: prod.splits)

section \<open>Invariants of operations\<close>

text \<open>
  \<open>delivers P Q R m\<close>: from a state with the invariant \<open>P\<close> the operation keeps it, fails
  only with errors in \<open>Q\<close>, and otherwise returns a value in \<open>R\<close>.
\<close>

definition delivers :: "('s \<Rightarrow> bool) \<Rightarrow> ('e \<Rightarrow> bool) \<Rightarrow> ('a \<Rightarrow> bool) \<Rightarrow> ('s, 'e, 'a) fallible \<Rightarrow> bool" where
  "delivers P Q R m \<longleftrightarrow>
     (\<forall>s r s'. P s \<longrightarrow> m s = (r, s') \<longrightarrow> P s' \<and> (case r of Inl e \<Rightarrow> Q e | Inr a \<Rightarrow> R a))"

abbreviation upholds :: "('s \<Rightarrow> bool) \<Rightarrow> ('e \<Rightarrow> bool) \<Rightarrow> ('s, 'e, 'a) fallible \<Rightarrow> bool" where
  "upholds P Q \<equiv> delivers P Q (\<lambda>_. True)"

lemma deliversI:
  assumes "\<And>s e s'. P s \<Longrightarrow> m s = (Inl e, s') \<Longrightarrow> P s' \<and> Q e"
    and "\<And>s a s'. P s \<Longrightarrow> m s = (Inr a, s') \<Longrightarrow> P s' \<and> R a"
  shows "delivers P Q R m"
  unfolding delivers_def
proof (intro allI impI)
  fix s r s'
  assume "P s" "m s = (r, s')"
  then show "P s' \<and> (case r of Inl e \<Rightarrow> Q e | Inr a \<Rightarrow> R a)"
    using assms(1)[of s _ s'] assms(2)[of s _ s'] by (cases r) simp_all
qed

lemma delivers_state: "delivers P Q R m \<Longrightarrow> P s \<Longrightarrow> m s = (r, s') \<Longrightarrow> P s'"
  unfolding delivers_def by blast

lemma delivers_error: "delivers P Q R m \<Longrightarrow> P s \<Longrightarrow> m s = (Inl e, s') \<Longrightarrow> Q e"
  unfolding delivers_def by (drule spec[of _ s], drule spec[of _ "Inl e"], drule spec[of _ s']) simp

lemma delivers_value: "delivers P Q R m \<Longrightarrow> P s \<Longrightarrow> m s = (Inr a, s') \<Longrightarrow> R a"
  unfolding delivers_def by (drule spec[of _ s], drule spec[of _ "Inr a"], drule spec[of _ s']) simp

lemma delivers_weaken:
  "delivers P Q R m \<Longrightarrow> (\<And>e. Q e \<Longrightarrow> Q' e) \<Longrightarrow> (\<And>a. R a \<Longrightarrow> R' a) \<Longrightarrow> delivers P Q' R' m"
  by (rule deliversI) (auto intro: delivers_state dest: delivers_error delivers_value)

lemma delivers_upholds: "delivers P Q R m \<Longrightarrow> upholds P Q m"
  by (erule delivers_weaken) simp_all

lemma delivers_errors:
  assumes "delivers P Q R m" "\<And>s e s'. P s \<Longrightarrow> m s = (Inl e, s') \<Longrightarrow> Q' e"
  shows "delivers P (\<lambda>e. Q e \<and> Q' e) R m"
proof (rule deliversI)
  fix s e s'
  assume s: "P s" "m s = (Inl e, s')"
  show "P s' \<and> Q e \<and> Q' e"
    using delivers_state[OF assms(1) s] delivers_error[OF assms(1) s] assms(2)[OF s] by simp
next
  fix s a s'
  assume s: "P s" "m s = (Inr a, s')"
  show "P s' \<and> R a"
    using delivers_state[OF assms(1) s] delivers_value[OF assms(1) s] by simp
qed

lemma delivers_basic [intro!]:
  "R a \<Longrightarrow> delivers P Q R (okS a)"
  "Q e \<Longrightarrow> delivers P Q R (errS e)"
  "upholds P Q (getS f)"
  "(case r of Inl e \<Rightarrow> Q e | Inr a \<Rightarrow> R a) \<Longrightarrow> delivers P Q R (liftS r)"
  by (auto intro!: deliversI simp: op_simps)

lemma delivers_bindS:
  assumes "delivers P Q R m" "\<And>a. R a \<Longrightarrow> delivers P Q R' (f a)"
  shows "delivers P Q R' (bindS m f)"
proof (rule deliversI)
  fix s e s'
  assume s: "P s" "bindS m f s = (Inl e, s')"
  show "P s' \<and> Q e"
  proof (cases "m s = (Inl e, s')")
    case True
    then show ?thesis
      using delivers_state[OF assms(1) s(1)] delivers_error[OF assms(1) s(1)] by simp
  next
    case False
    then obtain a s1 where a: "m s = (Inr a, s1)" "f a s1 = (Inl e, s')"
      using s(2) unfolding bindS_Inl by auto
    have "delivers P Q R' (f a)" "P s1"
      using assms(2)[OF delivers_value[OF assms(1) s(1) a(1)]] delivers_state[OF assms(1) s(1) a(1)] .
    then show ?thesis
      using delivers_state delivers_error a(2) by metis
  qed
next
  fix s b s'
  assume s: "P s" "bindS m f s = (Inr b, s')"
  then obtain a s1 where a: "m s = (Inr a, s1)" "f a s1 = (Inr b, s')"
    unfolding bindS_Inr by auto
  have "delivers P Q R' (f a)" "P s1"
    using assms(2)[OF delivers_value[OF assms(1) s(1) a(1)]] delivers_state[OF assms(1) s(1) a(1)] .
  then show "P s' \<and> R' b"
    using delivers_state delivers_value a(2) by metis
qed

lemma upholds_bindS [intro]:
  "upholds P Q m \<Longrightarrow> (\<And>a. delivers P Q R (f a)) \<Longrightarrow> delivers P Q R (bindS m f)"
  by (rule delivers_bindS)

lemma delivers_catchS:
  "delivers P Q R m \<Longrightarrow> delivers P Q' (\<lambda>r. case r of Inl e \<Rightarrow> Q e | Inr a \<Rightarrow> R a) (catchS m)"
  by (rule deliversI) (auto simp: catchS_eq intro: delivers_state dest: delivers_error delivers_value split: sum.splits)

lemma delivers_mapS:
  assumes "\<And>x. x \<in> set xs \<Longrightarrow> delivers P Q R (f x)"
  shows "delivers P Q (list_all R) (mapS f xs)"
  using assms
proof (induction xs)
  case (Cons x xs)
  have "delivers P Q (list_all R) (mapS f xs)"
    using Cons by simp
  then have "delivers P Q (list_all R) (bindS (mapS f xs) (\<lambda>ys. okS (y # ys)))" if "R y" for y
    by (rule delivers_bindS) (simp add: that delivers_basic(1))
  moreover have "delivers P Q R (f x)"
    using Cons.prems by simp
  ultimately show ?case
    unfolding mapS.simps by (rule delivers_bindS[rotated])
qed (simp add: delivers_basic(1))

lemma upholds_mapS [intro]: "(\<And>x. x \<in> set xs \<Longrightarrow> upholds P Q (f x)) \<Longrightarrow> upholds P Q (mapS f xs)"
  by (rule delivers_upholds, rule delivers_mapS)

lemma upholds_eachS [intro]: "(\<And>x. x \<in> set xs \<Longrightarrow> upholds P Q (f x)) \<Longrightarrow> upholds P Q (eachS f xs)"
  unfolding eachS_def by auto

section \<open>Frames\<close>

text \<open>\<open>keeps f m\<close>: the operation does not change the part \<open>f\<close> of the state.\<close>

definition keeps :: "('s \<Rightarrow> 'x) \<Rightarrow> ('s, 'e, 'a) fallible \<Rightarrow> bool" where
  "keeps f m \<longleftrightarrow> (\<forall>s. f (snd (m s)) = f s)"

named_theorems frame

lemma keepsD: "keeps f m \<Longrightarrow> m s = (r, s') \<Longrightarrow> f s' = f s"
  unfolding keeps_def by (metis snd_conv)

lemma keepsI: "(\<And>s r s'. m s = (r, s') \<Longrightarrow> f s' = f s) \<Longrightarrow> keeps f m"
  unfolding keeps_def by (metis prod.collapse)

lemma keeps_basic [frame]:
  "keeps f (okS a)" "keeps f (errS e)" "keeps f (getS g)" "keeps f (liftS r)"
  by (simp_all add: keeps_def op_simps)

lemma keeps_bindS [frame]:
  assumes "keeps f m" "\<And>a. keeps f (k a)"
  shows "keeps f (bindS m k)"
proof (rule keepsI)
  fix s r s''
  assume run: "bindS m k s = (r, s'')"
  obtain r1 s1 where m: "m s = (r1, s1)" by (cases "m s")
  show "f s'' = f s"
  proof (cases r1)
    case (Inr a)
    then show ?thesis
      using run m keepsD[OF assms(1) m] keepsD[OF assms(2)] by (simp add: op_simps)
  qed (use run m keepsD[OF assms(1) m] in \<open>simp add: op_simps\<close>)
qed

lemma keeps_catchS [frame]: "keeps f m \<Longrightarrow> keeps f (catchS m)"
  by (rule keepsI) (auto simp: catchS_eq dest: keepsD)

lemma keeps_mapS [frame]: "(\<And>x. keeps f (m x)) \<Longrightarrow> keeps f (mapS m xs)"
  by (induction xs) (auto intro!: frame)

end
