(* ===== verification/Keystore_Mls.thy ===== *)
theory Keystore_Mls
  imports Keystore_Properties
begin

text \<open>
  The typed operations on the database handle: the MLS interface and the key store that OpenMLS
  uses (\<open>keystore/src/mls.rs\<close>), and the Proteus prekeys (\<open>keystore/src/proteus.rs\<close>,
  \<open>ProteusPrekey::get_free_id\<close>).  Serialization (\<open>postcard\<close>) and the signature key
  pairs of OpenMLS are the parameter \<open>C\<close>.
\<close>

section \<open>Groups, pending groups and enrollments\<close>

record 'v mls_codec =
  deser :: "bytes \<Rightarrow> 'v option"
  keypair_ser :: "u16 \<Rightarrow> bytes \<Rightarrow> bytes \<Rightarrow> bytes option"

definition mls_fetch_key_packages ::
  "'v mls_codec \<Rightarrow> hashes \<Rightarrow> hash_order \<Rightarrow> u32 \<Rightarrow> Database \<Rightarrow> 'v list keystore_result" where
  "mls_fetch_key_packages C H HO n d =
     mapR (\<lambda>keypackages. take (unat n) (List.map_filter
         (\<lambda>e. case e of StoredKeypackage kpb \<Rightarrow> deser C (keypackage kpb) | _ \<Rightarrow> None) keypackages))
       (db_load_all H HO KeyPackageT d)"

definition mls_group_exists :: "bytes \<Rightarrow> Database \<Rightarrow> bool" where
  "mls_group_exists gid d =
     (case db_get PersistedMlsGroupT (BytesKey gid) d of Inr (Some _) \<Rightarrow> True | _ \<Rightarrow> False)"

definition mls_group_persist ::
  "hashes \<Rightarrow> bytes \<Rightarrow> bytes \<Rightarrow> bytes option \<Rightarrow> Database \<Rightarrow> Database \<times> unit keystore_result" where
  "mls_group_persist H gid state parent d =
     (let (d', r) = db_save H None (PersistedMlsGroup
            \<lparr>group_id = gid, group_state = state, parent_id = parent\<rparr>) d
      in (d', mapR (\<lambda>_. ()) r))"

definition mls_groups_restore ::
  "hashes \<Rightarrow> hash_order \<Rightarrow> Database \<Rightarrow> (bytes \<times> bytes option \<times> bytes) list keystore_result" where
  "mls_groups_restore H HO d =
     mapR (List.map_filter (\<lambda>e. case e of
         PersistedMlsGroup g \<Rightarrow> Some (group_id g, parent_id g, group_state g) | _ \<Rightarrow> None))
       (db_load_all H HO PersistedMlsGroupT d)"

definition mls_group_delete :: "bytes \<Rightarrow> Database \<Rightarrow> Database \<times> unit keystore_result" where
  "mls_group_delete gid d = db_remove PersistedMlsGroupT (BytesKey gid) d"

definition mls_pending_groups_save ::
  "hashes \<Rightarrow> bytes \<Rightarrow> bytes \<Rightarrow> bytes \<Rightarrow> bytes option \<Rightarrow> Database \<Rightarrow> Database \<times> unit keystore_result" where
  "mls_pending_groups_save H gid mls_group cfg parent d =
     (let (d', r) = db_save H None (PersistedMlsPendingGroup
            \<lparr>pending_id = gid, pending_state = mls_group, pending_parent_id = parent,
             custom_configuration = cfg\<rparr>) d
      in (d', mapR (\<lambda>_. ()) r))"

definition mls_pending_groups_load :: "bytes \<Rightarrow> Database \<Rightarrow> (bytes \<times> bytes) option keystore_result" where
  "mls_pending_groups_load gid d =
     mapR (\<lambda>found. Option.bind found (\<lambda>e. case e of
         PersistedMlsPendingGroup g \<Rightarrow> Some (pending_state g, custom_configuration g) | _ \<Rightarrow> None))
       (db_get PersistedMlsPendingGroupT (BytesKey gid) d)"

definition mls_pending_groups_delete :: "bytes \<Rightarrow> Database \<Rightarrow> Database \<times> unit keystore_result" where
  "mls_pending_groups_delete gid d = db_remove PersistedMlsPendingGroupT (BytesKey gid) d"

definition save_e2ei_enrollment :: "hashes \<Rightarrow> bytes \<Rightarrow> bytes \<Rightarrow> Database \<Rightarrow> Database \<times> unit keystore_result" where
  "save_e2ei_enrollment H i content d =
     (let (d', r) = db_save H None (StoredE2eiEnrollment
            \<lparr>enrollment_id = i, enrollment_content = content\<rparr>) d
      in (d', mapR (\<lambda>_. ()) r))"

definition pop_e2ei_enrollment :: "bytes \<Rightarrow> Database \<Rightarrow> Database \<times> bytes option keystore_result" where
  "pop_e2ei_enrollment i d = (case db_get StoredE2eiEnrollmentT (BytesKey i) d of
       Inl e \<Rightarrow> (d, Inl e)
     | Inr None \<Rightarrow> (d, Inr None)
     | Inr (Some enrollment) \<Rightarrow> (case db_remove StoredE2eiEnrollmentT (BytesKey i) d of
           (d', Inl e) \<Rightarrow> (d', Inl e)
         | (d', Inr _) \<Rightarrow> (d', Inr (case enrollment of
             StoredE2eiEnrollment n \<Rightarrow> Some (enrollment_content n) | _ \<Rightarrow> None))))"

section \<open>The key store of OpenMLS\<close>

datatype MlsEntityId =
    GroupStateId
  | SignatureKeyPairId
  | KeyPackageId
  | HpkePrivateKeyId
  | PskBundleId
  | EncryptionKeyPairId
  | EpochEncryptionKeyPairId

text \<open>\<open>data\<close> is the serialized value, or the error of serializing it.\<close>

definition stored_entity :: "MlsEntityId \<Rightarrow> bytes \<Rightarrow> bytes \<Rightarrow> Entity keystore_result" where
  "stored_entity V k data = (case V of
       GroupStateId \<Rightarrow> Inl (IncorrectApiUsage ''Groups must not be saved using OpenMLS APIs'')
     | SignatureKeyPairId \<Rightarrow> Inl (IncorrectApiUsage ''Signature keys must not be saved using OpenMLS APIs'')
     | KeyPackageId \<Rightarrow> Inr (StoredKeypackage \<lparr>keypackage_ref = k, keypackage = data\<rparr>)
     | HpkePrivateKeyId \<Rightarrow> Inr (HpkePrivateKey \<lparr>hpke_sk = data, hpke_pk = k\<rparr>)
     | PskBundleId \<Rightarrow> Inr (PskBundle \<lparr>psk_id = k, psk = data\<rparr>)
     | EncryptionKeyPairId \<Rightarrow> Inr (EncryptionKeyPair \<lparr>enc_sk = data, enc_pk = k\<rparr>)
     | EpochEncryptionKeyPairId \<Rightarrow> Inr (StoredEpochEncryptionKeypair \<lparr>epoch_keypair_id = k, keypairs = data\<rparr>))"

definition mls_store ::
  "hashes \<Rightarrow> MlsEntityId \<Rightarrow> bytes \<Rightarrow> bytes keystore_result \<Rightarrow> Database \<Rightarrow> Database \<times> unit keystore_result" where
  "mls_store H V k ser_v d =
     (if k = [] then (d, Inl (MlsKeyStoreError ''The provided key is empty''))
      else case bindE ser_v (stored_entity V k) of
        Inl e \<Rightarrow> (d, Inl e)
      | Inr entity \<Rightarrow> (let (d', r) = db_save H None entity d in (d', mapR (\<lambda>_. ()) r)))"

definition entity_type_of :: "MlsEntityId \<Rightarrow> EntityType" where
  "entity_type_of V = (case V of
       GroupStateId \<Rightarrow> PersistedMlsGroupT
     | SignatureKeyPairId \<Rightarrow> StoredCredentialT
     | KeyPackageId \<Rightarrow> KeyPackageT
     | HpkePrivateKeyId \<Rightarrow> HpkePrivateKeyT
     | PskBundleId \<Rightarrow> PskBundleT
     | EncryptionKeyPairId \<Rightarrow> EncryptionKeyPairT
     | EpochEncryptionKeyPairId \<Rightarrow> EpochEncryptionKeyPairT)"

definition ok_flatten :: "'a option keystore_result \<Rightarrow> 'a option" where
  "ok_flatten r = (case r of Inl _ \<Rightarrow> None | Inr x \<Rightarrow> x)"

definition payload :: "'v mls_codec \<Rightarrow> Entity \<Rightarrow> bytes option" where
  "payload C e = (case e of
       PersistedMlsGroup g \<Rightarrow> Some (group_state g)
     | StoredCredential c \<Rightarrow> keypair_ser C (ciphersuite c) (private_key c) (public_key c)
     | StoredKeypackage kp \<Rightarrow> Some (keypackage kp)
     | HpkePrivateKey kp \<Rightarrow> Some (hpke_sk kp)
     | PskBundle p \<Rightarrow> Some (psk p)
     | EncryptionKeyPair kp \<Rightarrow> Some (enc_sk kp)
     | StoredEpochEncryptionKeypair kp \<Rightarrow> Some (keypairs kp)
     | _ \<Rightarrow> None)"

definition mls_read :: "'v mls_codec \<Rightarrow> MlsEntityId \<Rightarrow> bytes \<Rightarrow> Database \<Rightarrow> 'v option" where
  "mls_read C V k d =
     (if k = [] then None
      else Option.bind
        (if V = SignatureKeyPairId then ok_flatten (bindE (from_existing_hash k) (\<lambda>hash. db_get StoredCredentialT hash d))
         else ok_flatten (db_get (entity_type_of V) (BytesKey k) d))
        (\<lambda>e. Option.bind (payload C e) (deser C)))"

definition mls_delete :: "MlsEntityId \<Rightarrow> bytes \<Rightarrow> Database \<Rightarrow> Database \<times> unit keystore_result" where
  "mls_delete V k d =
     (if V = SignatureKeyPairId then (d, Inl (Panicked ''not implemented''))
      else db_remove (entity_type_of V) (BytesKey k) d)"

section \<open>Proteus prekeys\<close>

definition proteus_store_prekey :: "hashes \<Rightarrow> u16 \<Rightarrow> bytes \<Rightarrow> Database \<Rightarrow> Database \<times> unit keystore_result" where
  "proteus_store_prekey H i bs d =
     (let (d', r) = db_save H None (ProteusPrekey (prekey_from_raw i bs)) d in (d', mapR (\<lambda>_. ()) r))"

definition prekey_get :: "u16 \<Rightarrow> Database \<Rightarrow> bytes option keystore_result" where
  "prekey_get i d = mapR (\<lambda>found. Option.bind found (\<lambda>e. case e of
       ProteusPrekey p \<Rightarrow> Some (prekey p) | _ \<Rightarrow> None)) (db_get ProteusPrekeyT (U16Key i) d)"

definition prekey_remove :: "u16 \<Rightarrow> Database \<Rightarrow> Database \<times> unit keystore_result" where
  "prekey_remove i d = db_remove ProteusPrekeyT (U16Key i) d"

lemma u16_below_max: "i \<noteq> 65535 \<Longrightarrow> unat (i :: u16) < 65535"
proof -
  assume "i \<noteq> 65535"
  have "unat i < 2 ^ LENGTH(16)"
    by (rule unsigned_less)
  moreover have "unat i \<noteq> 65535"
  proof
    assume "unat i = 65535"
    then have "word_of_nat (unat i) = (65535 :: u16)" by simp
    then show False using \<open>i \<noteq> 65535\<close> by simp
  qed
  ultimately show ?thesis by simp
qed

lemma u16_succ: "i \<noteq> 65535 \<Longrightarrow> unat (i + 1 :: u16) = unat i + 1"
  using u16_below_max[of i] by (simp add: unat_word_ariths)

text \<open>The loop of \<open>get_free_id\<close>, from \<open>i\<close> on; it never visits \<open>u16::MAX\<close>.\<close>

function free_id_from :: "u16 \<Rightarrow> Database \<Rightarrow> u16 keystore_result" where
  "free_id_from i d =
     (if i = 65535 then Inl NoFreePrekeyId
      else bindE (db_get ProteusPrekeyT (U16Key i) d) (\<lambda>found.
        if found = None then Inr i else free_id_from (i + 1) d))"
  by pat_completeness auto
termination
proof (relation "measure (\<lambda>(i, _). 65535 - unat i)")
  fix i :: u16 and d :: Database
  assume "i \<noteq> 65535"
  then show "((i + 1, d), i, d) \<in> measure (\<lambda>(i, _). 65535 - unat i)"
    using u16_below_max[of i] by (simp add: u16_succ)
qed simp

declare free_id_from.simps [simp del]

definition get_free_id :: "Database \<Rightarrow> u16 keystore_result" where
  "get_free_id d = free_id_from 1 d"

section \<open>Properties\<close>

lemma stored_entity_props:
  assumes "stored_entity V k data = Inr e"
  shows "plain e" "ident H e = \<lparr>id_typ = entity_type_of V, key_id = k\<rparr>" "payload C e = Some data"
    "V \<noteq> SignatureKeyPairId"
  using assms by (auto simp: stored_entity_def plain_def storable_def ident_def entity_type_of_def payload_def
      split: MlsEntityId.splits)

lemma entity_type_of_bytes:
  "V \<noteq> SignatureKeyPairId \<Longrightarrow> primary_key_type (entity_type_of V) = BytesK"
  by (cases V) (simp_all add: entity_type_of_def)

lemma mls_read_bytes:
  "V \<noteq> SignatureKeyPairId \<Longrightarrow> k \<noteq> [] \<Longrightarrow> mls_read C V k d =
     Option.bind (db_lookup d \<lparr>id_typ = entity_type_of V, key_id = k\<rparr>) (\<lambda>e. Option.bind (payload C e) (deser C))"
  by (simp add: mls_read_def db_lookup_def entity_id_primary_key_def entity_type_of_bytes ok_flatten_def)

lemma valid_bytes_id: "V \<noteq> SignatureKeyPairId \<Longrightarrow> valid_id \<lparr>id_typ = entity_type_of V, key_id = k\<rparr>"
  by (simp add: valid_id_def entity_type_of_bytes)

lemma mls_store_Inr:
  assumes "mls_store H V k ser_v d = (d', Inr ())"
  obtains data e where "k \<noteq> []" "ser_v = Inr data" "stored_entity V k data = Inr e"
    "d' = db_save_plain H e d" "transaction d \<noteq> None"
proof -
  obtain data e where e: "k \<noteq> []" "ser_v = Inr data" "stored_entity V k data = Inr e"
    using assms by (auto simp: mls_store_def res_simps split: if_splits sum.splits)
  moreover have "transaction d \<noteq> None"
    using assms e by (cases "transaction d") (simp_all add: mls_store_def db_save_def)
  moreover have "d' = db_save_plain H e d"
    using assms e by (auto simp: mls_store_def db_save_plain_def split: prod.splits)
  ultimately show thesis
    using that by blast
qed

text \<open>
  What OpenMLS stores under a key is what it reads back under it, and storing leaves every other
  key and kind of value as it was; the kinds that must not be stored this way are refused.
\<close>

theorem mls_store_then_read:
  assumes "db_reachable H d" "mls_store H V k (Inr data) d = (d', Inr ())"
  shows "V \<notin> {GroupStateId, SignatureKeyPairId} \<and> mls_read C V k d' = deser C data
    \<and> (\<forall>W l. W \<noteq> SignatureKeyPairId \<longrightarrow> (W, l) \<noteq> (V, k) \<longrightarrow> mls_read C W l d' = mls_read C W l d)"
proof -
  obtain e where e: "k \<noteq> []" "stored_entity V k data = Inr e" "d' = db_save_plain H e d" "transaction d \<noteq> None"
    using assms(2) by (auto elim: mls_store_Inr)
  note props = stored_entity_props[OF e(2)]
  have inv: "db_inv H d \<and> transaction d \<noteq> None"
    using reachable_inv[OF assms(1)] e(4) by simp
  have look: "db_lookup d' \<lparr>id_typ = entity_type_of W, key_id = l\<rparr> =
      (if (W, l) = (V, k) then Some e else db_lookup d \<lparr>id_typ = entity_type_of W, key_id = l\<rparr>)"
    if "W \<noteq> SignatureKeyPairId" for W l
    using db.lookup_save[OF inv props(1) valid_bytes_id[OF that, of l]] props(2)[of H] props(4) that e(3)
    by (cases V; cases W) (simp_all add: entity_type_of_def)
  have "V \<noteq> GroupStateId"
    using e(2) by (auto simp: stored_entity_def)
  moreover have "mls_read C V k d' = deser C data"
    using look[OF props(4), of k] mls_read_bytes[OF props(4) e(1), of C d'] props(3)[of C] by simp
  moreover have "mls_read C W l d' = mls_read C W l d" if "W \<noteq> SignatureKeyPairId" "(W, l) \<noteq> (V, k)" for W l
  proof (cases "l = []")
    case False
    then show ?thesis
      using look[OF that(1), of l] that(2) mls_read_bytes[OF that(1) False, of C] by (simp only: if_False)
  qed (simp add: mls_read_def)
  ultimately show ?thesis
    using props(4) by simp
qed

definition example_codec :: "bytes mls_codec" where
  "example_codec = \<lparr>deser = (\<lambda>b. if b = [] then None else Some b), keypair_ser = (\<lambda>_ sk pk. Some (sk @ pk))\<rparr>"

theorem mls_store_then_read_witness:
  "\<exists>d'. mls_store example_hashes HpkePrivateKeyId [1] (Inr [7, 7]) (fst (the (new_transaction (db_open empty_db)))) = (d', Inr ())
    \<and> mls_read example_codec HpkePrivateKeyId [1] d' = Some [7, 7]"
proof -
  let ?d = "fst (the (new_transaction (db_open empty_db)))"
  have d: "db_reachable example_hashes ?d" "transaction ?d = Some new_tx"
    using example_begin by (simp_all add: new_transaction_def db_open_def ALLOWED_CONCURRENT_TRANSACTIONS_COUNT_def)
  have "snd (mls_store example_hashes HpkePrivateKeyId [1] (Inr [7, 7]) ?d) = Inr ()"
    using d(2) by (simp add: mls_store_def stored_entity_def db_save_def tx_save_def Let_def)
  then obtain d' where d': "mls_store example_hashes HpkePrivateKeyId [1] (Inr [7, 7]) ?d = (d', Inr ())"
    by (metis prod.collapse)
  from mls_store_then_read[OF d(1) this, of example_codec] d' show ?thesis
    by (simp add: example_codec_def)
qed

text \<open>
  A pre-shared key that OpenMLS stored is never read back once it has been committed: outside a
  transaction every read of one returns nothing, because the failing query is swallowed.
\<close>

theorem committed_psk_reads_nothing:
  assumes "db_reachable H d" "transaction d = None"
  shows "mls_read C PskBundleId k d = None"
proof (cases "conn d")
  case None
  then show ?thesis
    using assms(2)
    by (simp add: mls_read_def ok_flatten_def db_get_def get_conn_def entity_type_of_def)
next
  case (Some db)
  then obtain es where "table_holds H db PskBundleT es"
    using reachable_inv[OF assms(1)] by (auto simp: db_inv_def elim: db_okE)
  from psk_key_column_missing[OF this] show ?thesis
    using assms(2) Some
    by (simp add: mls_read_def ok_flatten_def db_get_def get_conn_def entity_type_of_def)
qed

theorem committed_psk_reads_nothing_witness:
  "mls_read example_codec PskBundleId [1] (db_open empty_db) = None"
  by (rule committed_psk_reads_nothing[OF db_reachable.opened[OF db_ok_empty]]) (simp add: db_open_def)

lemma prekey_get_total:
  assumes "sha256_sized H" "db_reachable H d" "conn d \<noteq> None"
  shows "\<exists>r. db_get ProteusPrekeyT (U16Key i) d = Inr r
     \<and> (prekey_get i d = Inr None \<longleftrightarrow> r = None)"
proof -
  obtain db where db: "conn d = Some db"
    using assms(3) by blast
  have inv: "db_inv H d"
    using reachable_inv[OF assms(2)] .
  have "keyed ProteusPrekeyT"
    by (simp add: keyed_def)
  then obtain r where r: "db_get ProteusPrekeyT (U16Key i) d = Inr r"
    using db_get_fetch[OF assms(1) inv db, of ProteusPrekeyT "U16Key i"] by auto
  have "\<exists>p. e = ProteusPrekey p" if "r = Some e" for e
    using db_get_typed[OF r[unfolded that]] by (cases e) auto
  then show ?thesis
    using r by (cases r) (force simp: prekey_get_def)+
qed

lemma free_id_from_spec:
  assumes "\<And>j. \<exists>r. db_get ProteusPrekeyT (U16Key j) d = Inr r \<and> (prekey_get j d = Inr None \<longleftrightarrow> r = None)"
  shows "(case free_id_from i d of
      Inr f \<Rightarrow> i \<le> f \<and> f < 65535 \<and> prekey_get f d = Inr None \<and> (\<forall>j. i \<le> j \<and> j < f \<longrightarrow> prekey_get j d \<noteq> Inr None)
    | Inl e \<Rightarrow> e = NoFreePrekeyId \<and> (\<forall>j. i \<le> j \<and> j < 65535 \<longrightarrow> prekey_get j d \<noteq> Inr None))"
  using assms
proof (induction i d rule: free_id_from.induct)
  case (1 i d)
  obtain r where r: "db_get ProteusPrekeyT (U16Key i) d = Inr r" "prekey_get i d = Inr None \<longleftrightarrow> r = None"
    using "1.prems" by blast
  show ?case
  proof (cases "i = 65535 \<or> r = None")
    case True
    then show ?thesis
      using r u16_below_max[of i] by (auto simp: free_id_from.simps[of i d] word_less_nat_alt word_le_nat_alt)
  next
    case False
    have le: "i \<le> j \<longleftrightarrow> i = j \<or> i + 1 \<le> j" for j
      using False u16_succ[of i] by (auto simp: word_le_nat_alt word_unat_eq_iff)
    have step: "free_id_from i d = free_id_from (i + 1) d"
      using False r(1) by (auto simp: free_id_from.simps[of i d])
    have "case free_id_from (i + 1) d of
        Inl e \<Rightarrow> e = NoFreePrekeyId \<and> (\<forall>j. i + 1 \<le> j \<and> j < 65535 \<longrightarrow> prekey_get j d \<noteq> Inr None)
      | Inr f \<Rightarrow> i + 1 \<le> f \<and> f < 65535 \<and> prekey_get f d = Inr None
          \<and> (\<forall>j. i + 1 \<le> j \<and> j < f \<longrightarrow> prekey_get j d \<noteq> Inr None)"
      using False by (intro "1.IH"[of r] "1.prems") simp_all
    then show ?thesis
      using False r(2) unfolding step by (auto simp: le split: sum.splits)
  qed
qed

text \<open>
  \<open>get_free_id\<close> returns the least prekey id from 1 up that is not taken, and reports
  \<open>NoFreePrekeyId\<close> exactly when all ids below \<open>u16::MAX\<close>, the last resort prekey, are taken.
\<close>

theorem get_free_id_least:
  assumes "sha256_sized H" "db_reachable H d" "conn d \<noteq> None"
  shows "case get_free_id d of
      Inr f \<Rightarrow> 1 \<le> f \<and> f < 65535 \<and> prekey_get f d = Inr None \<and> (\<forall>j. 1 \<le> j \<and> j < f \<longrightarrow> prekey_get j d \<noteq> Inr None)
    | Inl e \<Rightarrow> e = NoFreePrekeyId \<and> (\<forall>j. 1 \<le> j \<and> j < 65535 \<longrightarrow> prekey_get j d \<noteq> Inr None)"
  unfolding get_free_id_def
  by (rule free_id_from_spec) (rule prekey_get_total[OF assms])

theorem get_free_id_least_witness:
  "get_free_id (db_open empty_db) = Inr 1"
proof -
  have "entity_get ProteusPrekeyT (U16Key 1) empty_db = Inr None"
    using get_table[of example_hashes empty_db ProteusPrekeyT "[]" "U16Key 1"]
    by (simp add: table_holds_def empty_db_def from_collection_name_def keyed_def)
  then have "prekey_get 1 (db_open empty_db) = Inr None"
    by (simp add: prekey_get_def db_get_def db_open_def get_conn_def)
  moreover have "conn (db_open empty_db) \<noteq> None"
    by (simp add: db_open_def)
  ultimately show ?thesis
    using get_free_id_least[OF example_params(1) db_reachable.opened[OF db_ok_empty]]
    by (cases "get_free_id (db_open empty_db)") (auto simp: not_less_iff_gr_or_eq dest: order.not_eq_order_implies_strict)
qed

end
