(* ===== verification/Client_Id.thy ===== *)
theory Client_Id
  imports Key_Type
begin

text \<open>
  Client identifiers (\<open>crypto/src/mls/session/id.rs\<close>, \<open>crypto/src/mls/session/user_id.rs\<close>
  and \<open>e2e-identity/src/legacy/id.rs\<close>): the textual form
  \<open>user:device@domain\<close>, its parser, the identifiers of history clients, and the two legacy
  forms with a base64 user id.  The \<open>uuid\<close> and \<open>base64\<close> crates are the parameter
  \<open>U\<close>; \<open>uuid_ok\<close> and \<open>base64_ok\<close> state what their documentation promises.
\<close>

record id_codecs =
  hyphenated :: "u128 \<Rightarrow> bytes"
  uuid_try_parse :: "bytes \<Rightarrow> u128 option"
  base64_encode :: "bytes \<Rightarrow> bytes"
  base64_decode :: "bytes \<Rightarrow> bytes option"

definition uuid_ok :: "id_codecs \<Rightarrow> bool" where
  "uuid_ok U \<longleftrightarrow>
     (\<forall>u. length (hyphenated U u) = 36
        \<and> (\<forall>b \<in> set (hyphenated U u). b = 45 \<or> (48 \<le> b \<and> b \<le> 57) \<or> (97 \<le> b \<and> b \<le> 102))
        \<and> uuid_try_parse U (hyphenated U u) = Some u)
     \<and> (\<forall>s. uuid_try_parse U s \<noteq> None \<longrightarrow> length s \<in> {32, 36, 38, 45})"

definition base64_ok :: "id_codecs \<Rightarrow> bool" where
  "base64_ok U \<longleftrightarrow> (\<forall>bs. base64_decode U (base64_encode U bs) = Some bs \<and> 58 \<notin> set (base64_encode U bs))"

datatype session_error = InvalidQualifiedClientId | InvalidUserId

section \<open>Text\<close>

fun split_once :: "byte \<Rightarrow> bytes \<Rightarrow> (bytes \<times> bytes) option" where
  "split_once d [] = None"
| "split_once d (b # bs) =
     (if b = d then Some ([], bs) else map_option (\<lambda>(l, r). (b # l, r)) (split_once d bs))"

fun split_all :: "byte \<Rightarrow> bytes \<Rightarrow> bytes list" where
  "split_all d [] = [[]]"
| "split_all d (b # bs) =
     (if b = d then [] # split_all d bs
      else case split_all d bs of [] \<Rightarrow> [[b]] | s # ss \<Rightarrow> (b # s) # ss)"

fun hex_digits :: "nat \<Rightarrow> bytes" where
  "hex_digits n = (if n < 16 then [hex_digit (of_nat n)]
     else hex_digits (n div 16) @ [hex_digit (of_nat (n mod 16))])"

declare hex_digits.simps [simp del]

definition lower_hex :: "u64 \<Rightarrow> bytes" where
  "lower_hex w = hex_digits (unat w)"

definition hex_value :: "byte \<Rightarrow> nat option" where
  "hex_value b =
     (if 48 \<le> b \<and> b \<le> 57 then Some (unat b - 48)
      else if 97 \<le> b \<and> b \<le> 102 then Some (unat b - 87)
      else if 65 \<le> b \<and> b \<le> 70 then Some (unat b - 55)
      else None)"

fun radix16 :: "nat \<Rightarrow> bytes \<Rightarrow> nat option" where
  "radix16 acc [] = Some acc"
| "radix16 acc (b # bs) = Option.bind (hex_value b) (\<lambda>v.
     if acc * 16 + v < 2 ^ 64 then radix16 (acc * 16 + v) bs else None)"

definition from_str_radix16 :: "bytes \<Rightarrow> u64 option" where
  "from_str_radix16 s =
     (if s = [] \<or> s = [43] \<or> s = [45] then None
      else map_option of_nat (radix16 0 (if hd s = 43 then tl s else s)))"

section \<open>Client identifiers\<close>

type_synonym client_id = bytes

definition DELIMITER :: byte where
  "DELIMITER = 58"

definition DOMAIN_SEPERATOR :: byte where
  "DOMAIN_SEPERATOR = 64"

definition HISTORY_CLIENT_ID_PREFIX :: bytes where
  "HISTORY_CLIENT_ID_PREFIX = ascii ''history-client''"

definition client_id_new :: "id_codecs \<Rightarrow> u128 \<Rightarrow> u64 \<Rightarrow> bytes \<Rightarrow> client_id" where
  "client_id_new U user_id device_id domain =
     hyphenated U user_id @ [DELIMITER] @ lower_hex device_id @ [DOMAIN_SEPERATOR] @ domain"

definition new_ephemeral :: "id_codecs \<Rightarrow> u128 \<Rightarrow> client_id" where
  "new_ephemeral U user_id = HISTORY_CLIENT_ID_PREFIX @ [DELIMITER] @ hyphenated U user_id"

definition parse_user_id :: "id_codecs \<Rightarrow> bytes \<Rightarrow> session_error + u128" where
  "parse_user_id U user_id = ok_or InvalidQualifiedClientId (uuid_try_parse U user_id)"

definition parse_device_id :: "bytes \<Rightarrow> session_error + u64" where
  "parse_device_id device_id = ok_or InvalidQualifiedClientId (from_str_radix16 device_id)"

definition try_parse_bytes :: "id_codecs \<Rightarrow> bytes \<Rightarrow> session_error + (u128 \<times> u64 \<times> bytes)" where
  "try_parse_bytes U bytes =
     bindE (ok_or InvalidQualifiedClientId (from_utf8 bytes)) (\<lambda>client_id.
     bindE (ok_or InvalidQualifiedClientId (split_once DELIMITER client_id)) (\<lambda>(user_id, rest).
     bindE (parse_user_id U user_id) (\<lambda>user_id.
     bindE (ok_or InvalidQualifiedClientId (split_once DOMAIN_SEPERATOR rest)) (\<lambda>(device_id, domain).
     bindE (parse_device_id device_id) (\<lambda>device_id.
     Inr (user_id, device_id, domain))))))"

definition new_from_bytes :: "id_codecs \<Rightarrow> bytes \<Rightarrow> session_error + client_id" where
  "new_from_bytes U bytes = mapR (\<lambda>_. bytes) (try_parse_bytes U bytes)"

text \<open>\<open>deserialize\<close> panics, here \<open>None\<close>, on bytes that do not parse.\<close>

definition client_id_deserialize :: "id_codecs \<Rightarrow> client_id \<Rightarrow> (u128 \<times> u64 \<times> bytes) option" where
  "client_id_deserialize U c = (case try_parse_bytes U c of Inl _ \<Rightarrow> None | Inr parts \<Rightarrow> Some parts)"

definition user_id_try_from :: "bytes \<Rightarrow> session_error + bytes" where
  "user_id_try_from i =
     (let found = (case split_once DELIMITER i of None \<Rightarrow> i | Some (l, _) \<Rightarrow> l)
      in if length found = length i then Inl InvalidUserId else Inr found)"

section \<open>Legacy forms\<close>

datatype legacy_error = InvalidClientId

definition single_colon :: "bytes list \<Rightarrow> legacy_error + bytes" where
  "single_colon split = (case split of [rest] \<Rightarrow> Inr rest | _ \<Rightarrow> Inl InvalidClientId)"

definition wire_qualified_try_from :: "id_codecs \<Rightarrow> bytes \<Rightarrow> legacy_error + bytes" where
  "wire_qualified_try_from U bytes = (case split_all 58 bytes of
       [] \<Rightarrow> Inl InvalidClientId
     | user_id # split \<Rightarrow>
         bindE (ok_or InvalidClientId (base64_decode U user_id)) (\<lambda>user_id.
         bindE (if length user_id = 16 then Inr (from_be_bytes user_id) else Inl InvalidClientId) (\<lambda>uuid.
         bindE (single_colon split) (\<lambda>rest.
         Inr (hyphenated U uuid @ [58] @ rest)))))"

definition qualified_e2ei_try_from :: "id_codecs \<Rightarrow> bytes \<Rightarrow> legacy_error + bytes" where
  "qualified_e2ei_try_from U bytes = (case split_all 58 bytes of
       [] \<Rightarrow> Inl InvalidClientId
     | user_id # split \<Rightarrow>
         bindE (ok_or InvalidClientId (from_utf8 user_id)) (\<lambda>user_id.
         bindE (ok_or InvalidClientId (uuid_try_parse U user_id)) (\<lambda>uuid.
         bindE (single_colon split) (\<lambda>rest.
         Inr (base64_encode U (to_be_bytes 16 uuid) @ [58] @ rest)))))"

text \<open>\<open>get_user_id\<close> unwraps the parsed user id; \<open>None\<close> is the panic.\<close>

definition get_user_id :: "id_codecs \<Rightarrow> bytes \<Rightarrow> bytes option" where
  "get_user_id U i = map_option (hyphenated U) (uuid_try_parse U (hd (split_all 58 i)))"

section \<open>Lemmas on the text operations\<close>

lemma split_once_append: "d \<notin> set l \<Longrightarrow> split_once d (l @ d # r) = Some (l, r)"
  by (induction l) auto

lemma split_once_Some: "split_once d bs = Some (l, r) \<Longrightarrow> bs = l @ d # r \<and> d \<notin> set l"
  by (induction bs arbitrary: l) (auto split: if_splits)

lemma split_all_not_Nil [simp]: "split_all d bs \<noteq> []"
  by (cases bs) (auto split: list.splits)

lemma split_all_single: "d \<notin> set l \<Longrightarrow> split_all d l = [l]"
  by (induction l) auto

lemma split_all_append: "d \<notin> set l \<Longrightarrow> split_all d (l @ d # r) = l # split_all d r"
  by (induction l) auto

lemma hex_value_digit: "n < 16 \<Longrightarrow> hex_value (hex_digit (of_nat n)) = Some n"
proof -
  have "list_all (\<lambda>n. hex_value (hex_digit (of_nat n)) = Some n) [0..<16]"
    by code_simp
  then show "n < 16 \<Longrightarrow> ?thesis"
    by (simp add: list_all_iff)
qed

lemma hex_digit_range: "n < 16 \<Longrightarrow> hex_digit (of_nat n) \<le> 0x7F \<and> hex_digit (of_nat n) \<notin> {43, 45, 58, 64}"
proof -
  have "list_all (\<lambda>n. hex_digit (of_nat n) \<le> 0x7F \<and> hex_digit (of_nat n) \<notin> {43, 45, 58, 64}) [0..<16]"
    by code_simp
  then show "n < 16 \<Longrightarrow> ?thesis"
    by (simp add: list_all_iff)
qed

lemma radix16_hex_digits:
  "n < 2 ^ 64 \<Longrightarrow> radix16 0 (hex_digits n @ bs) = radix16 n bs"
proof (induction n arbitrary: bs rule: hex_digits.induct)
  case (1 n)
  show ?case
  proof (cases "n < 16")
    case True
    then show ?thesis
      by (simp add: hex_digits.simps[of n] hex_value_digit)
  next
    case False
    have "radix16 0 (hex_digits n @ bs) = radix16 (n div 16) (hex_digit (of_nat (n mod 16)) # bs)"
      using 1 False by (simp add: hex_digits.simps[of n])
    then show ?thesis
      using "1.prems" by (simp add: hex_value_digit)
  qed
qed

lemma hex_digits_set: "b \<in> set (hex_digits n) \<Longrightarrow> b \<le> 0x7F \<and> b \<notin> {43, 45, 58, 64}"
proof (induction n rule: hex_digits.induct)
  case (1 n)
  then show ?case
    using hex_digit_range[of n] hex_digit_range[of "n mod 16"]
    by (cases "n < 16") (auto simp: hex_digits.simps[of n])
qed

lemma hex_digits_not_Nil: "hex_digits n \<noteq> []"
  by (subst hex_digits.simps) simp

lemma from_str_radix16_lower_hex: "from_str_radix16 (lower_hex w) = Some w"
proof -
  let ?s = "hex_digits (unat w)"
  have "hd ?s \<noteq> 43" "?s \<noteq> [43]" "?s \<noteq> [45]"
    using hex_digits_set[of "hd ?s" "unat w"] hex_digits_set[of _ "unat w"] hex_digits_not_Nil[of "unat w"]
    by (auto simp: hd_in_set)
  moreover have "unat w < 2 ^ 64"
    using unsigned_less[of w] by (simp del: unsigned_less)
  ultimately show ?thesis
    using hex_digits_not_Nil[of "unat w"] radix16_hex_digits[of "unat w" "[]"]
    by (simp add: from_str_radix16_def lower_hex_def)
qed

lemma hyphenated_set:
  assumes "uuid_ok U" "b \<in> set (hyphenated U u)"
  shows "b \<le> 0x7F \<and> b \<noteq> 58"
proof -
  have "b = 45 \<or> (48 \<le> b \<and> b \<le> 57) \<or> (97 \<le> b \<and> b \<le> 102)"
    using assms by (simp add: uuid_ok_def)
  then show ?thesis
    by (auto intro: order.trans)
qed

lemma history_prefix:
  "length HISTORY_CLIENT_ID_PREFIX = 14" "58 \<notin> set HISTORY_CLIENT_ID_PREFIX"
  "\<forall>b \<in> set HISTORY_CLIENT_ID_PREFIX. b \<le> 0x7F"
  by (simp_all add: HISTORY_CLIENT_ID_PREFIX_def ascii_def)

section \<open>Codecs for the examples\<close>

text \<open>
  A digit-by-digit form padded with hyphens, and a base64 stand-in that never writes a colon.
\<close>

fun hex_decode :: "bytes \<Rightarrow> bytes" where
  "hex_decode (a # b # rest) = (case (hex_value a, hex_value b) of
       (Some x, Some y) \<Rightarrow> of_nat (x * 16 + y) # hex_decode rest
     | _ \<Rightarrow> [])"
| "hex_decode _ = []"

definition example_codecs :: id_codecs where
  "example_codecs = \<lparr>
     hyphenated = (\<lambda>u. hex_encode (to_be_bytes 16 u) @ [45, 45, 45, 45]),
     uuid_try_parse = (\<lambda>s. if length s = 36 then Some (from_be_bytes (hex_decode (take 32 s))) else None),
     base64_encode = hex_encode,
     base64_decode = (\<lambda>s. Some (hex_decode s))\<rparr>"

lemma nibbles:
  "unat (drop_bit 4 (b :: byte)) = unat b div 16" "unat (b AND 0x0F) = unat b mod 16"
proof -
  show "unat (drop_bit 4 b) = unat b div 16"
    by (simp add: drop_bit_eq_div unat_div)
  have "b AND 0x0F = take_bit 4 b"
    by (simp add: take_bit_eq_mask mask_eq_exp_minus_1)
  then show "unat (b AND 0x0F) = unat b mod 16"
    by (simp add: take_bit_eq_mod unat_mod)
qed

lemma hex_digit_nibbles:
  "hex_digit (drop_bit 4 b) = hex_digit (of_nat (unat b div 16))"
  "hex_digit (b AND 0x0F) = hex_digit (of_nat (unat b mod 16))"
  by (simp_all flip: nibbles)

lemma hex_encode_simps [simp]:
  "hex_encode [] = []"
  "hex_encode (b # bs) = hex_digit (of_nat (unat b div 16)) # hex_digit (of_nat (unat b mod 16)) # hex_encode bs"
  by (simp_all add: hex_encode_def hex_digit_nibbles)

lemma byte_div: "unat (b :: byte) div 16 < 16"
proof -
  have "unat b < 2 ^ LENGTH(8)"
    by (rule unsigned_less)
  then show ?thesis by simp
qed

lemma hex_decode_encode: "hex_decode (hex_encode bs) = bs"
  by (induction bs) (simp_all add: hex_value_digit byte_div)

lemma hex_encode_set: "b \<in> set (hex_encode bs) \<Longrightarrow> (48 \<le> b \<and> b \<le> 57) \<or> (97 \<le> b \<and> b \<le> 102)"
proof (induction bs)
  case (Cons x xs)
  have "list_all (\<lambda>n. let d = hex_digit (of_nat n) in (48 \<le> d \<and> d \<le> 57) \<or> (97 \<le> d \<and> d \<le> 102)) [0..<16]"
    by code_simp
  then have "(48 \<le> hex_digit (of_nat n) \<and> hex_digit (of_nat n) \<le> 57)
      \<or> (97 \<le> hex_digit (of_nat n) \<and> hex_digit (of_nat n) \<le> 102)" if "n < 16" for n
    using that by (simp add: list_all_iff Let_def)
  from this[of "unat x div 16"] this[of "unat x mod 16"] Cons show ?case
    by (auto simp: byte_div)
qed simp

lemma length_hex_encode [simp]: "length (hex_encode bs) = 2 * length bs"
  by (induction bs) simp_all

lemma example_codecs_ok: "uuid_ok example_codecs" "base64_ok example_codecs"
proof -
  have "b = 45 \<or> (48 \<le> b \<and> b \<le> 57) \<or> (97 \<le> b \<and> b \<le> 102)"
    if "b \<in> set (hyphenated example_codecs u)" for b u
    using that hex_encode_set[of b "to_be_bytes 16 u"] by (auto simp: example_codecs_def)
  then show "uuid_ok example_codecs"
    by (simp add: uuid_ok_def example_codecs_def hex_decode_encode from_to_be_bytes)
  have "58 \<notin> set (hex_encode bs)" for bs
    using hex_encode_set[of 58 bs] by auto
  then show "base64_ok example_codecs"
    by (simp add: base64_ok_def example_codecs_def hex_decode_encode)
qed

section \<open>Properties\<close>

lemma client_id_parses:
  assumes "uuid_ok U" "utf8_valid domain"
  shows "try_parse_bytes U (client_id_new U user device domain) = Inr (user, device, domain)"
    and "user_id_try_from (client_id_new U user device domain) = Inr (hyphenated U user)"
proof -
  have u: "58 \<notin> set (hyphenated U user)" "\<forall>b \<in> set (hyphenated U user). b \<le> 0x7F"
    using hyphenated_set[OF assms(1)] by blast+
  have d: "64 \<notin> set (lower_hex device)" "\<forall>b \<in> set (lower_hex device). b \<le> 0x7F"
    using hex_digits_set[of _ "unat device"] by (auto simp: lower_hex_def)
  have "utf8_valid (client_id_new U user device domain)"
    using u(2) d(2) assms(2)
    by (simp add: client_id_new_def utf8_valid_ascii_append DELIMITER_def DOMAIN_SEPERATOR_def)
  moreover have "split_once 58 (client_id_new U user device domain)
      = Some (hyphenated U user, lower_hex device @ 64 # domain)"
    using split_once_append[OF u(1)] by (simp add: client_id_new_def DELIMITER_def DOMAIN_SEPERATOR_def)
  moreover have "uuid_try_parse U (hyphenated U user) = Some user"
    using assms(1) by (simp add: uuid_ok_def)
  ultimately show "try_parse_bytes U (client_id_new U user device domain) = Inr (user, device, domain)"
    and "user_id_try_from (client_id_new U user device domain) = Inr (hyphenated U user)"
    using split_once_append[OF d(1), of domain]
    by (simp_all add: try_parse_bytes_def from_utf8_def DELIMITER_def DOMAIN_SEPERATOR_def parse_user_id_def
        parse_device_id_def from_str_radix16_lower_hex user_id_try_from_def client_id_new_def)
qed

text \<open>
  C20: Parsing inverts construction: the identifier built from a user, a device and any domain, also
  one that contains separators, parses back into exactly these parts, so the assertion in
  \<open>ClientId::new\<close> and the \<open>expect\<close> of \<open>deserialize\<close> never fire on it.
\<close>

theorem client_id_round_trip:
  assumes "uuid_ok U" "utf8_valid domain"
  shows "try_parse_bytes U (client_id_new U user device domain) = Inr (user, device, domain)
    \<and> client_id_deserialize U (client_id_new U user device domain) = Some (user, device, domain)
    \<and> user_id_try_from (client_id_new U user device domain) = Inr (hyphenated U user)"
  using client_id_parses[OF assms] by (simp add: client_id_deserialize_def)

theorem client_id_round_trip_witness:
  "client_id_deserialize example_codecs (client_id_new example_codecs 7 0x4959bc6ab12f2846 (ascii ''a:b@wire.com''))
     = Some (7, 0x4959bc6ab12f2846, ascii ''a:b@wire.com'')"
  using client_id_round_trip[OF example_codecs_ok(1), of "ascii ''a:b@wire.com''" 7 "0x4959bc6ab12f2846"]
  by (simp add: ascii_def)

lemma history_id_error:
  assumes "uuid_ok U"
  shows "try_parse_bytes U (new_ephemeral U user) = Inl InvalidQualifiedClientId"
proof -
  have "utf8_valid (new_ephemeral U user)"
    using history_prefix(3) hyphenated_set[OF assms, of _ user]
    by (simp add: new_ephemeral_def utf8_valid_ascii_append DELIMITER_def utf8_valid_low)
  moreover have "split_once 58 (new_ephemeral U user) = Some (HISTORY_CLIENT_ID_PREFIX, hyphenated U user)"
    using split_once_append[OF history_prefix(2)] by (simp add: new_ephemeral_def DELIMITER_def)
  moreover have "uuid_try_parse U HISTORY_CLIENT_ID_PREFIX = None"
    using assms history_prefix(1) unfolding uuid_ok_def by force
  ultimately show ?thesis
    by (simp add: try_parse_bytes_def from_utf8_def DELIMITER_def parse_user_id_def)
qed

text \<open>
  The identifier of a history client never parses as a client identifier: reading it back is an
  error, and \<open>deserialize\<close> panics on it.
\<close>

theorem history_client_id_does_not_parse:
  assumes "uuid_ok U"
  shows "new_from_bytes U (new_ephemeral U user) = Inl InvalidQualifiedClientId
    \<and> client_id_deserialize U (new_ephemeral U user) = None"
  using history_id_error[OF assms] by (simp add: new_from_bytes_def client_id_deserialize_def)

theorem history_client_id_does_not_parse_witness:
  "new_from_bytes example_codecs (new_ephemeral example_codecs 7) = Inl InvalidQualifiedClientId"
  using history_client_id_does_not_parse[OF example_codecs_ok(1), of 7] by simp

text \<open>
  The two legacy forms of a client identifier convert into each other: the wire form becomes the
  base64 form and back without a change, whatever the part after the user id, if it has no colon.
\<close>

theorem legacy_forms_round_trip:
  assumes "uuid_ok U" "base64_ok U" "58 \<notin> set rest"
  shows "\<exists>e2ei. qualified_e2ei_try_from U (hyphenated U user @ 58 # rest) = Inr e2ei
    \<and> wire_qualified_try_from U e2ei = Inr (hyphenated U user @ 58 # rest)"
proof -
  let ?b = "base64_encode U (to_be_bytes 16 user)"
  have u: "58 \<notin> set (hyphenated U user)" "utf8_valid (hyphenated U user)"
    using hyphenated_set[OF assms(1), of _ user] by (auto intro: utf8_valid_low)
  have b: "58 \<notin> set ?b" "base64_decode U ?b = Some (to_be_bytes 16 user)"
    using assms(2) by (simp_all add: base64_ok_def)
  have "qualified_e2ei_try_from U (hyphenated U user @ 58 # rest) = Inr (?b @ 58 # rest)"
    using split_all_append[OF u(1), of rest] split_all_single[OF assms(3)] u(2) assms(1)
    by (simp add: qualified_e2ei_try_from_def from_utf8_def single_colon_def uuid_ok_def)
  moreover have "wire_qualified_try_from U (?b @ 58 # rest) = Inr (hyphenated U user @ 58 # rest)"
    using split_all_append[OF b(1), of rest] split_all_single[OF assms(3)] b(2)
    by (simp add: wire_qualified_try_from_def single_colon_def from_to_be_bytes)
  ultimately show ?thesis by blast
qed

theorem legacy_forms_round_trip_witness:
  "\<exists>e2ei. qualified_e2ei_try_from example_codecs (hyphenated example_codecs 9 @ 58 # ascii ''ff@wire.com'') = Inr e2ei
    \<and> wire_qualified_try_from example_codecs e2ei = Inr (hyphenated example_codecs 9 @ 58 # ascii ''ff@wire.com'')"
  by (rule legacy_forms_round_trip[OF example_codecs_ok]) (simp add: ascii_def)

end
