(* ===== verification/Credentials.thy ===== *)
theory Credentials
  imports Keystore_Mls Client_Id
begin

text \<open>
  Credentials and key packages (\<open>crypto/src/mls/credential\<close>, \<open>crypto/src/mls/session\<close> and
  \<open>crypto/src/transaction_context\<close>): conversion from and to the stored form, references, the
  search for references, and adding and removing credentials with the key packages made from
  them.  The TLS form of an MLS credential, the known cipher suites and the key packages of OpenMLS
  are the parameters \<open>C\<close> and \<open>K\<close>.
\<close>

section \<open>Credentials\<close>

record mls_cred =
  mc_type :: u16
  mc_identity :: bytes
  mc_body :: bytes

datatype CredentialType = Basic | X509

datatype cred_error =
    CredKeystore CryptoKeystoreError
  | CredentialNotFound
  | CredTlsSerialize
  | CredTlsDeserialize
  | UnknownCipherSuite
  | UnsupportedCredentialType u16
  | CredClientId session_error
  | WrongCredential
  | CredentialStillInUse bytes
  | KeyPackageDeserialize
  | KeyPackageRef
  | GroupDeserialize
  | OwnLeafNodeMissing

record cred_codecs =
  tls_read :: "bytes \<Rightarrow> (mls_cred \<times> bytes) option"
  tls_write :: "mls_cred \<Rightarrow> bytes option"
  known_ciphersuite :: "u16 \<Rightarrow> bool"

definition credential_type_try_from :: "u16 \<Rightarrow> cred_error + CredentialType" where
  "credential_type_try_from v =
     (if v = 1 then Inr Basic else if v = 2 then Inr X509 else Inl (UnsupportedCredentialType v))"

definition credential_type_u16 :: "CredentialType \<Rightarrow> u16" where
  "credential_type_u16 t = (case t of Basic \<Rightarrow> 1 | X509 \<Rightarrow> 2)"

definition cipher_suite_try_from :: "cred_codecs \<Rightarrow> u16 \<Rightarrow> cred_error + u16" where
  "cipher_suite_try_from C c = (if known_ciphersuite C c then Inr c else Inl UnknownCipherSuite)"

record Credential =
  cr_cipher_suite :: u16
  cr_type :: CredentialType
  cr_mls :: mls_cred
  cr_private :: bytes
  cr_public :: bytes
  cr_earliest_validity :: u64

definition credential_try_from :: "cred_codecs \<Rightarrow> stored_credential \<Rightarrow> cred_error + Credential" where
  "credential_try_from C st =
     bindE (ok_or CredTlsDeserialize (tls_read C (credential st))) (\<lambda>(mls, _).
     bindE (cipher_suite_try_from C (ciphersuite st)) (\<lambda>cs.
     bindE (credential_type_try_from (mc_type mls)) (\<lambda>ty.
     Inr \<lparr>cr_cipher_suite = cs, cr_type = ty, cr_mls = mls, cr_private = private_key st,
          cr_public = public_key st, cr_earliest_validity = created_at st\<rparr>)))"

definition credential_client_id :: "Credential \<Rightarrow> bytes" where
  "credential_client_id c = mc_identity (cr_mls c)"

text \<open>\<open>get\<close> with a downcast to the stored credential.\<close>

definition get_stored :: "key \<Rightarrow> Database \<Rightarrow> cred_error + stored_credential option" where
  "get_stored h d = mapR (\<lambda>found. Option.bind found (\<lambda>e. case e of StoredCredential c \<Rightarrow> Some c | _ \<Rightarrow> None))
     (map_err CredKeystore (db_get StoredCredentialT h d))"

definition find_by_public_key :: "cred_codecs \<Rightarrow> hashes \<Rightarrow> bytes \<Rightarrow> Database \<Rightarrow> cred_error + Credential" where
  "find_by_public_key C H pk d =
     bindE (get_stored (hash_from H pk) d) (\<lambda>found.
     bindE (ok_or CredentialNotFound found) (credential_try_from C))"

definition stored_credentials :: "Entity list \<Rightarrow> stored_credential list" where
  "stored_credentials = List.map_filter (\<lambda>e. case e of StoredCredential c \<Rightarrow> Some c | _ \<Rightarrow> None)"

definition credential_get_all :: "cred_codecs \<Rightarrow> hashes \<Rightarrow> hash_order \<Rightarrow> Database \<Rightarrow> cred_error + Credential list" where
  "credential_get_all C H HO d =
     bindE (map_err CredKeystore (db_load_all H HO StoredCredentialT d)) (\<lambda>es.
     mapE (credential_try_from C) (stored_credentials es))"

section \<open>References\<close>

record CredentialRef =
  ref_client_id :: bytes
  ref_public_key_hash :: key
  ref_type :: CredentialType
  ref_cipher_suite :: u16
  ref_earliest_validity :: u64

definition from_credential :: "hashes \<Rightarrow> Credential \<Rightarrow> CredentialRef" where
  "from_credential H c = \<lparr>ref_client_id = credential_client_id c, ref_public_key_hash = hash_from H (cr_public c),
     ref_type = cr_type c, ref_cipher_suite = cr_cipher_suite c, ref_earliest_validity = cr_earliest_validity c\<rparr>"

text \<open>Saving gives the credential back with the time of its creation.\<close>

definition credential_save ::
  "cred_codecs \<Rightarrow> hashes \<Rightarrow> u64 option \<Rightarrow> Credential \<Rightarrow> Database \<Rightarrow> Database \<times> (cred_error + Credential \<times> CredentialRef)" where
  "credential_save C H now c d = (case tls_write C (cr_mls c) of
       None \<Rightarrow> (d, Inl CredTlsSerialize)
     | Some bs \<Rightarrow>
         (case db_save H now (StoredCredential \<lparr>session_id = credential_client_id c, credential = bs, created_at = 0,
              ciphersuite = cr_cipher_suite c, public_key = cr_public c, private_key = cr_private c\<rparr>) d of
            (d', Inl e) \<Rightarrow> (d', Inl (CredKeystore e))
          | (d', Inr generated) \<Rightarrow>
              let c' = c\<lparr>cr_earliest_validity := (case generated of None \<Rightarrow> 0 | Some t \<Rightarrow> t)\<rparr>
              in (d', Inr (c', from_credential H c'))))"

definition credential_delete :: "hashes \<Rightarrow> Credential \<Rightarrow> Database \<Rightarrow> Database \<times> (cred_error + unit)" where
  "credential_delete H c d = (case db_remove StoredCredentialT (hash_from H (cr_public c)) d of
       (d', r) \<Rightarrow> (d', map_err CredKeystore r))"

definition ref_load :: "cred_codecs \<Rightarrow> CredentialRef \<Rightarrow> Database \<Rightarrow> cred_error + Credential" where
  "ref_load C r d =
     bindE (get_stored (ref_public_key_hash r) d) (\<lambda>found.
     bindE (ok_or CredentialNotFound found) (credential_try_from C))"

definition ref_public_key :: "CredentialRef \<Rightarrow> Database \<Rightarrow> cred_error + bytes" where
  "ref_public_key r d =
     bindE (get_stored (ref_public_key_hash r) d) (\<lambda>found.
     mapR public_key (ok_or CredentialNotFound found))"

record FindFilters =
  ff_client_id :: "bytes option"
  ff_public_key_hash :: "bytes option"
  ff_cipher_suite :: "u16 option"
  ff_credential_type :: "CredentialType option"
  ff_earliest_validity :: "u64 option"

definition ref_of_stored ::
  "cred_codecs \<Rightarrow> id_codecs \<Rightarrow> hashes \<Rightarrow> CredentialType option \<Rightarrow> stored_credential \<Rightarrow> cred_error + CredentialRef option" where
  "ref_of_stored C U H wanted st = (case tls_read C (credential st) of
       Some (mls, []) \<Rightarrow>
         if \<not> is_none_or wanted (\<lambda>t. credential_type_u16 t = mc_type mls) then Inr None
         else (case (credential_type_try_from (mc_type mls), cipher_suite_try_from C (ciphersuite st)) of
             (Inr ty, Inr cs) \<Rightarrow>
               mapR (\<lambda>cid. Some \<lparr>ref_client_id = cid, ref_public_key_hash = hash_from H (public_key st), ref_type = ty,
                   ref_cipher_suite = cs, ref_earliest_validity = created_at st\<rparr>)
                 (map_err CredClientId (new_from_bytes U (session_id st)))
           | _ \<Rightarrow> Inr None)
     | _ \<Rightarrow> Inl CredTlsDeserialize)"

definition ref_find ::
  "cred_codecs \<Rightarrow> id_codecs \<Rightarrow> hashes \<Rightarrow> hash_order \<Rightarrow> FindFilters \<Rightarrow> Database \<Rightarrow> cred_error + CredentialRef list" where
  "ref_find C U H HO f d =
     bindE (map_err CredKeystore (db_search H HO (CredentialKey \<lparr>find_hash = ff_public_key_hash f, find_public_key = None,
         find_session_id = ff_client_id f, find_ciphersuite = ff_cipher_suite f,
         find_earliest_validity = ff_earliest_validity f\<rparr>) d)) (\<lambda>es.
     mapR (List.map_filter (\<lambda>r. r)) (mapE (ref_of_stored C U H (ff_credential_type f)) (stored_credentials es)))"

definition ref_get_all ::
  "cred_codecs \<Rightarrow> id_codecs \<Rightarrow> hashes \<Rightarrow> hash_order \<Rightarrow> Database \<Rightarrow> cred_error + CredentialRef list" where
  "ref_get_all C U H HO d = ref_find C U H HO
     \<lparr>ff_client_id = None, ff_public_key_hash = None, ff_cipher_suite = None, ff_credential_type = None,
      ff_earliest_validity = None\<rparr> d"

section \<open>Key packages\<close>

record 'k kp_lib =
  kp_deser :: "bytes \<Rightarrow> 'k option"
  kp_make_ref :: "'k \<Rightarrow> bytes option"
  kp_hpke_init_key :: "'k \<Rightarrow> bytes"
  kp_encryption_key :: "'k \<Rightarrow> bytes"
  kp_signature_key :: "'k \<Rightarrow> bytes"

definition from_stored :: "'k kp_lib \<Rightarrow> stored_keypackage \<Rightarrow> cred_error + 'k" where
  "from_stored K st = ok_or KeyPackageDeserialize (kp_deser K (keypackage st))"

definition stored_keypackages :: "Entity list \<Rightarrow> stored_keypackage list" where
  "stored_keypackages = List.map_filter (\<lambda>e. case e of StoredKeypackage c \<Rightarrow> Some c | _ \<Rightarrow> None)"

definition get_key_packages :: "'k kp_lib \<Rightarrow> hashes \<Rightarrow> hash_order \<Rightarrow> Database \<Rightarrow> cred_error + 'k list" where
  "get_key_packages K H HO d =
     mapR (\<lambda>es. List.map_filter (\<lambda>st. okay (from_stored K st)) (stored_keypackages es))
       (map_err CredKeystore (db_load_all H HO KeyPackageT d))"

definition get_keypackage_refs :: "'k kp_lib \<Rightarrow> hashes \<Rightarrow> hash_order \<Rightarrow> Database \<Rightarrow> cred_error + bytes list" where
  "get_keypackage_refs K H HO d =
     bindE (get_key_packages K H HO d) (mapE (\<lambda>kp. ok_or KeyPackageRef (kp_make_ref K kp)))"

definition load_key_package :: "'k kp_lib \<Rightarrow> bytes \<Rightarrow> Database \<Rightarrow> cred_error + 'k option" where
  "load_key_package K r d =
     bindE (map_err CredKeystore (db_get KeyPackageT (BytesKey r) d)) (\<lambda>found.
       case found of
         Some (StoredKeypackage st) \<Rightarrow> mapR Some (from_stored K st)
       | _ \<Rightarrow> Inr None)"

definition remove_key_package :: "'k kp_lib \<Rightarrow> bytes \<Rightarrow> Database \<Rightarrow> Database \<times> (cred_error + unit)" where
  "remove_key_package K r d = (case load_key_package K r d of
       Inl e \<Rightarrow> (d, Inl e)
     | Inr None \<Rightarrow> (d, Inr ())
     | Inr (Some kp) \<Rightarrow>
         (case db_remove KeyPackageT (BytesKey r) d of
            (d1, Inl e) \<Rightarrow> (d1, Inl (CredKeystore e))
          | (d1, Inr _) \<Rightarrow>
              (case db_remove HpkePrivateKeyT (BytesKey (kp_hpke_init_key K kp)) d1 of
                 (d2, Inl e) \<Rightarrow> (d2, Inl (CredKeystore e))
               | (d2, Inr _) \<Rightarrow>
                   (case db_remove EncryptionKeyPairT (BytesKey (kp_encryption_key K kp)) d2 of
                      (d3, r3) \<Rightarrow> (d3, map_err CredKeystore r3)))))"

text \<open>The loop goes on after an error and remembers the first one.\<close>

fun remove_retaining_err ::
  "'k kp_lib \<Rightarrow> 'k list \<Rightarrow> cred_error option \<Rightarrow> Database \<Rightarrow> Database \<times> cred_error option" where
  "remove_retaining_err K [] first_err d = (d, first_err)"
| "remove_retaining_err K (kp # kps) first_err d = (case kp_make_ref K kp of
       None \<Rightarrow> remove_retaining_err K kps (if first_err = None then Some KeyPackageRef else first_err) d
     | Some r \<Rightarrow>
         (case remove_key_package K r d of
            (d', Inl e) \<Rightarrow> remove_retaining_err K kps (if first_err = None then Some e else first_err) d'
          | (d', Inr _) \<Rightarrow> remove_retaining_err K kps first_err d'))"

definition remove_key_packages_for ::
  "cred_codecs \<Rightarrow> 'k kp_lib \<Rightarrow> hashes \<Rightarrow> hash_order \<Rightarrow> CredentialRef \<Rightarrow> Database \<Rightarrow> Database \<times> (cred_error + unit)" where
  "remove_key_packages_for C K H HO r d = (case ref_load C r d of
       Inl e \<Rightarrow> (d, Inl e)
     | Inr c \<Rightarrow>
         (case get_key_packages K H HO d of
            Inl e \<Rightarrow> (d, Inl e)
          | Inr kps \<Rightarrow>
              (case remove_retaining_err K (filter (\<lambda>kp. kp_signature_key K kp = cr_public c) kps) None d of
                 (d', None) \<Rightarrow> (d', Inr ())
               | (d', Some e) \<Rightarrow> (d', Inl e))))"

section \<open>Adding and removing credentials\<close>

definition add_credential ::
  "cred_codecs \<Rightarrow> hashes \<Rightarrow> u64 option \<Rightarrow> bytes \<Rightarrow> Credential \<Rightarrow> Database \<Rightarrow> Database \<times> (cred_error + CredentialRef)" where
  "add_credential C H now session_client_id c d =
     (if credential_client_id c \<noteq> session_client_id then (d, Inl WrongCredential)
      else case credential_save C H now c d of
        (d', Inl e) \<Rightarrow> (d', Inl e)
      | (d', Inr (c', _)) \<Rightarrow> (d', Inr (from_credential H c')))"

text \<open>
  The conversations are loaded into a hash map: \<open>order\<close> is the order in which it is iterated,
  \<open>own\<close> the credential of the own leaf of a serialized group.
\<close>

fun first_in_use :: "mls_cred \<Rightarrow> (bytes \<times> (cred_error + mls_cred)) list \<Rightarrow> cred_error + unit" where
  "first_in_use c [] = Inr ()"
| "first_in_use c ((conversation_id, own) # rest) =
     bindE own (\<lambda>used. if c = used then Inl (CredentialStillInUse conversation_id) else first_in_use c rest)"

definition persisted_groups :: "Entity list \<Rightarrow> persisted_mls_group list" where
  "persisted_groups = List.map_filter (\<lambda>e. case e of PersistedMlsGroup g \<Rightarrow> Some g | _ \<Rightarrow> None)"

record 'g group_codec =
  group_deser :: "bytes \<Rightarrow> 'g option"
  group_own_leaf :: "'g \<Rightarrow> mls_cred option"

definition remove_credential ::
  "cred_codecs \<Rightarrow> 'k kp_lib \<Rightarrow> 'g group_codec \<Rightarrow> hashes \<Rightarrow> hash_order \<Rightarrow> ((bytes \<times> 'g) list \<Rightarrow> (bytes \<times> 'g) list) \<Rightarrow>
     bytes \<Rightarrow> CredentialRef \<Rightarrow> Database \<Rightarrow> Database \<times> (cred_error + unit)" where
  "remove_credential C K G H HO iter session_client_id r d =
     (if ref_client_id r \<noteq> session_client_id then (d, Inl WrongCredential)
      else case bindE (ref_load C r d) (\<lambda>c.
          bindE (map_err CredKeystore (db_load_all H HO PersistedMlsGroupT d)) (\<lambda>es.
          bindE (mapE (\<lambda>g. mapR (Pair (group_id g)) (ok_or GroupDeserialize (group_deser G (group_state g)))) (persisted_groups es)) (\<lambda>gs.
          bindE (first_in_use (cr_mls c) (map (\<lambda>(i, g). (i, ok_or OwnLeafNodeMissing (group_own_leaf G g))) (iter gs))) (\<lambda>_.
          Inr c)))) of
        Inl e \<Rightarrow> (d, Inl e)
      | Inr c \<Rightarrow>
          (case remove_key_packages_for C K H HO r d of
             (d', Inl e) \<Rightarrow> (d', Inl e)
           | (d', Inr _) \<Rightarrow> credential_delete H c d'))"

end
