(* ===== verification/Group_View.thy ===== *)
theory Group_View
  imports Credentials
begin

text \<open>
  What a conversation reads off its MLS group (\<open>crypto/src/mls/conversation/immutable\<close>):
  the clients in it, duplicate detection, and the delay before this client commits.  The group
  itself is OpenMLS: an opaque \<open>'g\<close> with the observers of the parameter \<open>G\<close>.
\<close>

section \<open>Observers of an MLS group\<close>

datatype sender = Member u32 | External u32 | NewMemberProposal | NewMemberCommit

record mls_credential =
  cred_mls :: mls_cred
  cred_signature_key :: bytes

datatype proposal = RemoveProposal u32 | AddProposal bytes | UpdateProposal mls_credential | OtherProposal bytes

record queued_proposal =
  qp_proposal :: proposal
  qp_sender :: sender
  qp_ref :: bytes

record staged_commit =
  sc_proposals :: "queued_proposal list"
  sc_confirmation_tag :: bytes
  sc_epoch :: u64

record member =
  member_index :: u32
  member_credential :: mls_credential

definition cred_identity :: "mls_credential \<Rightarrow> bytes" where
  "cred_identity c = mc_identity (cred_mls c)"

definition member_identity :: "member \<Rightarrow> bytes" where
  "member_identity m = cred_identity (member_credential m)"

record 'g mls_view =
  epoch :: "'g \<Rightarrow> u64"
  own_leaf_index :: "'g \<Rightarrow> u32"
  members :: "'g \<Rightarrow> member list"
  pending_proposals :: "'g \<Rightarrow> queued_proposal list"
  pending_commit :: "'g \<Rightarrow> staged_commit option"
  is_active :: "'g \<Rightarrow> bool"
  confirmation_tag :: "'g \<Rightarrow> bytes option"

definition removed :: "queued_proposal \<Rightarrow> u32 option" where
  "removed p = (case qp_proposal p of RemoveProposal i \<Rightarrow> Some i | _ \<Rightarrow> None)"

section \<open>Clients\<close>

definition starts_with :: "bytes \<Rightarrow> bytes \<Rightarrow> bool" where
  "starts_with prefix bs \<longleftrightarrow> take (length prefix) bs = prefix"

definition is_history_client :: "client_id \<Rightarrow> bool" where
  "is_history_client c = starts_with HISTORY_CLIENT_ID_PREFIX c"

definition get_client_ids :: "id_codecs \<Rightarrow> 'g mls_view \<Rightarrow> 'g \<Rightarrow> session_error + client_id list" where
  "get_client_ids U G g =
     mapE (\<lambda>m. new_from_bytes U (member_identity m))
       (filter (\<lambda>m. \<not> starts_with HISTORY_CLIENT_ID_PREFIX (member_identity m)) (members G g))"

definition get_history_client_ids :: "'g mls_view \<Rightarrow> 'g \<Rightarrow> bytes list" where
  "get_history_client_ids G g =
     filter (starts_with HISTORY_CLIENT_ID_PREFIX) (map member_identity (members G g))"

definition is_history_sharing_enabled :: "'g mls_view \<Rightarrow> 'g \<Rightarrow> bool" where
  "is_history_sharing_enabled G g \<longleftrightarrow> get_history_client_ids G g \<noteq> []"

definition pending_removals :: "'g mls_view \<Rightarrow> 'g \<Rightarrow> u32 list" where
  "pending_removals G g = List.map_filter removed (pending_proposals G g)"

text \<open>The clients are collected through a hash set; the result is the set of them.\<close>

definition members_in_next_epoch :: "id_codecs \<Rightarrow> 'g mls_view \<Rightarrow> 'g \<Rightarrow> session_error + client_id set" where
  "members_in_next_epoch U G g =
     mapR set (mapE (\<lambda>m. new_from_bytes U (member_identity m))
       (filter (\<lambda>m. member_index m \<notin> set (pending_removals G g)) (members G g)))"

definition basic_credential :: "bytes \<Rightarrow> mls_credential" where
  "basic_credential bs = \<lparr>cred_mls = \<lparr>mc_type = 1, mc_identity = bs, mc_body = []\<rparr>, cred_signature_key = bs\<rparr>"

lemma member_basic [simp]:
  "member_identity \<lparr>member_index = i, member_credential = basic_credential bs\<rparr> = bs" "cred_identity (basic_credential bs) = bs"
  by (simp_all add: member_identity_def cred_identity_def basic_credential_def)

section \<open>Credentials in the group\<close>

definition own_update :: "u32 \<Rightarrow> queued_proposal \<Rightarrow> mls_credential option" where
  "own_update own_index p = (case (qp_sender p, qp_proposal p) of
       (Member i, UpdateProposal leaf) \<Rightarrow> if i = own_index then Some leaf else None
     | _ \<Rightarrow> None)"

definition extract_own_updated_node_from_proposals :: "u32 \<Rightarrow> queued_proposal list \<Rightarrow> mls_credential option" where
  "extract_own_updated_node_from_proposals own_index ps =
     (case List.map_filter (own_update own_index) ps of [] \<Rightarrow> None | leaves \<Rightarrow> Some (last leaves))"

text \<open>The first of several members with one identity is the one that is kept.\<close>

definition conversation_members :: "'g mls_view \<Rightarrow> 'g \<Rightarrow> (bytes \<times> mls_cred) list" where
  "conversation_members G g = foldl (\<lambda>acc m. let i = member_identity m in
       if map_of acc i = None then AList.update i (cred_mls (member_credential m)) acc else acc) [] (members G g)"

definition members_with_key :: "id_codecs \<Rightarrow> 'g mls_view \<Rightarrow> 'g \<Rightarrow> session_error + (client_id \<times> mls_credential) list" where
  "members_with_key U G g = mapR (\<lambda>ms. foldl (\<lambda>acc (i, c). AList.update i c acc) [] ms)
     (mapE (\<lambda>m. mapR (\<lambda>i. (i, member_credential m)) (new_from_bytes U (member_identity m))) (members G g))"

section \<open>Duplicates\<close>

datatype content_type = Application | Proposal | Commit

fun content_type_u8 :: "content_type \<Rightarrow> nat" where
  "content_type_u8 Application = 1"
| "content_type_u8 Proposal = 2"
| "content_type_u8 Commit = 3"

record public_message =
  pub_epoch :: u64
  pub_content_type :: content_type
  pub_sender :: sender
  pub_confirmation_tag :: "bytes option"
  pub_body :: "proposal option"
  pub_bytes :: bytes

datatype view_error =
    MlsGroupInvalidState string
  | ComputingConfirmationTag

definition is_duplicate_message :: "'g mls_view \<Rightarrow> public_message \<Rightarrow> 'g \<Rightarrow> view_error + bool" where
  "is_duplicate_message G msg g =
     (if pub_content_type msg = Commit
         \<and> (case pub_sender msg of Member _ \<Rightarrow> True | NewMemberCommit \<Rightarrow> True | _ \<Rightarrow> False) then
        bindE (ok_or (MlsGroupInvalidState ''a commit must have a ConfirmationTag'') (pub_confirmation_tag msg))
          (\<lambda>msg_ct. bindE (ok_or ComputingConfirmationTag (confirmation_tag G g)) (\<lambda>group_ct.
             Inr (msg_ct = group_ct)))
      else if pub_content_type msg = Proposal
         \<and> (case pub_sender msg of Member _ \<Rightarrow> True | NewMemberProposal \<Rightarrow> True | _ \<Rightarrow> False) then
        bindE (ok_or (MlsGroupInvalidState ''message body was not a proposal despite ContentType::Proposal'')
               (pub_body msg))
          (\<lambda>p. Inr (list_ex (\<lambda>pp. qp_proposal pp = p) (pending_proposals G g)))
      else Inr False)"

section \<open>The delay before committing\<close>

text \<open>
  \<open>ramp p\<close> is \<open>((p as f32).ln() * 120.0) as u64\<close>; the precision of the logarithm
  is the platform's.
\<close>

definition DELAY_RAMP_UP_SUB :: u64 where
  "DELAY_RAMP_UP_SUB = 106"

definition DELAY_POS_LINEAR_INCR :: u64 where
  "DELAY_POS_LINEAR_INCR = 15"

definition saturating_sub :: "'a::len word \<Rightarrow> 'a word \<Rightarrow> 'a word" where
  "saturating_sub a b = (if a < b then 0 else a - b)"

definition calculate_delay :: "(u64 \<Rightarrow> u64) \<Rightarrow> u64 \<Rightarrow> u64 \<Rightarrow> u64 \<Rightarrow> u64" where
  "calculate_delay ramp self_index ep nb_members =
     (let position = (if 0 < nb_members
            then ((ep mod nb_members) + (self_index mod nb_members)) mod nb_members + 1 else 1)
      in if 1 \<le> position \<and> position \<le> 3
         then saturating_sub position 1 * DELAY_POS_LINEAR_INCR
         else saturating_sub (ramp position) DELAY_RAMP_UP_SUB)"

definition compute_next_commit_delay :: "(u64 \<Rightarrow> u64) \<Rightarrow> 'g mls_view \<Rightarrow> 'g \<Rightarrow> u64 option" where
  "compute_next_commit_delay ramp G g =
     (if pending_proposals G g = [] then None
      else
        let removed_indices = remdups (List.map_filter removed (pending_proposals G g));
            self_index = own_leaf_index G g
        in if self_index \<in> set removed_indices then None
           else
             let own_index = ucast self_index;
                 left_tree_diff = of_nat (length (filter (\<lambda>m. member_index m \<in> set removed_indices)
                   (take (unat self_index) (members G g))));
                 nb_members = saturating_sub (of_nat (length (members G g))) (of_nat (length removed_indices))
             in Some (calculate_delay ramp (saturating_sub own_index left_tree_diff) (epoch G g) nb_members))"

section \<open>Lemmas on the delay\<close>

text \<open>
  What the curve needs of the logarithm from position 4 on: it does not decrease, and
  \<open>120 ln 4\<close> is at least \<open>137\<close> (it is 166).
\<close>

definition ramp_ok :: "(u64 \<Rightarrow> u64) \<Rightarrow> bool" where
  "ramp_ok ramp \<longleftrightarrow> (\<forall>p q. 4 \<le> p \<longrightarrow> p \<le> q \<longrightarrow> ramp p \<le> ramp q) \<and> 137 \<le> ramp 4"

definition position :: "u64 \<Rightarrow> u64 \<Rightarrow> u64 \<Rightarrow> nat" where
  "position self_index ep n = (unat ep + unat self_index) mod unat n + 1"

definition delay_at :: "(u64 \<Rightarrow> u64) \<Rightarrow> nat \<Rightarrow> nat" where
  "delay_at ramp p = (if p \<le> 3 then (p - 1) * 15 else unat (ramp (of_nat p)) - 106)"

lemma unat_less_pow: "unat (w :: u64) < 2 ^ 64"
  using unsigned_less[of w, where 'a = nat] by simp

lemma unat_saturating_sub: "unat (saturating_sub a b) = unat (a :: u64) - unat b"
  by (auto simp: saturating_sub_def word_less_nat_alt unat_sub_if')

lemma calculate_delay_nat:
  assumes "0 < n" "unat n \<le> 2 ^ 63"
  shows "unat (calculate_delay ramp i e n) = delay_at ramp (position i e n)"
proof -
  have n: "0 < unat n"
    using assms(1) by (simp add: word_less_nat_alt)
  have "unat (e mod n) < 2 ^ 63" "unat (i mod n) < 2 ^ 63"
    unfolding unat_mod by (rule order.strict_trans2[OF mod_less_divisor[OF n] assms(2)])+
  then have "unat (e mod n) + unat (i mod n) < 2 ^ 64"
    by simp
  then have sum: "unat (e mod n + i mod n) = unat e mod unat n + unat i mod unat n"
    using unat_add_lem[of "e mod n" "i mod n"] by (simp add: unat_mod)
  have "unat ((e mod n + i mod n) mod n) = (unat e + unat i) mod unat n"
    by (simp add: unat_mod sum mod_add_eq)
  moreover have "(unat e + unat i) mod unat n + 1 < 2 ^ 64"
    using mod_less_divisor[OF n, of "unat e + unat i"] unat_less_pow[of n] by linarith
  ultimately have pos: "unat ((e mod n + i mod n) mod n + 1) = position i e n"
    using unat_add_lem[of "(e mod n + i mod n) mod n" 1] by (simp add: position_def)
  let ?p = "(e mod n + i mod n) mod n + 1"
  have p: "1 \<le> unat ?p" "?p = of_nat (position i e n)"
  proof -
    show "1 \<le> unat ?p"
      by (simp add: pos position_def)
    show "?p = of_nat (position i e n)"
      unfolding pos[symmetric] by simp
  qed
  show ?thesis
  proof (cases "unat ?p \<le> 3")
    case True
    have "unat (saturating_sub ?p 1 * 15) = (unat ?p - 1) * 15"
    proof -
      have "unat (saturating_sub ?p 1) \<le> 2"
        using True by (simp add: unat_saturating_sub)
      then show ?thesis
        using unat_mult_lem[of "saturating_sub ?p 1" 15] by (simp add: unat_saturating_sub)
    qed
    then show ?thesis
      using True p assms(1) pos
      by (simp add: calculate_delay_def Let_def word_le_nat_alt delay_at_def DELAY_POS_LINEAR_INCR_def)
  next
    case False
    then show ?thesis
      using p assms(1) pos
      by (simp add: calculate_delay_def Let_def word_le_nat_alt delay_at_def unat_saturating_sub DELAY_RAMP_UP_SUB_def)
  qed
qed

lemma position_range: "0 < n \<Longrightarrow> 1 \<le> position i e n \<and> position i e n \<le> unat n"
  using mod_less_divisor[of "unat n" "unat e + unat i"]
  by (simp add: position_def Suc_le_eq word_less_nat_alt del: mod_less_divisor)

lemma delay_at_mono:
  assumes "ramp_ok ramp" "1 \<le> p" "p \<le> q" "q < 2 ^ 64"
  shows "delay_at ramp p \<le> delay_at ramp q"
proof (cases "q \<le> 3")
  case False
  have un: "unat (of_nat m :: u64) = m" if "m < 2 ^ 64" for m
    using that by (simp add: unat_of_nat)
  have four: "137 \<le> unat (ramp (of_nat q))"
  proof -
    have "ramp 4 \<le> ramp (of_nat q)"
      using assms(1,4) False un[of q] by (simp add: ramp_ok_def word_le_nat_alt)
    moreover have "137 \<le> ramp 4"
      using assms(1) by (simp add: ramp_ok_def)
    ultimately show ?thesis
      by (simp add: word_le_nat_alt)
  qed
  show ?thesis
  proof (cases "p \<le> 3")
    case True
    then have "(p - 1) * 15 \<le> 30" by simp
    then show ?thesis
      using True False four by (simp add: delay_at_def)
  next
    case p: False
    have "ramp (of_nat p) \<le> ramp (of_nat q)"
      using assms p un[of p] un[of q] by (simp add: ramp_ok_def word_le_nat_alt)
    then show ?thesis
      using False p by (simp add: delay_at_def word_le_nat_alt)
  qed
qed (use assms in \<open>simp add: delay_at_def\<close>)

lemma delay_at_zero:
  assumes "ramp_ok ramp" "1 \<le> p" "p < 2 ^ 64"
  shows "delay_at ramp p = 0 \<longleftrightarrow> p = 1"
proof -
  have "30 < delay_at ramp p" if "4 \<le> p"
  proof -
    have "31 \<le> delay_at ramp 4"
    proof -
      have "137 \<le> unat (ramp 4)"
        using assms(1) by (simp add: ramp_ok_def word_le_nat_alt)
      then show ?thesis by (simp add: delay_at_def)
    qed
    also have "\<dots> \<le> delay_at ramp p"
      using delay_at_mono[OF assms(1) _ that assms(3)] by simp
    finally show ?thesis by simp
  qed
  then show ?thesis
    using assms(2) by (cases "4 \<le> p") (auto simp: delay_at_def)
qed

lemma shifted_index:
  assumes "0 < (n :: nat)"
  shows "\<exists>i<n. (e + i) mod n = 0" and "i < n \<Longrightarrow> j < n \<Longrightarrow> (e + i) mod n = 0 \<Longrightarrow> (e + j) mod n = 0 \<Longrightarrow> i = j"
proof -
  let ?i = "(n - e mod n) mod n"
  have "(e + (n - e mod n)) mod n = (e mod n + (n - e mod n)) mod n"
    by (simp only: mod_add_left_eq)
  also have "\<dots> = 0"
    using mod_less_divisor[OF assms, of e] by simp
  finally have "?i < n \<and> (e + ?i) mod n = 0"
    using assms by (simp add: mod_add_right_eq)
  then show "\<exists>i<n. (e + i) mod n = 0" by (rule exI)
next
  have le: "j - i = 0" if "j < n" "(e + i) mod n = 0" "(e + j) mod n = 0" for i j
  proof -
    have "n dvd e + j" "n dvd e + i"
      using that(2,3) by (simp_all only: mod_eq_0_iff_dvd)
    then have "n dvd j - i"
      using dvd_diff_nat[of n "e + j" "e + i"] by simp
    then show ?thesis
      using that(1) by (metis dvd_imp_le gr0I leD less_imp_diff_less)
  qed
  show "i = j" if "i < n" "j < n" "(e + i) mod n = 0" "(e + j) mod n = 0"
    using le[of j i] le[of i j] that by simp
qed



lemma immediate_position:
  assumes "ramp_ok ramp" "0 < n" "unat n \<le> 2 ^ 63"
  shows "(\<exists>!i. i < n \<and> calculate_delay ramp i e n = 0)
    \<and> (\<forall>i j. position i e n \<le> position j e n \<longrightarrow> calculate_delay ramp i e n \<le> calculate_delay ramp j e n)"
proof -
  have n: "0 < unat n" "unat n < 2 ^ 64"
    using assms(2,3) by (simp_all add: word_less_nat_alt)
  have pos: "1 \<le> position i e n" "position i e n < 2 ^ 64" for i
    using position_range[OF assms(2), of i e] n(2) by linarith+
  have zero: "calculate_delay ramp i e n = 0 \<longleftrightarrow> (unat e + unat i) mod unat n = 0" for i
  proof -
    have "calculate_delay ramp i e n = 0 \<longleftrightarrow> unat (calculate_delay ramp i e n) = 0"
      by (simp add: unat_eq_0)
    also have "\<dots> \<longleftrightarrow> position i e n = 1"
      unfolding calculate_delay_nat[OF assms(2,3)] by (rule delay_at_zero[OF assms(1) pos])
    finally show ?thesis
      by (simp add: position_def)
  qed
  obtain k where k: "k < unat n" "(unat e + k) mod unat n = 0"
    using shifted_index(1)[OF n(1), of "unat e"] by (elim exE conjE)
  have uk: "unat (of_nat k :: u64) = k"
    using k(1) n(2) by (simp add: unat_of_nat)
  have "\<exists>!i. i < n \<and> calculate_delay ramp i e n = 0"
  proof (rule ex1I[of _ "of_nat k"])
    show "of_nat k < n \<and> calculate_delay ramp (of_nat k) e n = 0"
      using k uk by (simp add: zero word_less_nat_alt)
    fix i
    assume "i < n \<and> calculate_delay ramp i e n = 0"
    then have "unat i = k"
      using k shifted_index(2)[OF n(1), of "unat i" k "unat e"] by (simp add: zero word_less_nat_alt)
    then show "i = of_nat k" by auto
  qed
  moreover have "calculate_delay ramp i e n \<le> calculate_delay ramp j e n"
    if "position i e n \<le> position j e n" for i j
    unfolding word_le_nat_alt calculate_delay_nat[OF assms(2,3)]
    by (rule delay_at_mono[OF assms(1) pos(1) that pos(2)])
  ultimately show ?thesis by blast
qed

lemma rank_unique:
  fixes K :: "nat set"
  assumes "finite K" "k < card K"
  shows "\<exists>!i. i \<in> K \<and> card {j \<in> K. j < i} = k"
proof -
  let ?r = "\<lambda>i. card {j \<in> K. j < i}"
  have less: "?r i < ?r j" if "i \<in> K" "j \<in> K" "i < j" for i j
    using assms(1) that by (intro psubset_card_mono) auto
  have inj: "inj_on ?r K"
  proof (rule inj_onI)
    fix i j assume "i \<in> K" "j \<in> K" "?r i = ?r j"
    then show "i = j" using less[of i j] less[of j i] by (cases i j rule: linorder_cases) auto
  qed
  have "?r i < card K" if "i \<in> K" for i
    using assms(1) that by (intro psubset_card_mono) auto
  then have "?r ` K \<subseteq> {..<card K}" by auto
  moreover have "card (?r ` K) = card K"
    using inj by (rule card_image)
  ultimately have "?r ` K = {..<card K}"
    by (intro card_subset_eq) auto
  then obtain i where "i \<in> K" "?r i = k"
    using assms(2) by (metis (no_types, lifting) imageE lessThan_iff)
  then show ?thesis
    using inj by (auto simp: inj_on_def)
qed

text \<open>The members occupy the leaves \<open>0\<close> to \<open>n - 1\<close>: no leaf is blank.\<close>

definition full_tree :: "'g mls_view \<Rightarrow> 'g \<Rightarrow> nat \<Rightarrow> bool" where
  "full_tree G g n \<longleftrightarrow> map member_index (members G g) = map of_nat [0..<n] \<and> n \<le> 2 ^ 32
     \<and> (\<forall>r \<in> set (pending_removals G g). unat r < n)"

definition kept_leaves :: "'g mls_view \<Rightarrow> 'g \<Rightarrow> nat \<Rightarrow> nat set" where
  "kept_leaves G g n = {i. i < n \<and> of_nat i \<notin> set (pending_removals G g)}"

lemma unat_leaf: "i < n \<Longrightarrow> n \<le> 2 ^ 32 \<Longrightarrow> unat (of_nat i :: u32) = i"
  by (simp add: unat_of_nat)

lemma saturating_sub_of_nat:
  assumes "a + b = c" "c \<le> 2 ^ 32"
  shows "saturating_sub (of_nat c) (of_nat b) = (of_nat a :: u64)"
proof -
  have "unat (of_nat a :: u64) = a" "unat (of_nat b :: u64) = b" "unat (of_nat c :: u64) = c"
    using assms by (simp_all add: unat_of_nat)
  then show ?thesis
    using assms(1) by (simp add: word_unat_eq_iff unat_saturating_sub)
qed

lemma removed_leaves_card:
  assumes "full_tree G g n"
  shows "card {i. i < n \<and> (of_nat i :: u32) \<in> set (pending_removals G g)} = length (remdups (pending_removals G g))"
proof -
  let ?R = "set (pending_removals G g)"
  have "unat ` ?R = {i. i < n \<and> of_nat i \<in> ?R}"
    using assms unat_leaf[of _ n] by (force simp: full_tree_def)
  moreover have "card (unat ` ?R) = card ?R"
    by (rule card_image) (simp add: inj_on_def word_unat_eq_iff)
  ultimately show ?thesis by (simp add: length_remdups_card_conv)
qed

lemma kept_below:
  assumes "i \<le> n"
  shows "card {j \<in> kept_leaves G g n. j < i} + card {j. j < i \<and> (of_nat j :: u32) \<in> set (pending_removals G g)} = i"
proof -
  have "{j \<in> kept_leaves G g n. j < i} \<union> {j. j < i \<and> of_nat j \<in> set (pending_removals G g)} = {..<i}"
    using assms by (auto simp: kept_leaves_def)
  moreover have "{j \<in> kept_leaves G g n. j < i} \<inter> {j. j < i \<and> of_nat j \<in> set (pending_removals G g)} = {}"
    by (auto simp: kept_leaves_def)
  ultimately show ?thesis
    using card_Un_disjoint[of "{j \<in> kept_leaves G g n. j < i}" "{j. j < i \<and> of_nat j \<in> set (pending_removals G g)}"] by simp
qed

lemma left_tree_diff_card:
  assumes "full_tree G g n" "i \<le> n"
  shows "length (filter (\<lambda>m. member_index m \<in> R) (take i (members G g))) = card {j. j < i \<and> of_nat j \<in> R}"
proof -
  have "length (filter (\<lambda>m. member_index m \<in> R) (take i (members G g)))
      = length (filter (\<lambda>x. x \<in> R) (take i (map member_index (members G g))))"
    by (simp add: take_map filter_map comp_def)
  also have "\<dots> = length (filter (\<lambda>j. of_nat j \<in> R) [0..<i])"
    using assms by (simp add: full_tree_def take_map filter_map comp_def)
  also have "\<dots> = card (set (filter (\<lambda>j. of_nat j \<in> R) [0..<i]))"
    by (rule distinct_card[symmetric]) simp
  finally show ?thesis by (simp add: conj_commute)
qed

text \<open>On a tree without blank leaves the delay goes by the rank among the members that stay.\<close>

lemma delay_by_rank:
  assumes "full_tree G g n" "own_leaf_index G g = of_nat i" "i < n" "pending_proposals G g \<noteq> []"
  shows "compute_next_commit_delay ramp G g = (if i \<in> kept_leaves G g n
     then Some (calculate_delay ramp (of_nat (card {j \<in> kept_leaves G g n. j < i})) (epoch G g) (of_nat (card (kept_leaves G g n))))
     else None)"
proof -
  let ?K = "kept_leaves G g n" and ?R = "set (pending_removals G g)"
  have n: "n \<le> 2 ^ 32" and idx: "map member_index (members G g) = map of_nat [0..<n]"
    using assms(1) unfolding full_tree_def by simp_all
  have len: "length (members G g) = n"
    using arg_cong[OF idx, of length] by simp
  have all: "{j \<in> ?K. j < n} = ?K"
    by (auto simp: kept_leaves_def)
  have "card ?K + length (remdups (pending_removals G g)) = n"
    using kept_below[of n n G g] removed_leaves_card[OF assms(1)] all by simp
  then have "saturating_sub (of_nat n) (of_nat (length (remdups (pending_removals G g)))) = (of_nat (card ?K) :: u64)"
    using n by (rule saturating_sub_of_nat)
  moreover have "saturating_sub (ucast (of_nat i :: u32)) (of_nat (card {j. j < i \<and> of_nat j \<in> ?R}))
      = (of_nat (card {j \<in> ?K. j < i}) :: u64)"
  proof -
    have "ucast (of_nat i :: u32) = (of_nat i :: u64)"
      using assms(3) n by (simp add: word_unat_eq_iff unsigned_ucast_eq unat_leaf[OF assms(3) n] take_bit_nat_def unat_of_nat)
    moreover have "i \<le> 2 ^ 32" using assms(3) n by simp
    ultimately show ?thesis
      using saturating_sub_of_nat[OF kept_below[of i n G g]] assms(3) by simp
  qed
  ultimately show ?thesis
    using assms(2-4) left_tree_diff_card[OF assms(1), of i ?R] unat_leaf[of i n] n len
    by (simp add: compute_next_commit_delay_def Let_def pending_removals_def kept_leaves_def)
qed

text \<open>
  C21: When no leaf of the tree is blank, exactly one of the members that the pending proposals do not
  remove computes the delay 0, whatever the epoch and the removals; a removed member computes none.
  Here \<open>g i\<close> is the group as the member at leaf \<open>i\<close> sees it.
\<close>

theorem one_immediate_committer:
  assumes "ramp_ok ramp"
    and "\<forall>i<n. full_tree G (g i) n \<and> own_leaf_index G (g i) = of_nat i \<and> pending_proposals G (g i) = ps \<and> epoch G (g i) = e"
    and "ps \<noteq> []" "m < n" "of_nat m \<notin> set (pending_removals G (g m))"
  shows "(\<exists>!i. i < n \<and> compute_next_commit_delay ramp G (g i) = Some 0)
    \<and> (\<forall>i<n. of_nat i \<in> set (pending_removals G (g m)) \<longrightarrow> compute_next_commit_delay ramp G (g i) = None)"
proof -
  let ?K = "kept_leaves G (g m) n"
  have same: "pending_removals G (g i) = pending_removals G (g m)" if "i < n" for i
    using that assms(2,4) by (simp add: pending_removals_def)
  then have K: "kept_leaves G (g i) n = ?K" if "i < n" for i
    using that by (simp add: kept_leaves_def)
  have delay: "compute_next_commit_delay ramp G (g i) = (if i \<in> ?K
      then Some (calculate_delay ramp (of_nat (card {j \<in> ?K. j < i})) e (of_nat (card ?K))) else None)" if "i < n" for i
    using delay_by_rank[of G "g i" n i ramp] that assms(2,3) K[OF that] by simp
  have fin: "finite ?K" and card: "0 < card ?K" "card ?K \<le> 2 ^ 32"
  proof -
    show fin: "finite ?K" by (simp add: kept_leaves_def)
    show "0 < card ?K" using fin assms(4,5) by (auto simp: card_gt_0_iff kept_leaves_def)
    have "card ?K \<le> card {..<n}" by (rule card_mono) (auto simp: kept_leaves_def)
    then show "card ?K \<le> 2 ^ 32" using assms(2,4) by (fastforce simp: full_tree_def)
  qed
  have u: "unat (of_nat k :: u64) = k" if "k \<le> card ?K" for k
    using that card by (simp add: unat_of_nat)
  have "0 < (of_nat (card ?K) :: u64)" "unat (of_nat (card ?K) :: u64) \<le> 2 ^ 63"
    using card u[of "card ?K"] by (simp_all add: word_less_nat_alt)
  from immediate_position[OF assms(1) this, THEN conjunct1, of e]
  obtain w where w: "w < of_nat (card ?K)" "calculate_delay ramp w e (of_nat (card ?K)) = 0"
    and only: "\<And>v. v < of_nat (card ?K) \<Longrightarrow> calculate_delay ramp v e (of_nat (card ?K)) = 0 \<Longrightarrow> v = w"
    by blast
  have lt: "card {j \<in> ?K. j < i} < card ?K" if "i \<in> ?K" for i
    using fin that by (intro psubset_card_mono) auto
  have zero: "calculate_delay ramp (of_nat k) e (of_nat (card ?K)) = 0 \<longleftrightarrow> k = unat w" if "k < card ?K" for k
    using w only[of "of_nat k"] u[of k] u[of "card ?K"] that by (auto simp: word_less_nat_alt)
  have "unat w < card ?K"
    using w(1) u[of "card ?K"] by (simp add: word_less_nat_alt)
  moreover have "i \<in> ?K \<and> card {j \<in> ?K. j < i} = unat w \<longleftrightarrow> i < n \<and> compute_next_commit_delay ramp G (g i) = Some 0" for i
  proof (cases "i \<in> ?K")
    case True
    then have "i < n" by (simp add: kept_leaves_def)
    show ?thesis
      using True \<open>i < n\<close> by (simp add: delay[OF \<open>i < n\<close>] zero[OF lt[OF True]])
  next
    case False
    then show ?thesis using delay[of i] by auto
  qed
  ultimately have "\<exists>!i. i < n \<and> compute_next_commit_delay ramp G (g i) = Some 0"
    using rank_unique[OF fin, of "unat w"] by (simp only:)
  moreover have "compute_next_commit_delay ramp G (g i) = None" if "i < n" "of_nat i \<in> set (pending_removals G (g m))" for i
    using delay[OF that(1)] that(2) by (simp add: kept_leaves_def)
  ultimately show ?thesis by blast
qed

definition three_members :: "nat mls_view" where
  "three_members = \<lparr>epoch = (\<lambda>_. 5), own_leaf_index = of_nat,
     members = (\<lambda>_. map (\<lambda>i. \<lparr>member_index = i, member_credential = basic_credential []\<rparr>) [0, 1, 2]),
     pending_proposals = (\<lambda>_. [\<lparr>qp_proposal = RemoveProposal 0, qp_sender = Member 1, qp_ref = []\<rparr>]),
     pending_commit = (\<lambda>_. None), is_active = (\<lambda>_. True), confirmation_tag = (\<lambda>_. None)\<rparr>"

theorem one_immediate_committer_witness:
  "\<exists>!i. i < 3 \<and> compute_next_commit_delay (\<lambda>p. if p \<le> 4 then 166 else 200) three_members i = Some 0"
proof -
  have ramp: "ramp_ok (\<lambda>p. if p \<le> 4 then 166 else 200)"
    by (auto simp: ramp_ok_def)
  have same: "\<forall>i<3. full_tree three_members i 3 \<and> own_leaf_index three_members i = of_nat i
      \<and> pending_proposals three_members i = [\<lparr>qp_proposal = RemoveProposal 0, qp_sender = Member 1, qp_ref = []\<rparr>]
      \<and> epoch three_members i = 5"
    by (simp add: three_members_def full_tree_def pending_removals_def List.map_filter_def removed_def upt_rec)
  have stays: "of_nat 1 \<notin> set (pending_removals three_members 1)"
    by (simp add: three_members_def pending_removals_def List.map_filter_def removed_def)
  show ?thesis
    by (rule one_immediate_committer[OF ramp same _ _ stays, THEN conjunct1]) simp_all
qed

definition blank_leaf_view :: "u32 mls_view" where
  "blank_leaf_view = \<lparr>epoch = (\<lambda>_. 0), own_leaf_index = (\<lambda>i. i),
     members = (\<lambda>_. [\<lparr>member_index = 0, member_credential = basic_credential [0]\<rparr>, \<lparr>member_index = 2, member_credential = basic_credential [2]\<rparr>]),
     pending_proposals = (\<lambda>_. [\<lparr>qp_proposal = OtherProposal [], qp_sender = Member 0, qp_ref = []\<rparr>]),
     pending_commit = (\<lambda>_. None), is_active = (\<lambda>_. True), confirmation_tag = (\<lambda>_. None)\<rparr>"

text \<open>
  The delay goes by leaf index and not by rank, so blank leaves make two clients commit at the
  same time: with two members at the leaves 0 and 2, both have delay 0 in epoch 0.
\<close>

theorem blank_leaf_delay_collision:
  "compute_next_commit_delay ramp blank_leaf_view 0 = Some 0
    \<and> compute_next_commit_delay ramp blank_leaf_view 2 = Some 0"
  by (simp add: compute_next_commit_delay_def blank_leaf_view_def Let_def calculate_delay_def saturating_sub_def
      removed_def List.map_filter_def)

section \<open>Members of the next epoch\<close>

lemma mapE_fails:
  assumes "x \<in> set xs" "f x = Inl e"
  shows "\<exists>y e'. y \<in> set xs \<and> f y = Inl e' \<and> mapE f xs = Inl e'"
  using assms
proof (induction xs)
  case (Cons z zs)
  show ?case
  proof (cases "f z")
    case (Inl e')
    then show ?thesis by auto
  next
    case (Inr v)
    then have "x \<in> set zs"
      using Cons.prems by auto
    then obtain y e' where "y \<in> set zs" "f y = Inl e'" "mapE f zs = Inl e'"
      using Cons by blast
    then show ?thesis
      using Inr by auto
  qed
qed simp

lemma new_from_bytes_error: "new_from_bytes U b = Inl e \<Longrightarrow> e = InvalidQualifiedClientId"
  by (cases e) (auto simp: new_from_bytes_def try_parse_bytes_def parse_user_id_def parse_device_id_def
      ok_or_def res_simps bindE_def mapR_def split: option.splits sum.splits prod.splits)

text \<open>
  While a history client is in the group and not about to be removed, listing the members of the
  next epoch is an error, although the list of current clients leaves history clients out.
\<close>

theorem history_client_breaks_member_list:
  assumes "uuid_ok U" "m \<in> set (members G g)" "member_identity m = new_ephemeral U user"
    and "member_index m \<notin> set (pending_removals G g)"
  shows "members_in_next_epoch U G g = Inl InvalidQualifiedClientId
    \<and> member_identity m \<in> set (get_history_client_ids G g)"
proof -
  let ?f = "\<lambda>m. new_from_bytes U (member_identity m)"
  let ?ms = "filter (\<lambda>m. member_index m \<notin> set (pending_removals G g)) (members G g)"
  have "?f m = Inl InvalidQualifiedClientId"
    using history_id_error[OF assms(1), of user] assms(3) by (simp add: new_from_bytes_def)
  moreover have "m \<in> set ?ms"
    using assms(2,4) by simp
  ultimately obtain y e' where "y \<in> set ?ms" "?f y = Inl e'" "mapE ?f ?ms = Inl e'"
    using mapE_fails[of m ?ms ?f] by blast
  then have "members_in_next_epoch U G g = Inl InvalidQualifiedClientId"
    using new_from_bytes_error[of U "member_identity y" e'] by (simp add: members_in_next_epoch_def)
  moreover have "starts_with HISTORY_CLIENT_ID_PREFIX (new_ephemeral U user)"
    by (simp add: starts_with_def new_ephemeral_def)
  ultimately show ?thesis
    using imageI[OF assms(2), of member_identity] assms(3) by (simp add: get_history_client_ids_def)
qed

definition history_view :: "unit mls_view" where
  "history_view = \<lparr>epoch = (\<lambda>_. 0), own_leaf_index = (\<lambda>_. 0),
     members = (\<lambda>_. [\<lparr>member_index = 0, member_credential = basic_credential (client_id_new example_codecs 3 5 (ascii ''wire.com''))\<rparr>,
                    \<lparr>member_index = 1, member_credential = basic_credential (new_ephemeral example_codecs 4)\<rparr>]),
     pending_proposals = (\<lambda>_. []), pending_commit = (\<lambda>_. None), is_active = (\<lambda>_. True), confirmation_tag = (\<lambda>_. None)\<rparr>"

theorem history_client_breaks_member_list_witness:
  "members_in_next_epoch example_codecs history_view () = Inl InvalidQualifiedClientId"
  using history_client_breaks_member_list[OF example_codecs_ok(1),
      of "\<lparr>member_index = 1, member_credential = basic_credential (new_ephemeral example_codecs 4)\<rparr>" history_view "()" 4]
  by (simp add: history_view_def pending_removals_def List.map_filter_def)

end
