(* ===== verification/Conversation.thy ===== *)
theory Conversation
  imports State_Result Group_View Keystore_Mls
begin

text \<open>
  A conversation under mutation (\<open>crypto/src/mls/conversation/mutable\<close>): the in-memory MLS
  group with the database it is persisted to, mutation with automatic persistence, pending commits,
  own commits and wiping.  OpenMLS is the parameter \<open>lib\<close> of the environment: its operations
  on the opaque group also get the database, which they use as their key store.
\<close>

section \<open>Data\<close>

datatype mls_error =
    GenerationOutOfBound
  | WrongEpoch
  | AeadError
  | TooDistantInThePast
  | OwnCommit
  | MissingProposal
  | IncompatibleWireFormat
  | DuplicateSignatureKey
  | OtherMlsError

datatype conv_error =
    InappropriateMessageBodyType
  | MessageRejected
  | DuplicateMessage
  | MessageEpochTooOld
  | StaleMessage
  | BufferedCommit
  | BufferedFutureMessage u64
  | UnbufferedFarFutureMessage
  | StaleCommit
  | StaleProposal
  | DecryptionError
  | IdentityInitializationError
  | GroupInvalidState view_error
  | MlsMessageInvalidState string
  | PendingCommitNotFound
  | ClearingPendingCommitError
  | SelfCommitIgnored
  | DuplicateSignature "(client_id \<times> client_id) list"
  | TlsDeserialize
  | OpenMls mls_error
  | Keystore CryptoKeystoreError
  | MissingGroupInfo
  | OwnLeafMissing
  | InvalidTransactionContext
  | MlsNotInitialized
  | ExtractingIdentity
  | InvalidClient session_error
  | TransportError
  | TlsSerialize
  | LoadingCredential cred_error
  | HistorySecretGeneration
  | Recursive conv_error
  | ConvPanic string
  | Diverged

record private_message =
  priv_epoch :: u64
  priv_content_type :: content_type
  priv_bytes :: bytes

datatype mls_message = PublicMessage public_message | PrivateMessage private_message | OtherBody

datatype processed_content =
    ApplicationMessage bytes
  | ProposalMessage queued_proposal
  | StagedCommitMessage staged_commit
  | ExternalJoinProposalMessage queued_proposal

record processed_message =
  pm_credential :: mls_credential
  pm_content :: processed_content

datatype GroupInfoEncryptionType = Plaintext | JweEncrypted

datatype RatchetTreeType = Full | Delta | ByRef

record GroupInfoBundle =
  encryption_type :: GroupInfoEncryptionType
  ratchet_tree_type :: RatchetTreeType
  payload_bytes :: bytes

record CommitBundle =
  bundle_welcome :: "bytes option"
  bundle_commit :: bytes
  bundle_group_info :: GroupInfoBundle
  bundle_encrypted_message :: "bytes option"

text \<open>A key package as it is received, and the secret of a history client with its key package.\<close>

record key_package_in =
  kpi_identity :: bytes
  kpi_signature_key :: bytes
  kpi_bytes :: bytes

record HistorySecret =
  secret_client_id :: client_id
  secret_key_package :: key_package_in
  secret_bytes :: bytes

text \<open>The private and the public part of a signature key pair.\<close>

type_synonym signer = "bytes \<times> bytes"

definition signature_key :: "Credential \<Rightarrow> signer" where
  "signature_key c = (cr_private c, cr_public c)"

type_synonym ('g, 'a) mls_op = "'g \<Rightarrow> Database \<Rightarrow> (mls_error + 'a) \<times> 'g \<times> Database"

type_synonym commit_out = "bytes \<times> bytes option \<times> bytes option"

text \<open>Commits come with an optional welcome and an optional group info.\<close>

record 'g mls_lib =
  view :: "'g mls_view"
  own_leaf :: "'g \<Rightarrow> mls_credential option"
  own_leaf_keys :: "'g \<Rightarrow> bytes list"
  state_changed :: "'g \<Rightarrow> bool"
  set_persisted :: "'g \<Rightarrow> 'g"
  ser_group :: "'g \<Rightarrow> bytes keystore_result"
  process :: "mls_message \<Rightarrow> ('g, processed_message) mls_op"
  store_pending_proposal :: "queued_proposal \<Rightarrow> 'g \<Rightarrow> 'g"
  merge_staged :: "staged_commit \<Rightarrow> ('g, unit) mls_op"
  merge_pending :: "('g, unit) mls_op"
  clear_pending :: "'g \<Rightarrow> 'g"
  remove_pending_proposal :: "bytes \<Rightarrow> ('g, unit) mls_op"
  delete_previous_epoch_keypairs :: "('g, unit) mls_op"
  lib_add_members :: "signer \<Rightarrow> key_package_in list \<Rightarrow> ('g, bytes \<times> bytes \<times> bytes option) mls_op"
  lib_remove_members :: "signer \<Rightarrow> u32 list \<Rightarrow> ('g, commit_out) mls_op"
  lib_self_update :: "signer \<Rightarrow> mls_credential option \<Rightarrow> ('g, commit_out) mls_op"
  lib_commit_pending :: "signer \<Rightarrow> ('g, commit_out) mls_op"
  lib_commit_inline :: "signer \<Rightarrow> proposal list \<Rightarrow> ('g, commit_out) mls_op"
  lib_propose_add :: "signer \<Rightarrow> key_package_in \<Rightarrow> ('g, bytes) mls_op"
  lib_propose_remove :: "signer \<Rightarrow> u32 \<Rightarrow> ('g, bytes) mls_op"
  lib_create_message :: "signer \<Rightarrow> bytes \<Rightarrow> ('g, bytes) mls_op"

text \<open>
  The environment of one conversation: its id, the libraries, the identity extraction of the
  credentials, the wire formats, the source of fresh history secrets, and the transport, whose
  answer to a commit may depend on all commits sent before; \<open>index_order\<close> is the iteration order
  of a hash set of leaf indices.
\<close>

record 'g conv_env =
  conv_id :: bytes
  lib :: "'g mls_lib"
  hs :: hashes
  order :: hash_order
  codecs :: id_codecs
  log_ramp :: "u64 \<Rightarrow> u64"
  tls_deserialize :: "bytes \<Rightarrow> mls_message option"
  extract_identity :: "mls_credential \<Rightarrow> bytes option"
  cred_c :: cred_codecs
  ser_group_info :: "bytes \<Rightarrow> bytes option"
  ser_message :: "bytes \<Rightarrow> bytes option"
  new_history_secret :: "nat \<Rightarrow> HistorySecret option"
  transport_accepts :: "CommitBundle list \<Rightarrow> CommitBundle \<Rightarrow> bool"
  prepare_for_transport :: "HistorySecret \<Rightarrow> bytes option"
  index_order :: "u32 list \<Rightarrow> u32 list"

record 'g conv_state =
  group :: 'g
  database :: Database
  epoch_changes :: "(bytes \<times> u64) list"
  cached_conversations :: "bytes list"
  context_valid :: bool
  session_set :: bool
  sent :: "CommitBundle list"
  secrets_made :: nat
  history_observed :: "(bytes \<times> HistorySecret) list"
  history_observer :: bool

type_synonym ('g, 'a) conv_op = "('g conv_state, conv_error, 'a) fallible"

section \<open>The transaction context\<close>

definition require_context :: "('g, unit) conv_op" where
  "require_context s = (if context_valid s then (Inr (), s) else (Inl InvalidTransactionContext, s))"

definition crypto_provider :: "('g, unit) conv_op" where
  "crypto_provider = bindS require_context (\<lambda>_ s.
     if session_set s then (Inr (), s) else (Inl MlsNotInitialized, s))"

definition queue_epoch_changed :: "bytes \<Rightarrow> u64 \<Rightarrow> ('g, unit) conv_op" where
  "queue_epoch_changed c ep = bindS require_context (\<lambda>_.
     putS (\<lambda>s. s\<lparr>epoch_changes := epoch_changes s @ [(c, ep)]\<rparr>))"

text \<open>A keystore call on the database of the context.\<close>

definition on_database :: "(Database \<Rightarrow> Database \<times> 'a keystore_result) \<Rightarrow> ('g, 'a) conv_op" where
  "on_database f s = (case f (database s) of
       (d, Inl e) \<Rightarrow> (Inl (Keystore e), s\<lparr>database := d\<rparr>)
     | (d, Inr a) \<Rightarrow> (Inr a, s\<lparr>database := d\<rparr>))"

definition read_database :: "(Database \<Rightarrow> 'a keystore_result) \<Rightarrow> ('g, 'a) conv_op" where
  "read_database f s = (map_err Keystore (f (database s)), s)"

section \<open>Mutating the group\<close>

definition on_group :: "('g \<Rightarrow> Database \<Rightarrow> (conv_error + 'a) \<times> 'g \<times> Database) \<Rightarrow> ('g, 'a) conv_op" where
  "on_group operation s = (case operation (group s) (database s) of (r, g, d) \<Rightarrow>
     (r, s\<lparr>group := g, database := d\<rparr>))"

definition persist_when_changed :: "'g conv_env \<Rightarrow> ('g, unit) conv_op" where
  "persist_when_changed E = bindS (getS group) (\<lambda>g.
     if state_changed (lib E) g then
       bindS (liftS (map_err Keystore (ser_group (lib E) g))) (\<lambda>bytes.
       bindS (on_database (mls_group_persist (hs E) (conv_id E) bytes None)) (\<lambda>_.
       putS (\<lambda>s. s\<lparr>group := set_persisted (lib E) g\<rparr>)))
     else okS ())"

definition mutate_group ::
  "'g conv_env \<Rightarrow> ('g \<Rightarrow> Database \<Rightarrow> (conv_error + 'a) \<times> 'g \<times> Database) \<Rightarrow> ('g, 'a) conv_op" where
  "mutate_group E operation = bindS require_context (\<lambda>_.
     bindS (on_group operation) (\<lambda>ok_result.
     bindS (persist_when_changed E) (\<lambda>_. okS ok_result)))"

definition wrap_mls :: "('g, 'a) mls_op \<Rightarrow> 'g \<Rightarrow> Database \<Rightarrow> (conv_error + 'a) \<times> 'g \<times> Database" where
  "wrap_mls f g d = (case f g d of (r, g', d') \<Rightarrow> (map_err OpenMls r, g', d'))"

section \<open>Merging and pending commits\<close>

fun remove_keypairs :: "bytes list \<Rightarrow> Database \<Rightarrow> Database" where
  "remove_keypairs [] d = d"
| "remove_keypairs (ek # eks) d = remove_keypairs eks (fst (db_remove EncryptionKeyPairT (BytesKey ek) d))"

definition commit_accepted :: "'g conv_env \<Rightarrow> ('g, unit) conv_op" where
  "commit_accepted E = bindS crypto_provider (\<lambda>_.
     mutate_group E (\<lambda>g d.
       let previous_own_leaf_nodes = own_leaf_keys (lib E) g in
       case wrap_mls (merge_pending (lib E)) g d of
         (Inl e, g', d') \<Rightarrow> (Inl e, g', d')
       | (Inr _, g', d') \<Rightarrow> (Inr (), g', remove_keypairs previous_own_leaf_nodes d')))"

definition clear_pending_commit :: "'g conv_env \<Rightarrow> ('g, unit) conv_op" where
  "clear_pending_commit E = mutate_group E (\<lambda>g d.
     if pending_commit (view (lib E)) g = None then (Inl PendingCommitNotFound, g, d)
     else (Inr (), clear_pending (lib E) g, d))"

definition ensure_no_pending_commit :: "'g conv_env \<Rightarrow> ('g, unit) conv_op" where
  "ensure_no_pending_commit E = bindS (catchS (clear_pending_commit E)) (\<lambda>r.
     if r = Inl PendingCommitNotFound then okS () else liftS r)"

section \<open>Wiping\<close>

fun remove_proposals :: "'g conv_env \<Rightarrow> bytes list \<Rightarrow> 'g \<Rightarrow> Database \<Rightarrow> (conv_error + unit) \<times> 'g \<times> Database" where
  "remove_proposals E [] g d = (Inr (), g, d)"
| "remove_proposals E (p # ps) g d = (case wrap_mls (remove_pending_proposal (lib E) p) g d of
       (Inl e, g', d') \<Rightarrow> (Inl e, g', d')
     | (Inr _, g', d') \<Rightarrow> remove_proposals E ps g' d')"

definition wipe :: "'g conv_env \<Rightarrow> ('g, unit) conv_op" where
  "wipe E = bindS crypto_provider (\<lambda>_. bindS crypto_provider (\<lambda>_.
     bindS (mutate_group E (\<lambda>g d.
       case delete_previous_epoch_keypairs (lib E) g d of (_, g', d') \<Rightarrow>
         remove_proposals E (map qp_ref (pending_proposals (view (lib E)) g')) g' d')) (\<lambda>_.
     bindS (on_database (mls_group_delete (conv_id E))) (\<lambda>_.
     putS (\<lambda>s. s\<lparr>cached_conversations := removeAll (conv_id E) (cached_conversations s)\<rparr>)))))"

end
