(* ===== verification/Conversation_Store.thy ===== *)
theory Conversation_Store
  imports Conversation
begin

text \<open>
  What the operations of a conversation do to the database.  OpenMLS reaches it only through its
  key store trait; the conversation itself adds saves and removals.  The locale
  \<open>conversation_invariant\<close> collects what a property of the database needs to survive all of
  them, and proves it once for every operation.
\<close>

section \<open>The database seen by OpenMLS\<close>

inductive uses_key_store :: "hashes \<Rightarrow> Database \<Rightarrow> Database \<Rightarrow> bool" for H where
  unused: "uses_key_store H d d"
| stores: "uses_key_store H d d' \<Longrightarrow> mls_store H V k ser_v d' = (d'', r) \<Longrightarrow> uses_key_store H d d''"
| deletes: "uses_key_store H d d' \<Longrightarrow> mls_delete V k d' = (d'', r) \<Longrightarrow> uses_key_store H d d''"

definition mls_op_ok :: "hashes \<Rightarrow> ('g, 'a) mls_op \<Rightarrow> bool" where
  "mls_op_ok H f \<longleftrightarrow> (\<forall>g d r g' d'. f g d = (r, g', d') \<longrightarrow> uses_key_store H d d')"

text \<open>
  The documented contract of OpenMLS: every operation that gets the provider changes the database
  only through \<open>OpenMlsKeyStore\<close>.
\<close>

definition lib_ok :: "'g conv_env \<Rightarrow> bool" where
  "lib_ok E \<longleftrightarrow>
     (\<forall>m. mls_op_ok (hs E) (process (lib E) m)) \<and> (\<forall>c. mls_op_ok (hs E) (merge_staged (lib E) c))
     \<and> mls_op_ok (hs E) (merge_pending (lib E)) \<and> (\<forall>p. mls_op_ok (hs E) (remove_pending_proposal (lib E) p))
     \<and> mls_op_ok (hs E) (delete_previous_epoch_keypairs (lib E))
     \<and> (\<forall>sk k. mls_op_ok (hs E) (lib_add_members (lib E) sk k)) \<and> (\<forall>sk l. mls_op_ok (hs E) (lib_remove_members (lib E) sk l))
     \<and> (\<forall>sk c. mls_op_ok (hs E) (lib_self_update (lib E) sk c)) \<and> (\<forall>sk. mls_op_ok (hs E) (lib_commit_pending (lib E) sk))
     \<and> (\<forall>sk p. mls_op_ok (hs E) (lib_commit_inline (lib E) sk p)) \<and> (\<forall>sk k. mls_op_ok (hs E) (lib_propose_add (lib E) sk k))
     \<and> (\<forall>sk l. mls_op_ok (hs E) (lib_propose_remove (lib E) sk l)) \<and> (\<forall>sk m. mls_op_ok (hs E) (lib_create_message (lib E) sk m))"

lemma mls_op_okD: "mls_op_ok H f \<Longrightarrow> f g d = (r, g', d') \<Longrightarrow> uses_key_store H d d'"
  by (auto simp: mls_op_ok_def)

section \<open>Mutations of a conversation\<close>

text \<open>The mutations the inner operations perform: they save only values of OpenMLS and the group.\<close>

definition mls_types :: "EntityType set" where
  "mls_types = {KeyPackageT, HpkePrivateKeyT, PskBundleT, EncryptionKeyPairT, EpochEncryptionKeyPairT, PersistedMlsGroupT}"

definition inner_mutation :: "mutation \<Rightarrow> bool" where
  "inner_mutation m = (case m of
       Save now e \<Rightarrow> now = None \<and> plain e \<and> type_of e \<in> mls_types
     | _ \<Rightarrow> True)"

lemma inner_mutation_ok: "inner_mutation m \<Longrightarrow> mutation_ok m"
  using plain_mutation_ok by (auto simp: inner_mutation_def mutation_ok_def split: mutation.splits)

lemma stored_entity_type: "stored_entity V k data = Inr e \<Longrightarrow> type_of e \<in> mls_types"
  by (auto simp: stored_entity_def mls_types_def split: MlsEntityId.splits)

lemma mls_store_mutation:
  assumes "mls_store H V k ser_v d = (d', r)"
  shows "d' = d \<or> (\<exists>m. inner_mutation m \<and> d' = mutate H m d)"
proof (cases "k = [] \<or> \<not> is_ok (bindE ser_v (stored_entity V k))")
  case True
  then show ?thesis
    using assms by (auto simp: mls_store_def is_ok_def split: sum.splits if_splits)
next
  case False
  then obtain data e where e: "ser_v = Inr data" "stored_entity V k data = Inr e"
    by (auto simp: is_ok_iff bindE_def split: sum.splits)
  then have "d' = mutate H (Save None e) d"
    using assms False by (simp add: mls_store_def mutate_def split: prod.splits)
  moreover have "inner_mutation (Save None e)"
    using stored_entity_props(1)[OF e(2)] stored_entity_type[OF e(2)] by (simp add: inner_mutation_def)
  ultimately show ?thesis by blast
qed

lemma mls_delete_mutation:
  assumes "mls_delete V k d = (d', r)"
  shows "d' = d \<or> (\<exists>m. inner_mutation m \<and> d' = mutate H m d)"
proof (cases "V = SignatureKeyPairId")
  case True
  then show ?thesis
    using assms by (simp add: mls_delete_def)
next
  case False
  then have "d' = mutate H (Remove (entity_type_of V) (BytesKey k)) d"
    using assms by (simp add: mls_delete_def mutate_def)
  then show ?thesis
    by (intro disjI2 exI[of _ "Remove (entity_type_of V) (BytesKey k)"]) (simp add: inner_mutation_def)
qed

lemma on_database_Inl: "on_database f s = (Inl e, s') \<Longrightarrow> \<exists>k. e = Keystore k"
  by (auto simp: on_database_def split: prod.splits sum.splits)

lemma persist_Inl:
  assumes "persist_when_changed E s = (Inl e, s')"
  shows "\<exists>k. e = Keystore k"
proof (cases "state_changed (lib E) (group s) \<and> is_ok (ser_group (lib E) (group s))")
  case True
  then obtain b where "ser_group (lib E) (group s) = Inr b"
    by (auto simp: is_ok_iff)
  then show ?thesis
    using assms True on_database_Inl[of "mls_group_persist (hs E) (conv_id E) b None"]
    by (auto simp: persist_when_changed_def getS_def liftS_def bindS_simps bindS_Inl putS_def)
next
  case False
  then show ?thesis
    using assms
    by (auto simp: persist_when_changed_def getS_def liftS_def okS_def bindS_simps bindS_Inl is_ok_def
        split: if_splits sum.splits)
qed

lemma mutate_group_Inl:
  assumes "mutate_group E f s = (Inl e, s')"
  shows "e = InvalidTransactionContext \<or> (\<exists>k. e = Keystore k)
    \<or> (\<exists>g' d'. f (group s) (database s) = (Inl e, g', d'))"
  using assms persist_Inl[of E _ e s']
  by (auto simp: mutate_group_def bindS_Inl require_context_def on_group_def okS_def split: if_splits prod.splits)

section \<open>Properties that survive every operation\<close>

fun plain_error :: "conv_error \<Rightarrow> bool" where
  "plain_error Diverged = False"
| "plain_error (Recursive _) = False"
| "plain_error BufferedCommit = False"
| "plain_error _ = True"

abbreviation on_db :: "(Database \<Rightarrow> bool) \<Rightarrow> 'g conv_state \<Rightarrow> bool" where
  "on_db P \<equiv> \<lambda>s. P (database s)"

locale conversation_invariant =
  fixes E :: "'g conv_env" and P :: "Database \<Rightarrow> bool" and Q :: "conv_error \<Rightarrow> bool"
  assumes lib: "P d \<Longrightarrow> lib_ok E"
    and inner: "P d \<Longrightarrow> inner_mutation m \<Longrightarrow> P (mutate (hs E) m d)"
    and plain_errors: "plain_error e \<Longrightarrow> Q e"
    and recursive_errors: "Q e \<Longrightarrow> Q (Recursive e)"
begin

lemma key_store_keeps:
  assumes "uses_key_store (hs E) d d'" "P d"
  shows "P d'"
  using assms
proof (induction rule: uses_key_store.induct)
  case (stores d d' V k ser_v d'' r)
  then show ?case
    using mls_store_mutation[of "hs E" V k ser_v d' d'' r] inner by auto
next
  case (deletes d d' V k d'' r)
  then show ?case
    using mls_delete_mutation[of V k d' d'' r "hs E"] inner by auto
qed simp

lemma context_upholds [intro!]:
  "upholds (on_db P) Q require_context" "upholds (on_db P) Q crypto_provider"
  "upholds (on_db P) Q (queue_epoch_changed c ep)"
proof -
  show r: "upholds (on_db P) Q require_context"
    by (rule deliversI) (auto simp: require_context_def plain_errors split: if_splits)
  show "upholds (on_db P) Q crypto_provider"
    unfolding crypto_provider_def
    by (intro upholds_bindS r deliversI) (auto simp: plain_errors split: if_splits)
  show "upholds (on_db P) Q (queue_epoch_changed c ep)"
    unfolding queue_epoch_changed_def by (intro upholds_bindS r deliversI) (auto simp: putS_def)
qed

lemma read_upholds [intro!]: "upholds (on_db P) Q (read_database f)"
  by (rule deliversI) (auto simp: read_database_def map_err_def plain_errors split: sum.splits)

lemma write_upholds:
  assumes "\<And>d. P d \<Longrightarrow> P (fst (f d))"
  shows "upholds (on_db P) Q (on_database f)"
  by (rule deliversI) (auto simp: on_database_def plain_errors split: prod.splits sum.splits dest: assms)

lemma removes_keep:
  "P d \<Longrightarrow> P (fst (db_remove T k d))" "P d \<Longrightarrow> P (fst (db_remove_pending_messages c d))"
  using inner[of d "Remove T k"] inner[of d "RemovePendingMessages c"]
  by (simp_all add: inner_mutation_def mutate_def)

lemma remove_keypairs_keeps: "P d \<Longrightarrow> P (remove_keypairs ks d)"
  by (induction ks arbitrary: d) (simp_all add: removes_keep)

lemma group_persist_keeps: "P d \<Longrightarrow> P (fst (mls_group_persist (hs E) c b parent d))"
  using inner[of d "Save None (PersistedMlsGroup \<lparr>group_id = c, group_state = b, parent_id = parent\<rparr>)"]
  by (simp add: inner_mutation_def mls_types_def plain_def storable_def mutate_def mls_group_persist_def Let_def
      case_prod_beta)

lemma lift_upholds [intro!]: "upholds (on_db P) Q (liftS (map_err Keystore r))"
  by (cases r) (auto simp: plain_errors)

lemma put_upholds [intro!]:
  "upholds (on_db P) Q (putS (\<lambda>s. s\<lparr>group := f s\<rparr>))"
  "upholds (on_db P) Q (putS (\<lambda>s. s\<lparr>cached_conversations := c s\<rparr>))"
  by (auto intro!: deliversI simp: putS_def)

lemma persist_upholds: "upholds (on_db P) Q (persist_when_changed E)"
proof -
  have "upholds (on_db P) Q (on_database (mls_group_persist (hs E) c b parent))" for c b parent
    by (intro write_upholds group_persist_keeps)
  then have "upholds (on_db P) Q (bindS (liftS (map_err Keystore (ser_group (lib E) g))) (\<lambda>bytes.
       bindS (on_database (mls_group_persist (hs E) (conv_id E) bytes None)) (\<lambda>_.
       putS (\<lambda>s. s\<lparr>group := set_persisted (lib E) g\<rparr>))))" for g
    by (intro upholds_bindS lift_upholds put_upholds)
  then show ?thesis
    unfolding persist_when_changed_def by (intro upholds_bindS delivers_basic(3)) (auto split: if_splits)
qed

lemma mutate_group_upholds:
  assumes "\<And>g d r g' d'. P d \<Longrightarrow> f g d = (r, g', d') \<Longrightarrow> P d' \<and> (case r of Inl e \<Rightarrow> Q e | Inr a \<Rightarrow> R a)"
  shows "delivers (on_db P) Q R (mutate_group E f)"
proof -
  have "delivers (on_db P) Q R (on_group f)"
  proof (rule deliversI)
    fix s e s'
    assume "P (database s)" "on_group f s = (Inl e, s')"
    then show "P (database s') \<and> Q e"
      using assms[of "database s" "group s"] by (auto simp: on_group_def split: prod.splits)
  next
    fix s a s'
    assume "P (database s)" "on_group f s = (Inr a, s')"
    then show "P (database s') \<and> R a"
      using assms[of "database s" "group s"] by (auto simp: on_group_def split: prod.splits)
  qed
  then show ?thesis
    unfolding mutate_group_def
    by (auto intro!: upholds_bindS[OF context_upholds(1)] delivers_bindS[of _ _ R] upholds_bindS[OF persist_upholds])
qed

lemma wrap_mls_keeps:
  assumes "mls_op_ok (hs E) f" "P d" "wrap_mls f g d = (r, g', d')"
  shows "P d' \<and> (case r of Inl e \<Rightarrow> Q e | Inr _ \<Rightarrow> True)"
proof -
  obtain r1 where f: "f g d = (r1, g', d')" "r = map_err OpenMls r1"
    using assms(3) by (auto simp: wrap_mls_def split: prod.splits)
  have "P d'"
    using key_store_keeps[OF mls_op_okD[OF assms(1) f(1)] assms(2)] .
  then show ?thesis
    using f(2) by (cases r1) (simp_all add: plain_errors)
qed

lemma wrap_mls_upholds:
  "(lib_ok E \<Longrightarrow> mls_op_ok (hs E) f) \<Longrightarrow> upholds (on_db P) Q (mutate_group E (wrap_mls f))"
  by (rule mutate_group_upholds) (rule wrap_mls_keeps[OF _ _], blast dest: lib)

lemma commit_accepted_upholds: "upholds (on_db P) Q (commit_accepted E)"
  unfolding commit_accepted_def Let_def
proof (intro upholds_bindS context_upholds mutate_group_upholds)
  fix g d r g' d'
  assume d: "P d" and run: "(case wrap_mls (merge_pending (lib E)) g d of (Inl e, g', d') \<Rightarrow> (Inl e, g', d')
    | (Inr _, g', d') \<Rightarrow> (Inr (), g', remove_keypairs (own_leaf_keys (lib E) g) d')) = (r, g', d')"
  have ok: "mls_op_ok (hs E) (merge_pending (lib E))"
    using lib[OF d] by (simp add: lib_ok_def)
  obtain r1 g1 d1 where w: "wrap_mls (merge_pending (lib E)) g d = (r1, g1, d1)"
    by (cases "wrap_mls (merge_pending (lib E)) g d")
  show "P d' \<and> (case r of Inl e \<Rightarrow> Q e | Inr _ \<Rightarrow> True)"
    using wrap_mls_keeps[OF ok d w] run w remove_keypairs_keeps[of d1] by (auto split: sum.splits)
qed

lemma clear_pending_commit_upholds: "upholds (on_db P) Q (clear_pending_commit E)"
  unfolding clear_pending_commit_def
  by (rule mutate_group_upholds) (auto simp: plain_errors split: if_splits)

lemma ensure_no_pending_commit_upholds: "upholds (on_db P) Q (ensure_no_pending_commit E)"
  unfolding ensure_no_pending_commit_def
  by (rule delivers_bindS[OF delivers_catchS[OF clear_pending_commit_upholds]])
    auto

lemma remove_proposals_keeps:
  "P d \<Longrightarrow> remove_proposals E ps g d = (r, g', d') \<Longrightarrow> P d' \<and> (case r of Inl e \<Rightarrow> Q e | Inr _ \<Rightarrow> True)"
proof (induction ps arbitrary: g d)
  case (Cons p ps)
  have ok: "mls_op_ok (hs E) (remove_pending_proposal (lib E) p)"
    using lib[OF Cons.prems(1)] by (simp add: lib_ok_def)
  obtain r1 g1 d1 where w: "wrap_mls (remove_pending_proposal (lib E) p) g d = (r1, g1, d1)"
    by (cases "wrap_mls (remove_pending_proposal (lib E) p) g d")
  then show ?case
    using Cons wrap_mls_keeps[OF ok Cons.prems(1) w] by (auto split: sum.splits)
qed auto

lemma wipe_upholds: "upholds (on_db P) Q (wipe E)"
proof -
  have "upholds (on_db P) Q (mutate_group E (\<lambda>g d. case delete_previous_epoch_keypairs (lib E) g d of (_, g', d') \<Rightarrow>
      remove_proposals E (map qp_ref (pending_proposals (view (lib E)) g')) g' d'))"
  proof (rule mutate_group_upholds)
    fix g d r g' d'
    assume d: "P d" and run: "(case delete_previous_epoch_keypairs (lib E) g d of (_, g', d') \<Rightarrow>
      remove_proposals E (map qp_ref (pending_proposals (view (lib E)) g')) g' d') = (r, g', d')"
    obtain r1 g1 d1 where del: "delete_previous_epoch_keypairs (lib E) g d = (r1, g1, d1)"
      by (cases "delete_previous_epoch_keypairs (lib E) g d")
    have ok: "mls_op_ok (hs E) (delete_previous_epoch_keypairs (lib E))"
      using lib[OF d] by (simp add: lib_ok_def)
    have "P d1"
      using key_store_keeps[OF mls_op_okD[OF ok del] d] .
    then show "P d' \<and> (case r of Inl e \<Rightarrow> Q e | Inr _ \<Rightarrow> True)"
      using run del remove_proposals_keeps by simp
  qed
  moreover have "upholds (on_db P) Q (on_database (mls_group_delete (conv_id E)))"
    by (rule write_upholds) (simp add: mls_group_delete_def removes_keep)
  ultimately show ?thesis
    unfolding wipe_def by (intro upholds_bindS context_upholds put_upholds)
qed

end

end
