(* ===== verification/Decrypt.thy ===== *)
theory Decrypt
  imports Conversation
begin

text \<open>
  Decrypting messages (\<open>crypto/src/mls/conversation/mutable/decrypt\<close> and
  \<open>own_commit.rs\<close>): classification of failures, own commits, the buffers for future messages
  and for commits whose proposals are missing, and the recursion between them.  The recursion
  takes fuel; \<open>Diverged\<close> stands for running out of it.
\<close>

section \<open>Results\<close>

record BufferedDecryptedMessage =
  buf_app_msg :: "bytes option"
  buf_is_active :: bool
  buf_delay :: "u64 option"
  buf_sender_client_id :: "client_id option"
  buf_identity :: bytes

record DecryptedMessage =
  app_msg :: "bytes option"
  still_active :: bool
  delay :: "u64 option"
  sender_client_id :: "client_id option"
  identity :: bytes
  buffered_messages :: "BufferedDecryptedMessage list option"

definition to_buffered :: "DecryptedMessage \<Rightarrow> BufferedDecryptedMessage" where
  "to_buffered m = \<lparr>buf_app_msg = app_msg m, buf_is_active = still_active m, buf_delay = delay m,
     buf_sender_client_id = sender_client_id m, buf_identity = identity m\<rparr>"

record ParsedMessage =
  is_duplicate :: bool
  protocol_message :: mls_message
  parsed_content_type :: content_type

datatype RecursionPolicy = AsNecessary | NoRecursion

datatype MessageRestorePolicy = DecryptAndClear | ClearOnly

section \<open>Own commits\<close>

definition extract_confirmation_tag_from_own_commit :: "'g conv_env \<Rightarrow> mls_message \<Rightarrow> ('g, bytes) conv_op" where
  "extract_confirmation_tag_from_own_commit E own_commit s = (case own_commit of
       PublicMessage msg \<Rightarrow>
         (let own_index = own_leaf_index (view (lib E)) (group s);
              is_own_commit = (pub_content_type msg = Commit \<and> pub_sender msg = Member own_index)
          in if \<not> is_own_commit then (Inl (ConvPanic ''must always be called with an own commit''), s)
             else (ok_or (MlsMessageInvalidState ''Message confirmation tag not present'') (pub_confirmation_tag msg), s))
     | _ \<Rightarrow> (Inl (ConvPanic ''must always be called with a PublicMessage''), s))"

definition eq_pending_commit :: "'g conv_env \<Rightarrow> 'g \<Rightarrow> bytes \<Rightarrow> bool" where
  "eq_pending_commit E g commit_ct =
     (case pending_commit (view (lib E)) g of None \<Rightarrow> False | Some c \<Rightarrow> sc_confirmation_tag c = commit_ct)"

definition next_delay :: "'g conv_env \<Rightarrow> 'g \<Rightarrow> u64 option" where
  "next_delay E g = compute_next_commit_delay (log_ramp E) (view (lib E)) g"

definition merge_pending_commit :: "'g conv_env \<Rightarrow> ('g, DecryptedMessage) conv_op" where
  "merge_pending_commit E = bindS (commit_accepted E) (\<lambda>_. bindS (getS group) (\<lambda>g.
     bindS (liftS (ok_or (GroupInvalidState (MlsGroupInvalidState ''own_leaf is None'')) (own_leaf (lib E) g))) (\<lambda>leaf.
     bindS crypto_provider (\<lambda>_.
     bindS (liftS (ok_or ExtractingIdentity (extract_identity E leaf))) (\<lambda>idt.
     okS \<lparr>app_msg = None, still_active = is_active (view (lib E)) g, delay = next_delay E g,
          sender_client_id = None, identity = idt, buffered_messages = None\<rparr>)))))"

definition handle_own_commit :: "'g conv_env \<Rightarrow> bytes \<Rightarrow> ('g, DecryptedMessage) conv_op" where
  "handle_own_commit E ct = bindS (getS group) (\<lambda>g.
     if pending_commit (view (lib E)) g = None then errS SelfCommitIgnored
     else if \<not> eq_pending_commit E g ct then errS ClearingPendingCommitError
     else merge_pending_commit E)"

section \<open>Buffers\<close>

definition buffer_commit :: "'g conv_env \<Rightarrow> bytes \<Rightarrow> ('g, unit) conv_op" where
  "buffer_commit E commit = bindS crypto_provider (\<lambda>_.
     bindS (on_database (db_save (hs E) None (StoredBufferedCommit
       \<lparr>commit_conversation_id = conv_id E, commit_data = commit\<rparr>))) (\<lambda>_. okS ()))"

definition retrieve_buffered_commit :: "'g conv_env \<Rightarrow> ('g, bytes option) conv_op" where
  "retrieve_buffered_commit E = bindS require_context (\<lambda>_.
     bindS (read_database (db_get StoredBufferedCommitT (BytesKey (conv_id E)))) (\<lambda>found.
     okS (Option.bind found (\<lambda>e. case e of StoredBufferedCommit c \<Rightarrow> Some (commit_data c) | _ \<Rightarrow> None))))"

definition clear_buffered_commit :: "'g conv_env \<Rightarrow> ('g, unit) conv_op" where
  "clear_buffered_commit E = bindS require_context (\<lambda>_.
     on_database (db_remove StoredBufferedCommitT (BytesKey (conv_id E))))"

definition buffer_future_message :: "'g conv_env \<Rightarrow> bytes \<Rightarrow> ('g, unit) conv_op" where
  "buffer_future_message E msg = bindS require_context (\<lambda>_.
     bindS (on_database (db_save (hs E) None (MlsPendingMessage
       \<lparr>foreign_id = conv_id E, message = msg\<rparr>))) (\<lambda>_. okS ()))"

definition clear_pending_messages :: "'g conv_env \<Rightarrow> ('g, unit) conv_op" where
  "clear_pending_messages E = bindS require_context (\<lambda>_.
     on_database (db_remove_pending_messages (conv_id E)))"

type_synonym 'g decrypt_op = "mls_message \<Rightarrow> RecursionPolicy \<Rightarrow> ('g, DecryptedMessage) conv_op"

definition pending_to_message :: "'g conv_env \<Rightarrow> Entity \<Rightarrow> conv_error + (content_type \<times> mls_message)" where
  "pending_to_message E e = (case e of
       MlsPendingMessage m \<Rightarrow>
         bindE (ok_or TlsDeserialize (tls_deserialize E (message m))) (\<lambda>msg.
           case msg of
             PublicMessage p \<Rightarrow> Inr (pub_content_type p, msg)
           | PrivateMessage p \<Rightarrow> Inr (priv_content_type p, msg)
           | OtherBody \<Rightarrow> Inl InappropriateMessageBodyType)
     | _ \<Rightarrow> Inl (ConvPanic ''pending messages are of this type''))"

definition restore_pending_messages ::
  "'g conv_env \<Rightarrow> 'g decrypt_op \<Rightarrow> MessageRestorePolicy \<Rightarrow> ('g, BufferedDecryptedMessage list option) conv_op" where
  "restore_pending_messages E rec policy = bindS require_context (\<lambda>_.
     if policy = ClearOnly then bindS (clear_pending_messages E) (\<lambda>_. okS None)
     else
       bindS (read_database (db_find_pending_messages (hs E) (order E) (conv_id E))) (\<lambda>found.
       bindS (liftS (mapE (pending_to_message E) found)) (\<lambda>pending.
       bindS (mapS (\<lambda>(_, m). bindS (rec m NoRecursion) (\<lambda>decrypted. okS (to_buffered decrypted)))
               (sort_key (\<lambda>(ct, _). content_type_u8 ct) pending)) (\<lambda>decrypted_messages.
       okS (if decrypted_messages = [] then None else Some decrypted_messages)))))"

definition restore_and_clear_pending_messages ::
  "'g conv_env \<Rightarrow> 'g decrypt_op \<Rightarrow> ('g, BufferedDecryptedMessage list option) conv_op" where
  "restore_and_clear_pending_messages E rec =
     bindS (restore_pending_messages E rec DecryptAndClear) (\<lambda>pending.
       if pending = None then okS None
       else bindS (clear_pending_messages E) (\<lambda>_. okS pending))"

definition try_process_buffered_commit ::
  "'g conv_env \<Rightarrow> 'g decrypt_op \<Rightarrow> bytes \<Rightarrow> RecursionPolicy \<Rightarrow> ('g, DecryptedMessage) conv_op" where
  "try_process_buffered_commit E rec commit policy =
     bindS (liftS (ok_or TlsDeserialize (tls_deserialize E commit))) (\<lambda>msg. rec msg policy)"

section \<open>Processing one message\<close>

definition parse_message :: "'g conv_env \<Rightarrow> mls_message \<Rightarrow> ('g, ParsedMessage) conv_op" where
  "parse_message E msg_in s = (case msg_in of
       PublicMessage m \<Rightarrow>
         (mapR (\<lambda>dup. \<lparr>is_duplicate = dup, protocol_message = msg_in, parsed_content_type = pub_content_type m\<rparr>)
            (map_err GroupInvalidState (is_duplicate_message (view (lib E)) m (group s))), s)
     | PrivateMessage m \<Rightarrow>
         (Inr \<lparr>is_duplicate = False, protocol_message = msg_in, parsed_content_type = priv_content_type m\<rparr>, s)
     | OtherBody \<Rightarrow> (Inl (OpenMls IncompatibleWireFormat), s))"

fun message_epoch :: "mls_message \<Rightarrow> u64" where
  "message_epoch (PublicMessage m) = pub_epoch m"
| "message_epoch (PrivateMessage m) = priv_epoch m"
| "message_epoch OtherBody = 0"

definition classify_error :: "ParsedMessage \<Rightarrow> u64 \<Rightarrow> mls_error \<Rightarrow> conv_error" where
  "classify_error p group_epoch e = (case e of
       GenerationOutOfBound \<Rightarrow> DuplicateMessage
     | WrongEpoch \<Rightarrow>
         (let msg_epoch = message_epoch (protocol_message p) in
          if is_duplicate p then DuplicateMessage
          else if msg_epoch = group_epoch + 1 then BufferedFutureMessage msg_epoch
          else if msg_epoch < group_epoch then
            (case parsed_content_type p of
               Application \<Rightarrow> StaleMessage | Commit \<Rightarrow> StaleCommit | Proposal \<Rightarrow> StaleProposal)
          else UnbufferedFarFutureMessage)
     | AeadError \<Rightarrow> DecryptionError
     | TooDistantInThePast \<Rightarrow> MessageEpochTooOld
     | _ \<Rightarrow> OpenMls e)"

definition process_message :: "'g conv_env \<Rightarrow> ParsedMessage \<Rightarrow> ('g, processed_message) conv_op" where
  "process_message E p = bindS crypto_provider (\<lambda>_.
     mutate_group E (\<lambda>g d. case process (lib E) (protocol_message p) g d of
         (Inl e, g', d') \<Rightarrow> (Inl (classify_error p (epoch (view (lib E)) g) e), g', d')
       | (Inr processed, g', d') \<Rightarrow>
           if is_duplicate p then (Inl DuplicateMessage, g', d') else (Inr processed, g', d')))"

definition store_proposal :: "'g conv_env \<Rightarrow> queued_proposal \<Rightarrow> ('g, unit) conv_op" where
  "store_proposal E p = mutate_group E (\<lambda>g d. (Inr (), store_pending_proposal (lib E) p g, d))"

text \<open>
  The verification state of the added credentials is computed and then not used: every commit
  passes.
\<close>

definition validate_commit :: "staged_commit \<Rightarrow> ('g, unit) conv_op" where
  "validate_commit commit = bindS crypto_provider (\<lambda>_. okS ())"

definition handshake_result :: "'g conv_env \<Rightarrow> bytes \<Rightarrow> bool \<Rightarrow> ('g, DecryptedMessage) conv_op" where
  "handshake_result E idt active = bindS (getS group) (\<lambda>g.
     okS \<lparr>app_msg = None, still_active = active, delay = next_delay E g,
          sender_client_id = None, identity = idt, buffered_messages = None\<rparr>)"

definition handle_proposal ::
  "'g conv_env \<Rightarrow> 'g decrypt_op \<Rightarrow> queued_proposal \<Rightarrow> bytes \<Rightarrow> RecursionPolicy \<Rightarrow> ('g, DecryptedMessage) conv_op" where
  "handle_proposal E rec p idt policy = bindS (store_proposal E p) (\<lambda>_.
     bindS (bindS (catchS (retrieve_buffered_commit E)) (\<lambda>r. liftS (map_err Recursive r))) (\<lambda>buffered.
     case buffered of
       None \<Rightarrow> handshake_result E idt True
     | Some commit \<Rightarrow>
         bindS (catchS (try_process_buffered_commit E rec commit policy)) (\<lambda>process_result.
         bindS (if is_ok process_result
                then bindS (catchS (clear_buffered_commit E)) (\<lambda>r. liftS (map_err Recursive r))
                else okS ()) (\<lambda>_.
         if process_result \<noteq> Inl BufferedCommit then liftS (map_err Recursive process_result)
         else handshake_result E idt True))))"

definition merge_received :: "'g conv_env \<Rightarrow> staged_commit \<Rightarrow> ('g, bool) conv_op" where
  "merge_received E commit = mutate_group E (\<lambda>g d. case wrap_mls (merge_staged (lib E) commit) g d of
       (Inl e, g', d') \<Rightarrow> (Inl e, g', d')
     | (Inr _, g', d') \<Rightarrow> (Inr (is_active (view (lib E)) g'), g', d'))"

definition handle_commit ::
  "'g conv_env \<Rightarrow> 'g decrypt_op \<Rightarrow> staged_commit \<Rightarrow> bytes \<Rightarrow> RecursionPolicy \<Rightarrow> ('g, DecryptedMessage) conv_op" where
  "handle_commit E rec commit idt policy = bindS (validate_commit commit) (\<lambda>_.
     bindS (merge_received E commit) (\<lambda>active.
     bindS (getS group) (\<lambda>g.
     let next = next_delay E g in
     bindS (if policy = AsNecessary then restore_and_clear_pending_messages E rec else okS None) (\<lambda>buffered.
     bindS (queue_epoch_changed (conv_id E) (sc_epoch commit)) (\<lambda>_.
     okS \<lparr>app_msg = None, still_active = active, delay = next, sender_client_id = None,
          identity = idt, buffered_messages = buffered\<rparr>)))))"

definition handle_content ::
  "'g conv_env \<Rightarrow> 'g decrypt_op \<Rightarrow> processed_message \<Rightarrow> RecursionPolicy \<Rightarrow> ('g, DecryptedMessage) conv_op" where
  "handle_content E rec m policy =
     bindS (liftS (ok_or ExtractingIdentity (extract_identity E (pm_credential m)))) (\<lambda>idt.
     let sender = (case new_from_bytes (codecs E) (cred_identity (pm_credential m)) of
           Inl _ \<Rightarrow> None | Inr c \<Rightarrow> Some c)
     in case pm_content m of
       ApplicationMessage a \<Rightarrow>
         okS \<lparr>app_msg = Some a, still_active = True, delay = None, sender_client_id = sender,
              identity = idt, buffered_messages = None\<rparr>
     | ProposalMessage p \<Rightarrow> handle_proposal E rec p idt policy
     | StagedCommitMessage c \<Rightarrow> handle_commit E rec c idt policy
     | ExternalJoinProposalMessage p \<Rightarrow>
         bindS (store_proposal E p) (\<lambda>_. handshake_result E idt True))"

definition decrypt_body :: "'g conv_env \<Rightarrow> 'g decrypt_op \<Rightarrow> 'g decrypt_op" where
  "decrypt_body E rec msg_in policy = bindS crypto_provider (\<lambda>_.
     bindS (parse_message E msg_in) (\<lambda>parsed.
     bindS (catchS (process_message E parsed)) (\<lambda>message_result.
     if message_result = Inl (OpenMls OwnCommit) then
       bindS (extract_confirmation_tag_from_own_commit E msg_in) (\<lambda>ct.
       bindS (handle_own_commit E ct) (\<lambda>decrypted.
       if policy = AsNecessary then
         bindS (restore_and_clear_pending_messages E rec) (\<lambda>buffered.
         okS (decrypted\<lparr>buffered_messages := buffered\<rparr>))
       else okS decrypted))
     else if message_result = Inl (OpenMls MissingProposal) then errS BufferedCommit
     else bindS (liftS message_result) (\<lambda>m. handle_content E rec m policy))))"

fun decrypt_message_inner :: "'g conv_env \<Rightarrow> nat \<Rightarrow> 'g decrypt_op" where
  "decrypt_message_inner E 0 msg_in policy = errS Diverged"
| "decrypt_message_inner E (Suc n) msg_in policy =
     decrypt_body E (decrypt_message_inner E n) msg_in policy"

declare decrypt_message_inner.simps [simp del]

text \<open>Depth five is enough: see \<open>decrypt_message_terminates\<close>.\<close>

definition decrypt_message :: "'g conv_env \<Rightarrow> bytes \<Rightarrow> ('g, DecryptedMessage) conv_op" where
  "decrypt_message E msg =
     bindS (liftS (ok_or TlsDeserialize (tls_deserialize E msg))) (\<lambda>mls_message_in.
     bindS (catchS (decrypt_message_inner E 5 mls_message_in AsNecessary)) (\<lambda>result.
     bindS (case result of Inl (BufferedFutureMessage _) \<Rightarrow> buffer_future_message E msg | _ \<Rightarrow> okS ()) (\<lambda>_.
     bindS (case result of Inl BufferedCommit \<Rightarrow> buffer_commit E msg | _ \<Rightarrow> okS ()) (\<lambda>_.
     bindS (liftS result) (\<lambda>decrypted.
     bindS (if \<not> still_active decrypted then wipe E else okS ()) (\<lambda>_.
     okS decrypted))))))"

end
