(* ===== verification/Decrypt_Invariants.thy ===== *)
theory Decrypt_Invariants
  imports Conversation_Store Decrypt
begin

text \<open>
  Decryption keeps every property of the database that survives the inner mutations, and it ends:
  the recursion between proposals, buffered commits and buffered messages is at most four calls
  deep, because messages are only restored by a commit and never by a restored message.
\<close>

section \<open>The parts of decryption\<close>

definition never_proposal :: "'g conv_env \<Rightarrow> mls_message \<Rightarrow> bool" where
  "never_proposal E m \<longleftrightarrow>
     (\<forall>g d x g' d' p. process (lib E) m g d = (Inr x, g', d') \<longrightarrow> pm_content x \<noteq> ProposalMessage p)"

definition never_commit :: "'g conv_env \<Rightarrow> mls_message \<Rightarrow> bool" where
  "never_commit E m \<longleftrightarrow>
     (\<forall>g d r g' d'. process (lib E) m g d = (r, g', d') \<longrightarrow> r \<noteq> Inl OwnCommit \<and> r \<noteq> Inl MissingProposal
        \<and> (\<forall>x c. r = Inr x \<longrightarrow> pm_content x \<noteq> StagedCommitMessage c))"

lemma classify_plain: "plain_error (classify_error p ep e)"
  by (cases e; cases "parsed_content_type p") (simp_all add: classify_error_def Let_def)

lemma classify_openmls:
  "classify_error p ep e = OpenMls e' \<Longrightarrow> e' = e"
  by (cases e; cases "parsed_content_type p") (auto simp: classify_error_def Let_def split: if_splits)

context conversation_invariant
begin

lemma simple_lift [intro!]:
  "plain_error e \<Longrightarrow> upholds (on_db P) Q (liftS (ok_or e x))"
  by (cases x) (auto simp: plain_errors)

lemma recursive_lift:
  "(case r of Inl e \<Rightarrow> Q e | Inr a \<Rightarrow> R a) \<Longrightarrow> delivers (on_db P) Q R (liftS (map_err Recursive r))"
  by (cases r) (auto simp: recursive_errors)

lemma own_commit_upholds:
  "upholds (on_db P) Q (extract_confirmation_tag_from_own_commit E m)"
  "upholds (on_db P) Q (handle_own_commit E ct)"
proof -
  show "upholds (on_db P) Q (extract_confirmation_tag_from_own_commit E m)"
    by (rule deliversI)
      (auto simp: extract_confirmation_tag_from_own_commit_def Let_def plain_errors ok_or_def
        split: mls_message.splits if_splits option.splits)
  have "upholds (on_db P) Q (merge_pending_commit E)"
    unfolding merge_pending_commit_def
    by (intro upholds_bindS commit_accepted_upholds context_upholds simple_lift delivers_basic(1,3)) simp_all
  then show "upholds (on_db P) Q (handle_own_commit E ct)"
    unfolding handle_own_commit_def
    by (intro upholds_bindS delivers_basic(3)) (auto simp: plain_errors)
qed

lemma clear_buffers_uphold:
  "upholds (on_db P) Q (clear_pending_messages E)" "upholds (on_db P) Q (clear_buffered_commit E)"
  unfolding clear_pending_messages_def clear_buffered_commit_def
  by (intro upholds_bindS context_upholds write_upholds removes_keep; assumption)+

lemma pending_to_message_error: "pending_to_message E e = Inl x \<Longrightarrow> plain_error x"
proof (cases e)
  case (MlsPendingMessage m)
  then show "pending_to_message E e = Inl x \<Longrightarrow> plain_error x"
    by (cases "tls_deserialize E (message m)"; cases "the (tls_deserialize E (message m))")
      (auto simp: pending_to_message_def)
qed (auto simp: pending_to_message_def)

lemma pending_lift: "upholds (on_db P) Q (liftS (mapE (pending_to_message E) es))"
proof -
  have "plain_error x" if "mapE (pending_to_message E) es = Inl x" for x
    using that by (induction es) (auto simp: res_simps dest: pending_to_message_error)
  then show ?thesis
    by (intro delivers_basic(4)) (auto simp: plain_errors split: sum.splits)
qed

lemma restore_pending_upholds:
  "(\<And>m. upholds (on_db P) Q (rec m NoRecursion)) \<Longrightarrow> upholds (on_db P) Q (restore_pending_messages E rec policy)"
  unfolding restore_pending_messages_def
  by (auto intro!: upholds_bindS clear_buffers_uphold pending_lift upholds_mapS split: prod.splits)

lemma restore_upholds:
  "(\<And>m. upholds (on_db P) Q (rec m NoRecursion)) \<Longrightarrow> upholds (on_db P) Q (restore_and_clear_pending_messages E rec)"
  unfolding restore_and_clear_pending_messages_def
  by (auto intro!: upholds_bindS clear_buffers_uphold restore_pending_upholds)

lemma parse_upholds: "delivers (on_db P) Q (\<lambda>p. protocol_message p = m) (parse_message E m)"
  by (rule deliversI)
    (auto simp: parse_message_def res_simps map_err_def plain_errors split: mls_message.splits sum.splits)

lemma process_upholds:
  "delivers (on_db P)
     (\<lambda>e. Q e \<and> (never_commit E (protocol_message p) \<longrightarrow> e \<noteq> OpenMls OwnCommit \<and> e \<noteq> OpenMls MissingProposal))
     (\<lambda>x. (never_proposal E (protocol_message p) \<longrightarrow> (\<forall>q. pm_content x \<noteq> ProposalMessage q))
        \<and> (never_commit E (protocol_message p) \<longrightarrow> (\<forall>c. pm_content x \<noteq> StagedCommitMessage c)))
     (process_message E p)"
  (is "delivers _ _ ?R _")
proof (rule delivers_errors)
  let ?f = "\<lambda>g d. case process (lib E) (protocol_message p) g d of
      (Inl e, g', d') \<Rightarrow> (Inl (classify_error p (epoch (view (lib E)) g) e), g', d')
    | (Inr x, g', d') \<Rightarrow> if is_duplicate p then (Inl DuplicateMessage, g', d') else (Inr x, g', d')"
  show "delivers (on_db P) Q ?R (process_message E p)"
    unfolding process_message_def
  proof (intro upholds_bindS context_upholds mutate_group_upholds)
    fix g d r g' d'
    assume d: "P d" and run: "?f g d = (r, g', d')"
    obtain r1 g1 d1 where p: "process (lib E) (protocol_message p) g d = (r1, g1, d1)"
      by (cases "process (lib E) (protocol_message p) g d")
    have ok: "mls_op_ok (hs E) (process (lib E) (protocol_message p))"
      using lib[OF d] by (simp add: lib_ok_def)
    have "P d1"
      using key_store_keeps[OF mls_op_okD[OF ok p] d] .
    moreover have "Q (classify_error p ep e)" for ep e
      by (simp add: plain_errors classify_plain)
    moreover have "?R x" if "r1 = Inr x" for x
      using p that unfolding never_proposal_def never_commit_def by blast
    ultimately show "P d' \<and> (case r of Inl e \<Rightarrow> Q e | Inr x \<Rightarrow> ?R x)"
      using run p plain_errors[of DuplicateMessage] by (cases r1) (auto split: if_splits)
  qed
  fix s e s'
  assume run: "process_message E p s = (Inl e, s')"
  show "never_commit E (protocol_message p) \<longrightarrow> e \<noteq> OpenMls OwnCommit \<and> e \<noteq> OpenMls MissingProposal"
  proof (rule impI, rule ccontr)
    assume never: "never_commit E (protocol_message p)"
    assume "\<not> (e \<noteq> OpenMls OwnCommit \<and> e \<noteq> OpenMls MissingProposal)"
    then obtain x where e: "e = OpenMls x" "x = OwnCommit \<or> x = MissingProposal"
      by blast
    have "\<exists>s1. mutate_group E ?f s1 = (Inl e, s')"
      using run e(1)
      by (auto simp: process_message_def crypto_provider_def require_context_def bindS_Inl bindS_Inr split: if_splits)
    then obtain g d g' d' where f: "?f g d = (Inl e, g', d')"
      using e(1) by (auto dest!: mutate_group_Inl)
    then obtain e' where "process (lib E) (protocol_message p) g d = (Inl e', g', d')" "e = classify_error p (epoch (view (lib E)) g) e'"
      using e(1) by (auto split: prod.splits sum.splits if_splits)
    then show False
      using never e classify_openmls unfolding never_commit_def by metis
  qed
qed

lemma store_proposal_upholds: "upholds (on_db P) Q (store_proposal E p)"
  unfolding store_proposal_def by (rule mutate_group_upholds) auto

lemma handshake_upholds: "upholds (on_db P) Q (handshake_result E idt a)"
  unfolding handshake_result_def by (intro upholds_bindS delivers_basic(1,3)) simp

lemma handle_proposal_upholds:
  assumes "delivers (on_db P) Q (\<lambda>b. \<forall>c m. b = Some c \<longrightarrow> tls_deserialize E c = Some m \<longrightarrow>
      upholds (on_db P) (\<lambda>e. Q (Recursive e)) (rec m policy)) (retrieve_buffered_commit E)"
  shows "upholds (on_db P) Q (handle_proposal E rec p idt policy)"
proof -
  let ?Q = "\<lambda>e. Q (Recursive e)"
  let ?R = "\<lambda>b. \<forall>c m. b = Some c \<longrightarrow> tls_deserialize E c = Some m \<longrightarrow> upholds (on_db P) ?Q (rec m policy)"
  have retrieve: "delivers (on_db P) Q ?R
      (bindS (catchS (retrieve_buffered_commit E)) (\<lambda>r. liftS (map_err Recursive r)))"
    by (rule delivers_bindS[OF delivers_catchS[OF assms]]) (rule recursive_lift)
  have clear: "upholds (on_db P) Q
      (if b then bindS (catchS (clear_buffered_commit E)) (\<lambda>r. liftS (map_err Recursive r)) else okS ())" for b
    by (cases b) (auto intro!: delivers_bindS[OF delivers_catchS[OF clear_buffers_uphold(2)]] recursive_lift)
  have buffered: "upholds (on_db P) ?Q (try_process_buffered_commit E rec c policy)"
    if "\<And>m. tls_deserialize E c = Some m \<Longrightarrow> upholds (on_db P) ?Q (rec m policy)" for c
  proof (cases "tls_deserialize E c")
    case None
    then show ?thesis
      by (auto simp: try_process_buffered_commit_def ok_or_def intro!: deliversI)
        (auto simp: bindS_def liftS_def plain_errors recursive_errors)
  next
    case (Some m)
    then have "try_process_buffered_commit E rec c policy = rec m policy"
      by (simp add: try_process_buffered_commit_def ok_or_def bindS_def liftS_def fun_eq_iff)
    then show ?thesis
      using that[OF Some] by simp
  qed
  show ?thesis
    unfolding handle_proposal_def
  proof (intro upholds_bindS[OF store_proposal_upholds] delivers_bindS[OF retrieve])
    fix b
    assume b: "?R b"
    show "upholds (on_db P) Q (case b of None \<Rightarrow> handshake_result E idt True
     | Some commit \<Rightarrow>
         bindS (catchS (try_process_buffered_commit E rec commit policy)) (\<lambda>process_result.
         bindS (if is_ok process_result
                then bindS (catchS (clear_buffered_commit E)) (\<lambda>r. liftS (map_err Recursive r))
                else okS ()) (\<lambda>_.
         if process_result \<noteq> Inl BufferedCommit then liftS (map_err Recursive process_result)
         else handshake_result E idt True)))"
    proof (cases b)
      case (Some c)
      have "upholds (on_db P) Q (if r \<noteq> Inl BufferedCommit then liftS (map_err Recursive r)
         else handshake_result E idt True)" if "case r of Inl e \<Rightarrow> ?Q e | Inr _ \<Rightarrow> True" for r
        using that by (cases "r = Inl BufferedCommit"; cases r) (auto simp: handshake_upholds)
      then show ?thesis
        using b Some
        by (auto intro!: delivers_bindS[OF delivers_catchS[OF buffered]] upholds_bindS[OF clear])
    qed (simp add: handshake_upholds)
  qed
qed

lemma merge_received_upholds: "upholds (on_db P) Q (merge_received E c)"
  unfolding merge_received_def
proof (rule mutate_group_upholds)
  fix g d r g' d'
  assume d: "P d" and run: "(case wrap_mls (merge_staged (lib E) c) g d of
       (Inl e, g', d') \<Rightarrow> (Inl e, g', d')
     | (Inr _, g', d') \<Rightarrow> (Inr (is_active (view (lib E)) g'), g', d')) = (r, g', d')"
  obtain r1 g1 d1 where w: "wrap_mls (merge_staged (lib E) c) g d = (r1, g1, d1)"
    by (cases "wrap_mls (merge_staged (lib E) c) g d")
  have ok: "mls_op_ok (hs E) (merge_staged (lib E) c)"
    using lib[OF d] by (simp add: lib_ok_def)
  show "P d' \<and> (case r of Inl e \<Rightarrow> Q e | Inr _ \<Rightarrow> True)"
    using wrap_mls_keeps[OF ok d w] run w by (cases r1) auto
qed

lemma handle_commit_upholds:
  assumes "policy = AsNecessary \<Longrightarrow> \<forall>m. upholds (on_db P) Q (rec m NoRecursion)"
  shows "upholds (on_db P) Q (handle_commit E rec c idt policy)"
proof -
  have "upholds (on_db P) Q (if policy = AsNecessary then restore_and_clear_pending_messages E rec else okS None)"
    using restore_upholds assms by auto
  then show ?thesis
    unfolding handle_commit_def Let_def validate_commit_def
    by (intro upholds_bindS merge_received_upholds context_upholds delivers_basic(1,3)) simp_all
qed

lemma decrypt_body_upholds:
  assumes missing: "\<not> never_commit E m \<Longrightarrow> Q BufferedCommit"
    and restored: "\<not> never_commit E m \<Longrightarrow> policy = AsNecessary \<Longrightarrow> \<forall>m. upholds (on_db P) Q (rec m NoRecursion)"
    and buffered: "\<not> never_proposal E m \<Longrightarrow> delivers (on_db P) Q (\<lambda>b. \<forall>c m. b = Some c \<longrightarrow>
      tls_deserialize E c = Some m \<longrightarrow> upholds (on_db P) (\<lambda>e. Q (Recursive e)) (rec m policy)) (retrieve_buffered_commit E)"
  shows "upholds (on_db P) Q (decrypt_body E rec m policy)"
proof -
  let ?Q = "\<lambda>e. Q e \<and> (never_commit E m \<longrightarrow> e \<noteq> OpenMls OwnCommit \<and> e \<noteq> OpenMls MissingProposal)"
  let ?R = "\<lambda>x. (never_proposal E m \<longrightarrow> (\<forall>q. pm_content x \<noteq> ProposalMessage q))
      \<and> (never_commit E m \<longrightarrow> (\<forall>c. pm_content x \<noteq> StagedCommitMessage c))"
  have content: "upholds (on_db P) Q (handle_content E rec x policy)" if "?R x" for x
    unfolding handle_content_def Let_def
    using that handle_proposal_upholds buffered handle_commit_upholds[of policy rec] restored
    by (auto intro!: upholds_bindS store_proposal_upholds handshake_upholds split: processed_content.splits)
  have own: "upholds (on_db P) Q (if policy = AsNecessary then bindS (restore_and_clear_pending_messages E rec) (\<lambda>b.
         okS (x\<lparr>buffered_messages := b\<rparr>)) else okS x)" if "\<not> never_commit E m" for x
    using restore_upholds restored that by (auto intro!: upholds_bindS)
  show ?thesis
    unfolding decrypt_body_def
  proof (intro upholds_bindS[OF context_upholds(2)] delivers_bindS[OF parse_upholds])
    fix p :: ParsedMessage
    assume "protocol_message p = m"
    then have process: "delivers (on_db P) ?Q ?R (process_message E p)"
      using process_upholds[of p] by simp
    show "upholds (on_db P) Q (bindS (catchS (process_message E p)) (\<lambda>message_result.
     if message_result = Inl (OpenMls OwnCommit) then
       bindS (extract_confirmation_tag_from_own_commit E m) (\<lambda>ct.
       bindS (handle_own_commit E ct) (\<lambda>decrypted.
       if policy = AsNecessary then
         bindS (restore_and_clear_pending_messages E rec) (\<lambda>buffered.
         okS (decrypted\<lparr>buffered_messages := buffered\<rparr>))
       else okS decrypted))
     else if message_result = Inl (OpenMls MissingProposal) then errS BufferedCommit
     else bindS (liftS message_result) (\<lambda>m. handle_content E rec m policy)))"
    proof (rule delivers_bindS[OF delivers_catchS[OF process]])
      fix r :: "conv_error + processed_message"
      assume r: "case r of Inl e \<Rightarrow> ?Q e | Inr x \<Rightarrow> ?R x"
      have rest: "upholds (on_db P) Q (bindS (liftS r) (\<lambda>m. handle_content E rec m policy))"
        by (rule delivers_bindS[of _ _ ?R]) (use r content in \<open>auto split: sum.splits\<close>)
      show "upholds (on_db P) Q (if r = Inl (OpenMls OwnCommit) then
       bindS (extract_confirmation_tag_from_own_commit E m) (\<lambda>ct.
       bindS (handle_own_commit E ct) (\<lambda>decrypted.
       if policy = AsNecessary then
         bindS (restore_and_clear_pending_messages E rec) (\<lambda>buffered.
         okS (decrypted\<lparr>buffered_messages := buffered\<rparr>))
       else okS decrypted))
     else if r = Inl (OpenMls MissingProposal) then errS BufferedCommit
     else bindS (liftS r) (\<lambda>m. handle_content E rec m policy))"
        using r rest missing
        by (auto intro!: upholds_bindS[OF own_commit_upholds(1)] upholds_bindS[OF own_commit_upholds(2)] own)
    qed
  qed
qed

lemma retrieve_upholds: "upholds (on_db P) Q (retrieve_buffered_commit E)"
  unfolding retrieve_buffered_commit_def by (auto intro!: upholds_bindS)

lemma inner_upholds:
  assumes "Q Diverged" "Q BufferedCommit"
  shows "upholds (on_db P) Q (decrypt_message_inner E n m policy)"
proof (induction n arbitrary: m policy)
  case (Suc n)
  have "upholds (on_db P) (\<lambda>e. Q (Recursive e)) (decrypt_message_inner E n m policy)" for m policy
    using Suc.IH by (rule delivers_weaken) (simp_all add: recursive_errors)
  then have "delivers (on_db P) Q (\<lambda>b. \<forall>c m. b = Some c \<longrightarrow> tls_deserialize E c = Some m \<longrightarrow>
      upholds (on_db P) (\<lambda>e. Q (Recursive e)) (decrypt_message_inner E n m policy)) (retrieve_buffered_commit E)"
    by (intro delivers_weaken[OF retrieve_upholds]) simp_all
  then show ?case
    unfolding decrypt_message_inner.simps
    by (intro decrypt_body_upholds) (simp_all add: Suc.IH assms)
qed (auto simp: decrypt_message_inner.simps assms)

end

section \<open>Termination\<close>

fun diverges :: "conv_error \<Rightarrow> bool" where
  "diverges Diverged = True"
| "diverges (Recursive e) = diverges e"
| "diverges _ = False"


text \<open>The buffered commit, if there is one, is a message that OpenMLS never reads as a proposal.\<close>

definition commit_buffered :: "'g conv_env \<Rightarrow> Database \<Rightarrow> bool" where
  "commit_buffered E d \<longleftrightarrow>
     (\<forall>c m. db_get StoredBufferedCommitT (BytesKey (conv_id E)) d = Inr (Some (StoredBufferedCommit c)) \<longrightarrow>
        tls_deserialize E (commit_data c) = Some m \<longrightarrow> never_proposal E m)"

lemma retrieve_Some:
  assumes "retrieve_buffered_commit E s = (Inr (Some c), s')"
  shows "\<exists>x. db_get StoredBufferedCommitT (BytesKey (conv_id E)) (database s) = Inr (Some (StoredBufferedCommit x))
    \<and> commit_data x = c \<and> s' = s"
proof -
  obtain y where "db_get StoredBufferedCommitT (BytesKey (conv_id E)) (database s) = Inr (Some y)"
      "(case y of StoredBufferedCommit x \<Rightarrow> Some (commit_data x) | _ \<Rightarrow> None) = Some c" "s' = s"
    using assms
    by (auto simp: retrieve_buffered_commit_def bindS_Inr require_context_def read_database_def okS_def
        res_simps bind_eq_Some_conv split: if_splits)
  then show ?thesis
    by (cases y) auto
qed

locale buffered_commits = conversation_invariant +
  assumes buffered: "P d \<Longrightarrow> commit_buffered E d"
    and missing: "Q BufferedCommit"
begin

lemma retrieve_delivers:
  "delivers (on_db P) Q (\<lambda>b. \<forall>c m. b = Some c \<longrightarrow> tls_deserialize E c = Some m \<longrightarrow> never_proposal E m)
     (retrieve_buffered_commit E)"
proof (rule deliversI)
  fix s e s'
  assume s: "P (database s)" "retrieve_buffered_commit E s = (Inl e, s')"
  then show "P (database s') \<and> Q e"
    using delivers_state[OF retrieve_upholds] delivers_error[OF retrieve_upholds] by blast
next
  fix s b s'
  assume "P (database s)" "retrieve_buffered_commit E s = (Inr b, s')"
  moreover from this have "s' = s"
    by (auto simp: retrieve_buffered_commit_def bindS_Inr require_context_def read_database_def okS_def split: if_splits)
  ultimately show "P (database s') \<and> (\<forall>c m. b = Some c \<longrightarrow> tls_deserialize E c = Some m \<longrightarrow> never_proposal E m)"
    using buffered[of "database s"] by (auto simp: commit_buffered_def dest!: retrieve_Some)
qed

lemma depth:
  "never_proposal E m \<Longrightarrow> upholds (on_db P) Q (decrypt_message_inner E (Suc n) m NoRecursion)"
  "upholds (on_db P) Q (decrypt_message_inner E (Suc (Suc n)) m NoRecursion)"
  "never_proposal E m \<Longrightarrow> upholds (on_db P) Q (decrypt_message_inner E (Suc (Suc (Suc n))) m AsNecessary)"
  "upholds (on_db P) Q (decrypt_message_inner E (Suc (Suc (Suc (Suc n)))) m AsNecessary)"
proof -
  have buf: "delivers (on_db P) Q (\<lambda>b. \<forall>c m. b = Some c \<longrightarrow> tls_deserialize E c = Some m \<longrightarrow>
      upholds (on_db P) (\<lambda>e. Q (Recursive e)) (rec m policy)) (retrieve_buffered_commit E)"
    if "\<And>m. never_proposal E m \<Longrightarrow> upholds (on_db P) Q (rec m policy)" for rec policy
    by (rule delivers_weaken[OF retrieve_delivers])
      (auto intro: delivers_weaken[OF that] recursive_errors)
  show 1: "upholds (on_db P) Q (decrypt_message_inner E (Suc n) m NoRecursion)" if "never_proposal E m" for m n
    unfolding decrypt_message_inner.simps using that by (intro decrypt_body_upholds) (simp_all add: missing)
  show 2: "upholds (on_db P) Q (decrypt_message_inner E (Suc (Suc n)) m NoRecursion)" for m n
    unfolding decrypt_message_inner.simps(2)[of _ "Suc n"]
    by (intro decrypt_body_upholds buf 1) (simp_all add: missing)
  show 3: "upholds (on_db P) Q (decrypt_message_inner E (Suc (Suc (Suc n))) m AsNecessary)" if "never_proposal E m" for m n
    unfolding decrypt_message_inner.simps(2)[of _ "Suc (Suc n)"]
    using that 2 by (intro decrypt_body_upholds) (simp_all add: missing)
  show "upholds (on_db P) Q (decrypt_message_inner E (Suc (Suc (Suc (Suc n)))) m AsNecessary)"
    unfolding decrypt_message_inner.simps(2)[of _ "Suc (Suc (Suc n))"]
    by (intro decrypt_body_upholds buf 3) (simp_all add: missing 2)
qed

end

end
