(* ===== verification/Commit_Flow.thy ===== *)
theory Commit_Flow
  imports Conversation
begin

text \<open>
  Creating commits, proposals and messages (\<open>crypto/src/mls/conversation/mutable\<close>:
  \<open>commit.rs\<close>, \<open>encrypt.rs\<close>, \<open>proposal.rs\<close>, \<open>history_sharing.rs\<close>, with
  \<open>immutable/credential.rs\<close> and \<open>group_info.rs\<close>): a commit is created, sent to
  the delivery service, and merged when that accepts it.  The debug assertions of
  \<open>encrypt_message\<close> are those of a release build: absent.
\<close>

section \<open>The own credential\<close>

definition find_current_credential :: "'g conv_env \<Rightarrow> ('g, Credential) conv_op" where
  "find_current_credential E = bindS (getS group) (\<lambda>g.
     bindS (liftS (ok_or OwnLeafMissing
       (case extract_own_updated_node_from_proposals (own_leaf_index (view (lib E)) g) (pending_proposals (view (lib E)) g) of
          Some leaf \<Rightarrow> Some leaf | None \<Rightarrow> own_leaf (lib E) g))) (\<lambda>leaf.
     bindS (getS database) (\<lambda>d.
     liftS (map_err LoadingCredential (find_by_public_key (cred_c E) (hs E) (cred_signature_key leaf) d)))))"

definition conv_credential :: "'g conv_env \<Rightarrow> ('g, Credential) conv_op" where
  "conv_credential E = bindS (catchS (find_current_credential E)) (\<lambda>r.
     liftS (map_err (\<lambda>_. IdentityInitializationError) r))"

definition credential_ref :: "'g conv_env \<Rightarrow> ('g, CredentialRef) conv_op" where
  "credential_ref E = bindS (conv_credential E) (\<lambda>c. okS (from_credential (hs E) c))"

definition own_mls_credential :: "'g conv_env \<Rightarrow> 'g \<Rightarrow> conv_error + mls_cred" where
  "own_mls_credential E g = mapR cred_mls
     (ok_or (GroupInvalidState (MlsGroupInvalidState ''own_leaf_node not present in group'')) (own_leaf (lib E) g))"

section \<open>Commit bundles\<close>

definition try_new_full_plaintext :: "'g conv_env \<Rightarrow> bytes \<Rightarrow> conv_error + GroupInfoBundle" where
  "try_new_full_plaintext E gi =
     mapR (\<lambda>p. \<lparr>encryption_type = Plaintext, ratchet_tree_type = Full, payload_bytes = p\<rparr>)
       (ok_or TlsSerialize (ser_group_info E gi))"

definition group_info :: "'g conv_env \<Rightarrow> bytes option \<Rightarrow> conv_error + GroupInfoBundle" where
  "group_info E gi = bindE (ok_or MissingGroupInfo gi) (try_new_full_plaintext E)"

definition to_bytes_triple ::
  "'g conv_env \<Rightarrow> CommitBundle \<Rightarrow> conv_error + (bytes option \<times> bytes \<times> GroupInfoBundle)" where
  "to_bytes_triple E b = mapR (\<lambda>commit. (bundle_welcome b, commit, bundle_group_info b))
     (ok_or TlsSerialize (ser_message E (bundle_commit b)))"

definition commit_bundle :: "bytes \<Rightarrow> bytes option \<Rightarrow> GroupInfoBundle \<Rightarrow> CommitBundle" where
  "commit_bundle commit welcome gi = \<lparr>bundle_welcome = welcome, bundle_commit = commit, bundle_group_info = gi,
     bundle_encrypted_message = None\<rparr>"

section \<open>Sending and merging\<close>

text \<open>\<open>MlsTransport\<close> is reached through the session, like the crypto provider.\<close>

definition send_commit :: "'g conv_env \<Rightarrow> CommitBundle \<Rightarrow> ('g, unit) conv_op" where
  "send_commit E bundle = bindS crypto_provider (\<lambda>_ s.
     (if transport_accepts E (sent s) bundle then Inr () else Inl TransportError, s\<lparr>sent := sent s @ [bundle]\<rparr>))"

definition merge_commit :: "'g conv_env \<Rightarrow> ('g, unit) conv_op" where
  "merge_commit E = bindS (commit_accepted E) (\<lambda>_. bindS (getS group) (\<lambda>g.
     queue_epoch_changed (conv_id E) (epoch (view (lib E)) g)))"

section \<open>Proposals and messages\<close>

definition propose_add_member :: "'g conv_env \<Rightarrow> key_package_in \<Rightarrow> ('g, bytes) conv_op" where
  "propose_add_member E key_package = bindS crypto_provider (\<lambda>_. bindS (conv_credential E) (\<lambda>c.
     mutate_group E (wrap_mls (lib_propose_add (lib E) (signature_key c) key_package))))"

definition propose_remove_member :: "'g conv_env \<Rightarrow> u32 \<Rightarrow> ('g, bytes) conv_op" where
  "propose_remove_member E member = bindS crypto_provider (\<lambda>_. bindS (conv_credential E) (\<lambda>c.
     mutate_group E (wrap_mls (lib_propose_remove (lib E) (signature_key c) member))))"

definition encrypt_message :: "'g conv_env \<Rightarrow> bytes \<Rightarrow> ('g, bytes) conv_op" where
  "encrypt_message E msg = bindS crypto_provider (\<lambda>_. bindS (conv_credential E) (\<lambda>c.
     mutate_group E (\<lambda>g d. case wrap_mls (lib_create_message (lib E) (signature_key c) msg) g d of
         (Inl e, g', d') \<Rightarrow> (Inl e, g', d')
       | (Inr encrypted, g', d') \<Rightarrow> (ok_or (OpenMls OtherMlsError) (ser_message E encrypted), g', d'))))"

section \<open>Creating commits\<close>

definition err_is_duplicate_signature_key :: "mls_error \<Rightarrow> bool" where
  "err_is_duplicate_signature_key e \<longleftrightarrow> e = DuplicateSignatureKey"

fun duplicate_pairs :: "id_codecs \<Rightarrow> (bytes \<times> client_id) list \<Rightarrow> key_package_in list \<Rightarrow>
    session_error + (client_id \<times> client_id) list" where
  "duplicate_pairs U seen [] = Inr []"
| "duplicate_pairs U seen (kp # kps) = bindE (new_from_bytes U (kpi_identity kp)) (\<lambda>cid.
     mapR (\<lambda>pairs. case map_of seen (kpi_signature_key kp) of None \<Rightarrow> pairs | Some previous \<Rightarrow> (previous, cid) # pairs)
       (duplicate_pairs U (AList.update (kpi_signature_key kp) cid seen) kps))"

definition clients_with_duplicate_signature_keys ::
  "id_codecs \<Rightarrow> key_package_in list \<Rightarrow> conv_error + (client_id \<times> client_id) list" where
  "clients_with_duplicate_signature_keys U kps = map_err InvalidClient (duplicate_pairs U [] kps)"

definition add_members_error :: "'g conv_env \<Rightarrow> key_package_in list \<Rightarrow> mls_error \<Rightarrow> conv_error" where
  "add_members_error E kps err =
     (if err_is_duplicate_signature_key err
      then case clients_with_duplicate_signature_keys (codecs E) kps of
          Inr affected_clients \<Rightarrow> DuplicateSignature affected_clients
        | Inl e \<Rightarrow> e
      else OpenMls err)"

definition add_members_inner :: "'g conv_env \<Rightarrow> key_package_in list \<Rightarrow> ('g, CommitBundle) conv_op" where
  "add_members_inner E kps = bindS (ensure_no_pending_commit E) (\<lambda>_. bindS crypto_provider (\<lambda>_.
     bindS (conv_credential E) (\<lambda>c.
     mutate_group E (\<lambda>g d. case lib_add_members (lib E) (signature_key c) kps g d of
         (Inl err, g', d') \<Rightarrow> (Inl (add_members_error E kps err), g', d')
       | (Inr (commit, welcome, gi), g', d') \<Rightarrow>
           (mapR (commit_bundle commit (Some welcome)) (group_info E gi), g', d')))))"

definition set_credential_inner :: "'g conv_env \<Rightarrow> Credential \<Rightarrow> ('g, CommitBundle) conv_op" where
  "set_credential_inner E c = bindS (ensure_no_pending_commit E) (\<lambda>_. bindS crypto_provider (\<lambda>_.
     mutate_group E (\<lambda>g d. case own_leaf (lib E) g of
         None \<Rightarrow> (Inl OwnLeafMissing, g, d)
       | Some leaf_node \<Rightarrow>
           (let updated_leaf_node = (if cred_mls leaf_node = cr_mls c then None
                  else Some (leaf_node\<lparr>cred_mls := cr_mls c, cred_signature_key := cr_public c\<rparr>))
            in case wrap_mls (lib_self_update (lib E) (signature_key c) updated_leaf_node) g d of
                 (Inl e, g', d') \<Rightarrow> (Inl e, g', d')
               | (Inr (commit, welcome, gi), g', d') \<Rightarrow> (mapR (commit_bundle commit welcome) (group_info E gi), g', d')))))"

text \<open>A commit of OpenMLS always has a group info; without one the code panics.\<close>

definition expect_group_info :: "'g conv_env \<Rightarrow> commit_out \<Rightarrow> conv_error + CommitBundle" where
  "expect_group_info E out = (case out of (commit, welcome, gi) \<Rightarrow>
     bindE (ok_or (ConvPanic ''creating a commit always produces a group info'') gi) (\<lambda>gi.
     mapR (commit_bundle commit welcome) (try_new_full_plaintext E gi)))"

definition commit_pending_proposals_inner :: "'g conv_env \<Rightarrow> ('g, CommitBundle option) conv_op" where
  "commit_pending_proposals_inner E = bindS (getS group) (\<lambda>g.
     if pending_proposals (view (lib E)) g = [] then okS None
     else bindS crypto_provider (\<lambda>_. bindS (conv_credential E) (\<lambda>c.
       bindS (mutate_group E (wrap_mls (lib_commit_pending (lib E) (signature_key c)))) (\<lambda>out.
       bindS (liftS (expect_group_info E out)) (\<lambda>b. okS (Some b))))))"

definition commit_inline_proposals :: "'g conv_env \<Rightarrow> proposal list \<Rightarrow> ('g, CommitBundle option) conv_op" where
  "commit_inline_proposals E proposals =
     (if proposals = [] then okS None
      else bindS crypto_provider (\<lambda>_. bindS (conv_credential E) (\<lambda>c.
        bindS (mutate_group E (wrap_mls (lib_commit_inline (lib E) (signature_key c) proposals))) (\<lambda>out.
        bindS (liftS (expect_group_info E out)) (\<lambda>b. okS (Some b))))))"

section \<open>History sharing\<close>

datatype HistoryClientUpdateOutcome = NoUpdateNeeded | CommitSentAndMerged

definition generate_history_secret :: "'g conv_env \<Rightarrow> ('g, HistorySecret) conv_op" where
  "generate_history_secret E s =
     (ok_or HistorySecretGeneration (new_history_secret E (secrets_made s)), s\<lparr>secrets_made := Suc (secrets_made s)\<rparr>)"

definition notify_new_history_client :: "bytes \<Rightarrow> HistorySecret \<Rightarrow> ('g, unit) conv_op" where
  "notify_new_history_client cid secret = bindS crypto_provider (\<lambda>_.
     putS (\<lambda>s. if history_observer s then s\<lparr>history_observed := history_observed s @ [(cid, secret)]\<rparr> else s))"

text \<open>The commit is merged before it is sent: the secret is encrypted in the new epoch.\<close>

definition send_new_history_client_commit :: "'g conv_env \<Rightarrow> CommitBundle \<Rightarrow> HistorySecret \<Rightarrow> ('g, unit) conv_op" where
  "send_new_history_client_commit E commit secret =
     bindS (merge_commit E) (\<lambda>_.
     bindS crypto_provider (\<lambda>_.
     bindS (liftS (ok_or TransportError (prepare_for_transport E secret))) (\<lambda>transportable.
     bindS (encrypt_message E transportable) (\<lambda>encrypted.
     bindS (notify_new_history_client (conv_id E) secret) (\<lambda>_.
     send_commit E (commit\<lparr>bundle_encrypted_message := Some encrypted\<rparr>))))))"

definition enable_history_sharing :: "'g conv_env \<Rightarrow> ('g, unit) conv_op" where
  "enable_history_sharing E = bindS (getS group) (\<lambda>g.
     if is_history_sharing_enabled (view (lib E)) g then okS ()
     else bindS (generate_history_secret E) (\<lambda>secret.
       bindS (add_members_inner E [secret_key_package secret]) (\<lambda>commit.
       send_new_history_client_commit E commit secret)))"

definition history_client_indices :: "'g mls_view \<Rightarrow> 'g \<Rightarrow> u32 list" where
  "history_client_indices G g = map member_index (filter (\<lambda>m. is_history_client (member_identity m)) (members G g))"

definition other_client_indices :: "'g mls_view \<Rightarrow> 'g \<Rightarrow> u32 list" where
  "other_client_indices G g = map member_index (filter (\<lambda>m. \<not> is_history_client (member_identity m)) (members G g))"

definition update_needed :: "'g mls_view \<Rightarrow> 'g \<Rightarrow> staged_commit \<Rightarrow> bool" where
  "update_needed G g pending = (let removed_indices = set (List.map_filter removed (sc_proposals pending)) in
     \<not> list_all (\<lambda>i. i \<in> removed_indices) (history_client_indices G g)
     \<and> list_ex (\<lambda>i. i \<in> removed_indices) (other_client_indices G g))"

definition own_pending :: "'g mls_view \<Rightarrow> 'g \<Rightarrow> proposal list" where
  "own_pending G g = map qp_proposal (filter (\<lambda>p. qp_sender p = Member (own_leaf_index G g)) (pending_proposals G g))"

definition update_history_client :: "'g conv_env \<Rightarrow> ('g, HistoryClientUpdateOutcome) conv_op" where
  "update_history_client E = bindS (getS group) (\<lambda>g.
     if \<not> is_history_sharing_enabled (view (lib E)) g then okS NoUpdateNeeded
     else case pending_commit (view (lib E)) g of
       None \<Rightarrow> errS PendingCommitNotFound
     | Some pending \<Rightarrow>
         if \<not> update_needed (view (lib E)) g pending then okS NoUpdateNeeded
         else
           bindS (clear_pending_commit E) (\<lambda>_.
           bindS (generate_history_secret E) (\<lambda>secret.
           bindS (mapS (propose_remove_member E) (index_order E (remdups (history_client_indices (view (lib E)) g)))) (\<lambda>_.
           bindS (propose_add_member E (secret_key_package secret)) (\<lambda>_.
           bindS (getS group) (\<lambda>g'.
           bindS (commit_inline_proposals E (map qp_proposal (sc_proposals pending) @ own_pending (view (lib E)) g')) (\<lambda>commit.
           bindS (liftS (ok_or (ConvPanic ''we just added a proposal, so this will create a commit'') commit)) (\<lambda>commit.
           bindS (send_new_history_client_commit E commit secret) (\<lambda>_.
           okS CommitSentAndMerged)))))))))"

section \<open>Commits from start to end\<close>

definition send_and_merge_commit :: "'g conv_env \<Rightarrow> CommitBundle \<Rightarrow> ('g, unit) conv_op" where
  "send_and_merge_commit E commit = bindS (update_history_client E) (\<lambda>outcome.
     if outcome = CommitSentAndMerged then okS ()
     else bindS (catchS (send_commit E commit)) (\<lambda>r. case r of
         Inr _ \<Rightarrow> merge_commit E
       | Inl e \<Rightarrow> bindS (clear_pending_commit E) (\<lambda>_. errS e)))"

definition add_members :: "'g conv_env \<Rightarrow> key_package_in list \<Rightarrow> ('g, unit) conv_op" where
  "add_members E kps = bindS (add_members_inner E kps) (send_and_merge_commit E)"

definition remove_members_or_history_clients :: "'g conv_env \<Rightarrow> bytes list \<Rightarrow> ('g, unit) conv_op" where
  "remove_members_or_history_clients E clients = bindS (ensure_no_pending_commit E) (\<lambda>_. bindS crypto_provider (\<lambda>_.
     bindS (conv_credential E) (\<lambda>c.
     bindS (mutate_group E (\<lambda>g. wrap_mls (lib_remove_members (lib E) (signature_key c)
       (map member_index (filter (\<lambda>m. list_ex (\<lambda>client_id. client_id = member_identity m) clients)
          (members (view (lib E)) g)))) g)) (\<lambda>(commit, welcome, gi).
     bindS (liftS (group_info E gi)) (\<lambda>gi.
     send_and_merge_commit E (commit_bundle commit welcome gi))))))"

definition remove_members :: "'g conv_env \<Rightarrow> client_id list \<Rightarrow> ('g, unit) conv_op" where
  "remove_members E clients = remove_members_or_history_clients E clients"

definition disable_history_sharing :: "'g conv_env \<Rightarrow> ('g, unit) conv_op" where
  "disable_history_sharing E = bindS (getS group) (\<lambda>g.
     let history_client_ids = get_history_client_ids (view (lib E)) g in
     if history_client_ids = [] then okS () else remove_members_or_history_clients E history_client_ids)"

definition update_key_material :: "'g conv_env \<Rightarrow> ('g, unit) conv_op" where
  "update_key_material E = bindS (conv_credential E) (\<lambda>c.
     bindS (set_credential_inner E c) (send_and_merge_commit E))"

definition set_credential_by_ref :: "'g conv_env \<Rightarrow> CredentialRef \<Rightarrow> ('g, unit) conv_op" where
  "set_credential_by_ref E r = bindS require_context (\<lambda>_. bindS (getS database) (\<lambda>d.
     bindS (liftS (map_err LoadingCredential (ref_load (cred_c E) r d))) (\<lambda>c.
     bindS (set_credential_inner E c) (send_and_merge_commit E))))"

definition commit_pending_proposals :: "'g conv_env \<Rightarrow> ('g, unit) conv_op" where
  "commit_pending_proposals E = bindS (ensure_no_pending_commit E) (\<lambda>_.
     bindS (commit_pending_proposals_inner E) (\<lambda>commit. case commit of
         None \<Rightarrow> okS ()
       | Some commit \<Rightarrow> send_and_merge_commit E commit))"

end
