(* ===== verification/Commit_Invariants.thy ===== *)
theory Commit_Invariants
  imports Conversation_Store Commit_Flow
begin

text \<open>
  The operations that create commits, proposals and messages uphold every property of the database
  that the locale \<open>conversation_invariant\<close> describes.
\<close>

lemma plain_view_errors [simp]:
  "plain_error (LoadingCredential e)" "plain_error IdentityInitializationError" "plain_error TlsSerialize"
  "plain_error (add_members_error E kps err)"
  by (auto simp: add_members_error_def clients_with_duplicate_signature_keys_def map_err_def split: sum.splits)

lemma group_info_plain: "group_info E gi = Inl e \<Longrightarrow> plain_error e"
  by (cases gi) (auto simp: group_info_def try_new_full_plaintext_def ok_or_def split: option.splits)

lemma expect_group_info_plain: "expect_group_info E out = Inl e \<Longrightarrow> plain_error e"
  by (cases out) (auto simp: expect_group_info_def try_new_full_plaintext_def ok_or_def bindE_def split: option.splits sum.splits)

lemma lib_ok_creates:
  assumes "lib_ok E"
  shows "mls_op_ok (hs E) (lib_add_members (lib E) sk kps)" "mls_op_ok (hs E) (lib_remove_members (lib E) sk is)"
    "mls_op_ok (hs E) (lib_self_update (lib E) sk leaf)" "mls_op_ok (hs E) (lib_commit_pending (lib E) sk)"
    "mls_op_ok (hs E) (lib_commit_inline (lib E) sk ps)" "mls_op_ok (hs E) (lib_propose_add (lib E) sk kp)"
    "mls_op_ok (hs E) (lib_propose_remove (lib E) sk i)" "mls_op_ok (hs E) (lib_create_message (lib E) sk msg)"
  using assms unfolding lib_ok_def by blast+

context conversation_invariant
begin

lemma lift_plain_upholds: "(\<And>e. r = Inl e \<Longrightarrow> plain_error e) \<Longrightarrow> upholds (on_db P) Q (liftS r)"
  by (cases r) (auto simp: plain_errors)

lemma lift_ok_or_upholds: "plain_error e \<Longrightarrow> upholds (on_db P) Q (liftS (ok_or e r))"
  by (cases r) (auto simp: plain_errors)

lemma lift_map_err_upholds: "(\<And>e. plain_error (f e)) \<Longrightarrow> upholds (on_db P) Q (liftS (map_err f r))"
  by (cases r) (auto simp: plain_errors)

lemma get_upholds: "upholds (on_db P) Q (getS f)"
  by (rule deliversI) (auto simp: getS_def)

lemma credential_upholds: "upholds (on_db P) Q (conv_credential E)"
proof -
  have current: "upholds (on_db P) Q (find_current_credential E)"
    unfolding find_current_credential_def
    by (intro upholds_bindS get_upholds lift_ok_or_upholds lift_map_err_upholds) simp_all
  show ?thesis
    unfolding conv_credential_def
    by (rule delivers_bindS[OF delivers_catchS[OF current]]) (rule lift_map_err_upholds, simp)
qed

lemma mls_mutation_upholds:
  assumes ok: "lib_ok E \<Longrightarrow> \<forall>g. mls_op_ok (hs E) (f g)"
    and post: "\<And>a e. post a = Inl e \<Longrightarrow> plain_error e"
    and err: "\<And>e. plain_error (err e)"
  shows "upholds (on_db P) Q (mutate_group E (\<lambda>g d. case f g g d of
      (Inl e, g', d') \<Rightarrow> (Inl (err e), g', d') | (Inr a, g', d') \<Rightarrow> (post a, g', d')))"
proof (rule mutate_group_upholds)
  fix g d r g' d'
  assume d: "P d" and run: "(case f g g d of (Inl e, g', d') \<Rightarrow> (Inl (err e), g', d') | (Inr a, g', d') \<Rightarrow> (post a, g', d')) = (r, g', d')"
  obtain r1 g1 d1 where f: "f g g d = (r1, g1, d1)" by (cases "f g g d")
  have op: "mls_op_ok (hs E) (f g)"
    using ok[OF lib[OF d]] by simp
  have "P d1"
    using key_store_keeps[OF mls_op_okD[OF op f] d] .
  then show "P d' \<and> (case r of Inl e \<Rightarrow> Q e | Inr _ \<Rightarrow> True)"
    using run f post err plain_errors by (auto split: sum.splits)
qed

lemma wrap_mls_flat: "wrap_mls f g d = (case f g d of (Inl e, g', d') \<Rightarrow> (Inl (OpenMls e), g', d') | (Inr a, g', d') \<Rightarrow> (Inr a, g', d'))"
  by (auto simp: wrap_mls_def split: prod.splits sum.splits)

lemma encrypt_message_upholds: "upholds (on_db P) Q (encrypt_message E msg)"
proof -
  have "upholds (on_db P) Q (mutate_group E (\<lambda>g d. case lib_create_message (lib E) sk msg g d of
      (Inl e, g', d') \<Rightarrow> (Inl (OpenMls e), g', d')
    | (Inr x, g', d') \<Rightarrow> (ok_or (OpenMls OtherMlsError) (ser_message E x), g', d')))" for sk
    by (rule mls_mutation_upholds[where f = "\<lambda>_. lib_create_message (lib E) sk msg"])
      (auto simp: lib_ok_creates ok_or_def split: option.splits)
  moreover have "(\<lambda>g d. case wrap_mls (lib_create_message (lib E) sk msg) g d of (Inl e, g', d') \<Rightarrow> (Inl e, g', d')
       | (Inr encrypted, g', d') \<Rightarrow> (ok_or (OpenMls OtherMlsError) (ser_message E encrypted), g', d'))
     = (\<lambda>g d. case lib_create_message (lib E) sk msg g d of (Inl e, g', d') \<Rightarrow> (Inl (OpenMls e), g', d')
       | (Inr x, g', d') \<Rightarrow> (ok_or (OpenMls OtherMlsError) (ser_message E x), g', d'))" for sk
    by (intro ext) (auto simp: wrap_mls_flat split: prod.splits sum.splits)
  ultimately show ?thesis
    unfolding encrypt_message_def by (intro upholds_bindS context_upholds credential_upholds) simp
qed

lemma proposals_uphold:
  "upholds (on_db P) Q (propose_add_member E kp)" "upholds (on_db P) Q (propose_remove_member E i)"
  unfolding propose_add_member_def propose_remove_member_def
  by (intro upholds_bindS context_upholds credential_upholds wrap_mls_upholds lib_ok_creates; assumption)+

lemma add_members_inner_upholds: "upholds (on_db P) Q (add_members_inner E kps)"
proof -
  have "upholds (on_db P) Q (mutate_group E (\<lambda>g d. case lib_add_members (lib E) sk kps g d of
      (Inl e, g', d') \<Rightarrow> (Inl (add_members_error E kps e), g', d')
    | (Inr x, g', d') \<Rightarrow> ((\<lambda>(commit, welcome, gi). mapR (commit_bundle commit (Some welcome)) (group_info E gi)) x, g', d')))" for sk
    by (rule mls_mutation_upholds[where f = "\<lambda>_. lib_add_members (lib E) sk kps"])
      (auto simp: lib_ok_creates mapR_def group_info_plain split: sum.splits)
  moreover have "(\<lambda>g d. case lib_add_members (lib E) sk kps g d of (Inl err, g', d') \<Rightarrow> (Inl (add_members_error E kps err), g', d')
       | (Inr (commit, welcome, gi), g', d') \<Rightarrow> (mapR (commit_bundle commit (Some welcome)) (group_info E gi), g', d'))
     = (\<lambda>g d. case lib_add_members (lib E) sk kps g d of (Inl e, g', d') \<Rightarrow> (Inl (add_members_error E kps e), g', d')
       | (Inr x, g', d') \<Rightarrow> ((\<lambda>(commit, welcome, gi). mapR (commit_bundle commit (Some welcome)) (group_info E gi)) x, g', d'))" for sk
    by (intro ext) (auto split: prod.splits sum.splits)
  ultimately show ?thesis
    unfolding add_members_inner_def
    by (intro upholds_bindS context_upholds credential_upholds ensure_no_pending_commit_upholds) simp
qed

lemma set_credential_inner_upholds: "upholds (on_db P) Q (set_credential_inner E c)"
  unfolding set_credential_inner_def
proof (intro upholds_bindS context_upholds ensure_no_pending_commit_upholds mutate_group_upholds)
  fix g d r g' d'
  assume d: "P d" and run: "(case own_leaf (lib E) g of None \<Rightarrow> (Inl OwnLeafMissing, g, d) | Some leaf_node \<Rightarrow>
     (let updated_leaf_node = (if cred_mls leaf_node = cr_mls c then None
          else Some (leaf_node\<lparr>cred_mls := cr_mls c, cred_signature_key := cr_public c\<rparr>))
      in case wrap_mls (lib_self_update (lib E) (signature_key c) updated_leaf_node) g d of
           (Inl e, g', d') \<Rightarrow> (Inl e, g', d')
         | (Inr (commit, welcome, gi), g', d') \<Rightarrow> (mapR (commit_bundle commit welcome) (group_info E gi), g', d'))) = (r, g', d')"
  show "P d' \<and> (case r of Inl e \<Rightarrow> Q e | Inr _ \<Rightarrow> True)"
  proof (cases "own_leaf (lib E) g")
    case (Some leaf)
    define u where "u = (if cred_mls leaf = cr_mls c then None
        else Some (leaf\<lparr>cred_mls := cr_mls c, cred_signature_key := cr_public c\<rparr>))"
    obtain r1 g1 d1 where w: "wrap_mls (lib_self_update (lib E) (signature_key c) u) g d = (r1, g1, d1)"
      by (cases "wrap_mls (lib_self_update (lib E) (signature_key c) u) g d")
    have ok: "mls_op_ok (hs E) (lib_self_update (lib E) (signature_key c) u)"
      using lib[OF d] by (rule lib_ok_creates)
    show ?thesis
      using wrap_mls_keeps[OF ok d w] run w Some
      by (auto simp: u_def[symmetric] mapR_def plain_errors[OF group_info_plain] split: sum.splits)
  qed (use d run plain_errors in auto)
qed

lemma commit_upholds:
  assumes "lib_ok E \<Longrightarrow> mls_op_ok (hs E) f"
  shows "upholds (on_db P) Q (bindS (mutate_group E (wrap_mls f)) (\<lambda>out.
     bindS (liftS (expect_group_info E out)) (\<lambda>b. okS (Some b))))"
  by (intro upholds_bindS wrap_mls_upholds lift_plain_upholds delivers_basic) (auto intro: assms expect_group_info_plain)

lemma commit_proposals_uphold:
  "upholds (on_db P) Q (commit_pending_proposals_inner E)" "upholds (on_db P) Q (commit_inline_proposals E ps)"
proof -
  have "upholds (on_db P) Q (bindS crypto_provider (\<lambda>_. bindS (conv_credential E) (\<lambda>c.
       bindS (mutate_group E (wrap_mls (lib_commit_pending (lib E) (signature_key c)))) (\<lambda>out.
       bindS (liftS (expect_group_info E out)) (\<lambda>b. okS (Some b))))))"
    by (intro upholds_bindS[OF context_upholds(2)] upholds_bindS[OF credential_upholds] commit_upholds lib_ok_creates)
  then show "upholds (on_db P) Q (commit_pending_proposals_inner E)"
    unfolding commit_pending_proposals_inner_def by (intro upholds_bindS get_upholds) auto
  have "upholds (on_db P) Q (bindS crypto_provider (\<lambda>_. bindS (conv_credential E) (\<lambda>c.
       bindS (mutate_group E (wrap_mls (lib_commit_inline (lib E) (signature_key c) ps))) (\<lambda>out.
       bindS (liftS (expect_group_info E out)) (\<lambda>b. okS (Some b))))))"
    by (intro upholds_bindS[OF context_upholds(2)] upholds_bindS[OF credential_upholds] commit_upholds lib_ok_creates)
  then show "upholds (on_db P) Q (commit_inline_proposals E ps)"
    unfolding commit_inline_proposals_def by auto
qed

lemma merge_commit_upholds: "upholds (on_db P) Q (merge_commit E)"
  unfolding merge_commit_def by (intro upholds_bindS commit_accepted_upholds get_upholds context_upholds)

lemma transport_upholds:
  "upholds (on_db P) Q (send_commit E b)" "upholds (on_db P) Q (generate_history_secret E)"
  "upholds (on_db P) Q (notify_new_history_client cid secret)"
proof -
  have "upholds (on_db P) Q (\<lambda>s. (if transport_accepts E (sent s) b then Inr () else Inl TransportError, s\<lparr>sent := sent s @ [b]\<rparr>))"
    by (rule deliversI) (auto simp: plain_errors split: if_splits)
  then show "upholds (on_db P) Q (send_commit E b)"
    unfolding send_commit_def by (intro upholds_bindS context_upholds)
  show "upholds (on_db P) Q (generate_history_secret E)"
    by (rule deliversI) (auto simp: generate_history_secret_def ok_or_def plain_errors split: option.splits)
  show "upholds (on_db P) Q (notify_new_history_client cid secret)"
    unfolding notify_new_history_client_def by (intro upholds_bindS context_upholds deliversI) (auto simp: putS_def)
qed

lemma history_commit_upholds: "upholds (on_db P) Q (send_new_history_client_commit E b secret)"
  unfolding send_new_history_client_commit_def
  by (intro upholds_bindS merge_commit_upholds context_upholds lift_ok_or_upholds encrypt_message_upholds transport_upholds) simp

lemma update_history_client_upholds: "upholds (on_db P) Q (update_history_client E)"
proof -
  have "upholds (on_db P) Q (bindS (clear_pending_commit E) (\<lambda>_.
     bindS (generate_history_secret E) (\<lambda>secret.
     bindS (mapS (propose_remove_member E) is) (\<lambda>_.
     bindS (propose_add_member E (secret_key_package secret)) (\<lambda>_.
     bindS (getS group) (\<lambda>g'.
     bindS (commit_inline_proposals E (ps g')) (\<lambda>commit.
     bindS (liftS (ok_or (ConvPanic msg) commit)) (\<lambda>commit.
     bindS (send_new_history_client_commit E commit secret) (\<lambda>_.
     okS CommitSentAndMerged)))))))))" for "is" ps msg
    by (intro upholds_bindS clear_pending_commit_upholds transport_upholds upholds_mapS proposals_uphold get_upholds
        commit_proposals_uphold lift_ok_or_upholds history_commit_upholds delivers_basic) auto
  then show ?thesis
    unfolding update_history_client_def
    by (intro upholds_bindS get_upholds) (auto simp: plain_errors split: option.splits)
qed

lemma send_and_merge_commit_upholds: "upholds (on_db P) Q (send_and_merge_commit E b)"
proof -
  have "upholds (on_db P) Q (bindS (catchS (send_commit E b)) (\<lambda>r. case r of Inr _ \<Rightarrow> merge_commit E
      | Inl e \<Rightarrow> bindS (clear_pending_commit E) (\<lambda>_. errS e)))"
    by (rule delivers_bindS[OF delivers_catchS[OF transport_upholds(1)]])
      (auto simp: plain_errors intro!: merge_commit_upholds upholds_bindS[OF clear_pending_commit_upholds] split: sum.splits)
  then show ?thesis
    unfolding send_and_merge_commit_def by (intro upholds_bindS update_history_client_upholds) auto
qed

lemma remove_members_upholds: "upholds (on_db P) Q (remove_members_or_history_clients E cs)"
proof -
  have "upholds (on_db P) Q (mutate_group E (\<lambda>g. wrap_mls (lib_remove_members (lib E) sk (is g)) g))" for sk "is"
  proof (rule mutate_group_upholds)
    fix g d r g' d'
    assume d: "P d" and w: "wrap_mls (lib_remove_members (lib E) sk (is g)) g d = (r, g', d')"
    have "mls_op_ok (hs E) (lib_remove_members (lib E) sk (is g))"
      using lib[OF d] by (rule lib_ok_creates)
    then show "P d' \<and> (case r of Inl e \<Rightarrow> Q e | Inr _ \<Rightarrow> True)"
      using wrap_mls_keeps[OF _ d w] by blast
  qed
  then show ?thesis
    unfolding remove_members_or_history_clients_def
    by (intro upholds_bindS ensure_no_pending_commit_upholds context_upholds credential_upholds)
      (auto intro!: upholds_bindS lift_plain_upholds send_and_merge_commit_upholds group_info_plain)
qed

lemma commits_uphold:
  "upholds (on_db P) Q (add_members E kps)" "upholds (on_db P) Q (update_key_material E)"
  "upholds (on_db P) Q (set_credential_by_ref E cref)" "upholds (on_db P) Q (commit_pending_proposals E)"
  "upholds (on_db P) Q (enable_history_sharing E)" "upholds (on_db P) Q (disable_history_sharing E)"
proof -
  show "upholds (on_db P) Q (add_members E kps)"
    unfolding add_members_def by (intro upholds_bindS add_members_inner_upholds send_and_merge_commit_upholds)
  show "upholds (on_db P) Q (update_key_material E)"
    unfolding update_key_material_def
    by (intro upholds_bindS credential_upholds set_credential_inner_upholds send_and_merge_commit_upholds)
  show "upholds (on_db P) Q (set_credential_by_ref E cref)"
    unfolding set_credential_by_ref_def
    by (intro upholds_bindS context_upholds get_upholds lift_map_err_upholds set_credential_inner_upholds send_and_merge_commit_upholds)
      simp
  show "upholds (on_db P) Q (commit_pending_proposals E)"
    unfolding commit_pending_proposals_def
    by (intro upholds_bindS ensure_no_pending_commit_upholds commit_proposals_uphold)
      (auto intro: send_and_merge_commit_upholds split: option.splits)
  have "upholds (on_db P) Q (bindS (generate_history_secret E) (\<lambda>secret.
       bindS (add_members_inner E [secret_key_package secret]) (\<lambda>commit. send_new_history_client_commit E commit secret)))"
    by (intro upholds_bindS transport_upholds add_members_inner_upholds history_commit_upholds)
  then show "upholds (on_db P) Q (enable_history_sharing E)"
    unfolding enable_history_sharing_def by (intro upholds_bindS get_upholds) auto
  show "upholds (on_db P) Q (disable_history_sharing E)"
    unfolding disable_history_sharing_def by (intro upholds_bindS get_upholds) (auto simp: Let_def intro: remove_members_upholds)
qed

end

end
