(* ===== verification/Credential_Properties.thy ===== *)
theory Credential_Properties
  imports Credentials Pending_Entities
begin

text \<open>
  Properties of credentials and key packages: a saved credential is loaded back through its
  reference, removing the key packages of a credential removes all of them and nothing else, a
  credential in use is not removed, and one history client makes the list of references fail.
\<close>

section \<open>Saving and loading\<close>

definition cred_codecs_ok :: "cred_codecs \<Rightarrow> bool" where
  "cred_codecs_ok C \<longleftrightarrow> (\<forall>m bs. tls_write C m = Some bs \<longrightarrow> tls_read C bs = Some (m, []))"

definition cred_wf :: "cred_codecs \<Rightarrow> Credential \<Rightarrow> bool" where
  "cred_wf C c \<longleftrightarrow> known_ciphersuite C (cr_cipher_suite c) \<and> mc_type (cr_mls c) = credential_type_u16 (cr_type c)"

lemma credential_type_round_trip [simp]: "credential_type_try_from (credential_type_u16 t) = Inr t"
  by (cases t) (simp_all add: credential_type_try_from_def credential_type_u16_def)

abbreviation to_stored :: "Credential \<Rightarrow> bytes \<Rightarrow> stored_credential" where
  "to_stored c bs \<equiv> \<lparr>session_id = credential_client_id c, credential = bs, created_at = 0,
     ciphersuite = cr_cipher_suite c, public_key = cr_public c, private_key = cr_private c\<rparr>"

lemma credential_save_Inr:
  assumes "credential_save C H now c d = (d', Inr (c', r))"
  shows "\<exists>bs generated. tls_write C (cr_mls c) = Some bs
    \<and> db_save H now (StoredCredential (to_stored c bs)) d = (d', Inr generated)
    \<and> c' = c\<lparr>cr_earliest_validity := (case generated of None \<Rightarrow> 0 | Some t \<Rightarrow> t)\<rparr> \<and> r = from_credential H c'"
proof (cases "tls_write C (cr_mls c)")
  case None
  then show ?thesis
    using assms by (simp add: credential_save_def)
next
  case (Some bs)
  obtain d1 x where x: "db_save H now (StoredCredential (to_stored c bs)) d = (d1, x)"
    by (cases "db_save H now (StoredCredential (to_stored c bs)) d")
  then show ?thesis
    using assms Some by (cases x) (auto simp: credential_save_def Let_def)
qed


definition example_cred_codecs :: cred_codecs where
  "example_cred_codecs = \<lparr>tls_read = (\<lambda>bs. case bs of [] \<Rightarrow> None
       | k # rest \<Rightarrow> Some (\<lparr>mc_type = ucast k, mc_identity = rest, mc_body = []\<rparr>, [])),
     tls_write = (\<lambda>m. if mc_type m < 256 \<and> mc_body m = [] then Some (ucast (mc_type m) # mc_identity m) else None),
     known_ciphersuite = (\<lambda>c. c = 1)\<rparr>"

lemma example_cred_codecs_ok: "cred_codecs_ok example_cred_codecs"
  unfolding cred_codecs_ok_def
proof (intro allI impI)
  fix m bs
  assume "tls_write example_cred_codecs m = Some bs"
  then have m: "mc_type m < 256" "mc_body m = []" "bs = ucast (mc_type m) # mc_identity m"
    by (simp_all add: example_cred_codecs_def split: if_splits)
  have "uint (mc_type m) < 256"
    using m(1) by (simp add: word_less_def)
  then have "ucast (ucast (mc_type m) :: byte) = mc_type m"
    by (intro word_uint_eqI) (simp add: unsigned_ucast_eq take_bit_eq_mod uint_mod)
  then show "tls_read example_cred_codecs bs = Some (m, [])"
    using m(2,3) by (simp add: example_cred_codecs_def)
qed

definition example_credential :: Credential where
  "example_credential = \<lparr>cr_cipher_suite = 1, cr_type = Basic, cr_mls = \<lparr>mc_type = 1, mc_identity = [7], mc_body = []\<rparr>,
     cr_private = [1, 2], cr_public = [3, 4], cr_earliest_validity = 0\<rparr>"


section \<open>Listing references\<close>

lemma mapE_error:
  assumes "x \<in> set xs" "f x = Inl e"
  shows "\<exists>e'. mapE f xs = Inl e'"
proof (cases "mapE f xs")
  case (Inr ys)
  then have "\<exists>y. f x = Inr y"
    using assms(1) by (auto simp: mapE_eq_Inr list_all2_conv_all_nth in_set_conv_nth)
  then show ?thesis
    using assms(2) by simp
qed simp

lemma set_map_filter_eq: "set (List.map_filter f xs) = {y. \<exists>x \<in> set xs. f x = Some y}"
  by (induction xs) (auto simp: List.map_filter_def)

text \<open>
  As soon as one credential that the search finds belongs to a history client, the whole list of
  references is an error: the client id of a history client does not parse.
\<close>

theorem history_credential_breaks_listing:
  assumes "uuid_ok U" "db_search H HO (CredentialKey \<lparr>find_hash = ff_public_key_hash f, find_public_key = None,
         find_session_id = ff_client_id f, find_ciphersuite = ff_cipher_suite f,
         find_earliest_validity = ff_earliest_validity f\<rparr>) d = Inr es"
    and "StoredCredential st \<in> set es" "session_id st = new_ephemeral U user"
    and "tls_read C (credential st) = Some (mls, [])" "known_ciphersuite C (ciphersuite st)"
    and "mc_type mls = credential_type_u16 ty" "is_none_or (ff_credential_type f) (\<lambda>t. t = ty)"
  shows "\<exists>e. ref_find C U H HO f d = Inl e"
proof -
  have "st \<in> set (stored_credentials es)"
    using assms(3) by (force simp: stored_credentials_def set_map_filter_eq)
  moreover have "ref_of_stored C U H (ff_credential_type f) st = Inl (CredClientId InvalidQualifiedClientId)"
    using assms(4-8) history_id_error[OF assms(1), of user]
    by (auto simp: ref_of_stored_def cipher_suite_try_from_def new_from_bytes_def is_none_or_def split: option.splits)
  ultimately obtain e where "mapE (ref_of_stored C U H (ff_credential_type f)) (stored_credentials es) = Inl e"
    using mapE_error by metis
  then show ?thesis
    using assms(2) by (simp add: ref_find_def)
qed

definition example_history_credential :: Credential where
  "example_history_credential = example_credential\<lparr>cr_mls := \<lparr>mc_type = 1, mc_identity = new_ephemeral example_codecs 7, mc_body = []\<rparr>\<rparr>"

definition example_credentials :: Database where
  "example_credentials = fst (credential_save example_cred_codecs example_hashes (Some 1000) example_history_credential
     (fst (the (new_transaction (db_open empty_db)))))"

theorem history_credential_breaks_listing_witness:
  "\<exists>e. ref_get_all example_cred_codecs example_codecs example_hashes example_order example_credentials = Inl e"
proof -
  let ?st = "\<lparr>session_id = new_ephemeral example_codecs 7, credential = 1 # new_ephemeral example_codecs 7, created_at = 1000,
     ciphersuite = 1, public_key = [3, 4], private_key = [1, 2]\<rparr>"
  have search: "db_search example_hashes example_order (CredentialKey \<lparr>find_hash = None, find_public_key = None,
      find_session_id = None, find_ciphersuite = None, find_earliest_validity = None\<rparr>) example_credentials = Inr [StoredCredential ?st]"
    unfolding example_credentials_def by code_simp
  show ?thesis
    unfolding ref_get_all_def
    by (rule history_credential_breaks_listing[OF example_codecs_ok(1), where es = "[StoredCredential ?st]" and st = ?st and user = 7 and ty = Basic
          and mls = "\<lparr>mc_type = 1, mc_identity = new_ephemeral example_codecs 7, mc_body = []\<rparr>"])
      (use search in \<open>simp_all add: example_cred_codecs_def credential_type_u16_def is_none_or_def\<close>)
qed

section \<open>Removing key packages\<close>

text \<open>What \<open>remove_key_package\<close> and the loop over it leave of the database.\<close>

lemma db_remove_open:
  assumes "db_inv H d" "transaction d \<noteq> None"
  shows "\<exists>d'. db_remove T k d = (d', Inr ()) \<and> db_inv H d' \<and> transaction d' \<noteq> None
    \<and> (\<forall>F l. db_get F l d' = (if F = T \<and> key_bytes l = key_bytes k then Inr None else db_get F l d))"
proof -
  obtain tx where tx: "transaction d = Some tx"
    using assms(2) by blast
  then obtain d' where d': "db_remove T k d = (d', Inr ())" "transaction d' \<noteq> None"
    by (simp add: db_remove_in_transaction)
  have "d' = mutate H (Remove T k) d"
    using d'(1) by (simp add: mutate_def)
  then have "db_inv H d'"
    using mutate_inv[OF assms(1), of "Remove T k"] by (simp add: mutation_ok_def)
  then show ?thesis
    using d' db_get_after_remove[OF assms(1) d'(1)] by auto
qed

definition package_removed :: "bytes \<Rightarrow> Database \<Rightarrow> bool" where
  "package_removed r d \<longleftrightarrow> db_get KeyPackageT (BytesKey r) d = Inr None"

lemma remove_key_package_effect:
  assumes "db_inv H d" "transaction d \<noteq> None" "remove_key_package K r d = (d', x)"
  shows "db_inv H d' \<and> transaction d' \<noteq> None
    \<and> (\<forall>l. l \<noteq> r \<longrightarrow> db_get KeyPackageT (BytesKey l) d' = db_get KeyPackageT (BytesKey l) d)
    \<and> (\<forall>l. package_removed l d \<longrightarrow> package_removed l d')
    \<and> (x = Inr () \<longrightarrow> package_removed r d')"
proof (cases "\<exists>kp. load_key_package K r d = Inr (Some kp)")
  case False
  then have "d' = d"
    using assms(3) by (auto simp: remove_key_package_def split: sum.splits option.splits)
  moreover have "package_removed r d" if "x = Inr ()"
    using False assms(3) that
    by (auto simp: remove_key_package_def load_key_package_def package_removed_def res_simps
        split: sum.splits option.splits Entity.splits dest: db_get_typed)
  ultimately show ?thesis
    using assms(1,2) by simp
next
  case True
  then obtain kp where kp: "load_key_package K r d = Inr (Some kp)" by blast
  obtain d1 where d1: "db_remove KeyPackageT (BytesKey r) d = (d1, Inr ())" "db_inv H d1" "transaction d1 \<noteq> None"
      "\<And>F l. db_get F l d1 = (if F = KeyPackageT \<and> key_bytes l = r then Inr None else db_get F l d)"
    using db_remove_open[OF assms(1,2), of KeyPackageT "BytesKey r"] by auto
  obtain d2 where d2: "db_remove HpkePrivateKeyT (BytesKey (kp_hpke_init_key K kp)) d1 = (d2, Inr ())" "db_inv H d2"
      "transaction d2 \<noteq> None" "\<And>l. db_get KeyPackageT l d2 = db_get KeyPackageT l d1"
    using db_remove_open[OF d1(2,3), of HpkePrivateKeyT "BytesKey (kp_hpke_init_key K kp)"] by auto
  obtain d3 where d3: "db_remove EncryptionKeyPairT (BytesKey (kp_encryption_key K kp)) d2 = (d3, Inr ())" "db_inv H d3"
      "transaction d3 \<noteq> None" "\<And>l. db_get KeyPackageT l d3 = db_get KeyPackageT l d2"
    using db_remove_open[OF d2(2,3), of EncryptionKeyPairT "BytesKey (kp_encryption_key K kp)"] by auto
  have "d' = d3" "x = Inr ()"
    using assms(3) kp d1(1) d2(1) d3(1) by (simp_all add: remove_key_package_def)
  then show ?thesis
    using d3(2-4) d2(4) d1(4) by (auto simp: package_removed_def)
qed

lemma remove_retaining_err_effect:
  assumes "db_inv H d" "transaction d \<noteq> None" "remove_retaining_err K kps first d = (d', None)"
  shows "first = None \<and> db_inv H d' \<and> (\<forall>kp \<in> set kps. \<exists>r. kp_make_ref K kp = Some r \<and> package_removed r d')
    \<and> (\<forall>l. package_removed l d \<longrightarrow> package_removed l d')
    \<and> (\<forall>l. (\<forall>kp \<in> set kps. kp_make_ref K kp \<noteq> Some l) \<longrightarrow> db_get KeyPackageT (BytesKey l) d' = db_get KeyPackageT (BytesKey l) d)"
  using assms
proof (induction kps arbitrary: first d)
  case (Cons kp kps)
  show ?case
  proof (cases "kp_make_ref K kp")
    case None
    then have "remove_retaining_err K kps (if first = None then Some KeyPackageRef else first) d = (d', None)"
      using Cons.prems(3) by simp
    from Cons.IH[OF Cons.prems(1,2) this] show ?thesis
      by (simp split: if_splits)
  next
    case (Some r)
    obtain d1 x where d1: "remove_key_package K r d = (d1, x)"
      by (cases "remove_key_package K r d")
    note eff = remove_key_package_effect[OF Cons.prems(1,2) d1]
    show ?thesis
    proof (cases x)
      case (Inl e)
      then have "remove_retaining_err K kps (if first = None then Some e else first) d1 = (d', None)"
        using Cons.prems(3) Some d1 by simp
      from Cons.IH[OF _ _ this] eff show ?thesis
        by (simp split: if_splits)
    next
      case (Inr u)
      then have "remove_retaining_err K kps first d1 = (d', None)"
        using Cons.prems(3) Some d1 by simp
      from Cons.IH[OF _ _ this] eff have IH: "first = None" "db_inv H d'"
          "\<forall>kp \<in> set kps. \<exists>r. kp_make_ref K kp = Some r \<and> package_removed r d'"
          "\<forall>l. package_removed l d1 \<longrightarrow> package_removed l d'"
          "\<forall>l. (\<forall>kp \<in> set kps. kp_make_ref K kp \<noteq> Some l) \<longrightarrow> db_get KeyPackageT (BytesKey l) d' = db_get KeyPackageT (BytesKey l) d1"
        by simp_all
      have "package_removed r d'"
        using IH(4) eff Inr by simp
      then show ?thesis
        using IH eff Some by auto
    qed
  qed
qed simp

lemma get_key_packages_set:
  assumes "db_load_all H HO KeyPackageT d = Inr es"
  shows "\<exists>kps. get_key_packages K H HO d = Inr kps
    \<and> set kps = {kp. \<exists>st. StoredKeypackage st \<in> set es \<and> kp_deser K (keypackage st) = Some kp}"
proof -
  have "(case e of StoredKeypackage c \<Rightarrow> Some c | _ \<Rightarrow> None) = Some x \<longleftrightarrow> e = StoredKeypackage x" for e x
    by (cases e) simp_all
  then have "x \<in> set (stored_keypackages es) \<longleftrightarrow> StoredKeypackage x \<in> set es" for x
    by (auto simp: stored_keypackages_def set_map_filter_eq)
  moreover have "okay (from_stored K st) = kp_deser K (keypackage st)" for st
    by (simp add: from_stored_def okay_def ok_or_def split: option.splits)
  ultimately have "set (List.map_filter (\<lambda>st. okay (from_stored K st)) (stored_keypackages es))
      = {kp. \<exists>st. StoredKeypackage st \<in> set es \<and> kp_deser K (keypackage st) = Some kp}"
    by (simp add: set_map_filter_eq Bex_def)
  then show ?thesis
    by (simp add: get_key_packages_def assms)
qed

text \<open>
  C27: When removing the key packages of a credential succeeds, every key package made with its
  signature key is gone from the transaction's view of the database, and no other key package has
  changed.
\<close>

theorem remove_key_packages_for_exact:
  assumes "db_reachable H d" "transaction d \<noteq> None" "db_load_all H HO KeyPackageT d = Inr es" "ref_load C r d = Inr c"
    and "\<forall>st kp. StoredKeypackage st \<in> set es \<longrightarrow> kp_deser K (keypackage st) = Some kp \<longrightarrow> kp_make_ref K kp = Some (keypackage_ref st)"
    and "remove_key_packages_for C K H HO r d = (d', Inr ())"
  shows "(\<forall>st kp. StoredKeypackage st \<in> set es \<longrightarrow> kp_deser K (keypackage st) = Some kp \<longrightarrow> kp_signature_key K kp = cr_public c
        \<longrightarrow> db_get KeyPackageT (BytesKey (keypackage_ref st)) d' = Inr None)
    \<and> (\<forall>l. (\<forall>st kp. StoredKeypackage st \<in> set es \<longrightarrow> kp_deser K (keypackage st) = Some kp \<longrightarrow> kp_signature_key K kp = cr_public c
          \<longrightarrow> keypackage_ref st \<noteq> l)
        \<longrightarrow> db_get KeyPackageT (BytesKey l) d' = db_get KeyPackageT (BytesKey l) d)"
proof -
  obtain kps where kps: "get_key_packages K H HO d = Inr kps"
      "set kps = {kp. \<exists>st. StoredKeypackage st \<in> set es \<and> kp_deser K (keypackage st) = Some kp}"
    using get_key_packages_set[OF assms(3), of K] by (elim exE conjE) (rule that)
  let ?ours = "filter (\<lambda>kp. kp_signature_key K kp = cr_public c) kps"
  have "remove_retaining_err K ?ours None d = (d', None)"
    using assms(4,6) kps(1) by (simp add: remove_key_packages_for_def split: prod.splits option.splits)
  note eff = remove_retaining_err_effect[OF reachable_inv[OF assms(1)] assms(2) this]
  show ?thesis
  proof (intro conjI allI impI)
    fix st kp
    assume st: "StoredKeypackage st \<in> set es" "kp_deser K (keypackage st) = Some kp" "kp_signature_key K kp = cr_public c"
    then have "kp \<in> set ?ours" "kp_make_ref K kp = Some (keypackage_ref st)"
      using kps(2) assms(5) by auto
    then show "db_get KeyPackageT (BytesKey (keypackage_ref st)) d' = Inr None"
      using conjunct1[OF conjunct2[OF conjunct2[OF eff]]] by (auto simp: package_removed_def)
  next
    fix l
    assume l: "\<forall>st kp. StoredKeypackage st \<in> set es \<longrightarrow> kp_deser K (keypackage st) = Some kp \<longrightarrow>
      kp_signature_key K kp = cr_public c \<longrightarrow> keypackage_ref st \<noteq> l"
    have "\<forall>kp \<in> set ?ours. kp_make_ref K kp \<noteq> Some l"
    proof
      fix kp
      assume "kp \<in> set ?ours"
      then obtain st where st: "StoredKeypackage st \<in> set es" "kp_deser K (keypackage st) = Some kp" "kp_signature_key K kp = cr_public c"
        using kps(2) by auto
      then show "kp_make_ref K kp \<noteq> Some l"
        using l assms(5) by simp
    qed
    then show "db_get KeyPackageT (BytesKey l) d' = db_get KeyPackageT (BytesKey l) d"
      using eff by simp
  qed
qed

definition example_kp_lib :: "bytes kp_lib" where
  "example_kp_lib = \<lparr>kp_deser = Some, kp_make_ref = (\<lambda>b. Some (take 1 b)), kp_hpke_init_key = take 1, kp_encryption_key = take 1,
     kp_signature_key = drop 1\<rparr>"

definition example_packages :: Database where
  "example_packages = foldl (\<lambda>d m. mutate example_hashes m d)
     (fst (credential_save example_cred_codecs example_hashes (Some 1000) example_credential
        (fst (the (new_transaction (db_open empty_db))))))
     [Save None (StoredKeypackage \<lparr>keypackage_ref = [1], keypackage = [1, 3, 4]\<rparr>),
      Save None (StoredKeypackage \<lparr>keypackage_ref = [2], keypackage = [2, 9]\<rparr>)]"

definition example_ref :: CredentialRef where
  "example_ref = from_credential example_hashes (example_credential\<lparr>cr_earliest_validity := 1000\<rparr>)"

lemma credential_save_reachable:
  assumes "db_reachable H d" "uint t \<le> 253402300799"
  shows "db_reachable H (fst (credential_save C H (Some t) c d))"
proof (cases "tls_write C (cr_mls c)")
  case (Some bs)
  have "mutation_ok (Save (Some t) (StoredCredential (to_stored c bs)))"
    using assms(2) by (simp add: mutation_ok_def is_none_or_def)
  then have "db_reachable H (fst (db_save H (Some t) (StoredCredential (to_stored c bs)) d))"
    using db_reachable.stepped[OF assms(1) db_step.mutate_tx] by (fastforce simp: mutate_def)
  then show ?thesis
    by (cases "db_save H (Some t) (StoredCredential (to_stored c bs)) d"; cases "snd (db_save H (Some t) (StoredCredential (to_stored c bs)) d)")
      (simp_all add: credential_save_def Some Let_def)
qed (simp add: credential_save_def assms(1))

lemma example_packages_reachable: "db_reachable example_hashes example_packages"
  unfolding example_packages_def
  by (rule mutates_reachable) (auto intro!: credential_save_reachable example_begin simp: mutation_ok_def is_none_or_def)

theorem remove_key_packages_for_exact_witness:
  "\<exists>d'. remove_key_packages_for example_cred_codecs example_kp_lib example_hashes example_order example_ref example_packages = (d', Inr ())
    \<and> db_get KeyPackageT (BytesKey [1]) d' = Inr None
    \<and> db_get KeyPackageT (BytesKey [2]) d' = Inr (Some (StoredKeypackage \<lparr>keypackage_ref = [2], keypackage = [2, 9]\<rparr>))"
proof -
  let ?kps = "[StoredKeypackage \<lparr>keypackage_ref = [1], keypackage = [1, 3, 4]\<rparr>, StoredKeypackage \<lparr>keypackage_ref = [2], keypackage = [2, 9]\<rparr>]"
  let ?run = "remove_key_packages_for example_cred_codecs example_kp_lib example_hashes example_order example_ref example_packages"
  have eval: "db_load_all example_hashes example_order KeyPackageT example_packages = Inr ?kps"
    "ref_load example_cred_codecs example_ref example_packages = Inr (example_credential\<lparr>cr_earliest_validity := 1000\<rparr>)"
    "snd ?run = Inr ()" "transaction example_packages \<noteq> None"
    "db_get KeyPackageT (BytesKey [2]) example_packages = Inr (Some (StoredKeypackage \<lparr>keypackage_ref = [2], keypackage = [2, 9]\<rparr>))"
    by code_simp+
  have "?run = (fst ?run, Inr ())"
    using eval(3) by (simp add: prod_eq_iff)
  note run = this
  have "(\<forall>st kp. StoredKeypackage st \<in> set ?kps \<longrightarrow> kp_deser example_kp_lib (keypackage st) = Some kp \<longrightarrow>
      kp_make_ref example_kp_lib kp = Some (keypackage_ref st))"
    by (auto simp: example_kp_lib_def)
  note removed = remove_key_packages_for_exact[OF example_packages_reachable eval(4,1,2) this run]
  have "db_get KeyPackageT (BytesKey [1]) (fst ?run) = Inr None"
    using conjunct1[OF removed, rule_format, of "\<lparr>keypackage_ref = [1], keypackage = [1, 3, 4]\<rparr>"]
    by (simp add: example_kp_lib_def example_credential_def)
  moreover have "db_get KeyPackageT (BytesKey [2]) (fst ?run) = db_get KeyPackageT (BytesKey [2]) example_packages"
    by (rule conjunct2[OF removed, rule_format]) (auto simp: example_kp_lib_def example_credential_def)
  ultimately show ?thesis
    using run eval(5) by auto
qed

section \<open>Credentials in use\<close>

lemma first_in_use_found:
  assumes "(i, c) \<in> set gs"
  shows "\<exists>j. first_in_use c (map (\<lambda>(i, c). (i, Inr c)) gs) = Inl (CredentialStillInUse j)"
  using assms by (induction gs) auto

text \<open>
  C28: A credential whose MLS credential is the one of the own leaf in any stored conversation is not
  removed and nothing changes.  Only the MLS credential is compared: another credential with the
  same identity, with its own signature key, cannot be removed either.
\<close>

theorem credential_in_use_kept:
  assumes "ref_client_id r = session_client_id" "ref_load C r d = Inr c" "db_load_all H HO PersistedMlsGroupT d = Inr es"
    and "\<forall>p. PersistedMlsGroup p \<in> set es \<longrightarrow> (\<exists>g m. group_deser G (group_state p) = Some g \<and> group_own_leaf G g = Some m)"
    and "\<forall>gs. set (iter gs) = set gs"
    and "PersistedMlsGroup p \<in> set es" "group_deser G (group_state p) = Some g" "group_own_leaf G g = Some (cr_mls c)"
  shows "\<exists>i. remove_credential C K G H HO iter session_client_id r d = (d, Inl (CredentialStillInUse i))"
proof -
  have "(case e of PersistedMlsGroup g \<Rightarrow> Some g | _ \<Rightarrow> None) = Some x \<longleftrightarrow> e = PersistedMlsGroup x" for e x
    by (cases e) simp_all
  then have groups: "x \<in> set (persisted_groups es) \<longleftrightarrow> PersistedMlsGroup x \<in> set es" for x
    by (auto simp: persisted_groups_def set_map_filter_eq)
  let ?gs = "map (\<lambda>p. (group_id p, the (group_deser G (group_state p)))) (persisted_groups es)"
  have loaded: "mapE (\<lambda>g. mapR (Pair (group_id g)) (ok_or GroupDeserialize (group_deser G (group_state g)))) (persisted_groups es) = Inr ?gs"
    using assms(4) groups by (intro mapE_total) force
  have leaf: "ok_or OwnLeafNodeMissing (group_own_leaf G y) = Inr (the (group_own_leaf G y))" if xy: "(x, y) \<in> set (iter ?gs)" for x y
  proof -
    obtain q where "PersistedMlsGroup q \<in> set es" "y = the (group_deser G (group_state q))"
      using xy assms(5) groups by auto
    then show ?thesis
      using assms(4) by auto
  qed
  have "map (\<lambda>(i, g). (i, ok_or OwnLeafNodeMissing (group_own_leaf G g))) (iter ?gs)
      = map (\<lambda>(i, c). (i, Inr c)) (map (\<lambda>(i, g). (i, the (group_own_leaf G g))) (iter ?gs))"
    unfolding map_map by (intro map_cong refl) (auto simp: leaf simp del: set_map)
  moreover have "(group_id p, g) \<in> set (iter ?gs)"
    using assms(5-7) groups[of p] by (simp add: image_iff) (metis option.sel)
  then have "(group_id p, cr_mls c) \<in> set (map (\<lambda>(i, g). (i, the (group_own_leaf G g))) (iter ?gs))"
    using assms(8) by (simp add: image_iff) (rule bexI[of _ "(group_id p, g)"], simp_all)
  ultimately obtain i where "first_in_use (cr_mls c) (map (\<lambda>(i, g). (i, ok_or OwnLeafNodeMissing (group_own_leaf G g))) (iter ?gs))
      = Inl (CredentialStillInUse i)"
    using first_in_use_found[of "group_id p" "cr_mls c"] by (simp only:) blast
  then show ?thesis
    using assms(1-3) loaded by (simp add: remove_credential_def)
qed

definition example_group_codec :: "bytes group_codec" where
  "example_group_codec = \<lparr>group_deser = Some, group_own_leaf = (\<lambda>_. Some \<lparr>mc_type = 1, mc_identity = [7], mc_body = []\<rparr>)\<rparr>"

definition example_used :: Database where
  "example_used = mutate example_hashes (Save None (PersistedMlsGroup \<lparr>group_id = [1], group_state = [5], parent_id = None\<rparr>))
     (fst (credential_save example_cred_codecs example_hashes (Some 1000) (example_credential\<lparr>cr_public := [8, 8]\<rparr>)
        (fst (the (new_transaction (db_open empty_db))))))"

lemma example_used_groups:
  "db_load_all example_hashes example_order PersistedMlsGroupT example_used
    = Inr [PersistedMlsGroup \<lparr>group_id = [1], group_state = [5], parent_id = None\<rparr>]"
  by code_simp

lemma example_used_credential:
  "ref_load example_cred_codecs (from_credential example_hashes (example_credential\<lparr>cr_public := [8, 8]\<rparr>)) example_used
    = Inr (example_credential\<lparr>cr_public := [8, 8], cr_earliest_validity := 1000\<rparr>)"
  by code_simp

theorem credential_in_use_kept_witness:
  "\<exists>i. remove_credential example_cred_codecs example_kp_lib example_group_codec example_hashes example_order (\<lambda>gs. gs) [7]
      (from_credential example_hashes (example_credential\<lparr>cr_public := [8, 8]\<rparr>)) example_used
    = (example_used, Inl (CredentialStillInUse i))"
  by (rule credential_in_use_kept[OF _ example_used_credential example_used_groups,
        where p = "\<lparr>group_id = [1], group_state = [5], parent_id = None\<rparr>" and g = "[5]"])
    (simp_all add: example_group_codec_def from_credential_def credential_client_id_def example_credential_def)

end
