(* ===== verification/Example_Group.thy ===== *)
theory Example_Group
  imports Conversation_Store Decrypt Credential_Properties
begin

text \<open>
  A small group that satisfies the contracts assumed of OpenMLS: it counts epochs, collects
  proposals, and accepts a commit when the proposal it names is known.  It is the concrete input
  on which the theorems about conversations are applied.
\<close>

record example_group =
  eg_epoch :: u64
  eg_proposals :: "queued_proposal list"
  eg_commit :: "staged_commit option"
  eg_dirty :: bool
  eg_members :: "member list"

definition eg_view :: "example_group mls_view" where
  "eg_view = \<lparr>epoch = eg_epoch, own_leaf_index = (\<lambda>_. 0),
     members = eg_members, pending_proposals = eg_proposals, pending_commit = eg_commit, is_active = (\<lambda>_. True),
     confirmation_tag = (\<lambda>g. Some [ucast (eg_epoch g)])\<rparr>"

definition eg_proposal :: "bytes \<Rightarrow> queued_proposal" where
  "eg_proposal bs = \<lparr>qp_proposal = OtherProposal bs, qp_sender = Member 1, qp_ref = bs\<rparr>"

definition eg_staged :: "queued_proposal list \<Rightarrow> example_group \<Rightarrow> staged_commit" where
  "eg_staged ps g = \<lparr>sc_proposals = ps, sc_confirmation_tag = [ucast (eg_epoch g + 1)], sc_epoch = eg_epoch g + 1\<rparr>"

definition eg_message :: "processed_content \<Rightarrow> processed_message" where
  "eg_message c = \<lparr>pm_credential = basic_credential [1], pm_content = c\<rparr>"

fun eg_process :: "mls_message \<Rightarrow> (example_group, processed_message) mls_op" where
  "eg_process (PrivateMessage p) g d =
     (if priv_epoch p \<noteq> eg_epoch g then (Inl WrongEpoch, g, d)
      else case priv_content_type p of
        Application \<Rightarrow> (Inr (eg_message (ApplicationMessage (priv_bytes p))), g, d)
      | Proposal \<Rightarrow> (Inr (eg_message (ProposalMessage (eg_proposal (priv_bytes p)))), g, d)
      | Commit \<Rightarrow>
          if priv_bytes p = [] \<or> list_ex (\<lambda>q. qp_ref q = priv_bytes p) (eg_proposals g)
          then (Inr (eg_message (StagedCommitMessage (eg_staged [] g))), g, d)
          else (Inl MissingProposal, g, d))"
| "eg_process (PublicMessage p) g d =
     (if pub_content_type p = Commit \<and> pub_sender p = Member 0 then (Inl OwnCommit, g, d)
      else (Inl OtherMlsError, g, d))"
| "eg_process OtherBody g d = (Inl OtherMlsError, g, d)"

fun eg_apply :: "queued_proposal list \<Rightarrow> member list \<Rightarrow> member list" where
  "eg_apply [] ms = ms"
| "eg_apply (p # ps) ms = eg_apply ps (case qp_proposal p of
       RemoveProposal i \<Rightarrow> filter (\<lambda>m. member_index m \<noteq> i) ms
     | AddProposal bs \<Rightarrow> ms @ [\<lparr>member_index = 1 + fold max (map member_index ms) 0, member_credential = basic_credential bs\<rparr>]
     | _ \<Rightarrow> ms)"

definition eg_advance :: "staged_commit \<Rightarrow> example_group \<Rightarrow> example_group" where
  "eg_advance c g = g\<lparr>eg_epoch := sc_epoch c, eg_proposals := [], eg_commit := None, eg_dirty := True,
     eg_members := eg_apply (sc_proposals c) (eg_members g)\<rparr>"

definition eg_own :: "proposal \<Rightarrow> queued_proposal" where
  "eg_own p = \<lparr>qp_proposal = p, qp_sender = Member 0, qp_ref = [0]\<rparr>"

definition eg_make_commit :: "queued_proposal list \<Rightarrow> (example_group, commit_out) mls_op" where
  "eg_make_commit ps g d = (Inr ([3, ucast (eg_epoch g)], None, Some [9]),
     g\<lparr>eg_commit := Some (eg_staged ps g), eg_dirty := True\<rparr>, d)"

definition eg_add :: "key_package_in list \<Rightarrow> (example_group, bytes \<times> bytes \<times> bytes option) mls_op" where
  "eg_add ks g d = (if distinct (map kpi_signature_key ks)
     then case eg_make_commit (map (\<lambda>k. eg_own (AddProposal (kpi_identity k))) ks) g d of
            (_, g', d') \<Rightarrow> (Inr ([3, ucast (eg_epoch g)], [5], Some [9]), g', d')
     else (Inl DuplicateSignatureKey, g, d))"

definition eg_merge_pending :: "(example_group, unit) mls_op" where
  "eg_merge_pending g d = (case eg_commit g of
       None \<Rightarrow> (Inl OtherMlsError, g, d) | Some c \<Rightarrow> (Inr (), eg_advance c g, d))"

definition eg_message_out :: "bytes \<Rightarrow> (example_group, bytes) mls_op" where
  "eg_message_out bs g d = (Inr ([1, ucast (eg_epoch g)] @ bs), g\<lparr>eg_dirty := True\<rparr>, d)"

definition eg_propose :: "proposal \<Rightarrow> (example_group, bytes) mls_op" where
  "eg_propose p g d = (Inr [2, ucast (eg_epoch g)], g\<lparr>eg_proposals := eg_proposals g @ [eg_own p], eg_dirty := True\<rparr>, d)"

definition eg_lib :: "example_group mls_lib" where
  "eg_lib = \<lparr>view = eg_view, own_leaf = (\<lambda>_. Some (basic_credential [0])),
     own_leaf_keys = (\<lambda>_. []), state_changed = eg_dirty, set_persisted = (\<lambda>g. g\<lparr>eg_dirty := False\<rparr>),
     ser_group = (\<lambda>g. Inr [ucast (eg_epoch g)]), process = eg_process,
     store_pending_proposal = (\<lambda>p g. g\<lparr>eg_proposals := eg_proposals g @ [p], eg_dirty := True\<rparr>),
     merge_staged = (\<lambda>c g d. (Inr (), eg_advance c g, d)), merge_pending = eg_merge_pending,
     clear_pending = (\<lambda>g. g\<lparr>eg_commit := None, eg_dirty := True\<rparr>),
     remove_pending_proposal = (\<lambda>r g d. (Inr (), g\<lparr>eg_proposals := filter (\<lambda>p. qp_ref p \<noteq> r) (eg_proposals g)\<rparr>, d)),
     delete_previous_epoch_keypairs = (\<lambda>g d. (Inr (), g, d)),
     lib_add_members = (\<lambda>_. eg_add), lib_remove_members = (\<lambda>_ is. eg_make_commit (map (\<lambda>i. eg_own (RemoveProposal i)) is)),
     lib_self_update = (\<lambda>_ _. eg_make_commit []), lib_commit_pending = (\<lambda>_ g. eg_make_commit (eg_proposals g) g),
     lib_commit_inline = (\<lambda>_ ps. eg_make_commit (map eg_own ps)),
     lib_propose_add = (\<lambda>_ k. eg_propose (AddProposal (kpi_identity k))),
     lib_propose_remove = (\<lambda>_ i. eg_propose (RemoveProposal i)), lib_create_message = (\<lambda>_. eg_message_out)\<rparr>"

fun eg_deserialize :: "bytes \<Rightarrow> mls_message option" where
  "eg_deserialize (k # ep # rest) =
     (if k = 1 then Some (PrivateMessage \<lparr>priv_epoch = ucast ep, priv_content_type = Application, priv_bytes = rest\<rparr>)
      else if k = 2 then Some (PrivateMessage \<lparr>priv_epoch = ucast ep, priv_content_type = Proposal, priv_bytes = rest\<rparr>)
      else if k = 3 then Some (PrivateMessage \<lparr>priv_epoch = ucast ep, priv_content_type = Commit, priv_bytes = rest\<rparr>)
      else if k = 4 then Some (PublicMessage \<lparr>pub_epoch = ucast ep, pub_content_type = Commit, pub_sender = Member 0,
        pub_confirmation_tag = Some rest, pub_body = None, pub_bytes = []\<rparr>)
      else Some OtherBody)"
| "eg_deserialize _ = None"

definition eg_env :: "example_group conv_env" where
  "eg_env = \<lparr>conv_id = [7], lib = eg_lib, hs = example_hashes, order = example_order, codecs = example_codecs,
     log_ramp = (\<lambda>_. 0), tls_deserialize = eg_deserialize, extract_identity = (\<lambda>c. Some (cred_identity c)),
     cred_c = example_cred_codecs, ser_group_info = Some, ser_message = Some,
     new_history_secret = (\<lambda>n. Some \<lparr>secret_client_id = HISTORY_CLIENT_ID_PREFIX @ [of_nat n],
       secret_key_package = \<lparr>kpi_identity = HISTORY_CLIENT_ID_PREFIX @ [of_nat n], kpi_signature_key = [of_nat n], kpi_bytes = []\<rparr>,
       secret_bytes = [of_nat n]\<rparr>),
     transport_accepts = (\<lambda>earlier bundle. length earlier < 1), prepare_for_transport = (\<lambda>s. Some (secret_bytes s)),
     index_order = (\<lambda>is. is)\<rparr>"

definition eg_start :: "example_group conv_state" where
  "eg_start = \<lparr>group = \<lparr>eg_epoch = 0, eg_proposals = [], eg_commit = None, eg_dirty = False,
       eg_members = [\<lparr>member_index = 0, member_credential = basic_credential [0]\<rparr>,
         \<lparr>member_index = 1, member_credential = basic_credential [1]\<rparr>]\<rparr>,
     database = fst (the (new_transaction (db_open empty_db))), epoch_changes = [], cached_conversations = [[7]],
     context_valid = True, session_set = True, sent = [], secrets_made = 0, history_observed = [], history_observer = True\<rparr>"

lemma eg_sel [simp]:
  "conv_id eg_env = [7]" "lib eg_env = eg_lib" "hs eg_env = example_hashes" "order eg_env = example_order"
  "tls_deserialize eg_env = eg_deserialize" "extract_identity eg_env c = Some (cred_identity c)"
  "view eg_lib = eg_view" "process eg_lib = eg_process" "state_changed eg_lib = eg_dirty"
  "epoch eg_view = eg_epoch" "pending_proposals eg_view = eg_proposals" "pending_commit eg_view = eg_commit"
  by (simp_all add: eg_env_def eg_lib_def eg_view_def)

section \<open>The contracts hold\<close>

lemma eg_unused: "(\<And>g d. snd (snd (f g d)) = d) \<Longrightarrow> mls_op_ok H f"
  unfolding mls_op_ok_def by (metis snd_conv uses_key_store.unused)

lemma eg_process_database: "snd (snd (eg_process m g d)) = d"
  by (cases m) (auto split: content_type.splits)

lemma eg_lib_ok: "lib_ok eg_env"
  unfolding lib_ok_def eg_env_def eg_lib_def conv_env.simps mls_lib.simps
  by (intro conjI allI eg_unused)
    (simp_all add: eg_process_database eg_make_commit_def eg_add_def eg_merge_pending_def eg_message_out_def eg_propose_def split: option.splits)

lemma eg_reachable: "db_reachable (hs eg_env) (database eg_start)"
  using example_begin by (simp add: eg_env_def eg_start_def)

end
