(* ===== verification/Decrypt_Properties.thy ===== *)
theory Decrypt_Properties
  imports Decrypt_Invariants Commit_Invariants Pending_Entities Example_Group
begin

text \<open>
  What decrypting a message guarantees: the database stays well formed, the recursion ends, a
  message or commit that comes too early is kept and found again, and the cases in which the two
  buffers disagree with the state of the group.
\<close>

section \<open>The buffers in the database\<close>

lemma db_get_after_remove_pending:
  assumes "db_inv H d" "T \<noteq> MlsPendingMessageT"
  shows "db_get T k (fst (db_remove_pending_messages c d)) = db_get T k d"
proof (cases "transaction d")
  case (Some tx)
  let ?i = "\<lparr>id_typ = T, key_id = key_bytes k\<rparr>"
  have wf: "wf_tx H tx"
    using assms(1) Some by (simp add: db_inv_def)
  have "collection_name T \<noteq> collection_name MlsPendingMessageT"
    using assms(2) by (cases T) simp_all
  then have "find_in_cache T ?i (tx_remove_pending_messages c tx) = find_in_cache T ?i tx"
    using find_in_cache_eq[OF wf] find_in_cache_eq[OF wf_tx_remove_pending[OF wf]]
    by (auto simp: tx_remove_pending_messages_def Let_def update_conv split: option.splits)
  then have "get_by_entity_id T ?i (tx_remove_pending_messages c tx) = get_by_entity_id T ?i tx"
    using assms(2) by (auto simp: get_by_entity_id_def tx_remove_pending_messages_def Let_def)
  then show ?thesis
    by (simp add: db_remove_pending_messages_def Some db_get_in_transaction db_get_in_transaction'[OF Some])
qed (simp add: db_remove_pending_messages_def)

lemma db_get_after_mutation:
  assumes "db_inv H d" "inner_mutation m" "T \<notin> mls_types" "T \<noteq> MlsPendingMessageT"
  shows "db_get T k (mutate H m d) \<in> {db_get T k d, Inr None}"
proof (cases m)
  case (Save now e)
  then have e: "now = None" "plain e" "type_of e \<in> mls_types"
    using assms(2) by (simp_all add: inner_mutation_def)
  show ?thesis
  proof (cases "transaction d")
    case None
    then show ?thesis
      by (simp add: Save mutate_def db_save_def)
  next
    case (Some tx)
    then obtain d' where d': "db_save H None e d = (d', Inr None)"
      using db_save_total[of d None e None e H] plain_pre_save[OF e(2)] by auto
    have "\<lparr>id_typ = T, key_id = key_bytes k\<rparr> \<noteq> ident H e"
      using e(3) assms(3) by (auto simp: ident_def)
    then show ?thesis
      using db_get_after_save[OF assms(1) plain_mutation_ok[OF e(2)] d' plain_pre_save[OF e(2)], of T k] d' Save e(1)
      by (simp add: mutate_def)
  qed
next
  case (Remove F l)
  show ?thesis
  proof (cases "transaction d")
    case None
    then show ?thesis
      by (simp add: Remove mutate_def db_remove_def)
  next
    case (Some tx)
    then obtain d' where d': "db_remove F l d = (d', Inr ())"
      by (simp add: db_remove_in_transaction)
    then show ?thesis
      using db_get_after_remove[OF assms(1) d', of T k] Remove by (simp add: mutate_def)
  qed
next
  case (RemovePendingMessages c)
  then show ?thesis
    using db_get_after_remove_pending[OF assms(1,4)] by (simp add: mutate_def)
qed

section \<open>The invariant and termination\<close>

definition database_ok :: "'g conv_env \<Rightarrow> Database \<Rightarrow> bool" where
  "database_ok E d \<longleftrightarrow> lib_ok E \<and> db_reachable (hs E) d"

lemma database_ok_lib: "database_ok E d \<Longrightarrow> lib_ok E"
  by (simp add: database_ok_def)

lemma database_ok_mutate: "database_ok E d \<Longrightarrow> mutation_ok m \<Longrightarrow> database_ok E (mutate (hs E) m d)"
  by (auto simp: database_ok_def intro: db_reachable.stepped db_step.mutate_tx)

lemma commit_buffered_mutate:
  assumes "database_ok E d" "commit_buffered E d" "inner_mutation m"
  shows "commit_buffered E (mutate (hs E) m d)"
proof -
  have "db_inv (hs E) d"
    using assms(1) reachable_inv by (simp add: database_ok_def)
  from db_get_after_mutation[OF this assms(3), of StoredBufferedCommitT "BytesKey (conv_id E)"]
  show ?thesis
    using assms(2) by (auto simp: commit_buffered_def mls_types_def)
qed

lemma case_early_upholds:
  assumes "\<And>ep. r = Inl (BufferedFutureMessage ep) \<Longrightarrow> upholds P Q a" "r = Inl BufferedCommit \<Longrightarrow> upholds P Q b"
  shows "upholds P Q (case r of Inl (BufferedFutureMessage _) \<Rightarrow> a | _ \<Rightarrow> okS ())"
    and "upholds P Q (case r of Inl BufferedCommit \<Rightarrow> b | _ \<Rightarrow> okS ())"
proof -
  have "upholds P Q (case r of Inl (BufferedFutureMessage _) \<Rightarrow> a | _ \<Rightarrow> okS ())
      \<and> upholds P Q (case r of Inl BufferedCommit \<Rightarrow> b | _ \<Rightarrow> okS ())"
  proof (cases r)
    case (Inl e)
    then show ?thesis
      using assms by (cases e) auto
  qed auto
  then show "upholds P Q (case r of Inl (BufferedFutureMessage _) \<Rightarrow> a | _ \<Rightarrow> okS ())"
    and "upholds P Q (case r of Inl BufferedCommit \<Rightarrow> b | _ \<Rightarrow> okS ())"
    by simp_all
qed

text \<open>The two saves of the outer function.\<close>

lemma early_mutations:
  "mutation_ok (Save None (MlsPendingMessage m))" "mutation_ok (Save None (StoredBufferedCommit c))"
  "fst (db_save H now e d) = mutate H (Save now e) d"
  by (simp_all add: mutation_ok_def is_none_or_def mutate_def)

text \<open>
  A property of the database that survives every mutation of the library survives every operation
  on a conversation.
\<close>

locale mutation_invariant =
  fixes E :: "'g conv_env" and P :: "Database \<Rightarrow> bool"
  assumes lib_used: "P d \<Longrightarrow> lib_ok E"
    and any_mutation: "P d \<Longrightarrow> mutation_ok m \<Longrightarrow> P (mutate (hs E) m d)"

sublocale mutation_invariant < conversation_invariant E P "\<lambda>_. True"
  by unfold_locales (auto intro: lib_used any_mutation inner_mutation_ok)

context mutation_invariant
begin

lemma buffers_uphold:
  "upholds (on_db P) (\<lambda>_. True) (buffer_future_message E msg)"
  "upholds (on_db P) (\<lambda>_. True) (buffer_commit E msg)"
  unfolding buffer_future_message_def buffer_commit_def
  by (intro upholds_bindS context_upholds write_upholds delivers_basic(1);
      simp add: early_mutations any_mutation)+

lemma decrypt_upholds: "upholds (on_db P) (\<lambda>_. True) (decrypt_message E msg)"
proof -
  have "upholds (on_db P) (\<lambda>_. True) (catchS (decrypt_message_inner E n m policy))" for n m policy
    by (rule delivers_upholds[OF delivers_catchS[OF inner_upholds]]) simp_all
  then show ?thesis
    unfolding decrypt_message_def
    by (intro upholds_bindS case_early_upholds buffers_uphold)
      (auto intro!: wipe_upholds upholds_bindS split: sum.splits)
qed

end

interpretation kept: mutation_invariant E "database_ok E" for E :: "'g conv_env"
  by unfold_locales (auto intro: database_ok_lib database_ok_mutate)

interpretation commits: buffered_commits E "\<lambda>d. database_ok E d \<and> commit_buffered E d" "\<lambda>e. \<not> diverges e"
  for E :: "'g conv_env"
proof unfold_locales
  show "\<not> diverges e" if "plain_error e" for e
    using that by (cases e) simp_all
qed (auto intro: database_ok_lib database_ok_mutate inner_mutation_ok commit_buffered_mutate)

interpretation proposals: conversation_invariant E "\<lambda>_. lib_ok E" "\<lambda>e. e \<noteq> BufferedCommit" for E :: "'g conv_env"
  by unfold_locales auto

text \<open>The content type on the wire, and the documented behaviour of OpenMLS to respect it.\<close>

fun wire_content_type :: "mls_message \<Rightarrow> content_type option" where
  "wire_content_type (PublicMessage m) = Some (pub_content_type m)"
| "wire_content_type (PrivateMessage m) = Some (priv_content_type m)"
| "wire_content_type OtherBody = None"

definition content_typed :: "'g conv_env \<Rightarrow> bool" where
  "content_typed E \<longleftrightarrow> (\<forall>m. (wire_content_type m \<noteq> Some Proposal \<longrightarrow> never_proposal E m)
     \<and> (wire_content_type m \<noteq> Some Commit \<longrightarrow> never_commit E m))"

lemma upholds_nothing: "upholds (\<lambda>_. c) (\<lambda>_. True) m"
  by (rule deliversI) simp_all

lemma only_commits_buffered:
  assumes "content_typed E" "lib_ok E" "decrypt_message_inner E n m policy s = (Inl BufferedCommit, s')"
  shows "never_proposal E m"
proof (rule ccontr)
  assume "\<not> never_proposal E m"
  then have never: "never_commit E m"
    using assms(1) unfolding content_typed_def by (metis content_type.distinct(5) option.inject)
  obtain k where n: "n = Suc k"
    using assms(3) by (cases n) (auto simp: decrypt_message_inner.simps op_simps)
  have "upholds (on_db (\<lambda>_. lib_ok E)) (\<lambda>e. e \<noteq> BufferedCommit) (decrypt_message_inner E n m policy)"
    unfolding n decrypt_message_inner.simps using never
    by (intro proposals.decrypt_body_upholds delivers_weaken[OF proposals.retrieve_upholds])
      (simp_all add: upholds_nothing)
  from delivers_error[OF this _ assms(3)] show False
    using assms(2) by simp
qed

text \<open>
  Decrypting a message, whether it succeeds or fails at any point, takes the database from one
  reachable state to another.
\<close>

theorem decrypt_message_keeps_invariant:
  assumes "lib_ok E" "db_reachable (hs E) (database s)" "decrypt_message E msg s = (r, s')"
  shows "db_reachable (hs E) (database s')"
  using delivers_state[OF kept.decrypt_upholds _ assms(3)] assms(1,2) by (simp add: database_ok_def)

lemma commit_slot_after_save:
  assumes "db_inv H d" "plain e"
  shows "db_get StoredBufferedCommitT k (fst (db_save H None e d)) =
    (if transaction d \<noteq> None \<and> ident H e = \<lparr>id_typ = StoredBufferedCommitT, key_id = key_bytes k\<rparr>
     then Inr (Some e) else db_get StoredBufferedCommitT k d)"
proof (cases "transaction d")
  case (Some tx)
  then obtain d' where d': "db_save H None e d = (d', Inr None)"
    using db_save_total[of d None e None e H] plain_pre_save[OF assms(2)] by auto
  then show ?thesis
    using db_get_after_save[OF assms(1) plain_mutation_ok[OF assms(2)] d' plain_pre_save[OF assms(2)], of StoredBufferedCommitT k] Some
    by auto
qed (simp add: db_save_def)

abbreviation buffer_inv :: "'g conv_env \<Rightarrow> Database \<Rightarrow> bool" where
  "buffer_inv E d \<equiv> database_ok E d \<and> commit_buffered E d"

lemma buffers_keep_commit:
  "upholds (on_db (buffer_inv E)) (\<lambda>e. \<not> diverges e) (buffer_future_message E msg)"
  "tls_deserialize E msg = Some m \<Longrightarrow> never_proposal E m \<Longrightarrow>
     upholds (on_db (buffer_inv E)) (\<lambda>e. \<not> diverges e) (buffer_commit E msg)"
proof -
  have save: "commit_buffered E (fst (db_save (hs E) None e d))"
    if "buffer_inv E d" "plain e" "\<And>c m. e = StoredBufferedCommit c \<Longrightarrow> tls_deserialize E (commit_data c) = Some m \<Longrightarrow> never_proposal E m"
    for e d
  proof -
    have "db_inv (hs E) d"
      using that(1) by (simp add: database_ok_def reachable_inv)
    from commit_slot_after_save[OF this that(2), of "BytesKey (conv_id E)"] show ?thesis
      using that(1,3) by (auto simp: commit_buffered_def split: if_splits)
  qed
  show "upholds (on_db (buffer_inv E)) (\<lambda>e. \<not> diverges e) (buffer_future_message E msg)"
    unfolding buffer_future_message_def
    by (intro upholds_bindS commits.context_upholds commits.write_upholds delivers_basic(1) conjI save)
      (simp_all add: early_mutations database_ok_mutate plain_def storable_def)
  show "upholds (on_db (buffer_inv E)) (\<lambda>e. \<not> diverges e) (buffer_commit E msg)"
    if "tls_deserialize E msg = Some m" "never_proposal E m"
    unfolding buffer_commit_def using that
    by (intro upholds_bindS commits.context_upholds commits.write_upholds delivers_basic(1) conjI save)
      (auto simp add: early_mutations database_ok_mutate plain_def storable_def)
qed

lemma decrypt_keeps_commit:
  assumes "content_typed E"
  shows "upholds (on_db (buffer_inv E)) (\<lambda>e. \<not> diverges e) (decrypt_message E msg)"
proof (cases "tls_deserialize E msg")
  case None
  then show ?thesis
    by (intro deliversI) (auto simp: decrypt_message_def ok_or_def bindS_def liftS_def)
next
  case (Some m)
  let ?inner = "decrypt_message_inner E 5 m AsNecessary"
  have "upholds (on_db (buffer_inv E)) (\<lambda>e. \<not> diverges e) ?inner"
    using commits.depth(4)[of E 1 m] by (simp add: numeral_eq_Suc)
  then have inner: "upholds (on_db (buffer_inv E)) (\<lambda>e. \<not> diverges e \<and> (e = BufferedCommit \<longrightarrow> never_proposal E m)) ?inner"
    by (rule delivers_errors) (use only_commits_buffered[OF assms] in \<open>auto simp: database_ok_def\<close>)
  show ?thesis
    unfolding decrypt_message_def Some ok_or_simps bindS_liftS
    by (rule delivers_bindS[OF delivers_catchS[OF inner]])
      (intro upholds_bindS case_early_upholds buffers_keep_commit(1) buffers_keep_commit(2)[OF Some],
        auto intro!: commits.wipe_upholds split: sum.splits)
qed

text \<open>
  C6: Decryption ends.  Whatever messages a conversation has received since it had no buffered commit,
  decrypting the next one never runs out of the depth the model allows for the recursion between
  proposals, the buffered commit and the buffered messages.
\<close>

theorem decrypt_message_terminates:
  assumes "lib_ok E" "content_typed E" "db_reachable (hs E) (database s)"
    and "db_get StoredBufferedCommitT (BytesKey (conv_id E)) (database s) = Inr None"
    and "decrypt_message E msg (foldl (\<lambda>s m. snd (decrypt_message E m s)) s msgs) = (Inl e, s')"
  shows "\<not> diverges e"
proof -
  have "buffer_inv E (database (foldl (\<lambda>s m. snd (decrypt_message E m s)) s msgs))"
  proof (induction msgs rule: rev_induct)
    case Nil
    then show ?case
      using assms by (simp add: database_ok_def commit_buffered_def)
  next
    case (snoc m msgs)
    then show ?case
      using delivers_state[OF decrypt_keeps_commit[OF assms(2)] _ prod.collapse[symmetric]] by simp
  qed
  from delivers_error[OF decrypt_keeps_commit[OF assms(2)] this assms(5)] show ?thesis .
qed

lemma eg_content_typed: "content_typed eg_env"
proof -
  have "never_proposal eg_env m" if "wire_content_type m \<noteq> Some Proposal" for m
    using that by (cases m) (auto simp: never_proposal_def eg_env_def eg_lib_def eg_message_def
        split: if_splits content_type.splits)
  moreover have "never_commit eg_env m" if "wire_content_type m \<noteq> Some Commit" for m
    using that by (cases m) (auto simp: never_commit_def eg_env_def eg_lib_def eg_message_def
        split: if_splits content_type.splits)
  ultimately show ?thesis
    by (simp add: content_typed_def)
qed

theorem decrypt_message_keeps_invariant_witness:
  "db_reachable (hs eg_env) (database (snd (decrypt_message eg_env [3, 0, 5] eg_start)))
    \<and> fst (decrypt_message eg_env [3, 0, 5] eg_start) = Inl BufferedCommit"
proof -
  have "db_reachable (hs eg_env) (database (snd (decrypt_message eg_env [3, 0, 5] eg_start)))"
    using decrypt_message_keeps_invariant[OF eg_lib_ok eg_reachable prod.collapse[symmetric]] .
  moreover have "fst (decrypt_message eg_env [3, 0, 5] eg_start) = Inl BufferedCommit"
    by code_simp
  ultimately show ?thesis ..
qed

theorem decrypt_message_terminates_witness:
  "fst (decrypt_message eg_env [2, 1, 6] (foldl (\<lambda>s m. snd (decrypt_message eg_env m s)) eg_start [[3, 0, 5], [3, 0]]))
      = Inl (Recursive StaleCommit)
    \<and> \<not> diverges (Recursive StaleCommit)"
proof -
  let ?r = "decrypt_message eg_env [2, 1, 6] (foldl (\<lambda>s m. snd (decrypt_message eg_env m s)) eg_start [[3, 0, 5], [3, 0]])"
  have r: "fst ?r = Inl (Recursive StaleCommit)"
    by code_simp
  have "db_get StoredBufferedCommitT (BytesKey (conv_id eg_env)) (database eg_start) = Inr None"
    by code_simp
  from decrypt_message_terminates[OF eg_lib_ok eg_content_typed eg_reachable this, of "[2, 1, 6]" "[[3, 0, 5], [3, 0]]"]
  show ?thesis
    using r by (metis prod.collapse)
qed

end
