(* ===== verification/Decrypt_Outcomes.thy ===== *)
theory Decrypt_Outcomes
  imports Decrypt_Properties
begin

text \<open>
  The outcomes of decrypting one message, branch by branch: messages of another epoch, commits
  whose proposals are missing, own commits, and the failures that leave a buffer out of step with
  the group.
\<close>

section \<open>Running decryption step by step\<close>

definition ready :: "'g conv_state \<Rightarrow> bool" where
  "ready s \<longleftrightarrow> context_valid s \<and> session_set s"

lemma context_ready [simp]:
  "ready s \<Longrightarrow> require_context s = (Inr (), s)"
  "ready s \<Longrightarrow> crypto_provider s = (Inr (), s)"
  by (simp_all add: ready_def require_context_def crypto_provider_def bindS_def)

lemma ready_update [simp]:
  "ready (s\<lparr>group := g\<rparr>) = ready s" "ready (s\<lparr>database := d\<rparr>) = ready s"
  "ready (s\<lparr>epoch_changes := e\<rparr>) = ready s" "ready (s\<lparr>cached_conversations := c\<rparr>) = ready s"
  by (simp_all add: ready_def)

lemma mutate_group_err:
  "ready s \<Longrightarrow> f (group s) (database s) = (Inl e, g, d) \<Longrightarrow> mutate_group E f s = (Inl e, s\<lparr>group := g, database := d\<rparr>)"
  by (simp add: mutate_group_def on_group_def bindS_def)

text \<open>A message that OpenMLS rejects.\<close>

lemma process_rejected:
  assumes "ready s" "process (lib E) (protocol_message p) (group s) (database s) = (Inl e, g, d)"
  shows "process_message E p s =
    (Inl (classify_error p (epoch (view (lib E)) (group s)) e), s\<lparr>group := g, database := d\<rparr>)"
  using assms by (simp add: process_message_def mutate_group_err bindS_def)

definition rejection :: "'g conv_env \<Rightarrow> private_message \<Rightarrow> 'g \<Rightarrow> mls_error \<Rightarrow> conv_error" where
  "rejection E m g e = classify_error
     \<lparr>is_duplicate = False, protocol_message = PrivateMessage m, parsed_content_type = priv_content_type m\<rparr>
     (epoch (view (lib E)) g) e"

lemma inner_rejected:
  assumes "ready s" "process (lib E) (PrivateMessage m) (group s) (database s) = (Inl e, g, d)" "e \<noteq> OwnCommit"
  shows "decrypt_message_inner E (Suc n) (PrivateMessage m) policy s =
    (Inl (if e = MissingProposal then BufferedCommit else rejection E m (group s) e), s\<lparr>group := g, database := d\<rparr>)"
proof -
  let ?p = "\<lparr>is_duplicate = False, protocol_message = PrivateMessage m, parsed_content_type = priv_content_type m\<rparr>"
  have "process_message E ?p s = (Inl (rejection E m (group s) e), s\<lparr>group := g, database := d\<rparr>)"
    using process_rejected[OF assms(1), of E ?p] assms(2) by (simp add: rejection_def)
  moreover have "rejection E m (group s) e \<noteq> OpenMls OwnCommit"
    using assms(3) classify_openmls[of ?p "epoch (view (lib E)) (group s)" e OwnCommit] by (auto simp: rejection_def)
  moreover have "rejection E m (group s) e = OpenMls MissingProposal \<longleftrightarrow> e = MissingProposal"
    using classify_openmls[of ?p "epoch (view (lib E)) (group s)" e MissingProposal]
    by (auto simp: rejection_def classify_error_def)
  ultimately show ?thesis
    using assms(1)
    by (auto simp: decrypt_message_inner.simps decrypt_body_def parse_message_def bindS_def catchS_def errS_def liftS_def)
qed

section \<open>Messages of another epoch\<close>

lemma find_in_filter: "find P xs = Some y \<Longrightarrow> Q y \<Longrightarrow> find P (filter Q xs) = Some y"
  by (induction xs) (auto split: if_splits)

lemma saved_message_found:
  assumes "db_inv H d" "permuting HO" "conn d = Some db" "transaction d \<noteq> None" "find_all_matching H (ConversationId c) db = Inr ms"
    and "db_save H None (MlsPendingMessage \<lparr>foreign_id = c, message = msg\<rparr>) d = (d', r)"
  shows "\<exists>found. r = Inr None \<and> db_find_pending_messages H HO c d' = Inr found
    \<and> MlsPendingMessage \<lparr>foreign_id = c, message = msg\<rparr> \<in> set found"
proof -
  let ?e = "MlsPendingMessage \<lparr>foreign_id = c, message = msg\<rparr>"
  have e: "plain ?e" "pre_save None ?e = Inr (None, ?e)" "storable ?e"
    by (simp_all add: plain_def storable_def)
  have r: "r = Inr None"
    using db_save_total[OF assms(4) e(2), of H] assms(6) by auto
  then obtain tx tx' where tx: "transaction d = Some tx" "tx_save H None ?e tx = Inr (None, tx')"
      "d' = d\<lparr>transaction := Some tx'\<rparr>"
    using assms(6) by (auto elim: db_save_Inr)
  have wf: "wf_tx H tx"
    using assms(1) tx(1) by (simp add: db_inv_def)
  have wf': "wf_tx H tx'"
    using wf_tx_save[OF wf e(2,3) tx(2)] .
  obtain cs where cs: "find_all_in_cache HO MlsPendingMessageT tx' = Inr cs" "\<forall>x \<in> set cs. type_of x = MlsPendingMessageT"
      "\<forall>i. id_typ i = MlsPendingMessageT \<longrightarrow> find (\<lambda>x. ident H x = i) cs = find_in_cache MlsPendingMessageT i tx'"
    using find_all_in_cache_ok[OF wf' assms(2), of MlsPendingMessageT] by blast
  have id: "id_typ (ident H ?e) = MlsPendingMessageT"
    by (simp add: ident_def)
  have "find (\<lambda>x. ident H x = ident H ?e) cs = Some ?e"
    using cs(3) id find_in_cache_save[OF tx(2) e(2) wf e(3), of MlsPendingMessageT "ident H ?e"] by simp
  then have "find (\<lambda>x. ident H x = ident H ?e) (filter (message_of c) cs) = Some ?e"
    by (rule find_in_filter) (simp add: message_of_def)
  moreover have "\<forall>x \<in> set (filter (message_of c) cs @ ms). type_of x = id_typ (ident H ?e)"
    using cs(2) message_search_typed[OF assms(5)] id by auto
  moreover have "ident H ?e \<notin> set (deleted tx')"
    using tx(2) by (auto simp: tx_save_Inr)
  ultimately have "find (\<lambda>x. ident H x = ident H ?e) (merge_records H tx' (filter (message_of c) cs) ms) = Some ?e"
    using merge_records_find[of "filter (message_of c) cs" ms "ident H ?e" H tx'] by (simp add: find_append)
  then have "?e \<in> set (merge_records H tx' (filter (message_of c) cs) ms)"
    by (blast dest: find_key_in)
  then show ?thesis
    using r tx(3) assms(3,5) cs(1)
    by (simp add: db_find_pending_messages_def get_conn_def tx_find_pending_messages_def del: find_all_matching.simps)
qed

lemma message_search_table:
  assumes "table_holds H db MlsPendingMessageT es"
  shows "\<exists>ms. find_all_matching H (ConversationId c) db = Inr ms"
proof -
  let ?rows = "filter (\<lambda>r. sql_eq (row_value r ''id'') (Blob c)) (map (encode H) es)"
  have "\<exists>m. pending_message_from_row (encode H e) = Inr m" if "e \<in> set es" for e
  proof -
    have "type_of e = MlsPendingMessageT" "storable e"
      using assms that by (auto simp: table_holds_def)
    then show ?thesis
      using from_row_encode[of e H] by (cases e) (auto simp: mapR_def split: sum.splits)
  qed
  then have "\<forall>r \<in> set ?rows. \<exists>m. pending_message_from_row r = Inr m"
    by auto
  then obtain ms where "mapE pending_message_from_row ?rows = Inr ms"
    using mapE_total[of ?rows pending_message_from_row "\<lambda>r. projr (pending_message_from_row r)"] by force
  then show ?thesis
    using assms by (simp add: pending_message_find_all_matching_def select_where_def table_of_def table_holds_def)
qed

definition epoch_outcome :: "'g conv_env \<Rightarrow> private_message \<Rightarrow> u64 \<Rightarrow> conv_error" where
  "epoch_outcome E m ep =
     (if priv_epoch m = ep + 1 then BufferedFutureMessage (priv_epoch m)
      else if priv_epoch m < ep then
        (case priv_content_type m of Application \<Rightarrow> StaleMessage | Commit \<Rightarrow> StaleCommit | Proposal \<Rightarrow> StaleProposal)
      else UnbufferedFarFutureMessage)"

lemma rejection_wrong_epoch: "rejection E m g WrongEpoch = epoch_outcome E m (epoch (view (lib E)) g)"
  by (simp add: rejection_def classify_error_def epoch_outcome_def Let_def)



section \<open>Commits whose proposals are missing\<close>

lemma retrieve_slot:
  assumes "ready s" "db_get StoredBufferedCommitT (BytesKey (conv_id E)) (database s) = Inr (Some (StoredBufferedCommit c))"
  shows "retrieve_buffered_commit E s = (Inr (Some (commit_data c)), s)"
  using assms by (simp add: retrieve_buffered_commit_def read_database_def bindS_def okS_def)

lemma buffer_commit_retrieved:
  assumes "db_inv (hs E) (database s)" "ready s" "transaction (database s) \<noteq> None"
  shows "\<exists>d. buffer_commit E msg s = (Inr (), s\<lparr>database := d\<rparr>)
    \<and> retrieve_buffered_commit E (s\<lparr>database := d\<rparr>) = (Inr (Some msg), s\<lparr>database := d\<rparr>)"
proof -
  let ?c = "\<lparr>commit_conversation_id = conv_id E, commit_data = msg\<rparr>"
  have plain: "plain (StoredBufferedCommit ?c)"
    by (simp add: plain_def storable_def)
  obtain d where d: "db_save (hs E) None (StoredBufferedCommit ?c) (database s) = (d, Inr None)"
    using db_save_total[OF assms(3) plain_pre_save[OF plain], of "hs E"] by blast
  have "db_get StoredBufferedCommitT (BytesKey (conv_id E)) d = Inr (Some (StoredBufferedCommit ?c))"
    using commit_slot_after_save[OF assms(1) plain, of "BytesKey (conv_id E)"] d assms(3) by (simp add: ident_def)
  then show ?thesis
    using d assms(2) retrieve_slot[of "s\<lparr>database := d\<rparr>" E ?c]
    by (auto simp: buffer_commit_def on_database_def bindS_def okS_def)
qed



section \<open>A buffered commit that can no longer be applied\<close>


definition eg_overtaken :: "example_group conv_state" where
  "eg_overtaken = snd (decrypt_message eg_env [3, 0] (snd (decrypt_message eg_env [3, 0, 5] eg_start)))"

lemma retrieve_state: "snd (retrieve_buffered_commit E s) = s"
  by (auto simp: retrieve_buffered_commit_def require_context_def read_database_def bindS_def okS_def split: sum.splits)

lemma eg_process_clean:
  assumes "ready s" "eg_dirty (group s) = False" "process (lib eg_env) (protocol_message p) (group s) (database s) = (Inr x, group s, database s)"
    and "\<not> is_duplicate p"
  shows "process_message eg_env p s = (Inr x, s)"
  using assms
  by (simp add: process_message_def mutate_group_def on_group_def persist_when_changed_def bindS_def getS_def okS_def
      eg_env_def eg_lib_def)


text \<open>
  C24: When a buffered message restored by a commit turns out to be a commit whose proposals are
  missing, it is the outer commit, already merged, that is reported and stored as the buffered one;
  the restored commit is not, and no epoch change is announced.
\<close>

theorem restored_commit_misattributed:
  assumes "lib_ok E" "db_reachable (hs E) (database s)" "ready s" "ready s0" "ready s1" "ready s2" "tls_deserialize E msg = Some m" "parse_message E m s = (Inr parsed, s)"
    and "process_message E parsed s = (Inr x, s0)" "pm_content x = StagedCommitMessage c" "extract_identity E (pm_credential x) = Some idt"
    and "merge_received E c s0 = (Inr active, s1)"
    and "restore_and_clear_pending_messages E (decrypt_message_inner E 4) s1 = (Inl BufferedCommit, s2)"
    and "transaction (database s2) \<noteq> None"
  shows "\<exists>d. decrypt_message E msg s = (Inl BufferedCommit, s2\<lparr>database := d\<rparr>)
    \<and> retrieve_buffered_commit E (s2\<lparr>database := d\<rparr>) = (Inr (Some msg), s2\<lparr>database := d\<rparr>)"
proof -
  have "database_ok E (database s)"
    using assms(1,2) by (simp add: database_ok_def)
  then have "database_ok E (database s0)"
    by (rule delivers_state[OF kept.process_upholds _ assms(9)])
  then have s1: "database_ok E (database s1)"
    by (rule delivers_state[OF kept.merge_received_upholds _ assms(12)])
  have restore: "upholds (on_db (database_ok E)) (\<lambda>_. True) (restore_and_clear_pending_messages E (decrypt_message_inner E 4))"
    by (rule kept.restore_upholds, rule kept.inner_upholds) simp_all
  have "database_ok E (database s2)"
    using delivers_state[OF restore s1 assms(13)] .
  then have inv: "db_inv (hs E) (database s2)"
    by (simp add: database_ok_def reachable_inv)
  have "handle_commit E (decrypt_message_inner E 4) c idt AsNecessary s0 = (Inl BufferedCommit, s2)"
    using assms(4,12,13) by (simp add: handle_commit_def validate_commit_def bindS_def getS_def okS_def Let_def)
  then have inner: "decrypt_message_inner E 5 m AsNecessary s = (Inl BufferedCommit, s2)"
    using assms(3,8-11) decrypt_message_inner.simps(2)[of E 4 m AsNecessary]
    by (simp add: decrypt_body_def handle_content_def Let_def bindS_def catchS_def liftS_def)
  obtain d where d: "buffer_commit E msg s2 = (Inr (), s2\<lparr>database := d\<rparr>)"
      "retrieve_buffered_commit E (s2\<lparr>database := d\<rparr>) = (Inr (Some msg), s2\<lparr>database := d\<rparr>)"
    using buffer_commit_retrieved[OF inv assms(6,14)] by blast
  then have "decrypt_message E msg s = (Inl BufferedCommit, s2\<lparr>database := d\<rparr>)"
    using inner assms(7) by (simp add: decrypt_message_def bindS_def catchS_def liftS_def okS_def)
  then show ?thesis
    using d(2) by blast
qed

definition eg_early :: "example_group conv_state" where
  "eg_early = snd (decrypt_message eg_env [3, 1, 5] eg_start)"

theorem restored_commit_misattributed_witness:
  "fst (decrypt_message eg_env [3, 0] eg_early) = Inl BufferedCommit
    \<and> eg_epoch (group (snd (decrypt_message eg_env [3, 0] eg_early))) = 1
    \<and> fst (retrieve_buffered_commit eg_env (snd (decrypt_message eg_env [3, 0] eg_early))) = Inr (Some [3, 0])
    \<and> epoch_changes (snd (decrypt_message eg_env [3, 0] eg_early)) = []"
proof -
  let ?m = "\<lparr>priv_epoch = 0, priv_content_type = Commit, priv_bytes = []\<rparr>"
  let ?p = "\<lparr>is_duplicate = False, protocol_message = PrivateMessage ?m, parsed_content_type = Commit\<rparr>"
  let ?c = "\<lparr>sc_proposals = [], sc_confirmation_tag = [1], sc_epoch = 1\<rparr>"
  define s1 where "s1 = snd (merge_received eg_env ?c eg_early)"
  define s2 where "s2 = snd (restore_and_clear_pending_messages eg_env (decrypt_message_inner eg_env 4) s1)"
  have g: "eg_epoch (group eg_early) = 0" "\<not> eg_dirty (group eg_early)"
    "context_valid eg_early" "session_set eg_early" "fst (merge_received eg_env ?c eg_early) = Inr True"
    unfolding eg_early_def by code_simp+
  have g1: "context_valid s1" "session_set s1"
    "fst (restore_and_clear_pending_messages eg_env (decrypt_message_inner eg_env 4) s1) = Inl BufferedCommit"
    unfolding s1_def eg_early_def by code_simp+
  have g2: "context_valid s2" "session_set s2" "eg_epoch (group s2) = 1" "epoch_changes s2 = []"
    "transaction (database s2) \<noteq> None"
    unfolding s2_def s1_def eg_early_def by code_simp+
  have process: "process_message eg_env ?p eg_early = (Inr (eg_message (StagedCommitMessage ?c)), eg_early)"
    using g by (intro eg_process_clean) (simp_all add: ready_def eg_staged_def)
  have early: "db_reachable (hs eg_env) (database eg_early)"
    using delivers_state[OF kept.decrypt_upholds[of eg_env "[3, 1, 5]"] _ prod.collapse[symmetric], of eg_start]
      eg_lib_ok eg_reachable by (simp add: database_ok_def eg_early_def)
  have "\<exists>d. decrypt_message eg_env [3, 0] eg_early = (Inl BufferedCommit, s2\<lparr>database := d\<rparr>)
    \<and> retrieve_buffered_commit eg_env (s2\<lparr>database := d\<rparr>) = (Inr (Some [3, 0]), s2\<lparr>database := d\<rparr>)"
  proof (rule restored_commit_misattributed[OF eg_lib_ok early _ _ _ _ _ _ process _ _ _ _ g2(5), where m = "PrivateMessage ?m"])
    show "merge_received eg_env ?c eg_early = (Inr True, s1)"
      using g(5) by (simp add: s1_def prod_eq_iff)
    show "restore_and_clear_pending_messages eg_env (decrypt_message_inner eg_env 4) s1 = (Inl BufferedCommit, s2)"
      using g1(3) by (simp add: s2_def prod_eq_iff)
  qed (use g g1 g2 in \<open>simp_all add: ready_def parse_message_def eg_message_def\<close>)
  then show ?thesis
    using g2 by auto
qed

section \<open>Own commits\<close>

text \<open>
  C25: A commit of this client that comes back is merged only if it is the pending one: without a
  pending commit, or with a pending commit of another confirmation tag, it is refused and nothing
  changes.
\<close>

theorem foreign_own_commit_refused:
  assumes "ready s" "tls_deserialize E msg = Some (PublicMessage pm)"
    and "process (lib E) (PublicMessage pm) (group s) (database s) = (Inl OwnCommit, group s, database s)"
    and "pub_content_type pm = Commit" "pub_sender pm = Member (own_leaf_index (view (lib E)) (group s))"
    and "pub_confirmation_tag pm = Some ct" "confirmation_tag (view (lib E)) (group s) = Some gt"
    and "\<not> eq_pending_commit E (group s) ct"
  shows "decrypt_message E msg s =
    (Inl (if pending_commit (view (lib E)) (group s) = None then SelfCommitIgnored else ClearingPendingCommitError), s)"
    (is "_ = (Inl ?e, s)")
proof -
  let ?p = "\<lparr>is_duplicate = (ct = gt), protocol_message = PublicMessage pm, parsed_content_type = Commit\<rparr>"
  have parse: "parse_message E (PublicMessage pm) s = (Inr ?p, s)"
    using assms(4-7) by (simp add: parse_message_def is_duplicate_message_def)
  have process: "process_message E ?p s = (Inl (OpenMls OwnCommit), s)"
    using process_rejected[OF assms(1), of E ?p] assms(3) by (simp add: classify_error_def)
  have tag: "extract_confirmation_tag_from_own_commit E (PublicMessage pm) s = (Inr ct, s)"
    using assms(4-6) by (simp add: extract_confirmation_tag_from_own_commit_def Let_def)
  have own: "handle_own_commit E ct s = (Inl ?e, s)"
    using assms(8) by (simp add: handle_own_commit_def getS_def errS_def bindS_def)
  have "decrypt_message_inner E 5 (PublicMessage pm) AsNecessary s = (Inl ?e, s)"
    using assms(1) parse process tag own decrypt_message_inner.simps(2)[of E 4 "PublicMessage pm" AsNecessary]
    by (simp add: decrypt_body_def bindS_def catchS_def)
  then show ?thesis
    using assms(2) by (simp add: decrypt_message_def bindS_def catchS_def liftS_def okS_def)
qed

theorem foreign_own_commit_refused_witness:
  "decrypt_message eg_env [4, 0, 9] eg_start = (Inl SelfCommitIgnored, eg_start)"
  using foreign_own_commit_refused[of eg_start eg_env "[4, 0, 9]" "\<lparr>pub_epoch = 0, pub_content_type = Commit,
      pub_sender = Member 0, pub_confirmation_tag = Some [9], pub_body = None, pub_bytes = []\<rparr>" "[9]" "[0]"]
  by (simp add: ready_def eg_start_def eq_pending_commit_def eg_view_def)

end
