(* ===== verification/Commit_Properties.thy ===== *)
theory Commit_Properties
  imports Commit_Invariants Decrypt_Properties
begin

text \<open>
  What a client does with its own commits: any sequence of calls keeps the database reachable, a
  successful call has sent at most one commit and merged it only when the delivery service accepted
  it, a rejected commit is undone, and the two exceptions to this around history clients and
  returning own commits.
\<close>

section \<open>Sequences of calls\<close>

datatype conversation_call =
    CallDecrypt bytes
  | CallEncrypt bytes
  | CallAdd "key_package_in list"
  | CallRemove "client_id list"
  | CallUpdateKey
  | CallSetCredential CredentialRef
  | CallCommitPending
  | CallEnableHistory
  | CallDisableHistory
  | CallWipe

fun run_call :: "'g conv_env \<Rightarrow> conversation_call \<Rightarrow> ('g, unit) conv_op" where
  "run_call E (CallDecrypt msg) = bindS (decrypt_message E msg) (\<lambda>_. okS ())"
| "run_call E (CallEncrypt msg) = bindS (encrypt_message E msg) (\<lambda>_. okS ())"
| "run_call E (CallAdd kps) = add_members E kps"
| "run_call E (CallRemove cs) = remove_members E cs"
| "run_call E CallUpdateKey = update_key_material E"
| "run_call E (CallSetCredential r) = set_credential_by_ref E r"
| "run_call E CallCommitPending = commit_pending_proposals E"
| "run_call E CallEnableHistory = enable_history_sharing E"
| "run_call E CallDisableHistory = disable_history_sharing E"
| "run_call E CallWipe = wipe E"

definition run_calls :: "'g conv_env \<Rightarrow> conversation_call list \<Rightarrow> 'g conv_state \<Rightarrow> 'g conv_state" where
  "run_calls E cs s = foldl (\<lambda>s c. snd (run_call E c s)) s cs"

context mutation_invariant
begin

lemma run_call_upholds: "upholds (on_db (P)) (\<lambda>_. True) (run_call E c)"
proof (cases c)
  case (CallDecrypt msg)
  show ?thesis
    unfolding CallDecrypt run_call.simps by (intro upholds_bindS[OF decrypt_upholds] delivers_basic) simp
next
  case (CallEncrypt msg)
  show ?thesis
    unfolding CallEncrypt run_call.simps by (intro upholds_bindS[OF encrypt_message_upholds] delivers_basic) simp
next
  case (CallRemove cs)
  show ?thesis
    unfolding CallRemove run_call.simps remove_members_def by (rule remove_members_upholds)
qed (simp_all only: run_call.simps commits_uphold wipe_upholds)

lemma run_calls_keep: "P (database s) \<Longrightarrow> P (database (run_calls E cs s))"
  unfolding run_calls_def
proof (induction cs arbitrary: s)
  case (Cons c cs)
  have "P (database (snd (run_call E c s)))"
    by (rule delivers_state[OF run_call_upholds Cons.prems prod.collapse[symmetric]])
  from Cons.IH[OF this] show ?case by simp
qed simp

end


section \<open>What was sent and what was announced\<close>

abbreviation traffic :: "'g conv_state \<Rightarrow> CommitBundle list \<times> (bytes \<times> u64) list" where
  "traffic s \<equiv> (sent s, epoch_changes s)"

lemma keeps_database [frame]: "keeps traffic (on_database f)" "keeps traffic (read_database h)"
  by (auto intro!: keepsI simp: on_database_def read_database_def split: prod.splits sum.splits)

lemma keeps_context [frame]: "keeps traffic require_context" "keeps traffic crypto_provider"
  by (auto intro!: frame keepsI simp: require_context_def crypto_provider_def bindS_def split: if_splits)

lemma keeps_persist: "keeps traffic (persist_when_changed E)"
proof -
  have "keeps traffic (putS (\<lambda>s. s\<lparr>group := f s\<rparr>))" for f :: "'a conv_state \<Rightarrow> 'a"
    by (simp add: keeps_def putS_def)
  then show ?thesis
    unfolding persist_when_changed_def by (intro frame) (auto intro!: frame)
qed

lemma keeps_mutate_group [frame]: "keeps traffic (mutate_group E f)"
proof -
  have "keeps traffic (on_group f)"
    by (auto intro!: keepsI simp: on_group_def split: prod.splits)
  then show ?thesis
    unfolding mutate_group_def by (intro frame keeps_persist)
qed

lemma keeps_credential [frame]: "keeps traffic (conv_credential E)"
  unfolding conv_credential_def find_current_credential_def by (intro frame)

lemma keeps_pending [frame]:
  "keeps traffic (commit_accepted E)" "keeps traffic (clear_pending_commit E)" "keeps traffic (ensure_no_pending_commit E)"
  unfolding commit_accepted_def clear_pending_commit_def ensure_no_pending_commit_def by (auto intro!: frame)

lemma keeps_creation [frame]:
  "keeps traffic (add_members_inner E kps)" "keeps traffic (set_credential_inner E c)"
  "keeps traffic (commit_pending_proposals_inner E)" "keeps traffic (commit_inline_proposals E ps)"
  "keeps traffic (propose_add_member E kp)" "keeps traffic (propose_remove_member E i)"
  "keeps traffic (encrypt_message E msg)"
  unfolding add_members_inner_def set_credential_inner_def commit_pending_proposals_inner_def commit_inline_proposals_def
    propose_add_member_def propose_remove_member_def encrypt_message_def
  by (auto intro!: frame)

lemma keeps_history [frame]:
  "keeps traffic (generate_history_secret E)" "keeps traffic (notify_new_history_client cid secret)"
proof -
  show "keeps traffic (generate_history_secret E)"
    by (simp add: keeps_def generate_history_secret_def)
  have "keeps traffic (putS (\<lambda>s. if history_observer s then s\<lparr>history_observed := f s\<rparr> else s))" for f :: "'b conv_state \<Rightarrow> (bytes \<times> HistorySecret) list"
    by (simp add: keeps_def putS_def)
  then show "keeps traffic (notify_new_history_client cid secret :: ('b, unit) conv_op)"
    unfolding notify_new_history_client_def by (intro frame)
qed

text \<open>One commit was sent, accepted, and announced.\<close>

definition committed :: "'g conv_env \<Rightarrow> 'g conv_state \<Rightarrow> 'g conv_state \<Rightarrow> bool" where
  "committed E s s' \<longleftrightarrow> (\<exists>b ep. traffic s' = (sent s @ [b], epoch_changes s @ [(conv_id E, ep)])
     \<and> transport_accepts E (sent s) b)"

lemma merge_commit_traffic:
  assumes "merge_commit E s = (Inr (), s')"
  shows "\<exists>ep. traffic s' = (sent s, epoch_changes s @ [(conv_id E, ep)])"
  using assms keepsD[OF keeps_pending(1), of E s]
  by (auto simp: merge_commit_def bindS_Inr getS_def queue_epoch_changed_def require_context_def putS_def split: if_splits)

lemma send_commit_traffic:
  assumes "send_commit E b s = (r, s')"
  shows "r = Inr () \<Longrightarrow> traffic s' = (sent s @ [b], epoch_changes s) \<and> transport_accepts E (sent s) b"
    and "r = Inl e \<Longrightarrow> epoch_changes s' = epoch_changes s"
  using assms
  by (auto simp: send_commit_def bindS_def crypto_provider_def require_context_def split: if_splits prod.splits sum.splits)

lemma history_commit_traffic:
  assumes "send_new_history_client_commit E b secret s = (Inr (), s')"
  shows "committed E s s'"
proof -
  obtain s1 s2 s3 s4 t x where m: "merge_commit E s = (Inr (), s1)" and k2: "crypto_provider s1 = (Inr (), s2)"
    and k3: "encrypt_message E t s2 = (Inr x, s3)" and k4: "notify_new_history_client (conv_id E) secret s3 = (Inr (), s4)"
    and snt: "send_commit E (b\<lparr>bundle_encrypted_message := Some x\<rparr>) s4 = (Inr (), s')"
    using assms by (auto simp: send_new_history_client_commit_def bindS_Inr liftS_def)
  have k: "traffic s4 = traffic s1"
    using keepsD[OF keeps_context(2) k2] keepsD[OF keeps_creation(7) k3] keepsD[OF keeps_history(2) k4] by simp
  show ?thesis
    using merge_commit_traffic[OF m] k send_commit_traffic(1)[OF snt] by (auto simp: committed_def)
qed

lemma update_history_client_traffic:
  assumes "update_history_client E s = (Inr outcome, s')"
  shows "outcome = NoUpdateNeeded \<and> s' = s \<or> outcome = CommitSentAndMerged \<and> committed E s s'"
proof (cases "is_history_sharing_enabled (view (lib E)) (group s)
    \<and> (\<exists>c. pending_commit (view (lib E)) (group s) = Some c \<and> update_needed (view (lib E)) (group s) c)")
  case True
  then obtain s1 s2 s3 s4 s5 secret idx x y ps b where out: "outcome = CommitSentAndMerged"
    and k1: "clear_pending_commit E s = (Inr (), s1)" and k2: "generate_history_secret E s1 = (Inr secret, s2)"
    and k3: "mapS (propose_remove_member E) idx s2 = (Inr x, s3)"
    and k4: "propose_add_member E (secret_key_package secret) s3 = (Inr y, s4)"
    and k5: "commit_inline_proposals E ps s4 = (Inr (Some b), s5)"
    and run: "send_new_history_client_commit E b secret s5 = (Inr (), s')"
    using assms by (auto simp: update_history_client_def bindS_Inr getS_def liftS_def okS_def ok_or_def split: option.splits)
  have "traffic s5 = traffic s"
    using keepsD[OF keeps_pending(2) k1] keepsD[OF keeps_history(1) k2] keepsD[OF keeps_mapS[OF keeps_creation(6)] k3]
      keepsD[OF keeps_creation(5) k4] keepsD[OF keeps_creation(4) k5] by simp
  then show ?thesis
    using history_commit_traffic[OF run] out by (auto simp: committed_def)
next
  case False
  then show ?thesis
    using assms by (auto simp: update_history_client_def bindS_def getS_def okS_def errS_def split: option.splits if_splits)
qed

lemma send_and_merge_commit_traffic:
  assumes "send_and_merge_commit E b s = (Inr (), s')"
  shows "committed E s s'"
proof -
  obtain outcome s1 where u: "update_history_client E s = (Inr outcome, s1)"
    and rest: "(if outcome = CommitSentAndMerged then okS () else bindS (catchS (send_commit E b)) (\<lambda>r. case r of
         Inr _ \<Rightarrow> merge_commit E | Inl e \<Rightarrow> bindS (clear_pending_commit E) (\<lambda>_. errS e))) s1 = (Inr (), s')"
    using assms by (auto simp: send_and_merge_commit_def bindS_Inr)
  show ?thesis
  proof (cases "outcome = CommitSentAndMerged")
    case True
    then show ?thesis
      using update_history_client_traffic[OF u] rest by (auto simp: okS_def)
  next
    case False
    then have s1: "s1 = s"
      using update_history_client_traffic[OF u] by auto
    obtain r s2 where snt: "send_commit E b s = (r, s2)"
      by (cases "send_commit E b s")
    with False s1 rest have "r = Inr ()" and m: "merge_commit E s2 = (Inr (), s')"
      by (auto simp: bindS_Inr catchS_eq errS_def split: sum.splits)
    then show ?thesis
      using send_commit_traffic(1)[OF snt] merge_commit_traffic[OF m] by (auto simp: committed_def)
  qed
qed

lemma then_send_traffic:
  assumes "bindS m (send_and_merge_commit E) s = (Inr (), s')" "keeps traffic m"
  shows "committed E s s'"
proof -
  obtain b s1 where m: "m s = (Inr b, s1)" and send: "send_and_merge_commit E b s1 = (Inr (), s')"
    using assms(1) by (auto simp: bindS_Inr)
  show ?thesis
    using send_and_merge_commit_traffic[OF send] keepsD[OF assms(2) m] by (simp add: committed_def)
qed

lemma remove_members_traffic:
  assumes "remove_members_or_history_clients E cs s = (Inr (), s')"
  shows "committed E s s'"
proof -
  define m where "m = bindS (ensure_no_pending_commit E) (\<lambda>_. bindS crypto_provider (\<lambda>_. bindS (conv_credential E) (\<lambda>c.
     bindS (mutate_group E (\<lambda>g. wrap_mls (lib_remove_members (lib E) (signature_key c)
       (map member_index (filter (\<lambda>m. list_ex (\<lambda>client_id. client_id = member_identity m) cs) (members (view (lib E)) g)))) g))
       (\<lambda>(commit, welcome, gi). bindS (liftS (group_info E gi)) (\<lambda>gi. okS (commit_bundle commit welcome gi))))))"
  have "keeps traffic m"
    unfolding m_def by (intro frame) (auto intro!: frame split: prod.splits)
  moreover have "bindS m (send_and_merge_commit E) s = (Inr (), s')"
    using assms unfolding m_def remove_members_or_history_clients_def by (force simp: bindS_Inr okS_def)
  ultimately show ?thesis
    using then_send_traffic by blast
qed

text \<open>
  C7: A call that returns successfully - encrypting, adding, removing, updating the key material or
  the credential, committing the pending proposals, enabling or disabling history sharing - either
  sent nothing and announces no new epoch, or sent exactly one commit, which the delivery service
  accepted, and announces exactly one new epoch of this conversation.
\<close>

theorem success_means_accepted:
  assumes "run_call E c s = (Inr (), s')" "\<nexists>msg. c = CallDecrypt msg" "c \<noteq> CallWipe"
  shows "sent s' = sent s \<and> epoch_changes s' = epoch_changes s \<or> committed E s s'"
proof (cases c)
  case (CallEncrypt msg)
  then obtain x where "encrypt_message E msg s = (Inr x, s')"
    using assms(1) by (auto simp: bindS_Inr okS_def)
  from keepsD[OF keeps_creation(7) this] show ?thesis by simp
next
  case (CallAdd kps)
  show ?thesis
    using then_send_traffic[OF assms(1)[unfolded CallAdd run_call.simps add_members_def] keeps_creation(1)] by simp
next
  case (CallRemove cs)
  then show ?thesis
    using assms(1) remove_members_traffic[of E cs s s'] by (simp add: remove_members_def)
next
  case CallUpdateKey
  define m where "m = bindS (conv_credential E) (set_credential_inner E)"
  have "keeps traffic m"
    unfolding m_def by (intro frame)
  moreover have "bindS m (send_and_merge_commit E) s = (Inr (), s')"
    using assms(1) CallUpdateKey unfolding m_def by (force simp: update_key_material_def bindS_Inr)
  ultimately show ?thesis
    using then_send_traffic by blast
next
  case (CallSetCredential r)
  define m where "m = bindS require_context (\<lambda>_. bindS (getS database) (\<lambda>d.
     bindS (liftS (map_err LoadingCredential (ref_load (cred_c E) r d))) (set_credential_inner E)))"
  have "keeps traffic m"
    unfolding m_def by (intro frame)
  moreover have "bindS m (send_and_merge_commit E) s = (Inr (), s')"
    using assms(1) CallSetCredential unfolding m_def by (force simp: set_credential_by_ref_def bindS_Inr)
  ultimately show ?thesis
    using then_send_traffic by blast
next
  case CallCommitPending
  then obtain s1 s2 b where k1: "ensure_no_pending_commit E s = (Inr (), s1)"
    and k2: "commit_pending_proposals_inner E s1 = (Inr b, s2)"
    and rest: "(case b of None \<Rightarrow> okS () | Some b \<Rightarrow> send_and_merge_commit E b) s2 = (Inr (), s')"
    using assms(1) by (auto simp: commit_pending_proposals_def bindS_Inr)
  have "traffic s2 = traffic s"
    using keepsD[OF keeps_pending(3) k1] keepsD[OF keeps_creation(3) k2] by simp
  then show ?thesis
    using rest send_and_merge_commit_traffic[of E _ s2 s'] by (auto simp: okS_def committed_def split: option.splits)
next
  case CallEnableHistory
  show ?thesis
  proof (cases "is_history_sharing_enabled (view (lib E)) (group s)")
    case False
    then obtain s1 s2 secret b where k1: "generate_history_secret E s = (Inr secret, s1)"
      and k2: "add_members_inner E [secret_key_package secret] s1 = (Inr b, s2)"
      and run: "send_new_history_client_commit E b secret s2 = (Inr (), s')"
      using assms(1) CallEnableHistory by (auto simp: enable_history_sharing_def bindS_Inr getS_def)
    then show ?thesis
      using history_commit_traffic[OF run] keepsD[OF keeps_history(1) k1] keepsD[OF keeps_creation(1) k2]
      by (simp add: committed_def)
  qed (use assms(1) CallEnableHistory in \<open>simp add: enable_history_sharing_def bindS_def getS_def okS_def\<close>)
next
  case CallDisableHistory
  then show ?thesis
    using assms(1) remove_members_traffic[of E "get_history_client_ids (view (lib E)) (group s)" s s']
    by (auto simp: disable_history_sharing_def bindS_Inr getS_def okS_def Let_def split: if_splits)
qed (use assms in auto)

section \<open>Rejected commits\<close>

text \<open>What OpenMLS documents of clearing a pending commit and of marking a group as persisted.\<close>

definition pending_laws :: "'g conv_env \<Rightarrow> bool" where
  "pending_laws E \<longleftrightarrow> (\<forall>g. pending_commit (view (lib E)) (clear_pending (lib E) g) = None
     \<and> epoch (view (lib E)) (clear_pending (lib E) g) = epoch (view (lib E)) g
     \<and> pending_commit (view (lib E)) (set_persisted (lib E) g) = pending_commit (view (lib E)) g
     \<and> epoch (view (lib E)) (set_persisted (lib E) g) = epoch (view (lib E)) g)"

lemma persist_view:
  assumes "pending_laws E" "persist_when_changed E s = (r, s')"
  shows "pending_commit (view (lib E)) (group s') = pending_commit (view (lib E)) (group s)
    \<and> epoch (view (lib E)) (group s') = epoch (view (lib E)) (group s)"
  using assms
  by (auto simp: persist_when_changed_def pending_laws_def bindS_def getS_def liftS_def okS_def putS_def on_database_def
      split: if_splits sum.splits prod.splits)

lemma clear_pending_commit_clears:
  assumes "pending_laws E" "context_valid s" "pending_commit (view (lib E)) (group s) \<noteq> None"
    "clear_pending_commit E s = (r, s')"
  shows "pending_commit (view (lib E)) (group s') = None \<and> epoch (view (lib E)) (group s') = epoch (view (lib E)) (group s)"
proof -
  let ?s = "s\<lparr>group := clear_pending (lib E) (group s), database := database s\<rparr>"
  obtain r1 where "persist_when_changed E ?s = (r1, s')"
    using assms(2-4)
    by (auto simp: clear_pending_commit_def mutate_group_def require_context_def on_group_def bindS_def okS_def
        split: prod.splits sum.splits if_splits)
  from persist_view[OF assms(1) this] show ?thesis
    using assms(1) by (simp add: pending_laws_def)
qed


text \<open>
  C30: A commit that adds a history client is merged before it is sent.  When the delivery service
  rejects it, the call fails, but the group stays in the new epoch and the epoch change stays
  queued.
\<close>

theorem rejected_history_commit_stays_merged:
  assumes "merge_commit E s = (Inr (), s1)" "prepare_for_transport E secret = Some t" "encrypt_message E t s1 = (Inr m, s2)"
    and "context_valid s1" "session_set s1" "context_valid s2" "session_set s2"
    and "\<not> transport_accepts E (sent s) (b\<lparr>bundle_encrypted_message := Some m\<rparr>)"
  shows "\<exists>s'. send_new_history_client_commit E b secret s = (Inl TransportError, s') \<and> group s' = group s2
    \<and> (\<exists>ep. epoch_changes s' = epoch_changes s @ [(conv_id E, ep)])"
proof -
  have "sent s2 = sent s" "epoch_changes s2 = epoch_changes s1"
    using merge_commit_traffic[OF assms(1)] keepsD[OF keeps_creation(7) assms(3)] by auto
  moreover have "crypto_provider s1 = (Inr (), s1)"
    using assms(4,5) by (simp add: crypto_provider_def require_context_def bindS_def)
  ultimately have "send_new_history_client_commit E b secret s = (Inl TransportError,
      (if history_observer s2 then s2\<lparr>history_observed := history_observed s2 @ [(conv_id E, secret)]\<rparr> else s2)\<lparr>sent := sent s @ [b\<lparr>bundle_encrypted_message := Some m\<rparr>]\<rparr>)"
    using assms
    by (simp add: send_new_history_client_commit_def bindS_def liftS_def notify_new_history_client_def send_commit_def
        crypto_provider_def require_context_def putS_def)
  then show ?thesis
    using merge_commit_traffic[OF assms(1)] \<open>epoch_changes s2 = epoch_changes s1\<close> by auto
qed

text \<open>
  An own commit that comes back from the delivery service is merged, but no epoch change is
  queued for it: observers are not told of this epoch.
\<close>

theorem own_commit_not_announced:
  "epoch_changes (snd (handle_own_commit E ct s)) = epoch_changes s"
proof -
  have "keeps traffic (handle_own_commit E ct)"
    unfolding handle_own_commit_def merge_pending_commit_def by (auto intro!: frame)
  then show ?thesis by (simp add: keeps_def)
qed

section \<open>Duplicate signature keys\<close>

lemma duplicate_pairs_sound:
  assumes "duplicate_pairs U seen kps = Inr ps" "(a, b) \<in> set ps"
  shows "(\<exists>j<length kps. map_of seen (kpi_signature_key (kps ! j)) = Some a \<and> new_from_bytes U (kpi_identity (kps ! j)) = Inr b)
    \<or> (\<exists>i j. i < j \<and> j < length kps \<and> kpi_signature_key (kps ! i) = kpi_signature_key (kps ! j)
        \<and> new_from_bytes U (kpi_identity (kps ! i)) = Inr a \<and> new_from_bytes U (kpi_identity (kps ! j)) = Inr b)"
  using assms
proof (induction kps arbitrary: seen ps)
  case (Cons kp kps)
  obtain cid qs where cid: "new_from_bytes U (kpi_identity kp) = Inr cid"
    and rest: "duplicate_pairs U (AList.update (kpi_signature_key kp) cid seen) kps = Inr qs"
    and ps: "ps = (case map_of seen (kpi_signature_key kp) of None \<Rightarrow> qs | Some previous \<Rightarrow> (previous, cid) # qs)"
    using Cons.prems(1) by (auto simp: bindE_def mapR_def split: sum.splits)
  show ?case
  proof (cases "(a, b) \<in> set qs")
    case True
    from Cons.IH[OF rest True] show ?thesis
    proof (elim disjE exE conjE)
      fix j
      assume j: "j < length kps" "map_of (AList.update (kpi_signature_key kp) cid seen) (kpi_signature_key (kps ! j)) = Some a"
        "new_from_bytes U (kpi_identity (kps ! j)) = Inr b"
      show ?thesis
      proof (cases "kpi_signature_key (kps ! j) = kpi_signature_key kp")
        case True
        then have "a = cid" using j(2) by (simp add: update_conv')
        then show ?thesis
          using True j(1,3) cid by (intro disjI2 exI[of _ 0] exI[of _ "Suc j"]) simp
      next
        case False
        then show ?thesis
          using j by (intro disjI1 exI[of _ "Suc j"]) (simp add: update_conv')
      qed
    next
      fix i j
      assume "i < j" "j < length kps" "kpi_signature_key (kps ! i) = kpi_signature_key (kps ! j)"
        "new_from_bytes U (kpi_identity (kps ! i)) = Inr a" "new_from_bytes U (kpi_identity (kps ! j)) = Inr b"
      then show ?thesis
        by (intro disjI2 exI[of _ "Suc i"] exI[of _ "Suc j"]) simp
    qed
  next
    case False
    then have "map_of seen (kpi_signature_key kp) = Some a" "cid = b"
      using ps Cons.prems(2) by (auto split: option.splits)
    then show ?thesis
      using cid by (intro disjI1 exI[of _ 0]) simp
  qed
qed simp

lemma duplicate_pairs_empty:
  assumes "duplicate_pairs U seen kps = Inr ps"
  shows "ps = [] \<longleftrightarrow> distinct (map kpi_signature_key kps) \<and> set (map kpi_signature_key kps) \<inter> dom (map_of seen) = {}"
  using assms
proof (induction kps arbitrary: seen ps)
  case (Cons kp kps)
  obtain cid qs where rest: "duplicate_pairs U (AList.update (kpi_signature_key kp) cid seen) kps = Inr qs"
    and ps: "ps = (case map_of seen (kpi_signature_key kp) of None \<Rightarrow> qs | Some previous \<Rightarrow> (previous, cid) # qs)"
    using Cons.prems by (auto simp: bindE_def mapR_def split: sum.splits)
  have "dom (map_of (AList.update (kpi_signature_key kp) cid seen)) = insert (kpi_signature_key kp) (dom (map_of seen))"
    by (simp add: update_conv')
  then show ?case
    using Cons.IH[OF rest] ps by (cases "map_of seen (kpi_signature_key kp)") (auto simp: domIff)
qed simp

text \<open>
  When OpenMLS refuses to add members because of a duplicate signature key, the error names pairs
  of clients: it names none exactly when all key packages have different keys, and every pair is
  two key packages of the call with the same key.
\<close>

theorem duplicates_named:
  assumes "clients_with_duplicate_signature_keys U kps = Inr ps"
  shows "(ps = [] \<longleftrightarrow> distinct (map kpi_signature_key kps))
    \<and> (\<forall>(a, b) \<in> set ps. \<exists>i j. i < j \<and> j < length kps \<and> kpi_signature_key (kps ! i) = kpi_signature_key (kps ! j)
        \<and> new_from_bytes U (kpi_identity (kps ! i)) = Inr a \<and> new_from_bytes U (kpi_identity (kps ! j)) = Inr b)"
proof -
  have ps: "duplicate_pairs U [] kps = Inr ps"
    using assms by (auto simp: clients_with_duplicate_signature_keys_def map_err_def split: sum.splits)
  show ?thesis
    using duplicate_pairs_empty[OF ps] duplicate_pairs_sound[OF ps] by auto
qed

section \<open>Examples\<close>

definition eg_member :: "example_group conv_state" where
  "eg_member = eg_start\<lparr>database := mutate example_hashes (Save (Some 1000) (StoredCredential \<lparr>session_id = [0],
     credential = [1, 0], created_at = 0, ciphersuite = 1, public_key = [0], private_key = [9]\<rparr>)) (database eg_start)\<rparr>"

definition eg_key_package :: "byte \<Rightarrow> key_package_in" where
  "eg_key_package b = \<lparr>kpi_identity = [b], kpi_signature_key = [b], kpi_bytes = []\<rparr>"

definition eg_rejecting :: "example_group conv_env" where
  "eg_rejecting = eg_env\<lparr>transport_accepts := (\<lambda>_ _. False)\<rparr>"

lemma eg_member_reachable: "db_reachable (hs eg_env) (database eg_member)"
proof -
  have "mutation_ok (Save (Some 1000) (StoredCredential c))" for c
    by (simp add: mutation_ok_def is_none_or_def)
  then show ?thesis
    using db_reachable.stepped[OF eg_reachable db_step.mutate_tx] by (simp add: eg_member_def)
qed


theorem success_means_accepted_witness:
  "committed eg_env eg_member (snd (run_call eg_env (CallAdd [eg_key_package 5]) eg_member))"
proof -
  define c where "c = CallAdd [eg_key_package 5]"
  define s' where "s' = snd (run_call eg_env c eg_member)"
  have "fst (run_call eg_env c eg_member) = Inr ()" "length (sent s') = 1"
    unfolding s'_def c_def by code_simp+
  then have "run_call eg_env c eg_member = (Inr (), s')"
    unfolding s'_def by (simp only: prod_eq_iff fst_conv snd_conv)
  from success_means_accepted[OF this] have "committed eg_env eg_member s'"
    using \<open>length (sent s') = 1\<close> by (auto simp: c_def eg_member_def eg_start_def)
  then show ?thesis
    by (simp only: s'_def c_def)
qed

lemma eg_rejecting_laws: "pending_laws eg_rejecting"
  by (simp add: pending_laws_def eg_rejecting_def eg_env_def eg_lib_def eg_view_def)


theorem rejected_history_commit_stays_merged_witness:
  "\<exists>s'. send_new_history_client_commit eg_rejecting
      (commit_bundle [3] None \<lparr>encryption_type = Plaintext, ratchet_tree_type = Full, payload_bytes = [9]\<rparr>)
      (the (new_history_secret eg_rejecting 0)) (snd (add_members_inner eg_rejecting [eg_key_package 5] eg_member)) = (Inl TransportError, s')
    \<and> eg_epoch (group s') = 1"
proof -
  define s where "s = snd (add_members_inner eg_rejecting [eg_key_package 5] eg_member)"
  define s1 where "s1 = snd (merge_commit eg_rejecting s)"
  define s2 where "s2 = snd (encrypt_message eg_rejecting [0] s1)"
  let ?secret = "the (new_history_secret eg_rejecting 0)"
  have r: "fst (merge_commit eg_rejecting s) = Inr ()" "fst (encrypt_message eg_rejecting [0] s1) = Inr [1, 1, 0]"
    and c: "context_valid s1" "session_set s1" "context_valid s2" "session_set s2" "eg_epoch (group s2) = 1"
    unfolding s2_def s1_def s_def by code_simp+
  have m: "merge_commit eg_rejecting s = (Inr (), s1)" "encrypt_message eg_rejecting [0] s1 = (Inr [1, 1, 0], s2)"
    using r unfolding s1_def s2_def by (simp_all only: prod_eq_iff fst_conv snd_conv)
  have "prepare_for_transport eg_rejecting ?secret = Some [0]"
    by code_simp
  from rejected_history_commit_stays_merged[OF m(1) this m(2) c(1-4)] show ?thesis
    using c(5) unfolding s_def[symmetric] by (fastforce simp: eg_rejecting_def)
qed

theorem duplicates_named_witness:
  "\<exists>ps. clients_with_duplicate_signature_keys example_codecs
     (map (\<lambda>user. \<lparr>kpi_identity = client_id_new example_codecs user 5 (ascii ''wire.com''), kpi_signature_key = [1], kpi_bytes = []\<rparr>) [3, 4])
      = Inr ps \<and> ps \<noteq> []"
proof -
  let ?c = "\<lambda>user. client_id_new example_codecs user 5 (ascii ''wire.com'')"
  let ?kps = "map (\<lambda>user. \<lparr>kpi_identity = ?c user, kpi_signature_key = [1 :: byte], kpi_bytes = [] :: bytes\<rparr>) [3, 4]"
  have "utf8_valid (ascii ''wire.com'')"
    by (simp add: ascii_def)
  then have "new_from_bytes example_codecs (?c user) = Inr (?c user)" for user
    using client_id_parses(1)[OF example_codecs_ok(1)] by (simp add: new_from_bytes_def)
  then have "clients_with_duplicate_signature_keys example_codecs ?kps = Inr [(?c 3, ?c 4)]"
    by (simp add: clients_with_duplicate_signature_keys_def)
  then show ?thesis
    using duplicates_named[of example_codecs ?kps "[(?c 3, ?c 4)]"] by blast
qed

end
