(* ===== verification/Conversation_Config.thy ===== *)
theory Conversation_Config
  imports Credentials
begin

text \<open>
  The configuration of a conversation (\<open>crypto/src/mls/conversation/config.rs\<close>) and what
  is passed on to OpenMLS from it.
\<close>

definition MAX_PAST_EPOCHS :: nat where
  "MAX_PAST_EPOCHS = 3"

definition OUT_OF_ORDER_TOLERANCE :: u32 where
  "OUT_OF_ORDER_TOLERANCE = 2"

definition MAXIMUM_FORWARD_DISTANCE :: u32 where
  "MAXIMUM_FORWARD_DISTANCE = 1000"

datatype WirePolicy = PlaintextPolicy | CiphertextPolicy

datatype wire_format_policy = PURE_PLAINTEXT_WIRE_FORMAT_POLICY | PURE_CIPHERTEXT_WIRE_FORMAT_POLICY

definition wire_format :: "WirePolicy \<Rightarrow> wire_format_policy" where
  "wire_format p = (case p of CiphertextPolicy \<Rightarrow> PURE_CIPHERTEXT_WIRE_FORMAT_POLICY
     | PlaintextPolicy \<Rightarrow> PURE_PLAINTEXT_WIRE_FORMAT_POLICY)"

record CustomConfiguration =
  key_rotation_span :: "nat option"
  wire_policy :: WirePolicy
  out_of_order_tolerance :: u32
  maximum_forward_distance :: u32

definition default_custom :: CustomConfiguration where
  "default_custom = \<lparr>key_rotation_span = None, wire_policy = PlaintextPolicy,
     out_of_order_tolerance = OUT_OF_ORDER_TOLERANCE, maximum_forward_distance = MAXIMUM_FORWARD_DISTANCE\<rparr>"

record ConversationConfiguration =
  config_cipher_suite :: u16
  external_senders :: "bytes list"
  custom :: CustomConfiguration

definition configuration_for :: "u16 \<Rightarrow> ConversationConfiguration" where
  "configuration_for cs = \<lparr>config_cipher_suite = cs, external_senders = [], custom = default_custom\<rparr>"

datatype ProtocolVersion = Mls10

definition DEFAULT_PROTOCOL_VERSION :: ProtocolVersion where
  "DEFAULT_PROTOCOL_VERSION = Mls10"

record capabilities =
  cap_versions :: "ProtocolVersion list"
  cap_ciphersuites :: "u16 list"
  cap_extensions :: "u16 list"
  cap_proposals :: "u16 list"
  cap_credentials :: "CredentialType list"

definition DEFAULT_SUPPORTED_CREDENTIALS :: "CredentialType list" where
  "DEFAULT_SUPPORTED_CREDENTIALS = [Basic, X509]"

definition DEFAULT_SUPPORTED_CIPHERSUITES :: "u16 list" where
  "DEFAULT_SUPPORTED_CIPHERSUITES = [1, 2, 3, 7, 5]"

definition default_leaf_capabilities :: capabilities where
  "default_leaf_capabilities = \<lparr>cap_versions = [DEFAULT_PROTOCOL_VERSION], cap_ciphersuites = DEFAULT_SUPPORTED_CIPHERSUITES, cap_extensions = [],
     cap_proposals = [], cap_credentials = DEFAULT_SUPPORTED_CREDENTIALS\<rparr>"

record required_capabilities =
  req_extensions :: "u16 list"
  req_proposals :: "u16 list"
  req_credentials :: "CredentialType list"

definition default_required_capabilities :: required_capabilities where
  "default_required_capabilities = \<lparr>req_extensions = [], req_proposals = [], req_credentials = DEFAULT_SUPPORTED_CREDENTIALS\<rparr>"

record MlsGroupConfig =
  group_wire_format :: wire_format_policy
  max_past_epochs :: nat
  padding_size :: nat
  number_of_resumption_psks :: nat
  leaf_capabilities :: capabilities
  required_caps :: required_capabilities
  sender_ratchet :: "u32 \<times> u32"
  use_ratchet_tree_extension :: bool
  group_external_senders :: "bytes list"
  group_version :: ProtocolVersion
  group_cipher_suite :: u16

definition as_openmls_default_configuration :: "ConversationConfiguration \<Rightarrow> MlsGroupConfig" where
  "as_openmls_default_configuration c = \<lparr>group_wire_format = wire_format (wire_policy (custom c)),
     max_past_epochs = MAX_PAST_EPOCHS, padding_size = 128, number_of_resumption_psks = 1,
     leaf_capabilities = default_leaf_capabilities, required_caps = default_required_capabilities,
     sender_ratchet = (out_of_order_tolerance (custom c), maximum_forward_distance (custom c)),
     use_ratchet_tree_extension = True, group_external_senders = external_senders c,
     group_version = DEFAULT_PROTOCOL_VERSION, group_cipher_suite = config_cipher_suite c\<rparr>"

definition set_external_senders :: "bytes list \<Rightarrow> ConversationConfiguration \<Rightarrow> ConversationConfiguration" where
  "set_external_senders senders c = c\<lparr>external_senders := senders\<rparr>"

end
