(* ===== verification/Transaction_Context.thy ===== *)
theory Transaction_Context
  imports Commit_Flow Decrypt Conversation_Config
begin

text \<open>
  The transaction context (\<open>crypto/src/transaction_context\<close>), the conversation cache
  (\<open>crypto/src/mls/conversation_cache.rs\<close>) and pending conversations
  (\<open>crypto/src/mls/conversation/pending.rs\<close>).  A conversation is shared between the cache
  and the guards handed out, so it lives in a heap and the cache holds its address.  The LRU map is
  the parameter \<open>lru\<close>.
\<close>

section \<open>Data\<close>

record 'g conversation =
  conv_ident :: bytes
  conv_group :: 'g
  conv_configuration :: ConversationConfiguration

record 'c lru_map =
  lru_new :: 'c
  lru_get :: "bytes \<Rightarrow> 'c \<Rightarrow> nat option \<times> 'c"
  lru_peek :: "bytes \<Rightarrow> 'c \<Rightarrow> nat option"
  lru_insert :: "bytes \<Rightarrow> nat \<Rightarrow> 'c \<Rightarrow> 'c"
  lru_remove :: "bytes \<Rightarrow> 'c \<Rightarrow> 'c"
  lru_clear :: "'c \<Rightarrow> 'c"

record 'c Session =
  sess_id :: client_id
  conversation_cache :: 'c
  epoch_observer :: bool
  sess_history_observer :: bool

record ('g, 'c) tx_state =
  core_database :: Database
  inner_valid :: bool
  pending_epoch_changes :: "(bytes \<times> u64) list"
  heap :: "'g conversation list"
  mls_session :: "'c Session option"
  bundles_sent :: "CommitBundle list"
  secrets_used :: nat
  history_notified :: "(bytes \<times> HistorySecret) list"
  epochs_notified :: "(bytes \<times> u64) list"

datatype tx_error =
    TxInvalidTransactionContext
  | TxMlsNotInitialized
  | TxKeystore CryptoKeystoreError
  | TxOpenMls mls_error
  | TxDeserialize
  | TxCredential cred_error
  | TxConversation conv_error
  | TxOrphanWelcome
  | TxMissingGroupInfo
  | CallerError string
  | ConversationNotFound bytes
  | ConversationAlreadyExists bytes
  | PendingConversationError persisted_mls_pending_group
  | BufferedForPendingConversation
  | PendingConversationNotFound
  | EpochObserverAlreadyExists
  | HistoryObserverAlreadyExists
  | TxPanic string

type_synonym ('g, 'c, 'a) tx_op = "(('g, 'c) tx_state, tx_error, 'a) fallible"

record mls_welcome =
  welcome_suite :: u16
  welcome_body :: bytes

datatype welcome_error = NoMatchingKeyPackage | NoMatchingEncryptionKey | OtherWelcomeError mls_error

text \<open>
  The environment: \<open>base\<close> is the environment of every conversation but for its id, then the
  constructors of MLS groups, the JSON form of a custom configuration, and the LRU map.
\<close>

record ('g, 'c) tx_env =
  base :: "'g conv_env"
  group_deser_of :: "bytes \<Rightarrow> 'g option"
  group_id_of :: "'g \<Rightarrow> bytes"
  group_suite :: "'g \<Rightarrow> u16"
  new_with_group_id :: "signer \<Rightarrow> MlsGroupConfig \<Rightarrow> bytes \<Rightarrow> mls_credential \<Rightarrow> Database \<Rightarrow> (mls_error + 'g) \<times> Database"
  new_from_welcome :: "MlsGroupConfig \<Rightarrow> mls_welcome \<Rightarrow> Database \<Rightarrow> (welcome_error + 'g) \<times> Database"
  join_external :: "signer \<Rightarrow> bytes \<Rightarrow> MlsGroupConfig \<Rightarrow> mls_credential \<Rightarrow> Database \<Rightarrow>
    (mls_error + 'g \<times> bytes \<times> bytes option) \<times> Database"
  info_suite :: "bytes \<Rightarrow> u16"
  json_write :: "CustomConfiguration \<Rightarrow> bytes option"
  json_read :: "bytes \<Rightarrow> CustomConfiguration option"
  lru :: "'c lru_map"

definition env_of :: "('g, 'c) tx_env \<Rightarrow> bytes \<Rightarrow> 'g conv_env" where
  "env_of T i = (base T)\<lparr>conv_id := i\<rparr>"

section \<open>The context\<close>

definition tx_database :: "('g, 'c, unit) tx_op" where
  "tx_database s = (if inner_valid s then (Inr (), s) else (Inl TxInvalidTransactionContext, s))"

definition tx_session :: "('g, 'c, 'c Session) tx_op" where
  "tx_session = bindS tx_database (\<lambda>_ s. (ok_or TxMlsNotInitialized (mls_session s), s))"

definition tx_crypto_provider :: "('g, 'c, unit) tx_op" where
  "tx_crypto_provider = bindS tx_session (\<lambda>_. okS ())"

definition mls_groups :: "('g, 'c, 'c) tx_op" where
  "mls_groups = bindS tx_session (\<lambda>x. okS (conversation_cache x))"

definition put_cache :: "'c \<Rightarrow> ('g, 'c, unit) tx_op" where
  "put_cache c = putS (\<lambda>s. s\<lparr>mls_session := map_option (\<lambda>x. x\<lparr>conversation_cache := c\<rparr>) (mls_session s)\<rparr>)"

definition on_core :: "(Database \<Rightarrow> Database \<times> 'a keystore_result) \<Rightarrow> ('g, 'c, 'a) tx_op" where
  "on_core f s = (case f (core_database s) of (d, r) \<Rightarrow> (map_err TxKeystore r, s\<lparr>core_database := d\<rparr>))"

definition on_mls :: "(Database \<Rightarrow> ('e + 'a) \<times> Database) \<Rightarrow> ('e \<Rightarrow> tx_error) \<Rightarrow> ('g, 'c, 'a) tx_op" where
  "on_mls f wrap s = (case f (core_database s) of (r, d) \<Rightarrow> (map_err wrap r, s\<lparr>core_database := d\<rparr>))"

text \<open>Creating the context waits for the permit: \<open>None\<close> is waiting.\<close>

definition tx_new :: "('g, 'c) tx_state \<Rightarrow> ('g, 'c) tx_state option" where
  "tx_new s = map_option (\<lambda>(d, _). s\<lparr>core_database := d, inner_valid := True, pending_epoch_changes := []\<rparr>)
     (new_transaction (core_database s))"

definition tx_queue_epoch_changed :: "bytes \<Rightarrow> u64 \<Rightarrow> ('g, 'c, unit) tx_op" where
  "tx_queue_epoch_changed c ep = bindS tx_database (\<lambda>_.
     putS (\<lambda>s. s\<lparr>pending_epoch_changes := pending_epoch_changes s @ [(c, ep)]\<rparr>))"

definition notify_epoch_changed :: "'c Session \<Rightarrow> (bytes \<times> u64) list \<Rightarrow> ('g, 'c) tx_state \<Rightarrow> ('g, 'c) tx_state" where
  "notify_epoch_changed x changes s =
     (if epoch_observer x then s\<lparr>epochs_notified := epochs_notified s @ changes\<rparr> else s)"

definition finish :: "('g, 'c) tx_env \<Rightarrow> (nat \<Rightarrow> sql_error option) \<Rightarrow> ('g, 'c, unit) tx_op" where
  "finish T io s = (if \<not> inner_valid s then (Inl TxInvalidTransactionContext, s)
     else case commit_transaction (hs (base T)) (order (base T)) io (core_database s) of
       (d, commit_result) \<Rightarrow>
         (let s1 = s\<lparr>core_database := d\<rparr>;
              s2 = (case mls_session s of
                  None \<Rightarrow> s1
                | Some x \<Rightarrow>
                    if is_ok commit_result
                    then notify_epoch_changed x (pending_epoch_changes s) (s1\<lparr>pending_epoch_changes := []\<rparr>)
                    else s1\<lparr>mls_session := Some (x\<lparr>conversation_cache := lru_clear (lru T) (conversation_cache x)\<rparr>)\<rparr>)
          in (map_err TxKeystore commit_result, s2\<lparr>inner_valid := False\<rparr>)))"

definition abort :: "('g, 'c) tx_env \<Rightarrow> ('g, 'c, unit) tx_op" where
  "abort T s = (if \<not> inner_valid s then (Inl TxInvalidTransactionContext, s)
     else case rollback_transaction (core_database s) of
       (d, r) \<Rightarrow> (map_err TxKeystore r, s\<lparr>core_database := d, inner_valid := False,
         mls_session := map_option (\<lambda>x. x\<lparr>conversation_cache := lru_clear (lru T) (conversation_cache x)\<rparr>) (mls_session s)\<rparr>))"

definition set_mls_session :: "'c Session \<Rightarrow> ('g, 'c, unit) tx_op" where
  "set_mls_session x = bindS tx_database (\<lambda>_. putS (\<lambda>s. s\<lparr>mls_session := Some x\<rparr>))"

definition session_new :: "('g, 'c) tx_env \<Rightarrow> client_id \<Rightarrow> 'c Session" where
  "session_new T cid = \<lparr>sess_id = cid, conversation_cache = lru_new (lru T), epoch_observer = False, sess_history_observer = False\<rparr>"

definition mls_init :: "('g, 'c) tx_env \<Rightarrow> client_id \<Rightarrow> ('g, 'c, unit) tx_op" where
  "mls_init T cid = bindS tx_database (\<lambda>_. set_mls_session (session_new T cid))"

definition tx_client_id :: "('g, 'c, client_id) tx_op" where
  "tx_client_id = bindS tx_session (\<lambda>x. okS (sess_id x))"

definition set_data :: "('g, 'c) tx_env \<Rightarrow> bytes \<Rightarrow> ('g, 'c, unit) tx_op" where
  "set_data T bs = bindS tx_database (\<lambda>_.
     bindS (on_core (db_save (hs (base T)) None (ConsumerData \<lparr>consumer_content = bs\<rparr>))) (\<lambda>_. okS ()))"

definition get_data :: "('g, 'c, bytes option) tx_op" where
  "get_data = bindS tx_database (\<lambda>_ s. (case db_get ConsumerDataT unique_key (core_database s) of
       Inr (Some (ConsumerData c)) \<Rightarrow> Inr (Some (consumer_content c))
     | Inr _ \<Rightarrow> Inr None
     | Inl (NotFound _) \<Rightarrow> Inr None
     | Inl e \<Rightarrow> Inl (TxKeystore e), s))"

definition register_epoch_observer :: "'c Session \<Rightarrow> tx_error + 'c Session" where
  "register_epoch_observer x = (if epoch_observer x then Inl EpochObserverAlreadyExists else Inr (x\<lparr>epoch_observer := True\<rparr>))"

definition register_history_observer :: "'c Session \<Rightarrow> tx_error + 'c Session" where
  "register_history_observer x =
     (if sess_history_observer x then Inl HistoryObserverAlreadyExists else Inr (x\<lparr>sess_history_observer := True\<rparr>))"

section \<open>Conversations in the store and in the cache\<close>

definition from_serialized_state :: "('g, 'c) tx_env \<Rightarrow> bytes \<Rightarrow> tx_error + 'g conversation" where
  "from_serialized_state T buf = mapR (\<lambda>g. \<lparr>conv_ident = group_id_of T g, conv_group = g,
     conv_configuration = configuration_for (group_suite T g)\<rparr>) (ok_or TxDeserialize (group_deser_of T buf))"

definition conversation_load :: "('g, 'c) tx_env \<Rightarrow> bytes \<Rightarrow> Database \<Rightarrow> tx_error + 'g conversation option" where
  "conversation_load T i d = bindE (map_err TxKeystore (db_get PersistedMlsGroupT (BytesKey i) d)) (\<lambda>found.
     case found of
       Some (PersistedMlsGroup p) \<Rightarrow> mapR Some (from_serialized_state T (group_state p))
     | _ \<Rightarrow> Inr None)"

definition conversation_load_all :: "('g, 'c) tx_env \<Rightarrow> Database \<Rightarrow> tx_error + (bytes \<times> 'g conversation) list" where
  "conversation_load_all T d =
     bindE (map_err TxKeystore (db_load_all (hs (base T)) (order (base T)) PersistedMlsGroupT d)) (\<lambda>es.
     mapE (\<lambda>p. mapR (Pair (group_id p)) (from_serialized_state T (group_state p))) (persisted_groups es))"

definition get_raw_conversation :: "('g, 'c) tx_env \<Rightarrow> bytes \<Rightarrow> Database \<Rightarrow> tx_error + 'g conversation" where
  "get_raw_conversation T i d = bindE (conversation_load T i d) (ok_or (ConversationNotFound i))"

definition session_conversation_exists :: "('g, 'c) tx_env \<Rightarrow> bytes \<Rightarrow> Database \<Rightarrow> tx_error + bool" where
  "session_conversation_exists T i d = (case get_raw_conversation T i d of
       Inr _ \<Rightarrow> Inr True
     | Inl (ConversationNotFound _) \<Rightarrow> Inr False
     | Inl e \<Rightarrow> Inl e)"

definition allocate :: "'g conversation \<Rightarrow> ('g, 'c, nat) tx_op" where
  "allocate c s = (Inr (length (heap s)), s\<lparr>heap := heap s @ [c]\<rparr>)"

definition cache_insert :: "('g, 'c) tx_env \<Rightarrow> 'g conversation \<Rightarrow> ('g, 'c, nat) tx_op" where
  "cache_insert T c = bindS mls_groups (\<lambda>entries. bindS (allocate c) (\<lambda>handle.
     bindS (put_cache (lru_insert (lru T) (conv_ident c) handle entries)) (\<lambda>_. okS handle)))"

definition get_or_fetch :: "('g, 'c) tx_env \<Rightarrow> bytes \<Rightarrow> ('g, 'c, nat option) tx_op" where
  "get_or_fetch T i = bindS mls_groups (\<lambda>entries.
     case lru_get (lru T) i entries of
       (Some entry, entries') \<Rightarrow> bindS (put_cache entries') (\<lambda>_. okS (Some entry))
     | (None, entries') \<Rightarrow>
         bindS (put_cache entries') (\<lambda>_.
         bindS (getS core_database) (\<lambda>d.
         bindS (liftS (conversation_load T i d)) (\<lambda>loaded. case loaded of
             None \<Rightarrow> okS None
           | Some c \<Rightarrow>
               if \<not> is_active (view (lib (base T))) (conv_group c)
               then bindS (on_core (db_remove PersistedMlsGroupT (BytesKey i))) (\<lambda>_. okS None)
               else bindS (cache_insert T c) (\<lambda>handle. okS (Some handle))))))"

definition cache_exists :: "('g, 'c) tx_env \<Rightarrow> bytes \<Rightarrow> 'c \<Rightarrow> Database \<Rightarrow> tx_error + bool" where
  "cache_exists T i entries d = (if lru_peek (lru T) i entries \<noteq> None then Inr True
     else mapR (\<lambda>found. found \<noteq> None) (map_err TxKeystore (db_get PersistedMlsGroupT (BytesKey i) d)))"

definition conversation_exists :: "('g, 'c) tx_env \<Rightarrow> bytes \<Rightarrow> ('g, 'c, bool) tx_op" where
  "conversation_exists T i = bindS tx_database (\<lambda>_. bindS mls_groups (\<lambda>entries. bindS (getS core_database) (\<lambda>d.
     liftS (cache_exists T i entries d))))"

definition pending_conversation :: "bytes \<Rightarrow> ('g, 'c, persisted_mls_pending_group) tx_op" where
  "pending_conversation i = bindS tx_database (\<lambda>_. bindS (getS core_database) (\<lambda>d.
     liftS (bindE (map_err TxKeystore (db_get PersistedMlsPendingGroupT (BytesKey i) d)) (\<lambda>found.
       case found of Some (PersistedMlsPendingGroup p) \<Rightarrow> Inr p | _ \<Rightarrow> Inl (ConversationNotFound i)))))"

definition pending_conversation_exists :: "bytes \<Rightarrow> ('g, 'c, bool) tx_op" where
  "pending_conversation_exists i = bindS (catchS (pending_conversation i)) (\<lambda>r. case r of
       Inr _ \<Rightarrow> okS True
     | Inl (ConversationNotFound _) \<Rightarrow> okS False
     | Inl e \<Rightarrow> errS e)"

definition tx_conversation :: "('g, 'c) tx_env \<Rightarrow> bytes \<Rightarrow> ('g, 'c, nat) tx_op" where
  "tx_conversation T i = bindS tx_database (\<lambda>_. bindS tx_session (\<lambda>_. bindS (get_or_fetch T i) (\<lambda>inner. case inner of
       Some handle \<Rightarrow> okS handle
     | None \<Rightarrow> bindS (pending_conversation i) (\<lambda>pending. errS (PendingConversationError pending)))))"

definition persist_conversation_from_mls_group ::
  "('g, 'c) tx_env \<Rightarrow> 'g \<Rightarrow> ConversationConfiguration \<Rightarrow> ('g, 'c, nat) tx_op" where
  "persist_conversation_from_mls_group T g configuration = bindS tx_session (\<lambda>_. bindS tx_database (\<lambda>_.
     bindS (liftS (map_err TxKeystore (ser_group (lib (base T)) g))) (\<lambda>group_state.
     bindS (on_core (mls_group_persist (hs (base T)) (group_id_of T g) group_state None)) (\<lambda>_.
     cache_insert T \<lparr>conv_ident = group_id_of T g, conv_group = set_persisted (lib (base T)) g, conv_configuration = configuration\<rparr>))))"

definition either_exists :: "('g, 'c) tx_env \<Rightarrow> bytes \<Rightarrow> ('g, 'c, bool) tx_op" where
  "either_exists T i = bindS (conversation_exists T i) (\<lambda>known.
     if known then okS True else pending_conversation_exists i)"

definition to_mls_credential_with_key :: "Credential \<Rightarrow> mls_credential" where
  "to_mls_credential_with_key c = \<lparr>cred_mls = cr_mls c, cred_signature_key = cr_public c\<rparr>"

definition load_credential :: "('g, 'c) tx_env \<Rightarrow> CredentialRef \<Rightarrow> ('g, 'c, Credential) tx_op" where
  "load_credential T r = bindS (getS core_database) (\<lambda>d. liftS (map_err TxCredential (ref_load (cred_c (base T)) r d)))"

definition new_conversation :: "('g, 'c) tx_env \<Rightarrow> bytes \<Rightarrow> CredentialRef \<Rightarrow> ConversationConfiguration \<Rightarrow> ('g, 'c, unit) tx_op" where
  "new_conversation T i r configuration = bindS tx_database (\<lambda>_. bindS tx_crypto_provider (\<lambda>_.
     bindS (either_exists T i) (\<lambda>exists.
     if exists then errS (ConversationAlreadyExists i)
     else bindS (load_credential T r) (\<lambda>c.
       bindS (on_mls (new_with_group_id T (signature_key c) (as_openmls_default_configuration configuration) i
         (to_mls_credential_with_key c)) TxOpenMls) (\<lambda>g.
       bindS (persist_conversation_from_mls_group T g configuration) (\<lambda>_. okS ()))))))"

definition welcome_failure :: "welcome_error \<Rightarrow> tx_error" where
  "welcome_failure e = (case e of NoMatchingKeyPackage \<Rightarrow> TxOrphanWelcome | NoMatchingEncryptionKey \<Rightarrow> TxOrphanWelcome
     | OtherWelcomeError m \<Rightarrow> TxOpenMls m)"

definition persist_conversation_from_welcome_message ::
  "('g, 'c) tx_env \<Rightarrow> mls_welcome \<Rightarrow> ConversationConfiguration \<Rightarrow> ('g, 'c, nat) tx_op" where
  "persist_conversation_from_welcome_message T w configuration = bindS tx_crypto_provider (\<lambda>_.
     bindS (on_mls (new_from_welcome T (as_openmls_default_configuration configuration) w) welcome_failure) (\<lambda>g.
     bindS (either_exists T (group_id_of T g)) (\<lambda>exists.
     if exists then errS (ConversationAlreadyExists (group_id_of T g))
     else persist_conversation_from_mls_group T g configuration)))"

text \<open>\<open>None\<close> is a message that is not a welcome.\<close>

definition process_welcome_message :: "('g, 'c) tx_env \<Rightarrow> mls_welcome option \<Rightarrow> ('g, 'c, bytes) tx_op" where
  "process_welcome_message T w = (case w of
       None \<Rightarrow> errS (CallerError ''the message provided to process_welcome_message was not a welcome message'')
     | Some w \<Rightarrow> bindS (persist_conversation_from_welcome_message T w (configuration_for (welcome_suite w))) (\<lambda>handle s.
         (if handle < length (heap s) then Inr (conv_ident (heap s ! handle)) else Inl (TxPanic ''dangling handle''), s)))"

section \<open>Operations on one conversation\<close>

text \<open>
  A guard works on the shared conversation: the operation runs on the group at this address, with
  the database and the queues of the context, and leaves its changes there.
\<close>

definition conv_state_of :: "'g conversation \<Rightarrow> ('g, 'c) tx_state \<Rightarrow> 'g conv_state" where
  "conv_state_of c s = \<lparr>group = conv_group c, database = core_database s, epoch_changes = pending_epoch_changes s,
     cached_conversations = [conv_ident c], context_valid = inner_valid s, session_set = (mls_session s \<noteq> None),
     sent = bundles_sent s, secrets_made = secrets_used s, history_observed = history_notified s,
     history_observer = (case mls_session s of None \<Rightarrow> False | Some x \<Rightarrow> sess_history_observer x)\<rparr>"

definition write_back :: "('g, 'c) tx_env \<Rightarrow> nat \<Rightarrow> 'g conversation \<Rightarrow> 'g conv_state \<Rightarrow> ('g, 'c) tx_state \<Rightarrow> ('g, 'c) tx_state" where
  "write_back T handle c cs s = s\<lparr>core_database := database cs, pending_epoch_changes := epoch_changes cs,
     heap := (heap s)[handle := c\<lparr>conv_group := group cs\<rparr>], bundles_sent := sent cs, secrets_used := secrets_made cs,
     history_notified := history_observed cs,
     mls_session := map_option (\<lambda>x. if conv_ident c \<in> set (cached_conversations cs) then x
       else x\<lparr>conversation_cache := lru_remove (lru T) (conv_ident c) (conversation_cache x)\<rparr>) (mls_session s)\<rparr>"

definition in_conversation :: "('g, 'c) tx_env \<Rightarrow> nat \<Rightarrow> ('g conv_env \<Rightarrow> ('g, 'a) conv_op) \<Rightarrow> ('g, 'c, 'a) tx_op" where
  "in_conversation T handle m s = (if handle < length (heap s)
     then let c = heap s ! handle in
       case m (env_of T (conv_ident c)) (conv_state_of c s) of
         (r, cs) \<Rightarrow> (map_err TxConversation r, write_back T handle c cs s)
     else (Inl (TxPanic ''dangling handle''), s))"

section \<open>Pending conversations\<close>

definition pending_from_mls_group :: "('g, 'c) tx_env \<Rightarrow> 'g \<Rightarrow> tx_error + persisted_mls_pending_group" where
  "pending_from_mls_group T g = bindE (ok_or (TxOpenMls OtherMlsError) (json_write T default_custom)) (\<lambda>cfg.
     bindE (map_err TxKeystore (ser_group (lib (base T)) g)) (\<lambda>state.
     Inr \<lparr>pending_id = group_id_of T g, pending_state = state, pending_parent_id = None, custom_configuration = cfg\<rparr>))"

definition pending_save :: "('g, 'c) tx_env \<Rightarrow> persisted_mls_pending_group \<Rightarrow> ('g, 'c, unit) tx_op" where
  "pending_save T p = bindS tx_database (\<lambda>_.
     on_core (mls_pending_groups_save (hs (base T)) (pending_id p) (pending_state p) (custom_configuration p) None))"

definition pending_clear :: "persisted_mls_pending_group \<Rightarrow> ('g, 'c, unit) tx_op" where
  "pending_clear p = bindS tx_database (\<lambda>_. on_core (mls_pending_groups_delete (pending_id p)))"

text \<open>
  The transport answers a rejection with \<open>MessageRejected\<close>.  \<open>RecursiveError::root\<close> wraps
  whatever it answers, so that the error of this call is always a \<open>Recursive\<close> one.
\<close>

definition pending_send_commit :: "('g, 'c) tx_env \<Rightarrow> CommitBundle \<Rightarrow> ('g, 'c, unit) tx_op" where
  "pending_send_commit T bundle = bindS tx_crypto_provider (\<lambda>_ s.
     (if transport_accepts (base T) (bundles_sent s) bundle then Inr () else Inl (TxConversation (Recursive MessageRejected)),
      s\<lparr>bundles_sent := bundles_sent s @ [bundle]\<rparr>))"

definition pending_merge :: "('g, 'c) tx_env \<Rightarrow> persisted_mls_pending_group \<Rightarrow> ('g, 'c, BufferedDecryptedMessage list option) tx_op" where
  "pending_merge T p = bindS tx_crypto_provider (\<lambda>_.
     bindS (liftS (ok_or TxDeserialize (group_deser_of T (pending_state p)))) (\<lambda>g.
     bindS (on_mls (\<lambda>d. case merge_pending (lib (base T)) g d of (r, g', d') \<Rightarrow> (mapR (\<lambda>_. g') r, d')) TxOpenMls) (\<lambda>mls_group.
     bindS (liftS (ok_or (TxOpenMls OtherMlsError) (json_read T (custom_configuration p)))) (\<lambda>custom_cfg.
     bindS (getS core_database) (\<lambda>d.
     let configuration = (configuration_for (group_suite T mls_group))\<lparr>custom := custom_cfg\<rparr>;
         restore_policy = (if mls_group_exists (pending_id p) d then ClearOnly else DecryptAndClear)
     in bindS (persist_conversation_from_mls_group T mls_group configuration) (\<lambda>handle.
        bindS (in_conversation T handle (\<lambda>E. restore_pending_messages E (decrypt_message_inner E 5) restore_policy)) (\<lambda>pending_messages.
        bindS (if pending_messages \<noteq> None
               then bindS tx_database (\<lambda>_. on_core (db_remove_pending_messages (pending_id p))) else okS ()) (\<lambda>_.
        bindS (pending_clear p) (\<lambda>_. okS pending_messages)))))))))"

definition incoming_message_is_own_join_commit ::
  "('g, 'c) tx_env \<Rightarrow> persisted_mls_pending_group \<Rightarrow> bytes \<Rightarrow> ('g, 'c, bool) tx_op" where
  "incoming_message_is_own_join_commit T p msg = bindS tx_crypto_provider (\<lambda>_. bindS tx_database (\<lambda>_.
     bindS (getS core_database) (\<lambda>d.
     bindS (liftS (map_err TxKeystore (mls_pending_groups_load (pending_id p) d))) (\<lambda>found.
     bindS (liftS (ok_or PendingConversationNotFound found)) (\<lambda>(state, _).
     bindS (liftS (ok_or TxDeserialize (group_deser_of T state))) (\<lambda>g.
     bindS (on_mls (\<lambda>d. case merge_pending (lib (base T)) g d of (r, g', d') \<Rightarrow> (mapR (\<lambda>_. g') r, d')) TxOpenMls) (\<lambda>mls_group.
     bindS (liftS (ok_or (TxOpenMls OtherMlsError) (tls_deserialize (base T) msg))) (\<lambda>message_in.
     case message_in of
       PublicMessage m \<Rightarrow>
         (case pub_confirmation_tag m of
            None \<Rightarrow> okS False
          | Some msg_ct \<Rightarrow> bindS (liftS (ok_or (TxOpenMls OtherMlsError) (confirmation_tag (view (lib (base T))) mls_group))) (\<lambda>group_ct.
              okS (msg_ct = group_ct)))
     | _ \<Rightarrow> okS False))))))))"

definition merge_and_restore_messages :: "('g, 'c) tx_env \<Rightarrow> persisted_mls_pending_group \<Rightarrow> ('g, 'c, DecryptedMessage) tx_op" where
  "merge_and_restore_messages T p = bindS (pending_merge T p) (\<lambda>buffered.
     bindS (tx_conversation T (pending_id p)) (\<lambda>handle.
     in_conversation T handle (\<lambda>E. bindS (getS group) (\<lambda>g.
       bindS (liftS (ok_or OwnLeafMissing (own_leaf (lib E) g))) (\<lambda>leaf.
       bindS (liftS (ok_or ExtractingIdentity (extract_identity E leaf))) (\<lambda>idt.
       okS \<lparr>app_msg = None, still_active = is_active (view (lib E)) g, delay = next_delay E g, sender_client_id = None,
            identity = idt, buffered_messages = buffered\<rparr>))))))"

definition try_process_own_join_commit ::
  "('g, 'c) tx_env \<Rightarrow> persisted_mls_pending_group \<Rightarrow> bytes \<Rightarrow> ('g, 'c, DecryptedMessage) tx_op" where
  "try_process_own_join_commit T p msg = bindS (incoming_message_is_own_join_commit T p msg) (\<lambda>own.
     if own then merge_and_restore_messages T p
     else bindS tx_database (\<lambda>_.
       bindS (on_core (db_save (hs (base T)) None (MlsPendingMessage \<lparr>foreign_id = pending_id p, message = msg\<rparr>))) (\<lambda>_.
       errS BufferedForPendingConversation)))"

definition create_external_join_commit ::
  "('g, 'c) tx_env \<Rightarrow> bytes \<Rightarrow> CredentialRef \<Rightarrow> ('g, 'c, CommitBundle \<times> bytes \<times> persisted_mls_pending_group) tx_op" where
  "create_external_join_commit T gi r = bindS tx_crypto_provider (\<lambda>_. bindS tx_database (\<lambda>_.
     bindS (load_credential T r) (\<lambda>c.
     bindS (on_mls (join_external T (signature_key c) gi (as_openmls_default_configuration (configuration_for (info_suite T gi)))
       (to_mls_credential_with_key c)) TxOpenMls) (\<lambda>(g, commit, info).
     bindS (liftS (ok_or TxMissingGroupInfo info)) (\<lambda>info.
     bindS (liftS (map_err TxConversation (try_new_full_plaintext (base T) info))) (\<lambda>bundle_info.
     bindS (liftS (pending_from_mls_group T g)) (\<lambda>p.
     bindS (pending_save T p) (\<lambda>_.
     okS (commit_bundle commit None bundle_info, group_id_of T g, p)))))))))"

definition join_by_external_commit :: "('g, 'c) tx_env \<Rightarrow> bytes \<Rightarrow> CredentialRef \<Rightarrow> ('g, 'c, bytes) tx_op" where
  "join_by_external_commit T gi r = bindS (create_external_join_commit T gi r) (\<lambda>(bundle, i, p).
     bindS (catchS (pending_send_commit T bundle)) (\<lambda>commit_result.
     if commit_result = Inl (TxConversation MessageRejected)
     then bindS (pending_clear p) (\<lambda>_. errS (TxConversation MessageRejected))
     else bindS (liftS commit_result) (\<lambda>_. bindS (pending_merge T p) (\<lambda>_. okS i))))"

end
