(* ===== verification/Transaction_Properties.thy ===== *)
theory Transaction_Properties
  imports Transaction_Context Commit_Properties Credential_Properties
begin

text \<open>
  Transactions as the clients of the library see them: whatever calls a transaction makes, aborting
  it gives the database back as it was and lets the next transaction start; a transaction that
  could not be committed blocks every later one; and the fate of a rejected external join.
\<close>

section \<open>Sequences of calls in a transaction\<close>

datatype tx_call =
    CtxMlsInit client_id
  | CtxSetData bytes
  | CtxGetData
  | CtxExists bytes
  | CtxConversation bytes
  | CtxNewConversation bytes CredentialRef ConversationConfiguration
  | CtxWelcome "mls_welcome option"
  | CtxJoin bytes CredentialRef
  | CtxOwnJoinCommit persisted_mls_pending_group bytes
  | CtxIn nat conversation_call

fun run_tx_call :: "('g, 'c) tx_env \<Rightarrow> tx_call \<Rightarrow> ('g, 'c, unit) tx_op" where
  "run_tx_call T (CtxMlsInit cid) = mls_init T cid"
| "run_tx_call T (CtxSetData b) = set_data T b"
| "run_tx_call T CtxGetData = bindS get_data (\<lambda>_. okS ())"
| "run_tx_call T (CtxExists i) = bindS (conversation_exists T i) (\<lambda>_. okS ())"
| "run_tx_call T (CtxConversation i) = bindS (tx_conversation T i) (\<lambda>_. okS ())"
| "run_tx_call T (CtxNewConversation i r cfg) = new_conversation T i r cfg"
| "run_tx_call T (CtxWelcome w) = bindS (process_welcome_message T w) (\<lambda>_. okS ())"
| "run_tx_call T (CtxJoin gi r) = bindS (join_by_external_commit T gi r) (\<lambda>_. okS ())"
| "run_tx_call T (CtxOwnJoinCommit p msg) = bindS (try_process_own_join_commit T p msg) (\<lambda>_. okS ())"
| "run_tx_call T (CtxIn handle c) = in_conversation T handle (\<lambda>E. run_call E c)"

definition run_tx_calls :: "('g, 'c) tx_env \<Rightarrow> tx_call list \<Rightarrow> ('g, 'c) tx_state \<Rightarrow> ('g, 'c) tx_state" where
  "run_tx_calls T cs s = foldl (\<lambda>s c. snd (run_tx_call T c s)) s cs"

text \<open>Creating and joining groups changes the database only through the OpenMLS key store.\<close>

definition tx_lib_ok :: "('g, 'c) tx_env \<Rightarrow> bool" where
  "tx_lib_ok T \<longleftrightarrow> lib_ok (base T)
     \<and> (\<forall>sk cfg i cr d. uses_key_store (hs (base T)) d (snd (new_with_group_id T sk cfg i cr d)))
     \<and> (\<forall>cfg w d. uses_key_store (hs (base T)) d (snd (new_from_welcome T cfg w d)))
     \<and> (\<forall>sk gi cfg cr d. uses_key_store (hs (base T)) d (snd (join_external T sk gi cfg cr d)))"

lemma tx_lib_okD:
  assumes "tx_lib_ok T"
  shows "uses_key_store (hs (base T)) d (snd (new_with_group_id T sk cfg i cr d))"
    "uses_key_store (hs (base T)) d (snd (new_from_welcome T cfg w d))"
    "uses_key_store (hs (base T)) d (snd (join_external T sk gi cfg cr d))"
  using assms unfolding tx_lib_ok_def by blast+

lemma env_of_sel [simp]:
  "lib (env_of T i) = lib (base T)" "hs (env_of T i) = hs (base T)" "conv_id (env_of T i) = i"
  "tls_deserialize (env_of T i) = tls_deserialize (base T)"
  by (simp_all add: env_of_def)

lemma lib_ok_env_of [simp]: "lib_ok (env_of T i) \<longleftrightarrow> lib_ok (base T)"
  by (simp add: lib_ok_def)

text \<open>The database has the property and the context is valid, or not, as it was.\<close>

abbreviation on_core_db :: "bool \<Rightarrow> (Database \<Rightarrow> bool) \<Rightarrow> ('g, 'c) tx_state \<Rightarrow> bool" where
  "on_core_db v P \<equiv> \<lambda>s. P (core_database s) \<and> inner_valid s = v"

locale transaction_invariant =
  fixes T :: "('g, 'c) tx_env" and P :: "Database \<Rightarrow> bool" and v :: bool
  assumes tx_lib: "P d \<Longrightarrow> tx_lib_ok T"
    and tx_mutation: "P d \<Longrightarrow> mutation_ok m \<Longrightarrow> P (mutate (hs (base T)) m d)"

sublocale transaction_invariant < conv: mutation_invariant "env_of T i" P for i
  by unfold_locales (use tx_lib tx_mutation in \<open>auto simp: tx_lib_ok_def\<close>)

context transaction_invariant
begin

abbreviation safe :: "('g, 'c, 'a) tx_op \<Rightarrow> bool" where
  "safe \<equiv> upholds (on_core_db v P) (\<lambda>_. True)"

lemma safe_bindS: "safe m \<Longrightarrow> (\<And>a. safe (f a)) \<Longrightarrow> safe (bindS m f)"
  by (rule upholds_bindS)

lemma safe_unchanged:
  "(\<And>s. core_database (snd (m s)) = core_database s \<and> inner_valid (snd (m s)) = inner_valid s) \<Longrightarrow> safe m"
  by (rule deliversI) (metis snd_conv)+

lemma safe_basic: "safe (okS a)" "safe (errS e)" "safe (getS g)" "safe (liftS r)"
  by (auto intro!: safe_unchanged simp: op_simps)

lemma safe_on_core:
  "(\<And>d. P d \<Longrightarrow> P (fst (f d))) \<Longrightarrow> safe (on_core f)"
  by (rule deliversI) (auto simp: on_core_def case_prod_beta)

lemma safe_on_mls:
  assumes "\<And>d. tx_lib_ok T \<Longrightarrow> uses_key_store (hs (base T)) d (snd (f d))"
  shows "safe (on_mls f wrap)"
proof -
  have "P (snd (f d))" if "P d" for d
    using conv.key_store_keeps[of _ d "snd (f d)"] assms[OF tx_lib[OF that]] that by simp
  then show ?thesis
    by (intro deliversI) (auto simp: on_mls_def case_prod_beta)
qed

lemma safe_context:
  "safe tx_database" "safe tx_session" "safe tx_crypto_provider" "safe mls_groups" "safe (put_cache c)" "safe (allocate x)"
proof -
  show db: "safe tx_database" "safe (put_cache c)" "safe (allocate x)"
    by (rule safe_unchanged, simp add: tx_database_def put_cache_def allocate_def op_simps)+
  show s: "safe tx_session"
    unfolding tx_session_def by (intro safe_bindS db) (auto intro!: safe_unchanged)
  show "safe tx_crypto_provider" "safe mls_groups"
    unfolding tx_crypto_provider_def mls_groups_def by (intro safe_bindS s safe_basic)+
qed

lemma core_writes:
  "P d \<Longrightarrow> P (fst (db_remove F k d))" "P d \<Longrightarrow> P (fst (db_remove_pending_messages c d))"
  "P d \<Longrightarrow> P (fst (mls_group_persist (hs (base T)) gid b parent d))"
  "P d \<Longrightarrow> P (fst (mls_pending_groups_save (hs (base T)) gid b cfg parent d))"
  "P d \<Longrightarrow> P (fst (mls_pending_groups_delete gid d))"
  "P d \<Longrightarrow> P (fst (db_save (hs (base T)) None (ConsumerData x) d))"
  "P d \<Longrightarrow> P (fst (db_save (hs (base T)) None (MlsPendingMessage m) d))"
  using tx_mutation[of d] conv.removes_keep[of d] conv.group_persist_keeps[of d]
  by (simp_all add: mls_pending_groups_delete_def mls_pending_groups_save_def early_mutations mutation_ok_def
      is_none_or_def Let_def case_prod_beta)

lemma safe_cache_insert: "safe (cache_insert T c)"
  unfolding cache_insert_def by (intro safe_bindS safe_context safe_basic)

lemma safe_get_or_fetch: "safe (get_or_fetch T i)"
proof -
  have "safe (case loaded of None \<Rightarrow> okS None | Some c \<Rightarrow>
      if \<not> is_active (view (lib (base T))) (conv_group c)
      then bindS (on_core (db_remove PersistedMlsGroupT (BytesKey i))) (\<lambda>_. okS None)
      else bindS (cache_insert T c) (\<lambda>handle. okS (Some handle)))" for loaded
    by (auto intro!: safe_bindS safe_on_core core_writes safe_cache_insert safe_basic split: option.splits)
  then show ?thesis
    unfolding get_or_fetch_def
    by (intro safe_bindS safe_context) (auto intro!: safe_bindS safe_context safe_basic split: option.splits prod.splits)
qed

lemma safe_pending: "safe (pending_conversation i)" "safe (pending_conversation_exists i)"
proof -
  show p: "safe (pending_conversation i)"
    unfolding pending_conversation_def by (intro safe_bindS safe_context safe_basic)
  have "safe (catchS (pending_conversation i))"
    by (rule delivers_upholds[OF delivers_catchS[OF p]])
  then show "safe (pending_conversation_exists i)"
    unfolding pending_conversation_exists_def
    by (rule safe_bindS) (auto intro!: safe_basic split: sum.splits tx_error.splits)
qed

lemma safe_lookups:
  "safe (conversation_exists T i)" "safe (tx_conversation T i)" "safe (either_exists T i)" "safe (load_credential T r)"
proof -
  show e: "safe (conversation_exists T i)"
    unfolding conversation_exists_def by (intro safe_bindS safe_context safe_basic)
  show "safe (tx_conversation T i)"
    unfolding tx_conversation_def
    by (intro safe_bindS safe_context safe_get_or_fetch)
      (auto intro!: safe_bindS safe_pending safe_basic split: option.splits)
  show "safe (either_exists T i)"
    unfolding either_exists_def by (intro safe_bindS e) (auto intro: safe_pending safe_basic)
  show "safe (load_credential T r)"
    unfolding load_credential_def by (intro safe_bindS safe_basic)
qed

lemma safe_persist: "safe (persist_conversation_from_mls_group T g cfg)"
  unfolding persist_conversation_from_mls_group_def
  by (intro safe_bindS safe_context safe_basic safe_on_core core_writes safe_cache_insert)

lemma safe_creation:
  "safe (new_conversation T i r cfg)" "safe (process_welcome_message T w)"
proof -
  have new: "safe (on_mls (new_with_group_id T sk mcfg i cr) TxOpenMls)" for sk mcfg cr
    by (rule safe_on_mls) (rule tx_lib_okD)
  show "safe (new_conversation T i r cfg)"
    unfolding new_conversation_def
    by (intro safe_bindS safe_context safe_lookups)
      (auto intro!: safe_bindS safe_lookups new safe_persist safe_basic)
  have wel: "safe (on_mls (new_from_welcome T mcfg w) welcome_failure)" for mcfg w
    by (rule safe_on_mls) (rule tx_lib_okD)
  have "safe (persist_conversation_from_welcome_message T w cfg)" for w cfg
    unfolding persist_conversation_from_welcome_message_def
    by (intro safe_bindS safe_context wel safe_lookups) (auto intro!: safe_persist safe_basic)
  moreover have "safe (\<lambda>s. (if h < length (heap s) then Inr (conv_ident (heap s ! h)) else Inl (TxPanic msg), s))" for h msg
    by (rule safe_unchanged) simp
  ultimately show "safe (process_welcome_message T w)"
    unfolding process_welcome_message_def
    by (auto intro!: safe_basic split: option.splits intro: safe_bindS)
qed

lemma safe_in_conversation:
  assumes "\<And>i. upholds (on_db P) (\<lambda>_. True) (m (env_of T i))"
  shows "safe (in_conversation T handle m)"
proof (rule deliversI)
  have keep: "P (database cs)" if "P (core_database s)" "m (env_of T i) (conv_state_of c s) = (r, cs)" for i c s r cs
    using delivers_state[OF assms _ that(2)] that(1) by (simp add: conv_state_of_def)
  fix s :: "('g, 'c) tx_state" and e s'
  assume "P (core_database s) \<and> inner_valid s = v"
  then show "in_conversation T handle m s = (Inl e, s') \<Longrightarrow> (P (core_database s') \<and> inner_valid s' = v) \<and> True"
    and "in_conversation T handle m s = (Inr a, s') \<Longrightarrow> (P (core_database s') \<and> inner_valid s' = v) \<and> True" for a
    using keep by (auto simp: in_conversation_def Let_def write_back_def split: prod.splits if_splits)
qed

lemma safe_merge_temporary:
  "safe (on_mls (\<lambda>d. case merge_pending (lib (base T)) g d of (r, g', d') \<Rightarrow> (mapR (\<lambda>_. g') r, d')) TxOpenMls)"
proof (rule safe_on_mls)
  fix d
  assume "tx_lib_ok T"
  then have "mls_op_ok (hs (base T)) (merge_pending (lib (base T)))"
    by (simp add: tx_lib_ok_def lib_ok_def)
  then show "uses_key_store (hs (base T)) d
      (snd (case merge_pending (lib (base T)) g d of (r, g', d') \<Rightarrow> (mapR (\<lambda>_. g') r, d')))"
    by (auto dest: mls_op_okD split: prod.splits)
qed

lemma safe_pending_group:
  "safe (pending_save T p)" "safe (pending_clear p)" "safe (pending_send_commit T b)"
  unfolding pending_save_def pending_clear_def pending_send_commit_def
  by (intro safe_bindS safe_context safe_on_core core_writes safe_unchanged; simp)+

lemma safe_pending_merge: "safe (pending_merge T p)"
proof -
  have restore: "safe (in_conversation T handle (\<lambda>E. restore_pending_messages E (decrypt_message_inner E 5) policy))" for handle policy
    by (intro safe_in_conversation conv.restore_pending_upholds conv.inner_upholds) simp_all
  show ?thesis
    unfolding pending_merge_def Let_def
    by (intro safe_bindS safe_context safe_basic safe_merge_temporary safe_persist restore)
      (auto intro!: safe_bindS safe_context safe_on_core core_writes safe_pending_group safe_basic)
qed

lemma safe_join: "safe (join_by_external_commit T gi r)"
proof -
  have join: "safe (on_mls (join_external T sk gi mcfg cr) TxOpenMls)" for sk mcfg cr
    by (rule safe_on_mls) (rule tx_lib_okD)
  have "safe (create_external_join_commit T gi r)"
    unfolding create_external_join_commit_def
    by (intro safe_bindS safe_context safe_lookups join)
      (auto intro!: safe_bindS safe_pending_group safe_basic)
  moreover have "safe (catchS (pending_send_commit T b))" for b
    by (rule delivers_upholds[OF delivers_catchS[OF safe_pending_group(3)]])
  ultimately show ?thesis
    unfolding join_by_external_commit_def
    by (auto intro!: safe_bindS safe_pending_group safe_pending_merge safe_basic)
qed

lemma safe_own_join: "safe (try_process_own_join_commit T p msg)"
proof -
  have own: "safe (incoming_message_is_own_join_commit T p msg)"
    unfolding incoming_message_is_own_join_commit_def
    by (auto intro!: safe_bindS safe_context safe_basic safe_merge_temporary split: mls_message.splits option.splits)
  have "upholds (on_db P) (\<lambda>_. True) (bindS (getS group) (\<lambda>g.
       bindS (liftS (ok_or OwnLeafMissing (own_leaf (lib E) g))) (\<lambda>leaf.
       bindS (liftS (ok_or ExtractingIdentity (extract_identity E leaf))) (\<lambda>idt. okS (x g idt)))))" for E :: "'g conv_env" and x :: "'g \<Rightarrow> bytes \<Rightarrow> DecryptedMessage"
    by (auto intro!: deliversI simp: bindS_Inl bindS_Inr op_simps)
  then have "safe (merge_and_restore_messages T p)"
    unfolding merge_and_restore_messages_def
    by (intro safe_bindS safe_pending_merge safe_lookups safe_in_conversation)
  then show ?thesis
    unfolding try_process_own_join_commit_def
    by (intro safe_bindS own) (auto intro!: safe_bindS safe_context safe_on_core core_writes safe_basic)
qed

lemma safe_data: "safe (mls_init T cid)" "safe (set_data T b)" "safe get_data"
proof -
  have "safe (set_mls_session x)" for x
    unfolding set_mls_session_def by (intro safe_bindS safe_context safe_unchanged) (simp add: op_simps)
  then show "safe (mls_init T cid)"
    unfolding mls_init_def by (intro safe_bindS safe_context)
  show "safe (set_data T b)" "safe get_data"
    unfolding set_data_def get_data_def
    by (intro safe_bindS safe_context safe_on_core core_writes safe_basic safe_unchanged; simp)+
qed

lemma run_tx_call_safe: "safe (run_tx_call T c)"
proof (cases c)
  case (CtxIn handle call)
  then show ?thesis
    by (auto intro: safe_in_conversation conv.run_call_upholds)
qed (auto intro!: safe_bindS safe_basic safe_data safe_lookups safe_creation safe_join safe_own_join)

lemma run_tx_calls_keep: "on_core_db v P s \<Longrightarrow> on_core_db v P (run_tx_calls T cs s)"
  unfolding run_tx_calls_def
proof (induction cs arbitrary: s)
  case (Cons c cs)
  have "on_core_db v P (snd (run_tx_call T c s))"
    by (rule delivers_state[OF run_tx_call_safe Cons.prems prod.collapse[symmetric]])
  from Cons.IH[OF this] show ?case by simp
qed simp

end

section \<open>Abort, finish and the next transaction\<close>

text \<open>The database differs from \<open>d0\<close> only inside its open transaction.\<close>

definition open_over :: "('g, 'c) tx_env \<Rightarrow> Database \<Rightarrow> Database \<Rightarrow> bool" where
  "open_over T d0 d \<longleftrightarrow> tx_lib_ok T \<and> db_reachable (hs (base T)) d \<and> conn d = conn d0 \<and> permits d = permits d0 \<and> transaction d \<noteq> None"

interpretation opened: transaction_invariant T "open_over T d0" v for T :: "('g, 'c) tx_env" and d0 v
proof unfold_locales
  fix d m
  assume "open_over T d0 d" "mutation_ok m"
  then show "open_over T d0 (mutate (hs (base T)) m d)"
    using mutate_keeps[of d "hs (base T)" m] by (auto simp: open_over_def intro: db_reachable.stepped db_step.mutate_tx)
qed (simp add: open_over_def)

lemma tx_new_opens:
  assumes "tx_lib_ok T" "db_reachable (hs (base T)) (core_database s)" "tx_new s = Some s1"
  shows "on_core_db True (open_over T (core_database s1)) s1"
    and "core_database s1 = (core_database s)\<lparr>permits := 0, transaction := Some new_tx\<rparr>"
    and "permits (core_database s) = 1" "transaction (core_database s) = None"
proof -
  obtain d r where d: "new_transaction (core_database s) = Some (d, r)" "core_database s1 = d" "inner_valid s1"
    using assms(3) by (auto simp: tx_new_def)
  show p: "permits (core_database s) = 1" "transaction (core_database s) = None"
    using d(1) reachable_inv[OF assms(2)] by (auto simp: new_transaction_def db_inv_def split: if_splits option.splits)
  then show e: "core_database s1 = (core_database s)\<lparr>permits := 0, transaction := Some new_tx\<rparr>"
    using d by (simp add: new_transaction_def)
  have "transaction d = Some new_tx"
    using d(1) by (auto simp: new_transaction_def split: if_splits)
  then show "on_core_db True (open_over T (core_database s1)) s1"
    using assms(1) d(2,3) db_reachable.stepped[OF assms(2) db_step.begin_tx[OF d(1)]] by (simp add: open_over_def)
qed

text \<open>Clearing the cache forgets every entry.\<close>

definition lru_clears :: "('g, 'c) tx_env \<Rightarrow> bool" where
  "lru_clears T \<longleftrightarrow> (\<forall>c i. lru_peek (lru T) i (lru_clear (lru T) c) = None)"

text \<open>
  C2: A transaction can always be given up: after any sequence of calls, each of which may have failed
  anywhere, aborting succeeds, the database is exactly what it was before the transaction, no
  conversation stays cached, and the next transaction can start.
\<close>

theorem abort_restores:
  assumes "tx_lib_ok T" "lru_clears T" "db_reachable (hs (base T)) (core_database s)" "tx_new s = Some s1"
  shows "\<exists>s2. abort T (run_tx_calls T cs s1) = (Inr (), s2) \<and> core_database s2 = core_database s \<and> tx_new s2 \<noteq> None
    \<and> (\<forall>x i. mls_session s2 = Some x \<longrightarrow> lru_peek (lru T) i (conversation_cache x) = None)"
proof -
  let ?s = "run_tx_calls T cs s1"
  have "on_core_db True (open_over T (core_database s1)) ?s"
    by (rule opened.run_tx_calls_keep[OF tx_new_opens(1)[OF assms(1,3,4)]])
  then have d: "inner_valid ?s" "transaction (core_database ?s) \<noteq> None" "conn (core_database ?s) = conn (core_database s)"
    "permits (core_database ?s) = 0"
    using tx_new_opens(2)[OF assms(1,3,4)] by (auto simp: open_over_def)
  define s2 where "s2 = snd (abort T ?s)"
  have "core_database s2 = core_database s" "fst (abort T ?s) = Inr ()"
    using d tx_new_opens(3,4)[OF assms(1,3,4)]
    by (auto simp: s2_def abort_def rollback_transaction_def drop_transaction_def intro!: Database.equality)
  moreover have "\<forall>x i. mls_session s2 = Some x \<longrightarrow> lru_peek (lru T) i (conversation_cache x) = None"
    using assms(2) d(1) by (auto simp: s2_def abort_def lru_clears_def split: prod.splits)
  ultimately show ?thesis
    using tx_new_opens(3)[OF assms(1,3,4)]
    by (intro exI[of _ s2]) (simp add: s2_def prod_eq_iff tx_new_def new_transaction_def)
qed

text \<open>
  C33: A commit that fails blocks the library for good: the transaction still holds the only permit,
  but its context is invalid, so it can neither be finished nor aborted, and whatever is called
  afterwards no new transaction ever starts.
\<close>

theorem failed_finish_blocks:
  assumes "tx_lib_ok T" "db_reachable (hs (base T)) (core_database s)" "transaction (core_database s) \<noteq> None"
    and "inner_valid s" "finish T io s = (Inl e, s1)"
  shows "tx_new (run_tx_calls T cs s1) = None
    \<and> finish T io' (run_tx_calls T cs s1) = (Inl TxInvalidTransactionContext, run_tx_calls T cs s1)
    \<and> abort T (run_tx_calls T cs s1) = (Inl TxInvalidTransactionContext, run_tx_calls T cs s1)"
proof -
  have p: "permits (core_database s) = 0"
    using reachable_inv[OF assms(2)] assms(3) by (auto simp: db_inv_def)
  have "core_database s1 = core_database s" "inner_valid s1 = False"
    using assms(3,4,5)
    by (auto simp: finish_def commit_transaction_def Let_def notify_epoch_changed_def split: prod.splits option.splits sum.splits if_splits)
  then have "on_core_db False (open_over T (core_database s)) s1"
    using assms(1,2,3) by (simp add: open_over_def)
  from opened.run_tx_calls_keep[OF this, of cs]
  show ?thesis
    using p by (simp add: open_over_def tx_new_def new_transaction_def finish_def abort_def)
qed

section \<open>Data of the consumer\<close>

lemma fresh_transaction_reads:
  "transaction d = None \<Longrightarrow> db_get E k (d\<lparr>permits := n, transaction := Some new_tx\<rparr>) = db_get E k d"
  by (simp add: db_get_def get_conn_def tx_get_def new_tx_def get_by_entity_id_def find_in_cache_def)

text \<open>
  What \<open>set_data\<close> stored is what \<open>get_data\<close> returns in the same transaction, and once the
  transaction was finished also in the next one.
\<close>

theorem data_survives_finish:
  assumes "sha256_sized (hs (base T))" "permuting (order (base T))"
    and "db_reachable (hs (base T)) (core_database s)" "set_data T b s = (Inr (), s1)"
    and "finish T io s1 = (Inr (), s2)" "tx_new s2 = Some s3"
  shows "get_data s1 = (Inr (Some b), s1) \<and> get_data s3 = (Inr (Some b), s3)"
proof -
  let ?H = "hs (base T)" and ?e = "ConsumerData \<lparr>consumer_content = b\<rparr>"
  obtain d1 where d1: "db_save ?H None ?e (core_database s) = (d1, Inr None)" "s1 = s\<lparr>core_database := d1\<rparr>" and v: "inner_valid s"
    using assms(4) by (auto simp: set_data_def bindS_Inr tx_database_def on_core_def okS_def map_err_def db_save_def tx_save_def Let_def
        split: if_splits prod.splits sum.splits option.splits)
  have inv: "db_inv ?H (core_database s)"
    by (rule reachable_inv[OF assms(3)])
  have r1: "db_get ConsumerDataT unique_key d1 = Inr (Some ?e)"
    using db_get_after_save[OF inv _ d1(1), of ?e ConsumerDataT unique_key]
    by (simp add: mutation_ok_def is_none_or_def ident_def)
  have reach: "db_reachable ?H d1"
    using db_reachable.stepped[OF assms(3) db_step.mutate_tx[of "Save None ?e"]] d1(1)
    by (simp add: mutate_def mutation_ok_def is_none_or_def)
  obtain d2 where c: "commit_transaction ?H (order (base T)) io d1 = (d2, Inr ())" and d2: "core_database s2 = d2"
    using assms(5) v d1(2)
    by (auto simp: finish_def Let_def notify_epoch_changed_def map_err_def split: prod.splits option.splits sum.splits if_splits)
  have r2: "db_get ConsumerDataT unique_key d2 = Inr (Some ?e)"
    using commit_reads[OF assms(1,2) reach c, of ConsumerDataT unique_key] r1
    by (simp add: keyed_def unique_key_def)
  have "transaction d2 = None"
    using c by (auto simp: commit_transaction_def drop_transaction_def split: option.splits sum.splits)
  moreover have "inner_valid s3" "core_database s3 = d2\<lparr>permits := permits d2 - 1, transaction := Some new_tx\<rparr>"
    using assms(6) d2 by (auto simp: tx_new_def new_transaction_def split: if_splits)
  ultimately show ?thesis
    using r1 r2 v d1(2) by (simp add: get_data_def bindS_def tx_database_def fresh_transaction_reads)
qed

section \<open>A rejected external join\<close>

lemma tx_provider_Inr:
  "tx_database s = (Inr u, s') \<longleftrightarrow> inner_valid s \<and> s' = s"
  "tx_crypto_provider s = (Inr u, s') \<longleftrightarrow> inner_valid s \<and> mls_session s \<noteq> None \<and> s' = s"
  by (auto simp: tx_crypto_provider_def tx_session_def tx_database_def bindS_Inr okS_def ok_or_def split: option.splits)

lemma on_mls_Inr:
  "on_mls f wrap s = (Inr a, s') \<longleftrightarrow> (\<exists>d. f (core_database s) = (Inr a, d) \<and> s' = s\<lparr>core_database := d\<rparr>)"
  by (auto simp: on_mls_def map_err_def split: prod.splits sum.splits)

lemma saved_pending:
  assumes "pending_save T p s0 = (Inr (), s1)" "pending_parent_id p = None"
  obtains d where "db_save (hs (base T)) None (PersistedMlsPendingGroup p) (core_database s0) = (d, Inr None)" "s1 = s0\<lparr>core_database := d\<rparr>"
proof -
  let ?save = "db_save (hs (base T)) None (PersistedMlsPendingGroup p) (core_database s0)"
  obtain d g where d: "?save = (d, Inr g)" "s1 = s0\<lparr>core_database := d\<rparr>"
    using assms by (cases p) (auto simp: pending_save_def bindS_Inr tx_provider_Inr on_core_def mls_pending_groups_save_def mapR_def
        map_err_def Let_def split: prod.splits sum.splits)
  then have "transaction (core_database s0) \<noteq> None"
    by (auto elim: db_save_Inr)
  then have "g = None"
    using db_save_total[of "core_database s0" None "PersistedMlsPendingGroup p" None "PersistedMlsPendingGroup p" "hs (base T)"] d(1) by simp
  then show thesis
    using that d by simp
qed

lemma create_join_Inr:
  assumes "tx_lib_ok T" "db_reachable (hs (base T)) (core_database s)" "create_external_join_commit T gi r s = (Inr (b, i, p), s1)"
  shows "\<exists>s0. pending_save T p s0 = (Inr (), s1) \<and> i = pending_id p \<and> pending_parent_id p = None
    \<and> inner_valid s0 \<and> mls_session s0 \<noteq> None \<and> db_reachable (hs (base T)) (core_database s0)"
proof -
  obtain c g info d where v: "inner_valid s" "mls_session s \<noteq> None"
    and j: "join_external T (signature_key c) gi (as_openmls_default_configuration (configuration_for (info_suite T gi)))
      (to_mls_credential_with_key c) (core_database s) = (Inr (g, bundle_commit b, info), d)"
    and p: "pending_from_mls_group T g = Inr p" "i = group_id_of T g" "pending_save T p (s\<lparr>core_database := d\<rparr>) = (Inr (), s1)"
    using assms(3)
    by (auto simp: create_external_join_commit_def load_credential_def bindS_Inr tx_provider_Inr on_mls_Inr getS_def liftS_def okS_def
        commit_bundle_def split: prod.splits)
  have "uses_key_store (hs (base T)) (core_database s) d"
    using tx_lib_okD(3)[OF assms(1), of "core_database s" "signature_key c" gi "as_openmls_default_configuration (configuration_for (info_suite T gi))"
        "to_mls_credential_with_key c"] j by simp
  then have "db_reachable (hs (base T)) d"
    using kept.key_store_keeps[of "base T"] assms(1,2) by (auto simp: database_ok_def tx_lib_ok_def)
  moreover have "i = pending_id p" "pending_parent_id p = None"
    using p(1,2) by (auto simp: pending_from_mls_group_def bindE_def split: sum.splits)
  ultimately show ?thesis
    using v p(3) by (intro exI[of _ "s\<lparr>core_database := d\<rparr>"]) simp
qed

text \<open>
  C34: When the delivery service rejects the commit of an external join, the pending group is not
  cleared: the call fails, but the pending conversation is still there, since the error the code
  looks for never arrives unwrapped.
\<close>

theorem rejected_join_leaves_pending:
  assumes "db_reachable (hs (base T)) (core_database s)" "tx_lib_ok T"
    and "create_external_join_commit T gi r s = (Inr (b, i, p), s1)"
    and "\<not> transport_accepts (base T) (bundles_sent s1) b"
  shows "\<exists>s2. join_by_external_commit T gi r s = (Inl (TxConversation (Recursive MessageRejected)), s2)
    \<and> pending_conversation i s2 = (Inr p, s2)"
proof -
  obtain s0 where s0: "pending_save T p s0 = (Inr (), s1)" "i = pending_id p" "pending_parent_id p = None"
    "inner_valid s0" "mls_session s0 \<noteq> None" "db_reachable (hs (base T)) (core_database s0)"
    using create_join_Inr[OF assms(2,1,3)] by metis
  let ?H = "hs (base T)" and ?e = "PersistedMlsPendingGroup p"
  obtain d where d: "db_save ?H None ?e (core_database s0) = (d, Inr None)" "s1 = s0\<lparr>core_database := d\<rparr>"
    by (rule saved_pending[OF s0(1,3)])
  have get: "db_get PersistedMlsPendingGroupT (BytesKey (pending_id p)) d = Inr (Some ?e)"
    using db_get_after_save[OF reachable_inv[OF s0(6)] _ d(1), of ?e PersistedMlsPendingGroupT "BytesKey (pending_id p)"]
    by (simp add: mutation_ok_def is_none_or_def ident_def)
  define s2 where "s2 = s1\<lparr>bundles_sent := bundles_sent s1 @ [b]\<rparr>"
  have "pending_send_commit T b s1 = (Inl (TxConversation (Recursive MessageRejected)), s2)"
    using assms(4) s0(4,5) d(2)
    by (auto simp: pending_send_commit_def s2_def tx_crypto_provider_def tx_session_def tx_database_def op_simps bindS_def)
  then have "join_by_external_commit T gi r s = (Inl (TxConversation (Recursive MessageRejected)), s2)"
    using assms(3) by (simp add: join_by_external_commit_def bindS_def catchS_def liftS_def)
  moreover have "pending_conversation i s2 = (Inr p, s2)"
    using get s0(2,4) d(2) by (simp add: pending_conversation_def s2_def bindS_def tx_database_def getS_def liftS_def)
  ultimately show ?thesis by blast
qed

section \<open>Examples\<close>

text \<open>An association list has the behaviour of the LRU map below its capacity.\<close>

definition eg_lru :: "(bytes \<times> nat) list lru_map" where
  "eg_lru = \<lparr>lru_new = [], lru_get = (\<lambda>i c. (map_of c i, c)), lru_peek = (\<lambda>i c. map_of c i), lru_insert = AList.update,
     lru_remove = AList.delete, lru_clear = (\<lambda>_. [])\<rparr>"

definition eg_alone :: example_group where
  "eg_alone = \<lparr>eg_epoch = 0, eg_proposals = [], eg_commit = None, eg_dirty = True,
     eg_members = [\<lparr>member_index = 0, member_credential = basic_credential [0]\<rparr>]\<rparr>"

definition eg_tx :: "(example_group, (bytes \<times> nat) list) tx_env" where
  "eg_tx = \<lparr>base = eg_rejecting, group_deser_of = (\<lambda>b. Some (eg_alone\<lparr>eg_epoch := ucast (hd b)\<rparr>)), group_id_of = (\<lambda>_. [7]),
     group_suite = (\<lambda>_. 1), new_with_group_id = (\<lambda>sk cfg i cr d. (Inr eg_alone, d)),
     new_from_welcome = (\<lambda>cfg w d. (Inl NoMatchingKeyPackage, d)),
     join_external = (\<lambda>sk gi cfg cr d. (Inr (eg_alone\<lparr>eg_commit := Some (eg_staged [] eg_alone)\<rparr>, [3, 0], Some [9]), d)),
     info_suite = (\<lambda>_. 1), json_write = (\<lambda>_. Some [1]), json_read = (\<lambda>_. Some default_custom), lru = eg_lru\<rparr>"

definition eg_closed :: "(example_group, (bytes \<times> nat) list) tx_state" where
  "eg_closed = \<lparr>core_database = db_open empty_db, inner_valid = False, pending_epoch_changes = [], heap = [],
     mls_session = Some (session_new eg_tx [0]), bundles_sent = [], secrets_used = 0, history_notified = [], epochs_notified = []\<rparr>"

definition eg_open :: "(example_group, (bytes \<times> nat) list) tx_state" where
  "eg_open = eg_closed\<lparr>core_database := database eg_member, inner_valid := True\<rparr>"

definition eg_own_ref :: CredentialRef where
  "eg_own_ref = \<lparr>ref_client_id = [0], ref_public_key_hash = hash_from example_hashes [0], ref_type = Basic, ref_cipher_suite = 1,
     ref_earliest_validity = 1000\<rparr>"

lemma eg_tx_ok: "tx_lib_ok eg_tx" "lru_clears eg_tx" "hs (base eg_tx) = example_hashes" "order (base eg_tx) = example_order"
  using eg_lib_ok
  by (simp_all add: tx_lib_ok_def lru_clears_def eg_tx_def eg_lru_def eg_rejecting_def lib_ok_def uses_key_store.unused)

lemma eg_closed_reachable: "db_reachable (hs (base eg_tx)) (core_database eg_closed)"
  by (simp add: eg_tx_ok eg_closed_def db_reachable.opened db_ok_empty)

theorem abort_restores_witness:
  "\<exists>s2. abort eg_tx (run_tx_calls eg_tx [CtxSetData [5], CtxNewConversation [7] eg_own_ref (configuration_for 1)] (the (tx_new eg_closed))) = (Inr (), s2)
    \<and> core_database s2 = db_open empty_db"
proof -
  have "tx_new eg_closed = Some (the (tx_new eg_closed))"
    by (simp add: tx_new_def eg_closed_def new_transaction_def db_open_def ALLOWED_CONCURRENT_TRANSACTIONS_COUNT_def)
  from abort_restores[OF eg_tx_ok(1,2) eg_closed_reachable this] show ?thesis
    by (fastforce simp: eg_closed_def)
qed

lemma eg_open_reachable: "db_reachable (hs (base eg_tx)) (core_database eg_open)"
  using eg_member_reachable by (simp add: eg_tx_ok eg_open_def)

theorem failed_finish_blocks_witness:
  "tx_new (run_tx_calls eg_tx [CtxSetData [5]] (snd (finish eg_tx (\<lambda>_. Some (EngineFailure 0)) eg_open))) = None"
proof -
  have f: "\<not> is_ok (fst (finish eg_tx (\<lambda>_. Some (EngineFailure 0)) eg_open))" "inner_valid eg_open"
    "\<not> Option.is_none (transaction (core_database eg_open))"
    by code_simp+
  then obtain e s1 where "finish eg_tx (\<lambda>_. Some (EngineFailure 0)) eg_open = (Inl e, s1)"
    by (cases "finish eg_tx (\<lambda>_. Some (EngineFailure 0)) eg_open") (auto simp: is_ok_def split: sum.splits)
  then show ?thesis
    using failed_finish_blocks[OF eg_tx_ok(1) eg_open_reachable _ f(2), of "\<lambda>_. Some (EngineFailure 0)" e s1] f(3)
    by (simp add: Option.is_none_def)
qed

theorem data_survives_finish_witness:
  "\<exists>s3. tx_new (snd (finish eg_tx (\<lambda>_. None) (snd (set_data eg_tx [5] eg_open)))) = Some s3
    \<and> get_data s3 = (Inr (Some [5]), s3)"
proof -
  define s1 where "s1 = snd (set_data eg_tx [5] eg_open)"
  define s2 where "s2 = snd (finish eg_tx (\<lambda>_. None) s1)"
  have r: "fst (set_data eg_tx [5] eg_open) = Inr ()" "fst (finish eg_tx (\<lambda>_. None) s1) = Inr ()" "\<not> Option.is_none (tx_new s2)"
    unfolding s2_def s1_def by code_simp+
  then obtain s3 where "tx_new s2 = Some s3"
    by (auto simp: Option.is_none_def)
  moreover have "set_data eg_tx [5] eg_open = (Inr (), s1)" "finish eg_tx (\<lambda>_. None) s1 = (Inr (), s2)"
    using r unfolding s1_def s2_def by (simp_all only: prod_eq_iff fst_conv snd_conv)
  ultimately show ?thesis
    using data_survives_finish[of eg_tx eg_open "[5]" s1 "\<lambda>_. None" s2 s3] eg_open_reachable
    unfolding s1_def[symmetric] s2_def[symmetric] by (simp add: eg_tx_ok)
qed

theorem rejected_join_leaves_pending_witness:
  "\<exists>p s2. join_by_external_commit eg_tx [1] eg_own_ref eg_open = (Inl (TxConversation (Recursive MessageRejected)), s2)
    \<and> pending_conversation [7] s2 = (Inr p, s2)"
proof -
  let ?c = "create_external_join_commit eg_tx [1] eg_own_ref eg_open"
  have "(case fst ?c of Inl _ \<Rightarrow> False | Inr (b, i, p) \<Rightarrow> i = [7])"
    by code_simp
  then obtain b p s1 where "?c = (Inr (b, [7], p), s1)"
    by (cases ?c) (auto split: sum.splits)
  from rejected_join_leaves_pending[OF eg_open_reachable eg_tx_ok(1) this] show ?thesis
    by (auto simp: eg_tx_def eg_rejecting_def)
qed

end
