(* ===== verification/Acme.thy ===== *)
theory Acme
  imports Client_Id State_Result
begin

text \<open>
  The ACME messages (\<open>e2e-identity/src/acme\<close>): building the signed requests and parsing and
  verifying the responses of RFC 8555.  The derived JSON codecs, the \<open>url\<close> crate, base64,
  JWT signing and DER encoding are parameters.  A URL is its serialisation, a time the nanoseconds
  since the epoch.  Quotation marks are left out of the texts of errors.
\<close>

type_synonym url = bytes
type_synonym Pem = bytes

datatype JwsAlgorithm = P256 | P384 | P521 | Ed25519

section \<open>Errors\<close>

datatype AcmeAccountError = AccountInvalid | AccountRevoked | AccountDeactivated

datatype AcmeOrderError = OrderInvalid | OrderNotYetValid | OrderExpired | WrongIdentifiers

datatype AcmeAuthzError = AuthzExpired | AuthzInvalid | AuthzRevoked | AuthzDeactivated
  | InvalidBase64Token | InvalidTokenEntropy | InvalidChallengeType

datatype AcmeChallError = ChallInvalid | ChallProcessing

datatype acme_error =
    AcmeJsonError
  | AcmeJwtError
  | AcmeDerError
  | AcmePemError
  | AcmeRawJwtError
  | AcmeSignatureError
  | AcmeImplementationError
  | ClientImplementationError string
  | SmallstepImplementationError string
  | AccountError AcmeAccountError
  | OrderError AcmeOrderError
  | AuthzError AcmeAuthzError
  | ChallengeError AcmeChallError
  | FinalizeError AcmeOrderError
  | AcmeUtf8
  | AcmePanicked string

type_synonym 'a acme_result = "acme_error + 'a"

section \<open>Messages\<close>

record AcmeDirectory =
  new_nonce :: url
  new_account :: url
  new_order :: url
  revoke_cert :: url

datatype AcmeAccountStatus = AccountStatusValid | AccountStatusDeactivated | AccountStatusRevoked

record AcmeAccount =
  account_status :: AcmeAccountStatus
  orders :: "url option"

datatype AcmeIdentifier = WireappUser bytes | WireappDevice bytes

record WireIdentifier =
  wire_client_id :: "bytes option"
  wire_handle :: bytes
  wire_display_name :: bytes
  wire_domain :: bytes

record CanonicalIdentifier =
  canonical_client_id :: bytes
  canonical_handle :: bytes
  canonical_display_name :: bytes
  canonical_domain :: bytes

datatype AcmeOrderStatus = OrderPending | OrderReady | OrderProcessing | OrderValid | OrderStatusInvalid

record AcmeOrder =
  order_status :: AcmeOrderStatus
  order_finalize :: url
  order_identifiers :: "AcmeIdentifier \<times> AcmeIdentifier"
  authorizations :: "url \<times> url"
  order_expires :: "int option"
  order_not_before :: "int option"
  order_not_after :: "int option"

datatype AcmeChallengeStatus = ChallengePending | ChallengeProcessing | ChallengeValid | ChallengeInvalid

datatype AcmeChallengeType = Http01 | Dns01 | TlsAlpn01 | WireDpop01 | WireOidc01

record AcmeChallenge =
  chall_typ :: AcmeChallengeType
  chall_url :: url
  chall_status :: "AcmeChallengeStatus option"
  chall_token :: bytes
  chall_target :: url

datatype AuthzStatus = AuthzStatusPending | AuthzStatusInvalid | AuthzStatusValid | AuthzStatusRevoked
  | AuthzStatusDeactivated | AuthzStatusExpired

record AcmeAuthz =
  authz_status :: AuthzStatus
  authz_expires :: "int option"
  challenges :: AcmeChallenge
  authz_identifier :: AcmeIdentifier

record AcmeFinalize =
  finalize_certificate :: url
  finalize_order :: AcmeOrder

record AcmeAccountRequest =
  terms_of_service_agreed :: "bool option"
  contact :: "bytes list"
  only_return_existing :: "bool option"

record AcmeOrderRequest =
  request_identifiers :: "AcmeIdentifier list"
  request_not_before :: "int option"
  request_not_after :: "int option"

datatype acme_payload =
    AccountPayload AcmeAccountRequest
  | OrderPayload AcmeOrderRequest
  | AccessTokenPayload bytes
  | IdTokenPayload bytes
  | FinalizePayload bytes

record JWTHeader =
  header_algorithm :: JwsAlgorithm
  header_nonce :: bytes
  header_url :: url
  header_key_id :: "url option"

record AcmeJws =
  protected :: bytes
  jws_payload :: bytes
  jws_signature :: bytes

text \<open>A certificate request before encoding; \<open>attributes\<close> are the encoded subject alternative names.\<close>

record CertReqInfo =
  csr_subject_names :: "(string \<times> bytes) list list"
  csr_public_key_alg :: "string \<times> string option"
  csr_public_key :: bytes
  csr_extension_req :: bytes

record JwtClientId =
  jwt_user_id :: u128
  jwt_device_id :: u64
  jwt_domain :: bytes

record 'json acme_lib =
  directory_from_json :: "'json \<Rightarrow> AcmeDirectory option"
  account_from_json :: "'json \<Rightarrow> AcmeAccount option"
  order_from_json :: "'json \<Rightarrow> AcmeOrder option"
  authz_from_json :: "'json \<Rightarrow> AcmeAuthz option"
  chall_from_json :: "'json \<Rightarrow> AcmeChallenge option"
  finalize_from_json :: "'json \<Rightarrow> AcmeFinalize option"
  identifier_to_str :: "WireIdentifier \<Rightarrow> bytes option"
  identifier_from_str :: "bytes \<Rightarrow> WireIdentifier option"
  last_segment :: "url \<Rightarrow> bytes option"
  pop_segment :: "url \<Rightarrow> url option"
  base64url_decode :: "bytes \<Rightarrow> bytes option"
  base64url_encode :: "bytes \<Rightarrow> bytes"
  generate_jwt :: "JWTHeader \<Rightarrow> acme_payload option \<Rightarrow> Pem \<Rightarrow> bool \<Rightarrow> bytes option"
  client_id_to_uri :: "JwtClientId \<Rightarrow> bytes"
  handle_to_qualified :: "bytes \<Rightarrow> bytes \<Rightarrow> bytes option"
  attribute_value :: "string \<Rightarrow> bytes \<Rightarrow> bytes option"
  ia5_string :: "bytes \<Rightarrow> bytes option"
  san_to_der :: "bytes list \<Rightarrow> bytes option"
  oid_to_der :: "string \<Rightarrow> bytes option"
  public_key_of :: "JwsAlgorithm \<Rightarrow> Pem \<Rightarrow> bytes option"
  csr_info_to_der :: "CertReqInfo \<Rightarrow> bytes option"
  sign_csr :: "JwsAlgorithm \<Rightarrow> Pem \<Rightarrow> bytes \<Rightarrow> acme_error + bytes"
  csr_to_der :: "CertReqInfo \<Rightarrow> string \<Rightarrow> bytes \<Rightarrow> bytes option"
  parse_pems :: "bytes \<Rightarrow> bytes list option"

definition unix_timestamp :: "int \<Rightarrow> int" where
  "unix_timestamp t = t div 1000000000"

section \<open>Signed requests\<close>

definition jws_header :: "JwsAlgorithm \<Rightarrow> bytes \<Rightarrow> url \<Rightarrow> url option \<Rightarrow> JWTHeader" where
  "jws_header alg nonce u kid =
     \<lparr>header_algorithm = alg, header_nonce = nonce, header_url = u, header_key_id = kid\<rparr>"

definition acme_jws_new ::
  "'json acme_lib \<Rightarrow> JwsAlgorithm \<Rightarrow> bytes \<Rightarrow> url \<Rightarrow> url option \<Rightarrow> acme_payload option \<Rightarrow> Pem \<Rightarrow> AcmeJws acme_result" where
  "acme_jws_new A alg nonce u kid payload kp =
     bindE (ok_or AcmeJwtError (generate_jwt A (jws_header alg nonce u kid) payload kp (kid = None))) (\<lambda>jwt.
     bindE (ok_or AcmeImplementationError (split_once (of_char CHR ''.'') jwt)) (\<lambda>(protected_part, rest).
     bindE (ok_or AcmeImplementationError (split_once (of_char CHR ''.'') rest)) (\<lambda>(payload_part, signature_part).
     if of_char CHR ''.'' \<in> set signature_part then Inl AcmeImplementationError
     else Inr \<lparr>protected = protected_part, jws_payload = (if payload = None then [] else payload_part),
       jws_signature = signature_part\<rparr>)))"

section \<open>Directory and account\<close>

definition acme_directory_response :: "'json acme_lib \<Rightarrow> 'json \<Rightarrow> AcmeDirectory acme_result" where
  "acme_directory_response A response =
     ok_or (SmallstepImplementationError ''Invalid directory response'') (directory_from_json A response)"

definition new_account_request ::
  "'json acme_lib \<Rightarrow> AcmeDirectory \<Rightarrow> JwsAlgorithm \<Rightarrow> Pem \<Rightarrow> bytes \<Rightarrow> AcmeJws acme_result" where
  "new_account_request A directory alg kp previous_nonce =
     (let payload = \<lparr>terms_of_service_agreed = Some True, contact = [ascii ''anonymous@anonymous.invalid''],
        only_return_existing = Some False\<rparr>
      in acme_jws_new A alg previous_nonce (new_account directory) None (Some (AccountPayload payload)) kp)"

definition account_verify :: "AcmeAccount \<Rightarrow> unit acme_result" where
  "account_verify account =
     bindE (ok_or (SmallstepImplementationError ''Newly created account should have orders url'') (orders account)) (\<lambda>_.
     case account_status account of
       AccountStatusValid \<Rightarrow> Inr ()
     | AccountStatusDeactivated \<Rightarrow> Inl (AccountError AccountDeactivated)
     | AccountStatusRevoked \<Rightarrow> Inl (AccountError AccountRevoked))"

definition new_account_response :: "'json acme_lib \<Rightarrow> 'json \<Rightarrow> AcmeAccount acme_result" where
  "new_account_response A response =
     bindE (ok_or (SmallstepImplementationError ''Invalid account response'') (account_from_json A response)) (\<lambda>account.
     bindE (account_verify account) (\<lambda>_. Inr account))"

definition acct_url :: "'json acme_lib \<Rightarrow> AcmeAccount \<Rightarrow> url acme_result" where
  "acct_url A account =
     bindE (ok_or (SmallstepImplementationError ''Account should have orders url'') (orders account)) (\<lambda>u.
     if last_segment A u = Some (ascii ''orders'') then ok_or AcmeImplementationError (pop_segment A u)
     else Inl (SmallstepImplementationError ''Invalid orders URL in account''))"

section \<open>Identifiers\<close>

definition try_new_device ::
  "'json acme_lib \<Rightarrow> JwtClientId \<Rightarrow> bytes \<Rightarrow> bytes \<Rightarrow> bytes \<Rightarrow> AcmeIdentifier acme_result" where
  "try_new_device A client_id handle display_name domain =
     mapR WireappDevice (ok_or AcmeJsonError (identifier_to_str A
       \<lparr>wire_client_id = Some (client_id_to_uri A client_id), wire_handle = handle,
        wire_display_name = display_name, wire_domain = domain\<rparr>))"

definition try_new_user :: "'json acme_lib \<Rightarrow> bytes \<Rightarrow> bytes \<Rightarrow> bytes \<Rightarrow> AcmeIdentifier acme_result" where
  "try_new_user A handle display_name domain =
     mapR WireappUser (ok_or AcmeJsonError (identifier_to_str A
       \<lparr>wire_client_id = None, wire_handle = handle, wire_display_name = display_name, wire_domain = domain\<rparr>))"

fun to_wire_identifier :: "'json acme_lib \<Rightarrow> AcmeIdentifier \<Rightarrow> WireIdentifier acme_result" where
  "to_wire_identifier A (WireappDevice i) = ok_or AcmeJsonError (identifier_from_str A i)"
| "to_wire_identifier A (WireappUser i) = ok_or AcmeJsonError (identifier_from_str A i)"

definition canonical_try_from :: "WireIdentifier \<Rightarrow> CanonicalIdentifier acme_result" where
  "canonical_try_from i = bindE (ok_or AcmeImplementationError (wire_client_id i)) (\<lambda>c.
     Inr \<lparr>canonical_client_id = c, canonical_handle = wire_handle i,
       canonical_display_name = wire_display_name i, canonical_domain = wire_domain i\<rparr>)"

section \<open>Orders\<close>

definition MAX_DATE_TIME :: int where
  "MAX_DATE_TIME = 253402300799999999999"

definition new_order_request ::
  "'json acme_lib \<Rightarrow> int \<Rightarrow> bytes \<Rightarrow> JwtClientId \<Rightarrow> bytes \<Rightarrow> int \<Rightarrow> AcmeDirectory \<Rightarrow> AcmeAccount \<Rightarrow> JwsAlgorithm \<Rightarrow> Pem \<Rightarrow> bytes
   \<Rightarrow> AcmeJws acme_result" where
  "new_order_request A now display_name client_id handle expiry directory account alg kp previous_nonce =
     bindE (acct_url A account) (\<lambda>acct.
     let domain = jwt_domain client_id in
     bindE (ok_or AcmeJwtError (handle_to_qualified A handle domain)) (\<lambda>qualified.
     bindE (try_new_device A client_id qualified display_name domain) (\<lambda>device_identifier.
     bindE (try_new_user A qualified display_name domain) (\<lambda>user_identifier.
     if MAX_DATE_TIME < now + expiry then Inl (AcmePanicked ''resulting value is out of range'')
     else acme_jws_new A alg previous_nonce (new_order directory) (Some acct)
       (Some (OrderPayload \<lparr>request_identifiers = [device_identifier, user_identifier],
          request_not_before = Some now, request_not_after = Some (now + expiry)\<rparr>)) kp))))"

definition order_verify :: "'json acme_lib \<Rightarrow> int \<Rightarrow> AcmeOrder \<Rightarrow> unit acme_result" where
  "order_verify A now order =
     bindE (mapE (to_wire_identifier A) (remdups [fst (order_identifiers order), snd (order_identifiers order)])) (\<lambda>ids.
     case ids of
       [a, b] \<Rightarrow>
         if \<not> (wire_handle a = wire_handle b \<and> wire_display_name a = wire_display_name b \<and> wire_domain a = wire_domain b)
         then Inl (OrderError WrongIdentifiers)
         else let t = unix_timestamp now in
           if (case order_expires order of Some e \<Rightarrow> unix_timestamp e < t | None \<Rightarrow> False) then Inl (OrderError OrderExpired)
           else if (case order_not_after order of Some e \<Rightarrow> unix_timestamp e < t | None \<Rightarrow> False) then Inl (OrderError OrderExpired)
           else if (case order_not_before order of Some b \<Rightarrow> t < unix_timestamp b | None \<Rightarrow> False)
           then Inl (OrderError OrderNotYetValid)
           else Inr ()
     | _ \<Rightarrow> Inl (OrderError WrongIdentifiers))"

definition new_order_response :: "'json acme_lib \<Rightarrow> int \<Rightarrow> 'json \<Rightarrow> AcmeOrder acme_result" where
  "new_order_response A now response =
     bindE (ok_or AcmeJsonError (order_from_json A response)) (\<lambda>order.
     case order_status order of
       OrderPending \<Rightarrow> bindE (order_verify A now order) (\<lambda>_. Inr order)
     | OrderStatusInvalid \<Rightarrow> Inl (OrderError OrderInvalid)
     | _ \<Rightarrow> Inl (ClientImplementationError ''an order is not supposed to be processing | valid | ready at this point''))"

definition check_order_request ::
  "'json acme_lib \<Rightarrow> url \<Rightarrow> AcmeAccount \<Rightarrow> JwsAlgorithm \<Rightarrow> Pem \<Rightarrow> bytes \<Rightarrow> AcmeJws acme_result" where
  "check_order_request A order_url account alg kp previous_nonce =
     bindE (acct_url A account) (\<lambda>acct. acme_jws_new A alg previous_nonce order_url (Some acct) None kp)"

definition check_order_response :: "'json acme_lib \<Rightarrow> int \<Rightarrow> 'json \<Rightarrow> AcmeOrder acme_result" where
  "check_order_response A now response =
     bindE (ok_or AcmeJsonError (order_from_json A response)) (\<lambda>order.
     case order_status order of
       OrderReady \<Rightarrow> bindE (order_verify A now order) (\<lambda>_. Inr order)
     | OrderPending \<Rightarrow> Inl (ClientImplementationError ''an order is not supposed to be pending at this point'')
     | OrderProcessing \<Rightarrow> Inl (ClientImplementationError ''an order is not supposed to be processing at this point'')
     | OrderValid \<Rightarrow> Inl (ClientImplementationError ''an order is not supposed to be valid at this point'')
     | OrderStatusInvalid \<Rightarrow> Inl (OrderError OrderInvalid))"

definition try_get_coalesce_identifier :: "'json acme_lib \<Rightarrow> AcmeOrder \<Rightarrow> CanonicalIdentifier acme_result" where
  "try_get_coalesce_identifier A order =
     (case order_identifiers order of (i, j) \<Rightarrow>
        (case List.find (\<lambda>x. case x of WireappDevice _ \<Rightarrow> True | _ \<Rightarrow> False) [i, j] of
           Some x \<Rightarrow> bindE (to_wire_identifier A x) canonical_try_from
         | None \<Rightarrow> Inl (OrderError WrongIdentifiers)))"

section \<open>Authorizations and challenges\<close>

definition new_authz_request ::
  "'json acme_lib \<Rightarrow> url \<Rightarrow> AcmeAccount \<Rightarrow> JwsAlgorithm \<Rightarrow> Pem \<Rightarrow> bytes \<Rightarrow> AcmeJws acme_result" where
  "new_authz_request A u account alg kp previous_nonce =
     bindE (acct_url A account) (\<lambda>acct. acme_jws_new A alg previous_nonce u (Some acct) None kp)"

definition RECOMMENDED_TOKEN_ENTROPY :: nat where
  "RECOMMENDED_TOKEN_ENTROPY = 128 div 8"

fun challenge_fits :: "AcmeIdentifier \<Rightarrow> AcmeChallengeType \<Rightarrow> bool" where
  "challenge_fits (WireappDevice _) typ = (typ = WireDpop01)"
| "challenge_fits (WireappUser _) typ = (typ = WireOidc01)"

definition authz_verify :: "'json acme_lib \<Rightarrow> int \<Rightarrow> AcmeAuthz \<Rightarrow> unit acme_result" where
  "authz_verify A now authz =
     (if challenge_fits (authz_identifier authz) (chall_typ (challenges authz)) then
        if (case authz_expires authz of Some e \<Rightarrow> unix_timestamp e < unix_timestamp now | None \<Rightarrow> False)
        then Inl (AuthzError AuthzExpired)
        else bindE (ok_or (AuthzError InvalidBase64Token) (base64url_decode A (chall_token (challenges authz)))) (\<lambda>token.
          if length token < RECOMMENDED_TOKEN_ENTROPY then Inl (AuthzError InvalidTokenEntropy) else Inr ())
      else Inl (AuthzError InvalidChallengeType))"

definition new_authz_response :: "'json acme_lib \<Rightarrow> int \<Rightarrow> 'json \<Rightarrow> AcmeAuthz acme_result" where
  "new_authz_response A now response =
     bindE (ok_or AcmeJsonError (authz_from_json A response)) (\<lambda>authz.
     bindE (authz_verify A now authz) (\<lambda>_.
     case authz_status authz of
       AuthzStatusPending \<Rightarrow> Inr authz
     | AuthzStatusInvalid \<Rightarrow> Inl (AuthzError AuthzInvalid)
     | AuthzStatusRevoked \<Rightarrow> Inl (AuthzError AuthzRevoked)
     | AuthzStatusDeactivated \<Rightarrow> Inl (AuthzError AuthzDeactivated)
     | AuthzStatusExpired \<Rightarrow> Inl (AuthzError AuthzExpired)
     | AuthzStatusValid \<Rightarrow> Inl (ClientImplementationError ''an authorization is not supposed to be valid at this point'')))"

definition dpop_chall_request ::
  "'json acme_lib \<Rightarrow> bytes \<Rightarrow> AcmeChallenge \<Rightarrow> AcmeAccount \<Rightarrow> JwsAlgorithm \<Rightarrow> Pem \<Rightarrow> bytes \<Rightarrow> AcmeJws acme_result" where
  "dpop_chall_request A access_token dpop_chall account alg kp previous_nonce =
     bindE (acct_url A account) (\<lambda>acct.
     acme_jws_new A alg previous_nonce (chall_url dpop_chall) (Some acct) (Some (AccessTokenPayload access_token)) kp)"

definition oidc_chall_request ::
  "'json acme_lib \<Rightarrow> bytes \<Rightarrow> AcmeChallenge \<Rightarrow> AcmeAccount \<Rightarrow> JwsAlgorithm \<Rightarrow> Pem \<Rightarrow> bytes \<Rightarrow> AcmeJws acme_result" where
  "oidc_chall_request A id_token oidc_chall account alg kp previous_nonce =
     bindE (acct_url A account) (\<lambda>acct.
     acme_jws_new A alg previous_nonce (chall_url oidc_chall) (Some acct) (Some (IdTokenPayload id_token)) kp)"

definition new_chall_response :: "'json acme_lib \<Rightarrow> 'json \<Rightarrow> AcmeChallenge acme_result" where
  "new_chall_response A response =
     bindE (ok_or AcmeJsonError (chall_from_json A response)) (\<lambda>chall.
     case chall_status chall of
       Some ChallengeValid \<Rightarrow> Inr chall
     | Some ChallengeProcessing \<Rightarrow> Inl (ChallengeError ChallProcessing)
     | Some ChallengeInvalid \<Rightarrow> Inl (ChallengeError ChallInvalid)
     | Some ChallengePending \<Rightarrow> Inl (ClientImplementationError ''a challenge is not supposed to be pending at this point'')
     | None \<Rightarrow> Inl (ClientImplementationError ''at this point a challenge is supposed to have a status''))"

section \<open>Finalizing\<close>

fun csr_alg :: "JwsAlgorithm \<Rightarrow> string" where
  "csr_alg Ed25519 = ''ID_ED_25519''"
| "csr_alg P256 = ''ECDSA_WITH_SHA_256''"
| "csr_alg P384 = ''ECDSA_WITH_SHA_384''"
| "csr_alg P521 = ''ECDSA_WITH_SHA_512''"

definition csr_subject :: "'json acme_lib \<Rightarrow> CanonicalIdentifier \<Rightarrow> (string \<times> bytes) list list acme_result" where
  "csr_subject A identifier =
     bindE (ok_or AcmeDerError (attribute_value A ''Utf8String'' (canonical_domain identifier))) (\<lambda>dn_domain.
     bindE (ok_or AcmeDerError (attribute_value A ''Utf8String'' (canonical_display_name identifier))) (\<lambda>dn_display_name.
     Inr [[(''ORGANIZATION_NAME'', dn_domain)], [(''2.16.840.1.113730.3.1.241'', dn_display_name)]]))"

fun spki_alg :: "JwsAlgorithm \<Rightarrow> string \<times> string option" where
  "spki_alg Ed25519 = (''ID_ED_25519'', None)"
| "spki_alg P256 = (''ID_EC_PUBLIC_KEY'', Some ''SECP_256_R_1'')"
| "spki_alg P384 = (''ID_EC_PUBLIC_KEY'', Some ''SECP_384_R_1'')"
| "spki_alg P521 = (''ID_EC_PUBLIC_KEY'', Some ''SECP_521_R_1'')"

definition csr_spki :: "'json acme_lib \<Rightarrow> JwsAlgorithm \<Rightarrow> Pem \<Rightarrow> ((string \<times> string option) \<times> bytes) acme_result" where
  "csr_spki A alg kp = bindE (ok_or AcmeRawJwtError (public_key_of A alg kp)) (\<lambda>pk. Inr (spki_alg alg, pk))"

definition csr_attributes :: "'json acme_lib \<Rightarrow> CanonicalIdentifier \<Rightarrow> bytes acme_result" where
  "csr_attributes A identifier =
     bindE (ok_or AcmeDerError (ia5_string A (canonical_client_id identifier))) (\<lambda>gn1.
     bindE (ok_or AcmeDerError (ia5_string A (canonical_handle identifier))) (\<lambda>gn2.
     bindE (ok_or AcmeDerError (san_to_der A [gn1, gn2])) (\<lambda>san.
     bindE (ok_or AcmeDerError (attribute_value A ''OctetString'' san)) (\<lambda>octets.
     bindE (ok_or AcmeDerError (oid_to_der A ''ID_CE_SUBJECT_ALT_NAME'')) (\<lambda>san_oid.
     bindE (ok_or AcmeDerError (attribute_value A ''Sequence'' (san_oid @ octets))) (\<lambda>inner.
     ok_or AcmeDerError (attribute_value A ''Sequence'' inner)))))))"

definition generate_csr :: "'json acme_lib \<Rightarrow> JwsAlgorithm \<Rightarrow> CanonicalIdentifier \<Rightarrow> Pem \<Rightarrow> bytes acme_result" where
  "generate_csr A alg identifier kp =
     bindE (csr_subject A identifier) (\<lambda>subject.
     bindE (csr_spki A alg kp) (\<lambda>(key_alg, pk).
     bindE (csr_attributes A identifier) (\<lambda>attributes.
     let cert_info = \<lparr>csr_subject_names = subject, csr_public_key_alg = key_alg, csr_public_key = pk,
       csr_extension_req = attributes\<rparr> in
     bindE (ok_or AcmeDerError (csr_info_to_der A cert_info)) (\<lambda>cert_data.
     bindE (sign_csr A alg kp cert_data) (\<lambda>signature.
     bindE (ok_or AcmeDerError (csr_to_der A cert_info (csr_alg alg) signature)) (\<lambda>csr.
     Inr (base64url_encode A csr)))))))"

definition finalize_req ::
  "'json acme_lib \<Rightarrow> int \<Rightarrow> AcmeOrder \<Rightarrow> AcmeAccount \<Rightarrow> JwsAlgorithm \<Rightarrow> Pem \<Rightarrow> Pem \<Rightarrow> bytes \<Rightarrow> AcmeJws acme_result" where
  "finalize_req A now order account alg acme_kp signing_kp previous_nonce =
     bindE (acct_url A account) (\<lambda>acct.
     bindE (order_verify A now order) (\<lambda>_.
     bindE (try_get_coalesce_identifier A order) (\<lambda>identifier.
     bindE (generate_csr A alg identifier signing_kp) (\<lambda>csr.
     acme_jws_new A alg previous_nonce (order_finalize order) (Some acct) (Some (FinalizePayload csr)) acme_kp))))"

definition finalize_response :: "'json acme_lib \<Rightarrow> 'json \<Rightarrow> AcmeFinalize acme_result" where
  "finalize_response A response = ok_or AcmeJsonError (finalize_from_json A response)"

definition finalize_verify :: "'json acme_lib \<Rightarrow> int \<Rightarrow> AcmeFinalize \<Rightarrow> unit acme_result" where
  "finalize_verify A now finalize =
     (case order_status (finalize_order finalize) of
        OrderValid \<Rightarrow> map_err (\<lambda>e. case e of OrderError e' \<Rightarrow> FinalizeError e' | _ \<Rightarrow> e) (order_verify A now (finalize_order finalize))
      | OrderStatusInvalid \<Rightarrow> Inl (FinalizeError OrderInvalid)
      | _ \<Rightarrow> Inl (ClientImplementationError ''finalize is not supposed to be pending | processing | ready at this point''))"

section \<open>Fetching the certificate\<close>

definition certificate_req ::
  "'json acme_lib \<Rightarrow> AcmeFinalize \<Rightarrow> AcmeAccount \<Rightarrow> JwsAlgorithm \<Rightarrow> Pem \<Rightarrow> bytes \<Rightarrow> AcmeJws acme_result" where
  "certificate_req A finalize account alg kp previous_nonce =
     bindE (acct_url A account) (\<lambda>acct.
     acme_jws_new A alg previous_nonce (finalize_certificate finalize) (Some acct) None kp)"

definition certificate_response ::
  "'json acme_lib \<Rightarrow> (bytes \<Rightarrow> 'cert option) \<Rightarrow> int \<Rightarrow> bytes \<Rightarrow> AcmeOrder \<Rightarrow> 'cert list acme_result" where
  "certificate_response A from_der now response order =
     bindE (order_verify A now order) (\<lambda>_.
     bindE (ok_or AcmePemError (parse_pems A response)) (\<lambda>pems.
     if pems = [] then Inl (SmallstepImplementationError ''the ACME server response contains no certificates'')
     else mapE (\<lambda>pem. ok_or AcmeDerError (from_der pem)) pems))"

end
