(* ===== verification/X509_Revocation.thy ===== *)
theory X509_Revocation
  imports Prelude
begin

text \<open>
  Certificate revocation lists and path validation
  (\<open>e2e-identity/src/x509_check\<close>).  The DER codecs of \<open>x509_cert\<close> and the path validation
  of \<open>certval\<close> are parameters.  The locks of the CRL store and of the cache are held for whole
  operations and are left out, with the error for a poisoned one.
\<close>

section \<open>Revocation lists\<close>

datatype oid = ID_CE_ISSUING_DISTRIBUTION_POINT | ID_CE_AUTHORITY_KEY_IDENTIFIER | ID_CE_DELTA_CRL_INDICATOR
  | ID_CE_SUBJECT_KEY_IDENTIFIER | OtherOid string

datatype GeneralName = DirectoryName bytes | UniformResourceIdentifier bytes | OtherName

datatype DistributionPointName = FullName "GeneralName list" | NameRelativeToCRLIssuer bytes

record IssuingDistributionPoint =
  idp_distribution_point :: "DistributionPointName option"
  indirect_crl :: bool
  only_some_reasons :: "bytes option"
  only_contains_user_certs :: bool
  only_contains_ca_certs :: bool
  only_contains_attribute_certs :: bool

record CertificateList =
  crl_issuer :: bytes
  crl_this_update :: u64
  crl_next_update :: "u64 option"
  crl_extensions :: "(oid \<times> bytes) list option"
  crl_signature_algorithm :: bytes
  crl_revoked :: bytes
  crl_signature :: bytes

datatype certval_error = Unrecognized | CrlIncompatible | Asn1Error | NotFoundError | PathValidation status_code | OtherCertval
and status_code = Valid | InvalidNotAfterDate | CertificateRevoked | CertificateRevokedEndEntity
  | CertificateRevokedIntermediateCa | NoPathsFound | SignatureVerificationFailure
  | RevocationStatusNotDetermined | RevocationStatusNotAvailable | OtherStatus

datatype x509_error =
    DerError
  | CannotDetermineCurrentTime
  | CertValError certval_error
  | CannotDetermineVerificationStatus
  | MissingSki
  | X509ImplementationError

record x509_codecs =
  idp_from_der :: "bytes \<Rightarrow> IssuingDistributionPoint option"
  akid_from_der :: "bytes \<Rightarrow> bytes option option"
  dp_to_der :: "DistributionPointName \<Rightarrow> bytes option"
  name_to_der :: "bytes \<Rightarrow> bytes option"
  name_to_string :: "bytes \<Rightarrow> bytes"
  alg_to_der :: "bytes \<Rightarrow> bytes option"
  exts_to_der :: "(oid \<times> bytes) list \<Rightarrow> bytes option"
  crl_to_der :: "CertificateList \<Rightarrow> bytes option"
  crl_from_der :: "bytes \<Rightarrow> CertificateList option"
  tbs_field_from_der :: "bytes \<Rightarrow> bytes option"
  buffer_to_hex :: "bytes \<Rightarrow> bytes"

definition extract_expiration_from_crl :: "CertificateList \<Rightarrow> u64 option" where
  "extract_expiration_from_crl crl = crl_next_update crl"

definition check_crl_valid_at_toi :: "u64 \<Rightarrow> CertificateList \<Rightarrow> bool" where
  "check_crl_valid_at_toi toi crl =
     (if toi = 0 then False
      else if crl_this_update crl > toi then False
      else case crl_next_update crl of Some nu \<Rightarrow> \<not> nu < toi | None \<Rightarrow> True)"

fun first_dp :: "x509_codecs \<Rightarrow> (oid \<times> bytes) list \<Rightarrow> bytes option" where
  "first_dp X [] = None"
| "first_dp X ((i, value) # exts) =
     (case (if i = ID_CE_ISSUING_DISTRIBUTION_POINT
            then Option.bind (Option.bind (idp_from_der X value) idp_distribution_point) (dp_to_der X) else None) of
        Some enc_dp \<Rightarrow> Some enc_dp
      | None \<Rightarrow> first_dp X exts)"

definition get_dp_from_crl :: "x509_codecs \<Rightarrow> CertificateList \<Rightarrow> bytes option" where
  "get_dp_from_crl X crl = (case crl_extensions crl of None \<Rightarrow> None | Some exts \<Rightarrow> first_dp X exts)"

section \<open>What a list covers\<close>

datatype CrlQuestions = EeOnly | CaOnly | AaOnly | Delta | Partitioned | Indirect | SomeReasons

datatype CrlScope = ScopeComplete | ScopeDp | ScopeDelta | ScopeDeltaDp

datatype CrlCoverage = CoverageAll | CoverageEeOnly | CoverageCaOnly

datatype CrlAuthority = AuthorityDirect | AuthorityIndirect

datatype CrlReasons = AllReasons | ReasonsSome

record CrlType =
  crl_scope :: CrlScope
  crl_coverage :: CrlCoverage
  crl_authority :: CrlAuthority
  crl_reasons :: CrlReasons

record CrlInfo =
  type_info :: CrlType
  this_update :: u64
  next_update :: "u64 option"
  issuer_name :: bytes
  issuer_name_blob :: bytes
  sig_alg_blob :: bytes
  exts_blob :: "bytes option"
  idp_name :: "bytes option"
  idp_blob :: "bytes option"
  skid :: "bytes option"

text \<open>The local variables of the loop over the extensions.\<close>

record crl_scan =
  scan_idp_blob :: "bytes option"
  scan_idp_name :: "bytes option"
  scan_skid :: "bytes option"
  scan_questionnaire :: "CrlQuestions list"

fun first_name :: "x509_codecs \<Rightarrow> GeneralName list \<Rightarrow> bytes option" where
  "first_name X [] = None"
| "first_name X (DirectoryName dn # gns) = Some (name_to_string X dn)"
| "first_name X (UniformResourceIdentifier uri # gns) = Some uri"
| "first_name X (OtherName # gns) = first_name X gns"

definition scan_dp_name :: "x509_codecs \<Rightarrow> DistributionPointName option \<Rightarrow> bytes option \<Rightarrow> x509_error + bytes option" where
  "scan_dp_name X dp known = (case dp of
       Some (FullName gns) \<Rightarrow>
         (let name = (case first_name X gns of Some n \<Rightarrow> Some n | None \<Rightarrow> known)
          in if name = None then Inl (CertValError Unrecognized) else Inr name)
     | Some (NameRelativeToCRLIssuer _) \<Rightarrow> Inl (CertValError Unrecognized)
     | None \<Rightarrow> Inr known)"

definition idp_questions :: "IssuingDistributionPoint \<Rightarrow> CrlQuestions list" where
  "idp_questions idp =
     (if idp_distribution_point idp \<noteq> None then [Partitioned] else []) @ (if indirect_crl idp then [Indirect] else [])
     @ (if only_some_reasons idp \<noteq> None then [SomeReasons] else []) @ (if only_contains_user_certs idp then [EeOnly] else [])
     @ (if only_contains_ca_certs idp then [CaOnly] else []) @ (if only_contains_attribute_certs idp then [AaOnly] else [])"

definition scan_extension :: "x509_codecs \<Rightarrow> (oid \<times> bytes) \<Rightarrow> crl_scan \<Rightarrow> x509_error + crl_scan" where
  "scan_extension X ext s = (case ext of (i, value) \<Rightarrow> (case i of
       ID_CE_ISSUING_DISTRIBUTION_POINT \<Rightarrow>
         bindE (ok_or (CertValError Asn1Error) (idp_from_der X value)) (\<lambda>idp.
         bindE (scan_dp_name X (idp_distribution_point idp) (scan_idp_name s)) (\<lambda>name.
         Inr (s\<lparr>scan_idp_blob := Some value, scan_idp_name := name,
                scan_questionnaire := scan_questionnaire s @ idp_questions idp\<rparr>)))
     | ID_CE_AUTHORITY_KEY_IDENTIFIER \<Rightarrow>
         (case akid_from_der X value of
            Some (Some kid) \<Rightarrow> Inr (s\<lparr>scan_skid := Some kid\<rparr>)
          | _ \<Rightarrow> Inr s)
     | ID_CE_DELTA_CRL_INDICATOR \<Rightarrow> Inr (s\<lparr>scan_questionnaire := scan_questionnaire s @ [Delta]\<rparr>)
     | OtherOid _ \<Rightarrow> Inr s))"

definition crl_type_of :: "CrlQuestions list \<Rightarrow> CrlType" where
  "crl_type_of q = \<lparr>
     crl_scope = (if Partitioned \<in> set q then (if Delta \<in> set q then ScopeDeltaDp else ScopeDp)
       else if Delta \<in> set q then ScopeDelta else ScopeComplete),
     crl_coverage = (if EeOnly \<in> set q then CoverageEeOnly else if CaOnly \<in> set q then CoverageCaOnly else CoverageAll),
     crl_authority = (if Indirect \<in> set q then AuthorityIndirect else AuthorityDirect),
     crl_reasons = (if SomeReasons \<in> set q then ReasonsSome else AllReasons)\<rparr>"

definition crl_info_try_from :: "x509_codecs \<Rightarrow> CertificateList \<Rightarrow> x509_error + CrlInfo" where
  "crl_info_try_from X crl =
     bindE (ok_or (CertValError Unrecognized) (name_to_der X (crl_issuer crl))) (\<lambda>name_blob.
     bindE (ok_or (CertValError Unrecognized) (alg_to_der X (crl_signature_algorithm crl))) (\<lambda>alg_blob.
     bindE (case crl_extensions crl of None \<Rightarrow> Inr None
            | Some exts \<Rightarrow> mapR Some (ok_or (CertValError Unrecognized) (exts_to_der X exts))) (\<lambda>exts_blob.
     bindE (foldE (scan_extension X) (case crl_extensions crl of None \<Rightarrow> [] | Some exts \<Rightarrow> exts)
              \<lparr>scan_idp_blob = None, scan_idp_name = None, scan_skid = None, scan_questionnaire = []\<rparr>) (\<lambda>s.
     if AaOnly \<in> set (scan_questionnaire s) then Inl (CertValError CrlIncompatible)
     else Inr \<lparr>type_info = crl_type_of (scan_questionnaire s), this_update = crl_this_update crl, next_update = crl_next_update crl,
       issuer_name = name_to_string X (crl_issuer crl), issuer_name_blob = name_blob, sig_alg_blob = alg_blob,
       exts_blob = exts_blob, idp_name = scan_idp_name s, idp_blob = scan_idp_blob s, skid = scan_skid s\<rparr>))))"

section \<open>The store\<close>

record CrlStore =
  crls :: "CertificateList list"
  crl_info :: "CrlInfo list"
  issuers :: "bytes \<rightharpoonup> nat list"
  sk_ids :: "bytes \<rightharpoonup> nat list"
  dps :: "bytes \<rightharpoonup> nat list"

definition crl_store_from :: "CertificateList list \<Rightarrow> CrlStore" where
  "crl_store_from cs = \<lparr>crls = cs, crl_info = [], issuers = Map.empty, sk_ids = Map.empty, dps = Map.empty\<rparr>"

definition push_at :: "'k \<Rightarrow> nat \<Rightarrow> ('k \<rightharpoonup> nat list) \<Rightarrow> ('k \<rightharpoonup> nat list)" where
  "push_at k i m = m(k \<mapsto> (case m k of None \<Rightarrow> [] | Some is \<Rightarrow> is) @ [i])"

definition add_crl_info :: "x509_codecs \<Rightarrow> CertificateList \<Rightarrow> CrlInfo \<Rightarrow> CrlStore \<Rightarrow> CrlStore" where
  "add_crl_info X crl info st = (if info \<in> set (crl_info st) then st
     else let st1 = st\<lparr>crl_info := crl_info st @ [info]\<rparr>;
              index = length (crl_info st1) - 1;
              dp = get_dp_from_crl X crl;
              st2 = (case dp of
                  Some dp \<Rightarrow> st1\<lparr>dps := push_at dp index (dps st1)\<rparr>
                | None \<Rightarrow> (case skid info of
                      Some akid \<Rightarrow> st1\<lparr>sk_ids := push_at akid index (sk_ids st1)\<rparr>
                    | None \<Rightarrow> st1))
          in if dp = None \<and> crl_scope (type_info info) = ScopeComplete
             then st2\<lparr>issuers := push_at (name_to_string X (crl_issuer crl)) index (issuers st2)\<rparr>
             else st2)"

definition index_crl :: "x509_codecs \<Rightarrow> u64 \<Rightarrow> CertificateList \<Rightarrow> CrlStore \<Rightarrow> CrlStore" where
  "index_crl X toi crl st = (case crl_info_try_from X crl of
       Inr info \<Rightarrow> if check_crl_valid_at_toi toi crl then add_crl_info X crl info st else st
     | Inl _ \<Rightarrow> st)"

definition index_crls :: "x509_codecs \<Rightarrow> u64 \<Rightarrow> CrlStore \<Rightarrow> CrlStore" where
  "index_crls X toi st = fold (index_crl X toi) (crls st) st"

definition encode_crls :: "x509_codecs \<Rightarrow> CertificateList list \<Rightarrow> certval_error + bytes list" where
  "encode_crls X cs = mapE (\<lambda>crl. ok_or Asn1Error (crl_to_der X crl)) cs"

definition get_all_crls :: "x509_codecs \<Rightarrow> CrlStore \<Rightarrow> certval_error + bytes list" where
  "get_all_crls X st = encode_crls X (crls st)"

text \<open>The fields of a certificate that the store and the cache look at.\<close>

record PDVCertificate =
  cert_issuer :: bytes
  cert_serial :: bytes
  cert_crl_dps :: "DistributionPointName option list option"
  cert_akid :: "bytes option"

definition get_dps_from_cert :: "x509_codecs \<Rightarrow> PDVCertificate \<Rightarrow> bytes list option" where
  "get_dps_from_cert X cert =
     map_option (List.map_filter (\<lambda>dp. Option.bind dp (dp_to_der X))) (cert_crl_dps cert)"

text \<open>The set of URIs as a list without repetitions.\<close>

fun full_name_uris :: "DistributionPointName option \<Rightarrow> bytes list" where
  "full_name_uris (Some (FullName gns)) = List.map_filter (\<lambda>gn. case gn of UniformResourceIdentifier uri \<Rightarrow> Some uri | _ \<Rightarrow> None) gns"
| "full_name_uris _ = []"

definition extract_crl_uris :: "PDVCertificate \<Rightarrow> bytes list option" where
  "extract_crl_uris cert = map_option (\<lambda>dps. remdups (concat (map full_name_uris dps))) (cert_crl_dps cert)"

definition crls_at :: "nat list \<Rightarrow> CertificateList list \<Rightarrow> CertificateList list" where
  "crls_at indices cs = map (\<lambda>i. cs ! i) (filter (\<lambda>i. i < length cs) indices)"

fun first_indices :: "bytes list \<Rightarrow> (bytes \<rightharpoonup> nat list) \<Rightarrow> nat list option" where
  "first_indices [] m = None"
| "first_indices (dp # rest) m = (case m dp of Some indices \<Rightarrow> Some indices | None \<Rightarrow> first_indices rest m)"

definition get_crls :: "x509_codecs \<Rightarrow> PDVCertificate \<Rightarrow> CrlStore \<Rightarrow> certval_error + bytes list" where
  "get_crls X cert st =
     (case Option.bind (get_dps_from_cert X cert) (\<lambda>ds. first_indices ds (dps st)) of
        Some indices \<Rightarrow> encode_crls X (crls_at indices (crls st))
      | None \<Rightarrow> (case Option.bind (cert_akid cert) (sk_ids st) of
          Some indices \<Rightarrow> encode_crls X (crls_at indices (crls st))
        | None \<Rightarrow> (case issuers st (name_to_string X (cert_issuer cert)) of
            Some indices \<Rightarrow> encode_crls X (crls_at indices (crls st))
          | None \<Rightarrow> Inl NotFoundError)))"

definition add_crl :: "x509_codecs \<Rightarrow> CertificateList \<Rightarrow> CrlStore \<Rightarrow> CrlStore" where
  "add_crl X crl st = (let st1 = st\<lparr>crls := crls st @ [crl]\<rparr>
     in case crl_info_try_from X crl of Inr info \<Rightarrow> add_crl_info X crl info st1 | Inl _ \<Rightarrow> st1)"

section \<open>The cache of answers\<close>

record StatusAndTime =
  cached_status :: status_code
  valid_until :: u64

type_synonym RevocationCache = "bytes \<times> bytes \<rightharpoonup> StatusAndTime"

definition get_name_serial_pair :: "x509_codecs \<Rightarrow> PDVCertificate \<Rightarrow> bytes \<times> bytes" where
  "get_name_serial_pair X cert = (name_to_string X (cert_issuer cert), buffer_to_hex X (cert_serial cert))"

definition get_status :: "x509_codecs \<Rightarrow> PDVCertificate \<Rightarrow> u64 \<Rightarrow> RevocationCache \<Rightarrow> status_code" where
  "get_status X cert toi cache = (case cache (get_name_serial_pair X cert) of
       Some st \<Rightarrow> if valid_until st > toi then cached_status st else RevocationStatusNotDetermined
     | None \<Rightarrow> RevocationStatusNotDetermined)"

definition add_status :: "x509_codecs \<Rightarrow> PDVCertificate \<Rightarrow> u64 \<Rightarrow> status_code \<Rightarrow> RevocationCache \<Rightarrow> RevocationCache" where
  "add_status X cert next_up st cache =
     (if st \<notin> {Valid, CertificateRevoked, CertificateRevokedEndEntity, CertificateRevokedIntermediateCa, NoPathsFound} then cache
      else let k = get_name_serial_pair X cert;
               entry = \<lparr>cached_status = (if st \<noteq> Valid then CertificateRevoked else st), valid_until = next_up\<rparr>
           in case cache k of
                Some old \<Rightarrow> if valid_until old < next_up then cache(k \<mapsto> entry) else cache
              | None \<Rightarrow> cache(k \<mapsto> entry))"

section \<open>Validating a revocation list\<close>

text \<open>The certificates known to \<open>certval\<close> by their public keys, and its signature verification.\<close>

record 'k crl_verifier =
  trust_anchor_by_akid :: "bytes \<Rightarrow> 'k option"
  intermediates_by_skid :: "bytes \<Rightarrow> 'k list option"
  trust_anchor_by_name :: "bytes \<Rightarrow> 'k option"
  certs_by_name :: "bytes \<Rightarrow> 'k list"
  verifies :: "bytes \<Rightarrow> CertificateList \<Rightarrow> 'k \<Rightarrow> bool"

definition crl_signer_keys :: "'k crl_verifier \<Rightarrow> CertificateList \<Rightarrow> 'k list" where
  "crl_signer_keys V crl =
     (let aki = Option.bind (crl_extensions crl) (List.find (\<lambda>ext. fst ext = ID_CE_AUTHORITY_KEY_IDENTIFIER));
          spki_list = (case aki of None \<Rightarrow> []
            | Some ext \<Rightarrow> (case trust_anchor_by_akid V (snd ext) of
                Some ta \<Rightarrow> [ta]
              | None \<Rightarrow> (case intermediates_by_skid V (snd ext) of Some is \<Rightarrow> is | None \<Rightarrow> [])));
          spki_list = (case trust_anchor_by_name V (crl_issuer crl) of
              Some spki \<Rightarrow> if spki \<in> set spki_list then spki_list else spki_list @ [spki]
            | None \<Rightarrow> spki_list)
      in remdups_adj (spki_list @ certs_by_name V (crl_issuer crl)))"

definition validate_crl_with_raw :: "x509_codecs \<Rightarrow> 'k crl_verifier \<Rightarrow> bytes \<Rightarrow> x509_error + CertificateList" where
  "validate_crl_with_raw X V crl_raw =
     bindE (ok_or DerError (crl_from_der X crl_raw)) (\<lambda>crl.
     bindE (ok_or DerError (tbs_field_from_der X crl_raw)) (\<lambda>tbs_field.
     if list_ex (verifies V tbs_field crl) (crl_signer_keys V crl) then Inr crl
     else Inl (CertValError (PathValidation SignatureVerificationFailure))))"

section \<open>Validating a certificate\<close>

definition check_cpr :: "status_code option \<Rightarrow> x509_error + unit" where
  "check_cpr cpr = (case cpr of
       Some st \<Rightarrow> (if st \<in> {Valid, RevocationStatusNotDetermined, RevocationStatusNotAvailable} then Inr ()
          else Inl (CertValError (PathValidation st)))
     | None \<Rightarrow> Inl CannotDetermineVerificationStatus)"

text \<open>
  \<open>certval\<close>: the clock, the parsed certificate with its candidate paths, and what validating a path
  (with or without consulting the lists) and checking its revocation report.
\<close>

record ('cert, 'path) certval =
  clock :: "u64 option"
  parse_cert :: "'cert \<Rightarrow> 'cert option"
  paths_for_target :: "'cert \<Rightarrow> u64 \<Rightarrow> certval_error + 'path list"
  validate_path :: "bool \<Rightarrow> u64 \<Rightarrow> 'path \<Rightarrow> status_code option"
  check_revocation :: "u64 \<Rightarrow> 'path \<Rightarrow> status_code option"

text \<open>The settings are shared between the paths: once set, \<open>check_crls\<close> stays set.\<close>

fun any_path_validates ::
  "('cert, 'path) certval \<Rightarrow> bool \<Rightarrow> u64 \<Rightarrow> bool \<Rightarrow> x509_error + unit \<Rightarrow> 'path list \<Rightarrow> x509_error + unit" where
  "any_path_validates C revocation toi crls_set result [] = result"
| "any_path_validates C revocation toi crls_set result (path # paths) =
     (case check_cpr (validate_path C crls_set toi path) of
        Inl e \<Rightarrow> any_path_validates C revocation toi crls_set (Inl e) paths
      | Inr _ \<Rightarrow>
          if revocation then
            (case check_cpr (check_revocation C toi path) of
               Inl e \<Rightarrow> any_path_validates C revocation toi True (Inl e) paths
             | Inr _ \<Rightarrow> Inr ())
          else Inr ())"

definition validate_cert_internal :: "('cert, 'path) certval \<Rightarrow> 'cert \<Rightarrow> bool \<Rightarrow> x509_error + unit" where
  "validate_cert_internal C cert revocation =
     bindE (ok_or CannotDetermineCurrentTime (clock C)) (\<lambda>toi.
     bindE (ok_or DerError (parse_cert C cert)) (\<lambda>parsed.
     bindE (map_err CertValError (paths_for_target C parsed toi)) (\<lambda>paths.
     if paths = [] then Inl (CertValError (PathValidation NoPathsFound))
     else any_path_validates C revocation toi False (Inr ()) paths)))"

definition validate_cert_and_revocation :: "('cert, 'path) certval \<Rightarrow> 'cert \<Rightarrow> x509_error + unit" where
  "validate_cert_and_revocation C cert = validate_cert_internal C cert True"

datatype IdentityStatus = IdentityValid | IdentityExpired | IdentityRevoked

definition identity_status_from :: "x509_error + unit \<Rightarrow> IdentityStatus" where
  "identity_status_from r = (case r of
       Inl (CertValError (PathValidation InvalidNotAfterDate)) \<Rightarrow> IdentityExpired
     | Inl (CertValError (PathValidation e)) \<Rightarrow>
         if e \<in> {CertificateRevoked, CertificateRevokedEndEntity, NoPathsFound, CertificateRevokedIntermediateCa}
         then IdentityRevoked else IdentityValid
     | _ \<Rightarrow> IdentityValid)"

definition identity_status_from_cert :: "('cert, 'path) certval \<Rightarrow> 'cert \<Rightarrow> IdentityStatus" where
  "identity_status_from_cert C cert = identity_status_from (validate_cert_and_revocation C cert)"

datatype CredentialAuthenticationStatus = AuthValid | AuthInvalid | AuthUnknown

text \<open>\<open>certificates\<close> are the decoded certificates of an X509 credential, \<open>None\<close> for one that does not decode.\<close>

definition validate_credential :: "('cert, 'path) certval \<Rightarrow> 'cert option list \<Rightarrow> CredentialAuthenticationStatus" where
  "validate_credential C certificates = (case certificates of
       Some cert # _ \<Rightarrow> (case validate_cert_and_revocation C cert of
           Inl (CertValError (PathValidation e)) \<Rightarrow>
             if e \<in> {CertificateRevoked, CertificateRevokedEndEntity, CertificateRevokedIntermediateCa, InvalidNotAfterDate}
             then AuthValid else AuthInvalid
         | Inl _ \<Rightarrow> AuthUnknown
         | Inr _ \<Rightarrow> AuthValid)
     | _ \<Rightarrow> AuthInvalid)"

end
