(* ===== verification/X509_Properties.thy ===== *)
theory X509_Properties
  imports X509_Revocation
begin

text \<open>
  What the CRL store finds for a certificate, compared with a search through all lists, and when
  it finds something else; what an accepted certificate has passed; and which failures still count
  as a valid identity.
\<close>

section \<open>Indices and searches\<close>

text \<open>The positions of the elements with a key, as a map that has no empty entries.\<close>

definition index_map :: "('a \<Rightarrow> 'k option) \<Rightarrow> 'a list \<Rightarrow> ('k \<rightharpoonup> nat list)" where
  "index_map f xs k = (let is = filter (\<lambda>i. f (xs ! i) = Some k) [0..<length xs] in if is = [] then None else Some is)"

lemma index_map_Nil [simp]: "index_map f [] = Map.empty"
  by (simp add: index_map_def fun_eq_iff)

lemma index_map_snoc:
  "index_map f (xs @ [x]) = (case f x of None \<Rightarrow> index_map f xs | Some k \<Rightarrow> push_at k (length xs) (index_map f xs))"
proof
  fix k
  have "filter (\<lambda>i. f ((xs @ [x]) ! i) = Some k) [0..<length xs] = filter (\<lambda>i. f (xs ! i) = Some k) [0..<length xs]"
    by (rule filter_cong) (simp_all add: nth_append)
  then show "index_map f (xs @ [x]) k = (case f x of None \<Rightarrow> index_map f xs | Some k \<Rightarrow> push_at k (length xs) (index_map f xs)) k"
    by (auto simp: index_map_def push_at_def Let_def split: option.splits)
qed

lemma filter_positions: "map (\<lambda>i. xs ! i) (filter (\<lambda>i. P (xs ! i)) [0..<length xs]) = filter P xs"
proof (induction xs rule: rev_induct)
  case (snoc x xs)
  have "filter (\<lambda>i. P ((xs @ [x]) ! i)) [0..<length xs] = filter (\<lambda>i. P (xs ! i)) [0..<length xs]"
    by (rule filter_cong) (simp_all add: nth_append)
  moreover have "map (\<lambda>i. (xs @ [x]) ! i) (filter (\<lambda>i. P (xs ! i)) [0..<length xs]) = filter P xs"
    unfolding snoc[symmetric] by (rule map_cong) (auto simp: nth_append)
  ultimately show ?case by simp
qed simp

lemma index_map_crls:
  "index_map f cs k = Some is \<Longrightarrow> crls_at is cs = filter (\<lambda>c. f c = Some k) cs"
  "index_map f cs k = None \<longleftrightarrow> filter (\<lambda>c. f c = Some k) cs = []"
proof -
  assume "index_map f cs k = Some is"
  then have "is = filter (\<lambda>i. f (cs ! i) = Some k) [0..<length cs]"
    by (auto simp: index_map_def Let_def split: if_splits)
  then have "crls_at is cs = map (\<lambda>i. cs ! i) (filter (\<lambda>i. f (cs ! i) = Some k) [0..<length cs])"
    by (auto simp: crls_at_def intro!: arg_cong[where f = "map _"] filter_cong filter_True)
  then show "crls_at is cs = filter (\<lambda>c. f c = Some k) cs"
    by (simp only: filter_positions[of cs "\<lambda>c. f c = Some k"])
next
  show "index_map f cs k = None \<longleftrightarrow> filter (\<lambda>c. f c = Some k) cs = []"
    unfolding filter_positions[of cs "\<lambda>c. f c = Some k", symmetric] by (simp add: index_map_def Let_def)
qed

lemma case_index_map:
  "(case index_map f cs k of None \<Rightarrow> a | Some is \<Rightarrow> encode_crls X (crls_at is cs)) =
     (if filter (\<lambda>c. f c = Some k) cs = [] then a else encode_crls X (filter (\<lambda>c. f c = Some k) cs))"
  using index_map_crls[of f cs k] by (cases "index_map f cs k") simp_all

text \<open>The keys under which a list is filed.\<close>

definition filed_dp :: "x509_codecs \<Rightarrow> CertificateList \<Rightarrow> bytes option" where
  "filed_dp X crl = get_dp_from_crl X crl"

definition filed_skid :: "x509_codecs \<Rightarrow> CertificateList \<Rightarrow> bytes option" where
  "filed_skid X crl = (if get_dp_from_crl X crl = None then Option.bind (okay (crl_info_try_from X crl)) skid else None)"

definition filed_issuer :: "x509_codecs \<Rightarrow> CertificateList \<Rightarrow> bytes option" where
  "filed_issuer X crl = (case okay (crl_info_try_from X crl) of
       Some info \<Rightarrow> if get_dp_from_crl X crl = None \<and> crl_scope (type_info info) = ScopeComplete
         then Some (name_to_string X (crl_issuer crl)) else None
     | None \<Rightarrow> None)"

text \<open>The lists for a certificate, searched without an index.\<close>

definition search_crls :: "x509_codecs \<Rightarrow> PDVCertificate \<Rightarrow> CertificateList list \<Rightarrow> certval_error + bytes list" where
  "search_crls X cert cs =
     (let by_dp = (\<lambda>dp. filter (\<lambda>c. filed_dp X c = Some dp) cs);
          by_skid = (case cert_akid cert of None \<Rightarrow> [] | Some k \<Rightarrow> filter (\<lambda>c. filed_skid X c = Some k) cs);
          by_issuer = filter (\<lambda>c. filed_issuer X c = Some (name_to_string X (cert_issuer cert))) cs
      in case List.find (\<lambda>dp. by_dp dp \<noteq> []) (case get_dps_from_cert X cert of None \<Rightarrow> [] | Some ds \<Rightarrow> ds) of
           Some dp \<Rightarrow> encode_crls X (by_dp dp)
         | None \<Rightarrow> if by_skid \<noteq> [] then encode_crls X by_skid
             else if by_issuer \<noteq> [] then encode_crls X by_issuer else Inl NotFoundError)"

definition all_indexed :: "x509_codecs \<Rightarrow> u64 \<Rightarrow> CertificateList list \<Rightarrow> bool" where
  "all_indexed X toi cs \<longleftrightarrow> (\<forall>c \<in> set cs. is_ok (crl_info_try_from X c) \<and> check_crl_valid_at_toi toi c)
     \<and> distinct (map (crl_info_try_from X) cs)"

lemma index_crl_fresh:
  assumes "crl_info_try_from X c = Inr info" "check_crl_valid_at_toi toi c" "info \<notin> set (crl_info st)"
    and "dps st = index_map (filed_dp X) ps" "sk_ids st = index_map (filed_skid X) ps"
    and "issuers st = index_map (filed_issuer X) ps" "length (crl_info st) = length ps"
  shows "dps (index_crl X toi c st) = index_map (filed_dp X) (ps @ [c])"
    "sk_ids (index_crl X toi c st) = index_map (filed_skid X) (ps @ [c])"
    "issuers (index_crl X toi c st) = index_map (filed_issuer X) (ps @ [c])"
    "crl_info (index_crl X toi c st) = crl_info st @ [info]" "crls (index_crl X toi c st) = crls st"
  using assms
  by (auto simp: index_crl_def add_crl_info_def Let_def index_map_snoc filed_dp_def filed_skid_def filed_issuer_def
      split: option.splits)

lemma index_prefix:
  assumes "all_indexed X toi ps"
  shows "let st = fold (index_crl X toi) ps (crl_store_from cs) in crls st = cs
    \<and> dps st = index_map (filed_dp X) ps \<and> sk_ids st = index_map (filed_skid X) ps \<and> issuers st = index_map (filed_issuer X) ps
    \<and> map Inr (crl_info st) = map (crl_info_try_from X) ps"
  using assms
proof (induction ps rule: rev_induct)
  case (snoc c ps)
  define st where "st = fold (index_crl X toi) ps (crl_store_from cs)"
  have IH: "crls st = cs" "dps st = index_map (filed_dp X) ps" "sk_ids st = index_map (filed_skid X) ps"
    "issuers st = index_map (filed_issuer X) ps" "map Inr (crl_info st) = map (crl_info_try_from X) ps"
    using snoc by (simp_all add: st_def all_indexed_def Let_def)
  obtain info where c: "crl_info_try_from X c = Inr info" "check_crl_valid_at_toi toi c"
    using snoc.prems by (auto simp: all_indexed_def is_ok_iff)
  have "Inr info \<notin> set (map (crl_info_try_from X) ps)"
    using snoc.prems c(1) by (auto simp: all_indexed_def)
  then have "info \<notin> set (crl_info st)"
    unfolding IH(5)[symmetric] by auto
  moreover have "length (crl_info st) = length ps"
    using arg_cong[OF IH(5), of length] by simp
  ultimately show ?case
    using index_crl_fresh[OF c _ IH(2-4)] IH(1,5) c(1) by (simp add: st_def[symmetric] Let_def)
qed (simp add: crl_store_from_def)

lemma first_indices_find:
  fixes cs :: "CertificateList list"
  shows
  "first_indices ds (index_map f cs) =
     map_option (\<lambda>dp. the (index_map f cs dp)) (List.find (\<lambda>dp. filter (\<lambda>c. f c = Some dp) cs \<noteq> []) ds)"
  unfolding index_map_crls(2)[symmetric] by (induction ds) (auto split: option.splits)

text \<open>
  C12: When every list of the store could be indexed, looking a certificate up through the indices
  finds exactly the lists that a search through all of them finds: those of its first distribution
  point that has any, else those of its authority key, else the complete ones of its issuer.
\<close>

theorem crl_lookup_is_search:
  assumes "all_indexed X toi cs"
  shows "get_crls X cert (index_crls X toi (crl_store_from cs)) = search_crls X cert cs"
proof -
  define st where "st = index_crls X toi (crl_store_from cs)"
  have st: "crls st = cs" "dps st = index_map (filed_dp X) cs" "sk_ids st = index_map (filed_skid X) cs"
    "issuers st = index_map (filed_issuer X) cs"
    using index_prefix[OF assms, of cs] by (simp_all add: st_def index_crls_def Let_def crl_store_from_def)
  have entry: "encode_crls X (crls_at (the (index_map f cs k)) cs) = encode_crls X (filter (\<lambda>c. f c = Some k) cs)"
    if found: "filter (\<lambda>c. f c = Some k) cs \<noteq> []" for f :: "CertificateList \<Rightarrow> 'k option" and k
  proof -
    obtain "is" where "index_map f cs k = Some is"
      using found index_map_crls(2)[of f cs k] by auto
    then show ?thesis by (simp add: index_map_crls(1))
  qed
  let ?dps = "case get_dps_from_cert X cert of None \<Rightarrow> [] | Some ds \<Rightarrow> ds"
  have dp: "Option.bind (get_dps_from_cert X cert) (\<lambda>ds. first_indices ds (index_map (filed_dp X) cs)) =
      map_option (\<lambda>dp. the (index_map (filed_dp X) cs dp)) (List.find (\<lambda>dp. filter (\<lambda>c. filed_dp X c = Some dp) cs \<noteq> []) ?dps)"
    by (cases "get_dps_from_cert X cert") (simp_all add: first_indices_find)
  show ?thesis
  proof (cases "List.find (\<lambda>dp. filter (\<lambda>c. filed_dp X c = Some dp) cs \<noteq> []) ?dps")
    case (Some dp)
    then have "filter (\<lambda>c. filed_dp X c = Some dp) cs \<noteq> []"
      by (auto simp: find_Some_iff)
    then show ?thesis
      unfolding st_def[symmetric] get_crls_def st dp using Some entry by (simp add: search_crls_def Let_def)
  next
    case None
    then show ?thesis
      unfolding st_def[symmetric] get_crls_def st dp
      by (cases "cert_akid cert") (simp_all add: search_crls_def Let_def case_index_map)
  qed
qed

text \<open>
  C35: A list that cannot be indexed shifts the lookup: the indices count the lists that were
  indexed but are used to address all lists.  With an expired list in front of a current one, a
  certificate of the current list's issuer is checked against the expired list of somebody else.
\<close>

theorem skipped_crl_shifts_lookup:
  assumes "\<not> check_crl_valid_at_toi toi old" "check_crl_valid_at_toi toi new"
    and "crl_info_try_from X new = Inr info" "crl_scope (type_info info) = ScopeComplete" "skid info = None"
    and "get_dp_from_crl X new = None" "name_to_string X (cert_issuer cert) = name_to_string X (crl_issuer new)"
    and "crl_to_der X old = Some old_der"
  shows "get_crls X cert (index_crls X toi (crl_store_from [old, new])) = Inr [old_der]"
proof -
  have "index_crls X toi (crl_store_from [old, new]) = (crl_store_from [old, new])\<lparr>crl_info := [info],
      issuers := [name_to_string X (crl_issuer new) \<mapsto> [0]]\<rparr>"
    using assms(1-6)
    by (auto simp: index_crls_def crl_store_from_def index_crl_def add_crl_info_def push_at_def Let_def split: sum.splits)
  moreover have "first_indices ds Map.empty = None" for ds
    by (induction ds) simp_all
  ultimately show ?thesis
    using assms(7,8)
    by (auto simp: get_crls_def crl_store_from_def crls_at_def encode_crls_def split: option.splits)
qed

section \<open>Accepted certificates\<close>

lemma any_path_Inr:
  assumes "any_path_validates C True toi crls_set result paths = Inr ()" "result \<noteq> Inr ()"
  shows "\<exists>p \<in> set paths. \<exists>b. is_ok (check_cpr (validate_path C b toi p)) \<and> is_ok (check_cpr (check_revocation C toi p))"
  using assms
proof (induction paths arbitrary: crls_set result)
  case (Cons path paths)
  show ?case
  proof (cases "is_ok (check_cpr (validate_path C crls_set toi path)) \<and> is_ok (check_cpr (check_revocation C toi path))")
    case False
    then have "\<exists>b e. any_path_validates C True toi b (Inl e) paths = Inr ()"
      using Cons.prems(1) by (auto simp: is_ok_def split: sum.splits)
    then show ?thesis
      using Cons.IH by fastforce
  qed auto
qed simp

lemma any_path_nonempty:
  "paths \<noteq> [] \<Longrightarrow> any_path_validates C r toi b result paths = any_path_validates C r toi b result' paths"
  by (cases paths) simp_all

text \<open>
  A certificate accepted with its revocation checked has a path that validated and whose
  revocation check did not report it revoked; a check that could not be made counts as passed.
\<close>

theorem accepted_has_path:
  assumes "validate_cert_internal C cert True = Inr ()"
  shows "\<exists>toi parsed paths p b. clock C = Some toi \<and> parse_cert C cert = Some parsed \<and> paths_for_target C parsed toi = Inr paths
    \<and> p \<in> set paths
    \<and> validate_path C b toi p \<in> Some ` {Valid, RevocationStatusNotDetermined, RevocationStatusNotAvailable}
    \<and> check_revocation C toi p \<in> Some ` {Valid, RevocationStatusNotDetermined, RevocationStatusNotAvailable}"
proof -
  obtain toi parsed paths where run: "clock C = Some toi" "parse_cert C cert = Some parsed" "paths_for_target C parsed toi = Inr paths"
    and any: "paths \<noteq> []" "any_path_validates C True toi False (Inr ()) paths = Inr ()"
    using assms by (auto simp: validate_cert_internal_def ok_or_def bindE_def map_err_def split: option.splits sum.splits if_splits)
  have cpr: "is_ok (check_cpr r) \<longleftrightarrow> r \<in> Some ` {Valid, RevocationStatusNotDetermined, RevocationStatusNotAvailable}" for r
    by (auto simp: check_cpr_def is_ok_def split: option.splits)
  have "any_path_validates C True toi False (Inl DerError) paths = Inr ()"
    using any any_path_nonempty[OF any(1), of C True toi False "Inl DerError" "Inr ()"] by simp
  from any_path_Inr[OF this] show ?thesis
    using run unfolding cpr by fastforce
qed

section \<open>Failures that count as valid\<close>

lemma all_paths_fail:
  assumes "\<forall>p \<in> set paths. \<forall>b. validate_path C b toi p = Some SignatureVerificationFailure" "paths \<noteq> []"
  shows "any_path_validates C r toi b result paths = Inl (CertValError (PathValidation SignatureVerificationFailure))"
  using assms by (induction paths arbitrary: b result) (auto simp: check_cpr_def, metis any_path_validates.simps(1))

text \<open>
  C36: A certificate none of whose paths has a valid signature is reported as a valid identity, since
  every failure that is neither expiry nor revocation is; as a credential it is invalid.
\<close>

theorem bad_signature_is_valid_identity:
  assumes "clock C = Some toi" "parse_cert C cert = Some parsed" "paths_for_target C parsed toi = Inr paths" "paths \<noteq> []"
    and "\<forall>p \<in> set paths. \<forall>b. validate_path C b toi p = Some SignatureVerificationFailure"
  shows "identity_status_from_cert C cert = IdentityValid \<and> validate_credential C [Some cert] = AuthInvalid"
  using assms all_paths_fail[OF assms(5,4)]
  by (simp add: identity_status_from_cert_def identity_status_from_def validate_credential_def validate_cert_and_revocation_def
      validate_cert_internal_def)

section \<open>Examples\<close>

definition eg_x509 :: x509_codecs where
  "eg_x509 = \<lparr>idp_from_der = (\<lambda>_. None), akid_from_der = (\<lambda>b. Some (Some b)), dp_to_der = (\<lambda>_. None), name_to_der = Some,
     name_to_string = id, alg_to_der = Some, exts_to_der = (\<lambda>_. Some []),
     crl_to_der = (\<lambda>c. Some (crl_revoked c)), crl_from_der = (\<lambda>_. None), tbs_field_from_der = Some, buffer_to_hex = id\<rparr>"

definition eg_crl :: "byte \<Rightarrow> u64 \<Rightarrow> CertificateList" where
  "eg_crl issuer until = \<lparr>crl_issuer = [issuer], crl_this_update = 1, crl_next_update = Some until, crl_extensions = None,
     crl_signature_algorithm = [], crl_revoked = [issuer, 9], crl_signature = []\<rparr>"

definition eg_cert :: "byte \<Rightarrow> PDVCertificate" where
  "eg_cert issuer = \<lparr>cert_issuer = [issuer], cert_serial = [1], cert_crl_dps = None, cert_akid = None\<rparr>"

theorem crl_lookup_is_search_witness:
  "get_crls eg_x509 (eg_cert 66) (index_crls eg_x509 100 (crl_store_from [eg_crl 65 200, eg_crl 66 200])) = Inr [[66, 9]]"
proof -
  have "all_indexed eg_x509 100 [eg_crl 65 200, eg_crl 66 200]"
    unfolding all_indexed_def by code_simp
  then have "get_crls eg_x509 (eg_cert 66) (index_crls eg_x509 100 (crl_store_from [eg_crl 65 200, eg_crl 66 200]))
      = search_crls eg_x509 (eg_cert 66) [eg_crl 65 200, eg_crl 66 200]"
    by (rule crl_lookup_is_search)
  also have "\<dots> = Inr [[66, 9]]"
    by code_simp
  finally show ?thesis .
qed

theorem skipped_crl_shifts_lookup_witness:
  "get_crls eg_x509 (eg_cert 66) (index_crls eg_x509 100 (crl_store_from [eg_crl 65 50, eg_crl 66 200])) = Inr [[65, 9]]"
proof (rule skipped_crl_shifts_lookup)
  show "crl_info_try_from eg_x509 (eg_crl 66 200) = Inr \<lparr>type_info = crl_type_of [], this_update = 1, next_update = Some 200,
      issuer_name = [66], issuer_name_blob = [66], sig_alg_blob = [], exts_blob = None, idp_name = None, idp_blob = None, skid = None\<rparr>"
    by code_simp
qed (simp_all add: check_crl_valid_at_toi_def eg_crl_def eg_cert_def eg_x509_def crl_type_of_def get_dp_from_crl_def)

definition eg_certval :: "status_code \<Rightarrow> (nat, nat) certval" where
  "eg_certval st = \<lparr>clock = Some 100, parse_cert = Some, paths_for_target = (\<lambda>c _. Inr [c]),
     validate_path = (\<lambda>_ _ _. Some st), check_revocation = (\<lambda>_ _. Some RevocationStatusNotAvailable)\<rparr>"

theorem accepted_has_path_witness:
  "check_revocation (eg_certval Valid) 100 (7 :: nat) \<in> Some ` {Valid, RevocationStatusNotDetermined, RevocationStatusNotAvailable}
    \<and> validate_cert_internal (eg_certval Valid) 7 True = Inr ()"
proof -
  have "validate_cert_internal (eg_certval Valid) 7 True = Inr ()"
    by code_simp
  from accepted_has_path[OF this] this show ?thesis
    by (auto simp: eg_certval_def)
qed

theorem bad_signature_is_valid_identity_witness:
  "identity_status_from_cert (eg_certval SignatureVerificationFailure) 7 = IdentityValid"
  using bad_signature_is_valid_identity[of "eg_certval SignatureVerificationFailure" 100 7 7 "[7]"]
  by (simp add: eg_certval_def)

end
