(* ===== verification/Pki_Env.thy ===== *)
theory Pki_Env
  imports X509_Properties Keystore_Properties State_Result
begin

text \<open>
  The PKI environment (\<open>e2e-identity/src/pki_env\<close>): the sources of trust anchors,
  intermediate certificates and revocation lists that \<open>certval\<close> consults, kept in memory
  beside their copies in the database, and the operations that change both.  \<open>certval\<close>, the
  certificate codecs and the HTTP hook are parameters.  A call reads one time; the iteration
  orders of the hash set of URIs and the hash map of lists are parameters.
\<close>

section \<open>State\<close>

record HttpResponse =
  http_status :: u16
  http_headers :: "(bytes \<times> bytes) list"
  http_body :: bytes

definition first_header :: "HttpResponse \<Rightarrow> bytes \<Rightarrow> bytes option" where
  "first_header response name = map_option snd (List.find (\<lambda>h. fst h = name) (http_headers response))"

datatype pki_error =
    NoTrustAnchor
  | CrlFetchUnsuccessful bytes u16
  | HooksError bytes
  | X509Error x509_error
  | X509CertDerError
  | PkiKeystoreError CryptoKeystoreError
  | PkiCertval certval_error

datatype 'cert TrustAnchorChoice = TaCertificate 'cert | TaOther

datatype PDVExtension = SubjectKeyIdentifier bytes | AuthorityKeyIdentifier "bytes option" | OtherExtension

record 'cert rjt_env =
  ta_sources :: "'cert TrustAnchorChoice list list"
  cert_sources :: "'cert list list"
  crl_sources :: "CrlStore list"

record 'cert pki_env =
  pki_database :: Database
  rjt_pki_env :: "'cert rjt_env"

record ('cert, 'k, 'path) pki_lib =
  codecs :: x509_codecs
  pki_now :: "u64 option"
  cert_from_der :: "bytes \<Rightarrow> 'cert option"
  cert_to_der :: "'cert \<Rightarrow> bytes option"
  serial_number :: "'cert \<Rightarrow> bytes"
  pdv_cert :: "'cert \<Rightarrow> PDVCertificate option"
  get_extension :: "'cert \<Rightarrow> oid \<Rightarrow> certval_error + PDVExtension option"
  hex_encode :: "bytes \<Rightarrow> bytes"
  ta_initialize :: "bytes list \<Rightarrow> certval_error + 'cert TrustAnchorChoice list"
  cert_initialize :: "u64 \<Rightarrow> bytes list \<Rightarrow> certval_error + 'cert list"
  check_validity :: "u64 \<Rightarrow> 'cert \<Rightarrow> certval_error + unit"
  verify_signatures :: "u64 \<Rightarrow> 'cert \<Rightarrow> certval_error + unit"
  crl_verifier_of :: "'cert TrustAnchorChoice list list \<Rightarrow> 'cert list list \<Rightarrow> 'k crl_verifier"
  certval_of :: "'cert rjt_env \<Rightarrow> ('cert, 'path) certval"
  http_get :: "bytes \<Rightarrow> bytes + HttpResponse"
  uri_order :: "bytes list \<Rightarrow> bytes list"
  crl_order :: "(bytes \<times> bytes) list \<Rightarrow> (bytes \<times> bytes) list"
  pki_hs :: hashes
  pki_order :: hash_order
  pki_io :: "nat \<Rightarrow> sql_error option"

type_synonym ('cert, 'a) pki_op = "('cert pki_env, pki_error, 'a) fallible"

section \<open>Opening the environment\<close>

definition certval_now :: "('cert, 'k, 'path) pki_lib \<Rightarrow> x509_error + u64" where
  "certval_now L = ok_or CannotDetermineCurrentTime (pki_now L)"

definition certval_init ::
  "('cert, 'k, 'path) pki_lib \<Rightarrow> 'cert list \<Rightarrow> 'cert list \<Rightarrow> CertificateList list \<Rightarrow> x509_error + 'cert rjt_env" where
  "certval_init L trust_roots intermediates revocation_lists =
     bindE (certval_now L) (\<lambda>toi.
     bindE (mapE (\<lambda>cert. ok_or DerError (cert_to_der L cert)) intermediates) (\<lambda>cert_files.
     bindE (map_err CertValError (cert_initialize L toi cert_files)) (\<lambda>cert_source.
     bindE (mapE (\<lambda>root. ok_or DerError (cert_to_der L root)) trust_roots) (\<lambda>ta_files.
     bindE (map_err CertValError (ta_initialize L ta_files)) (\<lambda>trust_anchors.
     Inr \<lparr>ta_sources = [trust_anchors], cert_sources = [cert_source],
       crl_sources = [index_crls (codecs L) toi (crl_store_from revocation_lists)]\<rparr>)))))"

definition restore_pki_env :: "('cert, 'k, 'path) pki_lib \<Rightarrow> Database \<Rightarrow> pki_error + 'cert rjt_env" where
  "restore_pki_env L d =
     bindE (case db_get E2eiAcmeCAT unique_key d of
         Inr (Some (E2eiAcmeCA ta_raw)) \<Rightarrow>
           mapR (\<lambda>cert. [cert]) (ok_or X509CertDerError (cert_from_der L (acme_ca_content ta_raw)))
       | _ \<Rightarrow> Inr []) (\<lambda>trust_roots.
     bindE (map_err PkiKeystoreError (db_load_all (pki_hs L) (pki_order L) E2eiIntermediateCertT d)) (\<lambda>inters.
     bindE (mapE (\<lambda>inter. ok_or X509CertDerError (cert_from_der L inter))
       (List.map_filter (\<lambda>e. case e of E2eiIntermediateCert i \<Rightarrow> Some (intermediate_content i) | _ \<Rightarrow> None) inters)) (\<lambda>intermediates.
     bindE (map_err PkiKeystoreError (db_load_all (pki_hs L) (pki_order L) E2eiCrlT d)) (\<lambda>stored.
     bindE (mapE (\<lambda>crl. ok_or X509CertDerError (crl_from_der (codecs L) crl))
       (List.map_filter (\<lambda>e. case e of E2eiCrl c \<Rightarrow> Some (crl_content c) | _ \<Rightarrow> None) stored)) (\<lambda>crls.
     map_err X509Error (certval_init L trust_roots intermediates crls))))))"

definition pki_env_new :: "('cert, 'k, 'path) pki_lib \<Rightarrow> Database \<Rightarrow> pki_error + 'cert pki_env" where
  "pki_env_new L d = mapR (\<lambda>env. \<lparr>pki_database = d, rjt_pki_env = env\<rparr>) (restore_pki_env L d)"

text \<open>The anchors of all sources, those of other kinds than certificates left out.\<close>

definition anchor_certs :: "'cert TrustAnchorChoice list list \<Rightarrow> 'cert list" where
  "anchor_certs sources =
     List.map_filter (\<lambda>choice. case choice of TaCertificate cert \<Rightarrow> Some cert | TaOther \<Rightarrow> None) (concat sources)"

definition get_trust_anchors :: "'cert pki_env \<Rightarrow> 'cert list" where
  "get_trust_anchors s = anchor_certs (ta_sources (rjt_pki_env s))"

section \<open>Operations\<close>

definition on_db :: "(Database \<Rightarrow> Database \<times> 'a keystore_result) \<Rightarrow> ('cert, 'a) pki_op" where
  "on_db f s = (case f (pki_database s) of (d, r) \<Rightarrow> (map_err PkiKeystoreError r, s\<lparr>pki_database := d\<rparr>))"

definition on_rjt :: "('cert rjt_env \<Rightarrow> 'cert rjt_env) \<Rightarrow> ('cert, unit) pki_op" where
  "on_rjt f = putS (\<lambda>s. s\<lparr>rjt_pki_env := f (rjt_pki_env s)\<rparr>)"

definition transactionally :: "('cert, 'k, 'path) pki_lib \<Rightarrow> ('cert, 'a) pki_op \<Rightarrow> ('cert, 'a) pki_op" where
  "transactionally L operation s =
     (case on_db try_new_immediate_transaction s of
        (Inl (PkiKeystoreError TransactionInProgress), s0) \<Rightarrow> operation s0
      | (Inl err, s0) \<Rightarrow> (Inl err, s0)
      | (Inr _, s0) \<Rightarrow> (case operation s0 of (outcome, s1) \<Rightarrow>
          (case on_db (if is_ok outcome then commit_transaction (pki_hs L) (pki_order L) (pki_io L)
                       else rollback_transaction) s1 of
             (Inl err, s2) \<Rightarrow> (Inl err, s2)
           | (Inr _, s2) \<Rightarrow> (outcome, s2))))"

definition pki_save :: "('cert, 'k, 'path) pki_lib \<Rightarrow> Entity \<Rightarrow> ('cert, u64 option) pki_op" where
  "pki_save L e = on_db (db_save (pki_hs L) None e)"

definition validate_trust_anchor_cert :: "('cert, 'k, 'path) pki_lib \<Rightarrow> 'cert \<Rightarrow> x509_error + unit" where
  "validate_trust_anchor_cert L cert =
     bindE (certval_now L) (\<lambda>toi.
     bindE (ok_or DerError (pdv_cert L cert)) (\<lambda>_.
     bindE (map_err CertValError (check_validity L toi cert)) (\<lambda>_.
     map_err CertValError (verify_signatures L toi cert))))"

definition add_trust_anchor :: "('cert, 'k, 'path) pki_lib \<Rightarrow> 'cert \<Rightarrow> ('cert, unit) pki_op" where
  "add_trust_anchor L cert =
     bindS (liftS (map_err X509Error (validate_trust_anchor_cert L cert))) (\<lambda>_.
     bindS (liftS (ok_or X509CertDerError (cert_to_der L cert))) (\<lambda>content.
     bindS (transactionally L (pki_save L (E2eiAcmeCA \<lparr>acme_ca_content = content\<rparr>))) (\<lambda>_.
     bindS (liftS (ok_or X509CertDerError (cert_to_der L cert))) (\<lambda>file.
     bindS (liftS (map_err PkiCertval (ta_initialize L [file]))) (\<lambda>trust_anchors.
     on_rjt (\<lambda>env. env\<lparr>ta_sources := ta_sources env @ [trust_anchors]\<rparr>))))))"

definition remove_trust_anchor :: "('cert, 'k, 'path) pki_lib \<Rightarrow> bytes \<Rightarrow> ('cert, unit) pki_op" where
  "remove_trust_anchor L serial =
     bindS (getS (\<lambda>s. filter (\<lambda>cert. serial_number L cert \<noteq> serial) (get_trust_anchors s))) (\<lambda>certs.
     bindS (on_rjt (\<lambda>env. env\<lparr>ta_sources := []\<rparr>)) (\<lambda>_.
     bindS (liftS (mapE (\<lambda>cert. ok_or X509CertDerError (cert_to_der L cert)) certs)) (\<lambda>files.
     bindS (liftS (map_err PkiCertval (ta_initialize L files))) (\<lambda>trust_anchors.
     bindS (on_rjt (\<lambda>env. env\<lparr>ta_sources := ta_sources env @ [trust_anchors]\<rparr>)) (\<lambda>_.
     transactionally L (on_db (db_remove E2eiAcmeCAT unique_key)))))))"

definition extract_ski_aki_from_cert :: "('cert, 'k, 'path) pki_lib \<Rightarrow> 'cert \<Rightarrow> x509_error + bytes \<times> bytes option" where
  "extract_ski_aki_from_cert L cert =
     bindE (ok_or DerError (pdv_cert L cert)) (\<lambda>_.
     bindE (map_err CertValError (get_extension L cert ID_CE_SUBJECT_KEY_IDENTIFIER)) (\<lambda>ext.
     bindE (ok_or MissingSki ext) (\<lambda>ski.
     bindE (case ski of SubjectKeyIdentifier k \<Rightarrow> Inr (hex_encode L k) | _ \<Rightarrow> Inl X509ImplementationError) (\<lambda>ski_hex.
     bindE (map_err CertValError (get_extension L cert ID_CE_AUTHORITY_KEY_IDENTIFIER)) (\<lambda>aki.
     Inr (ski_hex, map_option (hex_encode L)
       (Option.bind aki (\<lambda>ext. case ext of AuthorityKeyIdentifier k \<Rightarrow> k | _ \<Rightarrow> None))))))))"

definition fetch_crl :: "('cert, 'k, 'path) pki_lib \<Rightarrow> bytes \<Rightarrow> (bytes \<times> bytes) list \<Rightarrow> pki_error + (bytes \<times> bytes) list" where
  "fetch_crl L uri fetched =
     bindE (map_err HooksError (http_get L uri)) (\<lambda>response.
     if 200 \<le> http_status response \<and> http_status response < 300 then Inr (AList.update uri (http_body response) fetched)
     else Inl (CrlFetchUnsuccessful uri (http_status response)))"

definition fetch_crls :: "('cert, 'k, 'path) pki_lib \<Rightarrow> bytes list \<Rightarrow> pki_error + (bytes \<times> bytes) list" where
  "fetch_crls L uris = foldE (fetch_crl L) uris []"

definition save_crl :: "('cert, 'k, 'path) pki_lib \<Rightarrow> bytes \<times> bytes \<Rightarrow> ('cert, u64 option) pki_op" where
  "save_crl L dp_crl = (case dp_crl of (crl_dp, crl_der) \<Rightarrow>
     bindS (getS rjt_pki_env) (\<lambda>env.
     bindS (liftS (map_err X509Error (validate_crl_with_raw (codecs L) (crl_verifier_of L (ta_sources env) (cert_sources env)) crl_der))) (\<lambda>crl.
     bindS (liftS (map_err X509Error (certval_now L))) (\<lambda>toi.
     bindS (on_rjt (\<lambda>env. env\<lparr>crl_sources := crl_sources env @ [index_crls (codecs L) toi (crl_store_from [crl])]\<rparr>)) (\<lambda>_.
     bindS (liftS (map_err X509Error (ok_or DerError (crl_to_der (codecs L) crl)))) (\<lambda>content.
     transactionally L (pki_save L (E2eiCrl \<lparr>distribution_point = crl_dp, crl_content = content\<rparr>))))))))"

definition ski_aki_pair_of :: "bytes \<Rightarrow> bytes option \<Rightarrow> bytes" where
  "ski_aki_pair_of ski aki = ski @ ascii '':'' @ (case aki of None \<Rightarrow> [] | Some k \<Rightarrow> k)"

definition store_intermediate :: "('cert, 'k, 'path) pki_lib \<Rightarrow> 'cert \<Rightarrow> e2ei_intermediate_cert \<Rightarrow> ('cert, unit) pki_op" where
  "store_intermediate L cert intermediate_cert =
     bindS (pki_save L (E2eiIntermediateCert intermediate_cert)) (\<lambda>_.
     bindS (liftS (map_err X509Error (ok_or DerError (pdv_cert L cert)))) (\<lambda>pdv.
     let dps = (case extract_crl_uris pdv of None \<Rightarrow> [] | Some uris \<Rightarrow> uri_order L uris) in
     bindS (liftS (fetch_crls L dps)) (\<lambda>crls.
     eachS (save_crl L) (crl_order L crls))))"

definition add_intermediate_cert :: "('cert, 'k, 'path) pki_lib \<Rightarrow> 'cert \<Rightarrow> ('cert, unit) pki_op" where
  "add_intermediate_cert L cert =
     bindS (liftS (map_err X509Error (extract_ski_aki_from_cert L cert))) (\<lambda>(ski, aki).
     bindS (liftS (map_err X509Error (ok_or DerError (cert_to_der L cert)))) (\<lambda>cert_der.
     bindS (transactionally L (store_intermediate L cert
       \<lparr>ski_aki_pair = ski_aki_pair_of ski aki, intermediate_content = cert_der\<rparr>)) (\<lambda>_.
     bindS (liftS (map_err X509Error (certval_now L))) (\<lambda>toi.
     bindS (liftS (ok_or X509CertDerError (cert_to_der L cert))) (\<lambda>file.
     bindS (liftS (map_err PkiCertval (cert_initialize L toi [file]))) (\<lambda>cert_source.
     on_rjt (\<lambda>env. env\<lparr>cert_sources := cert_sources env @ [cert_source]\<rparr>)))))))"

definition pki_validate_cert :: "('cert, 'k, 'path) pki_lib \<Rightarrow> 'cert \<Rightarrow> 'cert pki_env \<Rightarrow> x509_error + unit" where
  "pki_validate_cert L cert s = validate_cert_and_revocation (certval_of L (rjt_pki_env s)) cert"

end
