(* ===== verification/Acquisition.thy ===== *)
theory Acquisition
  imports Acme Pki_Env
begin

text \<open>
  The acquisition of an X.509 credential (\<open>e2e-identity/src/acquisition\<close>): the two challenges
  and the final checks of the certificate.  The client's hooks are parameters that may answer
  depending on everything that was asked before, so an operation runs on the trace of calls with
  their answers.  Key generation, JWTs, the snapshot's JSON and the accessors of certificates are
  parameters.  Logging is left out.
\<close>

datatype HttpMethod = HttpGet | HttpPost | HttpPut | HttpDelete | HttpPatch | HttpHead

datatype HashAlgorithm = SHA256 | SHA384 | SHA512

text \<open>The calls of the hooks with their answers.\<close>

datatype hook_event =
    HttpEvent HttpMethod url "(bytes \<times> bytes) list" bytes "bytes + HttpResponse"
  | BackendNonceEvent "bytes + bytes"
  | AccessTokenEvent bytes "bytes + bytes"
  | AuthenticateEvent url bytes url bytes "bytes + bytes"

section \<open>Errors\<close>

datatype CertificateError =
    InvalidClientId
  | ClientIdMismatch
  | DisplayNameMismatch
  | HandleMismatch
  | DomainMismatch
  | MissingDisplayName
  | MissingHandle
  | MissingDomain
  | MissingClientId
  | InvalidFormat
  | AlgorithmMismatch
  | KeyMismatch
  | UnsupportedPublicKey
  | CertX509Check x509_error
  | CertDer
  | CertUtf8
  | CertJwtError
  | CertJwtSimple
  | CertPanicked string

datatype acq_error =
    HookFailed bytes
  | AcqJson
  | MissingHeader string
  | AcqAcme acme_error
  | AcqJwtError
  | InvalidCertificate CertificateError
  | AcqPanicked string

section \<open>State\<close>

record X509CredentialConfiguration =
  acme_directory_url :: bytes
  sign_alg :: JwsAlgorithm
  hash_alg :: HashAlgorithm
  cfg_display_name :: bytes
  cfg_client_id :: JwtClientId
  cfg_handle :: bytes
  cfg_domain :: bytes
  team :: "bytes option"
  validity_period :: int

record DpopChallengeCompleted =
  acq_nonce :: bytes
  acme_account :: AcmeAccount
  acq_order :: AcmeOrder
  oidc_challenge :: AcmeChallenge

record 'data X509CredentialAcquisition =
  config :: X509CredentialConfiguration
  sign_kp :: Pem
  acme_kp :: Pem
  acme_jwk :: bytes
  acq_data :: 'data

record Dpop =
  dpop_htu :: url
  dpop_challenge_token :: bytes
  dpop_handle :: bytes
  dpop_team :: "bytes option"
  dpop_display_name :: bytes

record WireIdentity =
  identity_client_id :: bytes
  identity_handle :: bytes
  identity_display_name :: bytes
  identity_domain :: bytes
  identity_status :: IdentityStatus
  identity_thumbprint :: bytes
  identity_serial_number :: bytes
  identity_not_before :: u64
  identity_not_after :: u64

record ('json, 'cert, 'k, 'path) acq_lib =
  acme :: "'json acme_lib"
  pki :: "('cert, 'k, 'path) pki_lib"
  http_hook :: "hook_event list \<Rightarrow> HttpMethod \<Rightarrow> url \<Rightarrow> (bytes \<times> bytes) list \<Rightarrow> bytes \<Rightarrow> bytes + HttpResponse"
  backend_nonce_hook :: "hook_event list \<Rightarrow> bytes + bytes"
  access_token_hook :: "hook_event list \<Rightarrow> bytes \<Rightarrow> bytes + bytes"
  authenticate_hook :: "hook_event list \<Rightarrow> url \<Rightarrow> bytes \<Rightarrow> url \<Rightarrow> bytes \<Rightarrow> bytes + bytes"
  time_at :: "hook_event list \<Rightarrow> int"
  json_from_slice :: "bytes \<Rightarrow> 'json option"
  jws_to_json :: "AcmeJws \<Rightarrow> bytes option"
  url_parse :: "bytes \<Rightarrow> url option"
  generate_key :: "nat \<Rightarrow> JwsAlgorithm \<Rightarrow> Pem option"
  public_jwk :: "JwsAlgorithm \<Rightarrow> Pem \<Rightarrow> bytes option"
  jwk_thumbprint :: "bytes \<Rightarrow> HashAlgorithm \<Rightarrow> bytes option"
  acq_to_json :: "DpopChallengeCompleted X509CredentialAcquisition \<Rightarrow> bytes option"
  acq_from_json :: "bytes \<Rightarrow> DpopChallengeCompleted X509CredentialAcquisition option"
  generate_dpop_token :: "Dpop \<Rightarrow> JwtClientId \<Rightarrow> bytes \<Rightarrow> url \<Rightarrow> nat \<Rightarrow> JwsAlgorithm \<Rightarrow> Pem \<Rightarrow> bytes option"
  cert_spki_alg :: "'cert \<Rightarrow> string \<times> string option"
  cert_public_key :: "'cert \<Rightarrow> bytes"
  cert_validity :: "'cert \<Rightarrow> u64 \<times> u64"
  cert_subject :: "'cert \<Rightarrow> (string \<times> bytes) list list"
  cert_extensions :: "'cert \<Rightarrow> (string \<times> bytes) list option"
  san_from_der :: "bytes \<Rightarrow> GeneralName list option"
  client_id_from_uri :: "bytes \<Rightarrow> JwtClientId option"
  client_id_to_qualified :: "JwtClientId \<Rightarrow> bytes"
  client_id_from_qualified :: "bytes \<Rightarrow> JwtClientId option"
  parse_qualified_handle :: "bytes \<Rightarrow> bytes option"
  raw_key_jwk :: "JwsAlgorithm \<Rightarrow> bytes \<Rightarrow> bytes option"

type_synonym 'a acq_op = "(hook_event list, acq_error, 'a) fallible"

section \<open>Calling the hooks\<close>

definition http_request ::
  "('json, 'cert, 'k, 'path) acq_lib \<Rightarrow> HttpMethod \<Rightarrow> url \<Rightarrow> (bytes \<times> bytes) list \<Rightarrow> bytes \<Rightarrow> HttpResponse acq_op" where
  "http_request L method u headers body tr =
     (let r = http_hook L tr method u headers body in (map_err HookFailed r, tr @ [HttpEvent method u headers body r]))"

definition get_backend_nonce :: "('json, 'cert, 'k, 'path) acq_lib \<Rightarrow> bytes acq_op" where
  "get_backend_nonce L tr = (let r = backend_nonce_hook L tr in (map_err HookFailed r, tr @ [BackendNonceEvent r]))"

definition fetch_backend_access_token :: "('json, 'cert, 'k, 'path) acq_lib \<Rightarrow> bytes \<Rightarrow> bytes acq_op" where
  "fetch_backend_access_token L dpop tr =
     (let r = access_token_hook L tr dpop in (map_err HookFailed r, tr @ [AccessTokenEvent dpop r]))"

definition authenticate :: "('json, 'cert, 'k, 'path) acq_lib \<Rightarrow> url \<Rightarrow> bytes \<Rightarrow> url \<Rightarrow> bytes \<Rightarrow> bytes acq_op" where
  "authenticate L idp key_auth acme_aud snapshot tr =
     (let r = authenticate_hook L tr idp key_auth acme_aud snapshot
      in (map_err HookFailed r, tr @ [AuthenticateEvent idp key_auth acme_aud snapshot r]))"

definition acme_step :: "acme_error + 'a \<Rightarrow> 'a acq_op" where
  "acme_step r = liftS (map_err AcqAcme r)"

definition get_header :: "HttpResponse \<Rightarrow> string \<Rightarrow> acq_error + bytes" where
  "get_header resp header = ok_or (MissingHeader header) (first_header resp (ascii header))"

definition jose_headers :: "(bytes \<times> bytes) list" where
  "jose_headers = [(ascii ''content-type'', ascii ''application/jose+json'')]"

definition acme_request :: "('json, 'cert, 'k, 'path) acq_lib \<Rightarrow> url \<Rightarrow> AcmeJws \<Rightarrow> (bytes \<times> 'json) acq_op" where
  "acme_request L u jws =
     bindS (liftS (ok_or AcqJson (jws_to_json L jws))) (\<lambda>body.
     bindS (http_request L HttpPost u jose_headers body) (\<lambda>response.
     bindS (liftS (get_header response ''replay-nonce'')) (\<lambda>nonce.
     bindS (liftS (ok_or AcqJson (json_from_slice L (http_body response)))) (\<lambda>json. okS (nonce, json)))))"

section \<open>Starting\<close>

text \<open>\<open>None\<close> when a key cannot be generated or converted.\<close>

definition try_new_from_pem ::
  "('json, 'cert, 'k, 'path) acq_lib \<Rightarrow> X509CredentialConfiguration \<Rightarrow> Pem \<Rightarrow> unit X509CredentialAcquisition option" where
  "try_new_from_pem L cfg signing =
     Option.bind (generate_key L 1 (sign_alg cfg)) (\<lambda>acme_pem.
     map_option (\<lambda>jwk. \<lparr>config = cfg, sign_kp = signing, acme_kp = acme_pem, acme_jwk = jwk, acq_data = ()\<rparr>)
       (public_jwk L (sign_alg cfg) acme_pem))"

definition try_new ::
  "('json, 'cert, 'k, 'path) acq_lib \<Rightarrow> X509CredentialConfiguration \<Rightarrow> unit X509CredentialAcquisition option" where
  "try_new L cfg = Option.bind (generate_key L 0 (sign_alg cfg)) (\<lambda>signing.
     Option.bind (generate_key L 1 (sign_alg cfg)) (\<lambda>acme_pem.
     map_option (\<lambda>jwk. \<lparr>config = cfg, sign_kp = signing, acme_kp = acme_pem, acme_jwk = jwk, acq_data = ()\<rparr>)
       (public_jwk L (sign_alg cfg) acme_pem)))"

section \<open>The DPoP challenge\<close>

definition get_challenge ::
  "('json, 'cert, 'k, 'path) acq_lib \<Rightarrow> unit X509CredentialAcquisition \<Rightarrow> url \<Rightarrow> AcmeAccount \<Rightarrow> bytes
   \<Rightarrow> (bytes \<times> AcmeChallenge) acq_op" where
  "get_challenge L acq u account nonce =
     bindS (acme_step (new_authz_request (acme L) u account (sign_alg (config acq)) (acme_kp acq) nonce)) (\<lambda>authz_request.
     bindS (acme_request L u authz_request) (\<lambda>(nonce, response).
     bindS (getS (time_at L)) (\<lambda>now.
     bindS (acme_step (new_authz_response (acme L) now response)) (\<lambda>authorization.
     okS (nonce, challenges authorization)))))"

definition get_challenges ::
  "('json, 'cert, 'k, 'path) acq_lib \<Rightarrow> unit X509CredentialAcquisition \<Rightarrow> AcmeAccount \<Rightarrow> AcmeOrder \<Rightarrow> bytes
   \<Rightarrow> (bytes \<times> AcmeChallenge \<times> AcmeChallenge) acq_op" where
  "get_challenges L acq account order nonce =
     bindS (get_challenge L acq (fst (authorizations order)) account nonce) (\<lambda>(nonce, challenge1).
     bindS (get_challenge L acq (snd (authorizations order)) account nonce) (\<lambda>(nonce, challenge2).
     if chall_typ challenge1 = WireDpop01 \<and> chall_typ challenge2 = WireOidc01 then okS (nonce, challenge1, challenge2)
     else if chall_typ challenge1 = WireOidc01 \<and> chall_typ challenge2 = WireDpop01 then okS (nonce, challenge2, challenge1)
     else errS (AcqAcme (AuthzError InvalidChallengeType))))"

definition create_order ::
  "('json, 'cert, 'k, 'path) acq_lib \<Rightarrow> unit X509CredentialAcquisition \<Rightarrow> (bytes \<times> AcmeAccount \<times> AcmeOrder) acq_op" where
  "create_order L acq = (let cfg = config acq in
     bindS (liftS (ok_or (AcqPanicked ''valid ACME directory URL'') (url_parse L (acme_directory_url cfg)))) (\<lambda>u.
     bindS (http_request L HttpGet u [] []) (\<lambda>resp.
     bindS (liftS (ok_or AcqJson (json_from_slice L (http_body resp)))) (\<lambda>body.
     bindS (acme_step (acme_directory_response (acme L) body)) (\<lambda>directory.
     bindS (http_request L HttpHead (new_nonce directory) [] []) (\<lambda>resp.
     bindS (liftS (get_header resp ''replay-nonce'')) (\<lambda>nonce.
     bindS (acme_step (new_account_request (acme L) directory (sign_alg cfg) (acme_kp acq) nonce)) (\<lambda>account_request.
     bindS (acme_request L (new_account directory) account_request) (\<lambda>(nonce, response).
     bindS (acme_step (new_account_response (acme L) response)) (\<lambda>account.
     bindS (getS (time_at L)) (\<lambda>now.
     bindS (acme_step (new_order_request (acme L) now (cfg_display_name cfg) (cfg_client_id cfg) (cfg_handle cfg)
       (validity_period cfg) directory account (sign_alg cfg) (acme_kp acq) nonce)) (\<lambda>order_request.
     bindS (acme_request L (new_order directory) order_request) (\<lambda>(nonce, response).
     bindS (getS (time_at L)) (\<lambda>now.
     bindS (acme_step (new_order_response (acme L) now response)) (\<lambda>order.
     okS (nonce, account, order))))))))))))))))"

definition DPOP_EXPIRY_SECS :: nat where
  "DPOP_EXPIRY_SECS = 5 * 60"

definition complete_dpop_challenge ::
  "('json, 'cert, 'k, 'path) acq_lib \<Rightarrow> unit X509CredentialAcquisition
   \<Rightarrow> DpopChallengeCompleted X509CredentialAcquisition acq_op" where
  "complete_dpop_challenge L acq = (let cfg = config acq in
     bindS (create_order L acq) (\<lambda>(nonce, account, order).
     bindS (get_challenges L acq account order nonce) (\<lambda>(nonce, dpop_chall, oidc_chall).
     bindS (get_backend_nonce L) (\<lambda>backend_nonce.
     bindS (liftS (ok_or AcqJwtError (handle_to_qualified (acme L) (cfg_handle cfg) (jwt_domain (cfg_client_id cfg))))) (\<lambda>handle.
     let dpop = \<lparr>dpop_htu = chall_target dpop_chall, dpop_challenge_token = chall_token dpop_chall, dpop_handle = handle,
       dpop_team = team cfg, dpop_display_name = cfg_display_name cfg\<rparr> in
     bindS (liftS (ok_or AcqJwtError (generate_dpop_token L dpop (cfg_client_id cfg) backend_nonce (chall_url dpop_chall)
       DPOP_EXPIRY_SECS (sign_alg cfg) (acme_kp acq)))) (\<lambda>token.
     bindS (fetch_backend_access_token L token) (\<lambda>access_token.
     bindS (acme_step (dpop_chall_request (acme L) access_token dpop_chall account (sign_alg cfg) (acme_kp acq) nonce)) (\<lambda>request.
     bindS (acme_request L (chall_url dpop_chall) request) (\<lambda>(nonce, response).
     bindS (acme_step (new_chall_response (acme L) response)) (\<lambda>_.
     okS \<lparr>config = cfg, sign_kp = sign_kp acq, acme_kp = acme_kp acq, acme_jwk = acme_jwk acq,
       acq_data = \<lparr>acq_nonce = nonce, acme_account = account, acq_order = order, oidc_challenge = oidc_chall\<rparr>\<rparr>))))))))))"

section \<open>The identity in a certificate\<close>

fun scan_subject :: "(string \<times> bytes) list \<Rightarrow> bytes option \<times> bytes option \<Rightarrow> CertificateError + bytes option \<times> bytes option" where
  "scan_subject [] acc = Inr acc"
| "scan_subject ((attr, v) # rest) (display_name, domain) =
     (if attr = ''ORGANIZATION_NAME'' then bindE (ok_or CertUtf8 (from_utf8 v)) (\<lambda>s. scan_subject rest (display_name, Some s))
      else if attr = ''COMMON_NAME'' then bindE (ok_or CertUtf8 (from_utf8 v)) (\<lambda>s. scan_subject rest (Some s, domain))
      else scan_subject rest (display_name, domain))"

definition try_extract_subject :: "('json, 'cert, 'k, 'path) acq_lib \<Rightarrow> 'cert \<Rightarrow> CertificateError + bytes \<times> bytes" where
  "try_extract_subject L cert =
     bindE (scan_subject (concat (cert_subject L cert)) (None, None)) (\<lambda>(display_name, domain).
     bindE (ok_or MissingDisplayName display_name) (\<lambda>n.
     bindE (ok_or MissingDomain domain) (\<lambda>d. Inr (n, d))))"

fun scan_san ::
  "('json, 'cert, 'k, 'path) acq_lib \<Rightarrow> GeneralName list \<Rightarrow> bytes option \<times> bytes option \<Rightarrow> bytes option \<times> bytes option" where
  "scan_san L [] acc = acc"
| "scan_san L (UniformResourceIdentifier name # rest) (client_id, handle) =
     (case client_id_from_uri L name of
        Some cid \<Rightarrow> scan_san L rest (Some (client_id_to_qualified L cid), handle)
      | None \<Rightarrow> (case parse_qualified_handle L name of
          Some h \<Rightarrow> scan_san L rest (client_id, Some h)
        | None \<Rightarrow> scan_san L rest (client_id, handle)))"
| "scan_san L (_ # rest) acc = scan_san L rest acc"

definition try_extract_san :: "('json, 'cert, 'k, 'path) acq_lib \<Rightarrow> 'cert \<Rightarrow> CertificateError + bytes \<times> bytes" where
  "try_extract_san L cert =
     bindE (ok_or InvalidFormat (cert_extensions L cert)) (\<lambda>extensions.
     bindE (ok_or InvalidFormat (map_of extensions ''ID_CE_SUBJECT_ALT_NAME'')) (\<lambda>value.
     bindE (ok_or CertDer (san_from_der L value)) (\<lambda>san.
     let (client_id, handle) = scan_san L san (None, None) in
     bindE (ok_or MissingClientId client_id) (\<lambda>c.
     bindE (ok_or MissingHandle handle) (\<lambda>h. Inr (c, h))))))"

definition alg_of_spki :: "string \<times> string option \<Rightarrow> JwsAlgorithm option" where
  "alg_of_spki alg =
     (if alg = (''ID_ED_25519'', None) then Some Ed25519
      else if alg = (''ID_EC_PUBLIC_KEY'', Some ''SECP_256_R_1'') then Some P256
      else if alg = (''ID_EC_PUBLIC_KEY'', Some ''SECP_384_R_1'') then Some P384
      else if alg = (''ID_EC_PUBLIC_KEY'', Some ''SECP_521_R_1'') then Some P521
      else None)"

definition cert_into_jwk :: "('json, 'cert, 'k, 'path) acq_lib \<Rightarrow> 'cert \<Rightarrow> CertificateError + bytes" where
  "cert_into_jwk L cert =
     bindE (ok_or UnsupportedPublicKey (alg_of_spki (cert_spki_alg L cert))) (\<lambda>alg.
     ok_or CertJwtSimple (raw_key_jwk L alg (cert_public_key L cert)))"

definition try_compute_jwk_canonicalized_thumbprint ::
  "('json, 'cert, 'k, 'path) acq_lib \<Rightarrow> 'cert \<Rightarrow> HashAlgorithm \<Rightarrow> CertificateError + bytes" where
  "try_compute_jwk_canonicalized_thumbprint L cert alg =
     bindE (cert_into_jwk L cert) (\<lambda>jwk. ok_or CertJwtError (jwk_thumbprint L jwk alg))"

definition extract_identity ::
  "('json, 'cert, 'k, 'path) acq_lib \<Rightarrow> 'cert pki_env \<Rightarrow> HashAlgorithm \<Rightarrow> 'cert \<Rightarrow> CertificateError + WireIdentity" where
  "extract_identity L env alg cert =
     bindE (try_extract_san L cert) (\<lambda>(client_id, handle).
     bindE (try_extract_subject L cert) (\<lambda>(display_name, domain).
     let status = identity_status_from (pki_validate_cert (pki L) cert env) in
     bindE (try_compute_jwk_canonicalized_thumbprint L cert alg) (\<lambda>thumbprint.
     Inr \<lparr>identity_client_id = client_id, identity_handle = handle, identity_display_name = display_name,
       identity_domain = domain, identity_status = status, identity_thumbprint = thumbprint,
       identity_serial_number = hex_encode (pki L) (serial_number (pki L) cert),
       identity_not_before = fst (cert_validity L cert), identity_not_after = snd (cert_validity L cert)\<rparr>)))"

definition compute_raw_key_thumbprint ::
  "('json, 'cert, 'k, 'path) acq_lib \<Rightarrow> JwsAlgorithm \<Rightarrow> HashAlgorithm \<Rightarrow> bytes \<Rightarrow> bytes acme_result" where
  "compute_raw_key_thumbprint L alg hash signature_public_key =
     bindE (ok_or AcmeRawJwtError (raw_key_jwk L alg signature_public_key)) (\<lambda>jwk.
     ok_or AcmeJwtError (jwk_thumbprint L jwk hash))"

section \<open>Checking the certificate\<close>

definition verify_leaf_certificate ::
  "('json, 'cert, 'k, 'path) acq_lib \<Rightarrow> X509CredentialConfiguration \<Rightarrow> 'cert rjt_env \<Rightarrow> 'cert pki_env \<Rightarrow> Pem \<Rightarrow> 'cert
   \<Rightarrow> CertificateError + unit" where
  "verify_leaf_certificate L cfg env outer_env signing cert =
     bindE (map_err CertX509Check (validate_cert_internal (certval_of (pki L) env) cert False)) (\<lambda>_.
     if cert_spki_alg L cert \<noteq> spki_alg (sign_alg cfg) then Inl AlgorithmMismatch
     else bindE (ok_or (CertPanicked ''sign_kp must be valid PEM'') (public_key_of (acme L) (sign_alg cfg) signing)) (\<lambda>sign_kp_bytes.
     if sign_kp_bytes \<noteq> cert_public_key L cert then Inl KeyMismatch
     else bindE (extract_identity L outer_env (hash_alg cfg) cert) (\<lambda>cert_identity.
     bindE (ok_or InvalidClientId (client_id_from_qualified L (identity_client_id cert_identity))) (\<lambda>cert_id.
     if cert_id \<noteq> cfg_client_id cfg then Inl ClientIdMismatch
     else if identity_display_name cert_identity \<noteq> cfg_display_name cfg then Inl DisplayNameMismatch
     else bindE (ok_or (CertPanicked ''X509 configuration handle and domain must be valid'')
         (handle_to_qualified (acme L) (cfg_handle cfg) (cfg_domain cfg))) (\<lambda>handle.
     if identity_handle cert_identity \<noteq> handle then Inl HandleMismatch
     else if identity_domain cert_identity \<noteq> cfg_domain cfg then Inl DomainMismatch
     else Inr ())))))"

definition verify_cert_chain ::
  "('json, 'cert, 'k, 'path) acq_lib \<Rightarrow> X509CredentialConfiguration \<Rightarrow> 'cert pki_env \<Rightarrow> Pem \<Rightarrow> 'cert list
   \<Rightarrow> CertificateError + unit" where
  "verify_cert_chain L cfg outer_env signing certs = (case certs of
       [] \<Rightarrow> Inl (CertPanicked ''at least one certificate'')
     | leaf # intermediates \<Rightarrow>
         bindE (map_err CertX509Check (certval_init (pki L) (get_trust_anchors outer_env) intermediates [])) (\<lambda>env.
         bindE (verify_leaf_certificate L cfg env outer_env signing leaf) (\<lambda>_.
         bindE (map_err CertX509Check (extract_ski_aki_from_cert (pki L) leaf)) (\<lambda>_. Inr ()))))"

section \<open>The OIDC challenge\<close>

definition fetch_certificate ::
  "('json, 'cert, 'k, 'path) acq_lib \<Rightarrow> DpopChallengeCompleted X509CredentialAcquisition \<Rightarrow> AcmeFinalize \<Rightarrow> bytes
   \<Rightarrow> 'cert list acq_op" where
  "fetch_certificate L acq finalize nonce =
     bindS (acme_step (certificate_req (acme L) finalize (acme_account (acq_data acq)) (sign_alg (config acq)) (acme_kp acq) nonce)) (\<lambda>request.
     bindS (liftS (ok_or AcqJson (jws_to_json L request))) (\<lambda>body.
     bindS (http_request L HttpPost (finalize_certificate finalize) jose_headers body) (\<lambda>response.
     bindS (acme_step (ok_or AcmeUtf8 (from_utf8 (http_body response)))) (\<lambda>text.
     bindS (getS (time_at L)) (\<lambda>now.
     acme_step (certificate_response (acme L) (cert_from_der (pki L)) now text (acq_order (acq_data acq))))))))"

definition complete_oidc_challenge ::
  "('json, 'cert, 'k, 'path) acq_lib \<Rightarrow> 'cert pki_env \<Rightarrow> DpopChallengeCompleted X509CredentialAcquisition
   \<Rightarrow> (Pem \<times> 'cert list) acq_op" where
  "complete_oidc_challenge L env acq = (let cfg = config acq; data = acq_data acq; chall = oidc_challenge data in
     bindS (liftS (ok_or AcqJwtError (jwk_thumbprint L (acme_jwk acq) (hash_alg cfg)))) (\<lambda>thumbprint.
     let key_auth = chall_token chall @ ascii ''.'' @ thumbprint in
     bindS (liftS (ok_or AcqJson (acq_to_json L acq))) (\<lambda>snapshot.
     bindS (authenticate L (chall_target chall) key_auth (chall_url chall) snapshot) (\<lambda>id_token.
     bindS (acme_step (oidc_chall_request (acme L) id_token chall (acme_account data) (sign_alg cfg) (acme_kp acq) (acq_nonce data))) (\<lambda>request.
     bindS (acme_request L (chall_url chall) request) (\<lambda>(nonce, response).
     bindS (acme_step (new_chall_response (acme L) response)) (\<lambda>_.
     bindS (getS (time_at L)) (\<lambda>now.
     bindS (acme_step (finalize_req (acme L) now (acq_order data) (acme_account data) (sign_alg cfg) (acme_kp acq) (sign_kp acq) nonce)) (\<lambda>request.
     bindS (acme_request L (order_finalize (acq_order data)) request) (\<lambda>(nonce, response).
     bindS (acme_step (finalize_response (acme L) response)) (\<lambda>finalize.
     bindS (fetch_certificate L acq finalize nonce) (\<lambda>certificates.
     bindS (liftS (map_err InvalidCertificate (verify_cert_chain L cfg env (sign_kp acq) certificates))) (\<lambda>_.
     okS (sign_kp acq, certificates))))))))))))))"

text \<open>Restoring an acquisition from the snapshot that was handed to \<open>authenticate\<close>.\<close>

definition acq_deserialize ::
  "('json, 'cert, 'k, 'path) acq_lib \<Rightarrow> bytes \<Rightarrow> acq_error + DpopChallengeCompleted X509CredentialAcquisition" where
  "acq_deserialize L bs = ok_or AcqJson (acq_from_json L bs)"

definition acquire ::
  "('json, 'cert, 'k, 'path) acq_lib \<Rightarrow> 'cert pki_env \<Rightarrow> unit X509CredentialAcquisition \<Rightarrow> (Pem \<times> 'cert list) acq_op" where
  "acquire L env acq = bindS (complete_dpop_challenge L acq) (complete_oidc_challenge L env)"

end
