(* ===== verification/Pki_Properties.thy ===== *)
theory Pki_Properties
  imports Pki_Env Overlay
begin

text \<open>
  What the PKI environment holds in memory compared with what a restart restores from the
  database, and what remains of an intermediate certificate whose revocation lists cannot be
  had.
\<close>

section \<open>Transactions around one mutation\<close>

definition no_transaction :: "'cert pki_env \<Rightarrow> bool" where
  "no_transaction s \<longleftrightarrow> transaction (pki_database s) = None \<and> permits (pki_database s) = 1"

definition begun :: "Database \<Rightarrow> Database" where
  "begun d = d\<lparr>permits := permits d - 1, transaction := Some new_tx\<rparr>"

lemma reachable_no_transaction:
  "db_reachable H (pki_database s) \<Longrightarrow> transaction (pki_database s) = None \<Longrightarrow> no_transaction s"
  by (auto dest!: reachable_inv simp: no_transaction_def db_inv_def)

lemma reachable_begun: "db_reachable H d \<Longrightarrow> permits d = 1 \<Longrightarrow> db_reachable H (begun d)"
  by (erule db_reachable.stepped, rule db_step.begin_tx[of _ _ "Inr ()"]) (simp add: new_transaction_def begun_def)

lemma transactionally_begun:
  assumes "no_transaction s"
  shows "transactionally L operation s = (case operation (s\<lparr>pki_database := begun (pki_database s)\<rparr>) of (outcome, s1) \<Rightarrow>
    (case on_db (if is_ok outcome then commit_transaction (pki_hs L) (pki_order L) (pki_io L) else rollback_transaction) s1 of
       (Inl err, s2) \<Rightarrow> (Inl err, s2) | (Inr _, s2) \<Rightarrow> (outcome, s2)))"
  using assms by (simp add: transactionally_def on_db_def try_new_immediate_transaction_def no_transaction_def begun_def)

lemma transactionally_db_Inr:
  assumes "no_transaction s" "transactionally L (on_db f) s = (Inr g, s')"
  obtains d1 d2 where "f (begun (pki_database s)) = (d1, Inr g)"
    "commit_transaction (pki_hs L) (pki_order L) (pki_io L) d1 = (d2, Inr ())" "s' = s\<lparr>pki_database := d2\<rparr>"
  using assms(2) unfolding transactionally_begun[OF assms(1)]
  by (auto simp: on_db_def map_err_def split: prod.splits sum.splits if_splits)

lemma on_rjt_Inr: "on_rjt f s = (r, s') \<longleftrightarrow> r = Inr () \<and> s' = s\<lparr>rjt_pki_env := f (rjt_pki_env s)\<rparr>"
  by (auto simp: on_rjt_def putS_def)

lemma anchor_certs_simps [simp]:
  "anchor_certs (xs @ ys) = anchor_certs xs @ anchor_certs ys" "anchor_certs [] = []"
  "anchor_certs [map TaCertificate cs] = cs"
  by (auto simp: anchor_certs_def List.map_filter_def comp_def)

section \<open>Trust anchors in memory and after a restart\<close>

text \<open>
  The certificate codec reads back what it wrote, and a source of trust anchors made from encoded
  certificates holds these certificates.
\<close>

definition cert_codec_ok :: "('cert, 'k, 'path) pki_lib \<Rightarrow> bool" where
  "cert_codec_ok L \<longleftrightarrow> (\<forall>cert der. cert_to_der L cert = Some der \<longrightarrow> cert_from_der L der = Some cert)"

definition ta_source_ok :: "('cert, 'k, 'path) pki_lib \<Rightarrow> bool" where
  "ta_source_ok L \<longleftrightarrow> (\<forall>certs files. list_all2 (\<lambda>cert file. cert_to_der L cert = Some file) certs files \<longrightarrow>
     ta_initialize L files = Inr (map TaCertificate certs))"

lemma ta_sourceD:
  assumes "ta_source_ok L" "mapE (\<lambda>cert. ok_or e (cert_to_der L cert)) certs = Inr files" "map_err f (ta_initialize L files) = Inr tas"
  shows "tas = map TaCertificate certs"
proof -
  have "list_all2 (\<lambda>cert file. cert_to_der L cert = Some file) certs files"
    using assms(2) by (simp add: mapE_eq_Inr ok_or_eq_Inr)
  then show ?thesis
    using assms(1,3) unfolding ta_source_ok_def by fastforce
qed

lemma certval_init_Inr:
  assumes "certval_init L roots ints cs = Inr env"
  obtains files tas where "mapE (\<lambda>root. ok_or DerError (cert_to_der L root)) roots = Inr files"
    "map_err CertValError (ta_initialize L files) = Inr tas" "ta_sources env = [tas]"
  using assms by (auto simp: certval_init_def bindE_eq_Inr map_err_eq_Inr)

text \<open>The anchors of an environment opened on a database are those stored there.\<close>

lemma restored_anchors:
  assumes "cert_codec_ok L" "ta_source_ok L" "pki_env_new L d = Inr s"
  shows "db_get E2eiAcmeCAT unique_key d = Inr (Some (E2eiAcmeCA \<lparr>acme_ca_content = der\<rparr>)) \<Longrightarrow>
      cert_to_der L cert = Some der \<Longrightarrow> get_trust_anchors s = [cert]"
    and "db_get E2eiAcmeCAT unique_key d = Inr None \<Longrightarrow> get_trust_anchors s = []"
proof -
  obtain roots ints cs where init: "certval_init L roots ints cs = Inr (rjt_pki_env s)"
    and roots: "(case db_get E2eiAcmeCAT unique_key d of
         Inr (Some (E2eiAcmeCA ta_raw)) \<Rightarrow>
           mapR (\<lambda>cert. [cert]) (ok_or X509CertDerError (cert_from_der L (acme_ca_content ta_raw)))
       | _ \<Rightarrow> Inr []) = Inr roots"
    using assms(3) unfolding pki_env_new_def restore_pki_env_def mapR_eq_Inr bindE_eq_Inr map_err_eq_Inr by fastforce
  obtain files tas where src: "mapE (\<lambda>root. ok_or DerError (cert_to_der L root)) roots = Inr files"
    "map_err CertValError (ta_initialize L files) = Inr tas" "ta_sources (rjt_pki_env s) = [tas]"
    using certval_init_Inr[OF init] .
  then have ta: "get_trust_anchors s = roots"
    using ta_sourceD[OF assms(2) src(1,2)] by (simp add: get_trust_anchors_def)
  show "get_trust_anchors s = [cert]"
    if "db_get E2eiAcmeCAT unique_key d = Inr (Some (E2eiAcmeCA \<lparr>acme_ca_content = der\<rparr>))" "cert_to_der L cert = Some der"
    using ta roots that assms(1) unfolding cert_codec_ok_def by simp
  show "get_trust_anchors s = []" if "db_get E2eiAcmeCAT unique_key d = Inr None"
    using ta roots that by simp
qed

text \<open>
  C38: Adding a trust anchor does not replace the ones in use, as documented, but adds to them, while
  it replaces the stored one: after a restart only the added anchor is left.
\<close>

theorem added_anchor_beside_old:
  assumes "sha256_sized (pki_hs L)" "permuting (pki_order L)" "db_reachable (pki_hs L) (pki_database s)"
    and "transaction (pki_database s) = None" "cert_codec_ok L" "ta_source_ok L"
    and "add_trust_anchor L cert s = (Inr (), s')" "pki_env_new L (pki_database s') = Inr restarted"
  shows "get_trust_anchors s' = get_trust_anchors s @ [cert] \<and> get_trust_anchors restarted = [cert]"
proof -
  have idle: "no_transaction s"
    by (rule reachable_no_transaction[OF assms(3,4)])
  obtain der g s1 tas where der: "cert_to_der L cert = Some der" "ta_initialize L [der] = Inr tas"
    and save: "transactionally L (pki_save L (E2eiAcmeCA \<lparr>acme_ca_content = der\<rparr>)) s = (Inr g, s1)"
    and s': "s' = s1\<lparr>rjt_pki_env := (rjt_pki_env s1)\<lparr>ta_sources := ta_sources (rjt_pki_env s1) @ [tas]\<rparr>\<rparr>"
    using assms(7) by (auto simp: add_trust_anchor_def bindS_Inr liftS_def ok_or_eq_Inr map_err_eq_Inr on_rjt_Inr)
  let ?e = "E2eiAcmeCA \<lparr>acme_ca_content = der\<rparr>"
  obtain d1 d2 where d1: "db_save (pki_hs L) None ?e (begun (pki_database s)) = (d1, Inr g)"
    and d2: "commit_transaction (pki_hs L) (pki_order L) (pki_io L) d1 = (d2, Inr ())" "s1 = s\<lparr>pki_database := d2\<rparr>"
    using transactionally_db_Inr[OF idle save[unfolded pki_save_def]] .
  have opened: "db_reachable (pki_hs L) (begun (pki_database s))"
    using reachable_begun[OF assms(3)] idle by (simp add: no_transaction_def)
  have "g = None"
    using d1 by (auto simp: db_save_def tx_save_def Let_def split: option.splits sum.splits)
  then have "db_get E2eiAcmeCAT unique_key d1 = Inr (Some ?e)"
    using db_get_after_save[OF reachable_inv[OF opened] _ d1, of ?e E2eiAcmeCAT unique_key]
    by (simp add: mutation_ok_def is_none_or_def ident_def)
  moreover have "db_reachable (pki_hs L) d1"
    using db_reachable.stepped[OF opened db_step.mutate_tx[of "Save None ?e"]] d1
    by (simp add: mutate_def mutation_ok_def is_none_or_def)
  ultimately have "db_get E2eiAcmeCAT unique_key d2 = Inr (Some ?e)"
    using commit_reads[OF assms(1,2) _ d2(1), of E2eiAcmeCAT unique_key] by (simp add: keyed_def unique_key_def)
  then have "get_trust_anchors restarted = [cert]"
    using restored_anchors(1)[OF assms(5,6,8)] der(1) s' d2(2) by simp
  moreover have "tas = map TaCertificate [cert]"
    by (rule ta_sourceD[OF assms(6), of X509CertDerError _ "[der]" PkiCertval]) (simp_all add: der)
  ultimately show ?thesis
    using s' d2(2) anchor_certs_simps(3)[of "[cert]"] by (simp add: get_trust_anchors_def)
qed

text \<open>
  Removing an anchor by a serial number that none has leaves all anchors in use but deletes the
  stored one: after a restart there is no trust anchor.
\<close>

theorem removal_of_unknown_serial:
  assumes "sha256_sized (pki_hs L)" "permuting (pki_order L)" "db_reachable (pki_hs L) (pki_database s)"
    and "transaction (pki_database s) = None" "cert_codec_ok L" "ta_source_ok L"
    and "\<forall>cert \<in> set (get_trust_anchors s). serial_number L cert \<noteq> serial"
    and "remove_trust_anchor L serial s = (Inr (), s')" "pki_env_new L (pki_database s') = Inr restarted"
  shows "get_trust_anchors s' = get_trust_anchors s \<and> get_trust_anchors restarted = []"
proof -
  obtain files tas s1 where files: "mapE (\<lambda>cert. ok_or X509CertDerError (cert_to_der L cert)) (get_trust_anchors s) = Inr files"
    and tas: "map_err PkiCertval (ta_initialize L files) = Inr tas"
    and s1: "s1 = s\<lparr>rjt_pki_env := (rjt_pki_env s)\<lparr>ta_sources := [tas]\<rparr>\<rparr>"
    and tx: "transactionally L (on_db (db_remove E2eiAcmeCAT unique_key)) s1 = (Inr (), s')"
    using assms(7,8) by (auto simp: remove_trust_anchor_def bindS_Inr getS_def liftS_def on_rjt_Inr map_err_eq_Inr)
  have idle: "no_transaction s1"
    using reachable_no_transaction[OF assms(3,4)] s1 by (simp add: no_transaction_def)
  obtain d1 d2 where d1: "db_remove E2eiAcmeCAT unique_key (begun (pki_database s)) = (d1, Inr ())"
    and d2: "commit_transaction (pki_hs L) (pki_order L) (pki_io L) d1 = (d2, Inr ())" "s' = s1\<lparr>pki_database := d2\<rparr>"
    using transactionally_db_Inr[OF idle tx] s1 by auto
  have opened: "db_reachable (pki_hs L) (begun (pki_database s))"
    using reachable_begun[OF assms(3)] idle s1 by (simp add: no_transaction_def)
  have "db_get E2eiAcmeCAT unique_key d1 = Inr None"
    using db_get_after_remove[OF reachable_inv[OF opened] d1] by simp
  moreover have "db_reachable (pki_hs L) d1"
    using db_reachable.stepped[OF opened db_step.mutate_tx[of "Remove E2eiAcmeCAT unique_key"]] d1
    by (simp add: mutate_def mutation_ok_def)
  ultimately have "db_get E2eiAcmeCAT unique_key d2 = Inr None"
    using commit_reads[OF assms(1,2) _ d2(1), of E2eiAcmeCAT unique_key] by (simp add: keyed_def unique_key_def)
  then have "get_trust_anchors restarted = []"
    using restored_anchors(2)[OF assms(5,6,9)] d2(2) by simp
  then show ?thesis
    using ta_sourceD[OF assms(6) files tas] s1 d2(2) by (simp add: get_trust_anchors_def)
qed

section \<open>A failed addition of an intermediate certificate\<close>

text \<open>Inside a transaction the database connection does not change and the sources of certificates do not.\<close>

definition inside :: "'cert pki_env \<Rightarrow> 'cert pki_env \<Rightarrow> bool" where
  "inside s t \<longleftrightarrow> transaction (pki_database t) \<noteq> None \<and> permits (pki_database t) = 0
     \<and> conn (pki_database t) = conn (pki_database s)
     \<and> ta_sources (rjt_pki_env t) = ta_sources (rjt_pki_env s) \<and> cert_sources (rjt_pki_env t) = cert_sources (rjt_pki_env s)"

lemma pki_save_inside: "upholds (inside s) (\<lambda>_. True) (pki_save L e)"
proof (rule deliversI)
  fix t r t' assume "inside s t" "pki_save L e t = (Inl r, t')"
  then show "inside s t' \<and> True"
    by (auto simp: inside_def pki_save_def on_db_def db_save_def split: prod.splits option.splits sum.splits)
next
  fix t a t' assume "inside s t" "pki_save L e t = (Inr a, t')"
  then show "inside s t' \<and> True"
    by (auto simp: inside_def pki_save_def on_db_def db_save_def split: prod.splits option.splits sum.splits)
qed

lemma transactionally_inside: "inside s t \<Longrightarrow> transactionally L operation t = operation t"
  by (simp add: inside_def transactionally_def on_db_def try_new_immediate_transaction_def)

lemma crl_source_inside: "upholds (inside s) (\<lambda>_. True) (on_rjt (\<lambda>env. env\<lparr>crl_sources := crl_sources env @ xs\<rparr>))"
  by (rule deliversI) (auto simp: on_rjt_Inr inside_def)

lemma save_crl_inside: "upholds (inside s) (\<lambda>_. True) (save_crl L c)"
proof -
  have "upholds (inside s) (\<lambda>_. True) (transactionally L (pki_save L e))" for e
    using pki_save_inside[of s L e] unfolding delivers_def by (simp add: transactionally_inside)
  then show ?thesis
    unfolding save_crl_def by (cases c) (auto intro!: upholds_bindS crl_source_inside delivers_basic split: sum.splits)
qed

lemma store_intermediate_inside: "upholds (inside s) (\<lambda>_. True) (store_intermediate L cert ic)"
  unfolding store_intermediate_def Let_def
  by (intro upholds_bindS upholds_eachS pki_save_inside save_crl_inside delivers_basic) (auto split: sum.splits)


section \<open>Examples\<close>

text \<open>Certificates are their serial numbers; the distribution point answers with an error.\<close>

definition eg_pki :: "(bytes, unit, unit) pki_lib" where
  "eg_pki = \<lparr>codecs = eg_x509, pki_now = Some 100, cert_from_der = Some, cert_to_der = Some, serial_number = id,
     pdv_cert = (\<lambda>c. Some \<lparr>cert_issuer = [], cert_serial = c,
       cert_crl_dps = Some [Some (FullName [UniformResourceIdentifier [1]])], cert_akid = None\<rparr>),
     get_extension = (\<lambda>c i. Inr (if i = ID_CE_SUBJECT_KEY_IDENTIFIER then Some (SubjectKeyIdentifier c) else None)),
     hex_encode = id, ta_initialize = (\<lambda>fs. Inr (map TaCertificate fs)), cert_initialize = (\<lambda>_ fs. Inr fs),
     check_validity = (\<lambda>_ _. Inr ()), verify_signatures = (\<lambda>_ _. Inr ()),
     crl_verifier_of = (\<lambda>_ _. \<lparr>trust_anchor_by_akid = (\<lambda>_. None), intermediates_by_skid = (\<lambda>_. None),
       trust_anchor_by_name = (\<lambda>_. None), certs_by_name = (\<lambda>_. []), verifies = (\<lambda>_ _ _. False)\<rparr>),
     certval_of = (\<lambda>_. \<lparr>clock = None, parse_cert = Some, paths_for_target = (\<lambda>_ _. Inr []), validate_path = (\<lambda>_ _ _. None),
       check_revocation = (\<lambda>_ _. None)\<rparr>),
     http_get = (\<lambda>_. Inr \<lparr>http_status = 404, http_headers = [], http_body = []\<rparr>),
     uri_order = id, crl_order = id, pki_hs = example_hashes, pki_order = example_order, pki_io = (\<lambda>_. None)\<rparr>"

definition eg_pki_env :: "bytes pki_env" where
  "eg_pki_env = \<lparr>pki_database = db_open empty_db,
     rjt_pki_env = \<lparr>ta_sources = [[TaCertificate [1]]], cert_sources = [], crl_sources = []\<rparr>\<rparr>"

lemma eg_pki_ok: "sha256_sized (pki_hs eg_pki)" "permuting (pki_order eg_pki)" "cert_codec_ok eg_pki" "ta_source_ok eg_pki"
  by (simp_all add: eg_pki_def cert_codec_ok_def ta_source_ok_def list.rel_eq)

lemma eg_pki_reachable: "db_reachable (pki_hs eg_pki) (pki_database eg_pki_env)"
  by (simp add: eg_pki_env_def db_reachable.opened db_ok_empty)

lemma eg_pki_idle: "transaction (pki_database eg_pki_env) = None" "no_transaction eg_pki_env"
  by (simp_all add: eg_pki_env_def db_open_def no_transaction_def ALLOWED_CONCURRENT_TRANSACTIONS_COUNT_def)

theorem added_anchor_beside_old_witness:
  "get_trust_anchors (snd (add_trust_anchor eg_pki [2] eg_pki_env)) = [[1], [2]]"
proof -
  define s' where "s' = snd (add_trust_anchor eg_pki [2] eg_pki_env)"
  have r: "fst (add_trust_anchor eg_pki [2] eg_pki_env) = Inr ()" "is_ok (pki_env_new eg_pki (pki_database s'))"
    unfolding s'_def by code_simp+
  then obtain t where "add_trust_anchor eg_pki [2] eg_pki_env = (Inr (), s')" "pki_env_new eg_pki (pki_database s') = Inr t"
    by (auto simp: is_ok_iff s'_def prod_eq_iff)
  from added_anchor_beside_old[OF eg_pki_ok(1,2) eg_pki_reachable eg_pki_idle(1) eg_pki_ok(3,4) this]
  show ?thesis
    unfolding s'_def[symmetric] by (simp add: get_trust_anchors_def eg_pki_env_def anchor_certs_def List.map_filter_def)
qed

theorem removal_of_unknown_serial_witness:
  "\<exists>s' t. remove_trust_anchor eg_pki [7] eg_pki_env = (Inr (), s')
    \<and> pki_env_new eg_pki (pki_database s') = Inr t \<and> get_trust_anchors s' = [[1]] \<and> get_trust_anchors t = []"
proof -
  define s' where "s' = snd (remove_trust_anchor eg_pki [7] eg_pki_env)"
  have r: "fst (remove_trust_anchor eg_pki [7] eg_pki_env) = Inr ()" "is_ok (pki_env_new eg_pki (pki_database s'))"
    unfolding s'_def by code_simp+
  then obtain t where t: "remove_trust_anchor eg_pki [7] eg_pki_env = (Inr (), s')" "pki_env_new eg_pki (pki_database s') = Inr t"
    by (auto simp: is_ok_iff s'_def prod_eq_iff)
  have a: "get_trust_anchors eg_pki_env = [[1]]" "\<forall>cert \<in> set (get_trust_anchors eg_pki_env). serial_number eg_pki cert \<noteq> [7]"
    by code_simp+
  show ?thesis
    using removal_of_unknown_serial[OF eg_pki_ok(1,2) eg_pki_reachable eg_pki_idle(1) eg_pki_ok(3,4) a(2) t] t a(1) by auto
qed


end
