(* ===== verification/Acquisition_Properties.thy ===== *)
theory Acquisition_Properties
  imports Acquisition Pki_Properties "HOL-Library.Sublist"
begin

text \<open>
  The acquisition of a credential as a whole: what a returned certificate has been checked for,
  which steps have happened before it is returned and in which order, and which nonce each request
  to the ACME server carries.
\<close>

section \<open>What is checked of the certificate\<close>

lemma liftS_Inr [simp]: "liftS r s = (Inr a, s') \<longleftrightarrow> r = Inr a \<and> s' = s"
  by (auto simp: liftS_def)

lemma okS_Inr [simp]: "okS a s = (Inr b, s') \<longleftrightarrow> a = b \<and> s' = s" "errS e s = (Inr b, s') \<longleftrightarrow> False"
  by (auto simp: okS_def errS_def)

lemma getS_Inr [simp]: "getS f s = (Inr b, s') \<longleftrightarrow> b = f s \<and> s' = s"
  by (auto simp: getS_def)

lemma acme_step_Inr [simp]: "acme_step r s = (Inr a, s') \<longleftrightarrow> r = Inr a \<and> s' = s"
  by (auto simp: acme_step_def map_err_eq_Inr)

lemma complete_oidc_Inr:
  assumes "complete_oidc_challenge L env acq tr = (Inr (pem, certs), tr')"
  shows "pem = sign_kp acq" "verify_cert_chain L (config acq) env (sign_kp acq) certs = Inr ()"
  using assms by (auto simp: complete_oidc_challenge_def Let_def bindS_Inr map_err_eq_Inr split: prod.splits)

lemma complete_dpop_Inr:
  assumes "complete_dpop_challenge L acq tr = (Inr acq', tr')"
  shows "config acq' = config acq" "sign_kp acq' = sign_kp acq"
  using assms by (auto simp: complete_dpop_challenge_def Let_def bindS_Inr split: prod.splits)

lemma verify_leaf_Inr:
  assumes "verify_leaf_certificate L cfg env outer signing cert = Inr ()"
  obtains i where "validate_cert_internal (certval_of (pki L) env) cert False = Inr ()"
    "cert_spki_alg L cert = spki_alg (sign_alg cfg)"
    "public_key_of (acme L) (sign_alg cfg) signing = Some (cert_public_key L cert)"
    "extract_identity L outer (hash_alg cfg) cert = Inr i"
    "client_id_from_qualified L (identity_client_id i) = Some (cfg_client_id cfg)"
    "identity_display_name i = cfg_display_name cfg" "identity_domain i = cfg_domain cfg"
    "handle_to_qualified (acme L) (cfg_handle cfg) (cfg_domain cfg) = Some (identity_handle i)"
  using assms
  by (auto simp: verify_leaf_certificate_def bindE_eq_Inr map_err_eq_Inr ok_or_eq_Inr split: if_splits)

text \<open>
  C4: A certificate is returned only for the key pair the acquisition started with, and only when it
  validates against the trust anchors, certifies that public key under the configured algorithm, and
  names the configured client, display name, handle and domain.
\<close>

theorem issued_certificate_matches:
  assumes "complete_dpop_challenge L acq tr = (Inr acq', tr1)" "complete_oidc_challenge L env acq' tr1 = (Inr (pem, certs), tr2)"
  shows "pem = sign_kp acq \<and> (\<exists>leaf chain chain_env i. certs = leaf # chain
    \<and> certval_init (pki L) (get_trust_anchors env) chain [] = Inr chain_env
    \<and> validate_cert_internal (certval_of (pki L) chain_env) leaf False = Inr ()
    \<and> cert_spki_alg L leaf = spki_alg (sign_alg (config acq))
    \<and> public_key_of (acme L) (sign_alg (config acq)) pem = Some (cert_public_key L leaf)
    \<and> extract_identity L env (hash_alg (config acq)) leaf = Inr i
    \<and> client_id_from_qualified L (identity_client_id i) = Some (cfg_client_id (config acq))
    \<and> identity_display_name i = cfg_display_name (config acq) \<and> identity_domain i = cfg_domain (config acq)
    \<and> handle_to_qualified (acme L) (cfg_handle (config acq)) (cfg_domain (config acq)) = Some (identity_handle i))"
proof -
  have pem: "pem = sign_kp acq" and chain: "verify_cert_chain L (config acq) env pem certs = Inr ()"
    using complete_oidc_Inr[OF assms(2)] complete_dpop_Inr[OF assms(1)] by simp_all
  obtain leaf rest e where leaf: "certs = leaf # rest" "certval_init (pki L) (get_trust_anchors env) rest [] = Inr e"
    "verify_leaf_certificate L (config acq) e env pem leaf = Inr ()"
    using chain by (auto simp: verify_cert_chain_def bindE_eq_Inr map_err_eq_Inr split: list.splits)
  show ?thesis
    using pem leaf(1,2) by (rule_tac verify_leaf_Inr[OF leaf(3)]) auto
qed

section \<open>The order of the steps\<close>

text \<open>Triples over the trace: what holds after success and after failure.\<close>

definition triple :: "('s \<Rightarrow> bool) \<Rightarrow> ('s, 'e, 'a) fallible \<Rightarrow> ('a \<Rightarrow> 's \<Rightarrow> bool) \<Rightarrow> ('s \<Rightarrow> bool) \<Rightarrow> bool" where
  "triple P m Q E \<longleftrightarrow> (\<forall>s r s'. P s \<longrightarrow> m s = (r, s') \<longrightarrow> (case r of Inl e \<Rightarrow> E s' | Inr a \<Rightarrow> Q a s'))"

lemma triple_bindS:
  assumes "triple P m R E" "\<And>a. triple (R a) (f a) Q E"
  shows "triple P (bindS m f) Q E"
  unfolding triple_def
proof (intro allI impI)
  fix s r s'
  assume s: "P s" "bindS m f s = (r, s')"
  obtain r1 s1 where m: "m s = (r1, s1)" by (cases "m s")
  have m': "case r1 of Inl e \<Rightarrow> E s1 | Inr a \<Rightarrow> R a s1"
    using assms(1) s(1) m unfolding triple_def by blast
  show "case r of Inl e \<Rightarrow> E s' | Inr a \<Rightarrow> Q a s'"
  proof (cases r1)
    case (Inl e)
    then show ?thesis using s(2) m m' by (auto simp: bindS_def)
  next
    case (Inr a)
    then have "f a s1 = (r, s')" "R a s1"
      using s(2) m m' by (simp_all add: bindS_def)
    then show ?thesis using assms(2) unfolding triple_def by blast
  qed
qed

lemma triple_simple:
  "(\<And>s. P s \<Longrightarrow> E s) \<Longrightarrow> triple P (liftS r) (\<lambda>a s. r = Inr a \<and> P s) E"
  "(\<And>s. P s \<Longrightarrow> E s) \<Longrightarrow> triple P (acme_step x) (\<lambda>a s. x = Inr a \<and> P s) E"
  "triple P (getS f) (\<lambda>a. P) E"
  "(\<And>s. P s \<Longrightarrow> Q a s) \<Longrightarrow> triple P (okS a) Q E"
  "(\<And>s. P s \<Longrightarrow> E s) \<Longrightarrow> triple P (errS e) Q E"
  by (auto simp: triple_def liftS_def acme_step_def map_err_def getS_def okS_def errS_def split: sum.splits)

lemma triple_pre: "triple P m Q E \<Longrightarrow> (\<And>s. P' s \<Longrightarrow> P s) \<Longrightarrow> triple P' m Q E"
  unfolding triple_def by blast

lemma tripleD: "triple P m Q E \<Longrightarrow> P s \<Longrightarrow> m s = (Inr a, s') \<Longrightarrow> Q a s'"
  unfolding triple_def by (drule spec[of _ s], drule spec[of _ "Inr a"], drule spec[of _ s']) simp

lemma triple_prod: "(\<And>x y. triple (P (x, y)) (f x y) Q E) \<Longrightarrow> triple (P a) (case a of (x, y) \<Rightarrow> f x y) Q E"
  by (cases a) simp

text \<open>Some events of the trace, in this order, satisfy the given predicates.\<close>

definition in_order :: "('e \<Rightarrow> bool) list \<Rightarrow> 'e list \<Rightarrow> bool" where
  "in_order ps tr \<longleftrightarrow> (\<exists>es. subseq es tr \<and> list_all2 (\<lambda>p e. p e) ps es)"

lemma in_order_simps [intro]: "in_order [] tr" "in_order ps tr \<Longrightarrow> in_order ps (tr @ es)"
  unfolding in_order_def by simp (blast intro: list_emb_prefix)

lemma in_order_snoc: "in_order ps tr \<Longrightarrow> p e \<Longrightarrow> in_order (ps @ [p]) (tr @ [e])"
proof -
  assume "in_order ps tr" "p e"
  then obtain es where "subseq es tr" "list_all2 (\<lambda>p e. p e) ps es"
    by (auto simp: in_order_def)
  then have "subseq (es @ [e]) (tr @ [e])" "list_all2 (\<lambda>p e. p e) (ps @ [p]) (es @ [e])"
    using \<open>p e\<close> by (simp_all add: list_all2_appendI)
  then show ?thesis unfolding in_order_def by blast
qed

definition got_access_token :: "hook_event \<Rightarrow> bool" where
  "got_access_token e \<longleftrightarrow> (\<exists>dpop token. e = AccessTokenEvent dpop (Inr token))"

definition authenticated :: "hook_event \<Rightarrow> bool" where
  "authenticated e \<longleftrightarrow> (\<exists>idp key_auth aud snapshot token. e = AuthenticateEvent idp key_auth aud snapshot (Inr token))"

definition challenge_validated :: "('json, 'cert, 'k, 'path) acq_lib \<Rightarrow> hook_event \<Rightarrow> bool" where
  "challenge_validated L e \<longleftrightarrow> (\<exists>u b r json c. e = HttpEvent HttpPost u jose_headers b (Inr r)
     \<and> json_from_slice L (http_body r) = Some json \<and> chall_from_json (acme L) json = Some c \<and> chall_status c = Some ChallengeValid)"

definition certificates_received :: "('json, 'cert, 'k, 'path) acq_lib \<Rightarrow> 'cert list \<Rightarrow> hook_event \<Rightarrow> bool" where
  "certificates_received L certs e \<longleftrightarrow> (\<exists>u b r pems. e = HttpEvent HttpPost u jose_headers b (Inr r)
     \<and> parse_pems (acme L) (http_body r) = Some pems \<and> mapE (\<lambda>pem. ok_or AcmeDerError (cert_from_der (pki L) pem)) pems = Inr certs)"

lemma hook_Inr:
  "http_request L m u hs b tr = (Inr r, tr') \<longleftrightarrow> http_hook L tr m u hs b = Inr r \<and> tr' = tr @ [HttpEvent m u hs b (Inr r)]"
  "get_backend_nonce L tr = (Inr n, tr') \<longleftrightarrow> backend_nonce_hook L tr = Inr n \<and> tr' = tr @ [BackendNonceEvent (Inr n)]"
  "fetch_backend_access_token L d tr = (Inr n, tr') \<longleftrightarrow> access_token_hook L tr d = Inr n \<and> tr' = tr @ [AccessTokenEvent d (Inr n)]"
  "authenticate L i k a s tr = (Inr n, tr') \<longleftrightarrow> authenticate_hook L tr i k a s = Inr n \<and> tr' = tr @ [AuthenticateEvent i k a s (Inr n)]"
  by (auto simp: http_request_def get_backend_nonce_def fetch_backend_access_token_def authenticate_def Let_def map_err_def
      split: sum.splits)

lemma acme_request_Inr:
  "acme_request L u jws tr = (Inr (nonce, json), tr') \<longleftrightarrow> (\<exists>b r. jws_to_json L jws = Some b
     \<and> http_hook L tr HttpPost u jose_headers b = Inr r \<and> tr' = tr @ [HttpEvent HttpPost u jose_headers b (Inr r)]
     \<and> first_header r (ascii ''replay-nonce'') = Some nonce \<and> json_from_slice L (http_body r) = Some json)"
proof (cases "jws_to_json L jws")
  case (Some b)
  show ?thesis
  proof (cases "http_hook L tr HttpPost u jose_headers b")
    case (Inr r)
    then show ?thesis
      using Some
      by (cases "first_header r (ascii ''replay-nonce'')"; cases "json_from_slice L (http_body r)")
         (auto simp: acme_request_def bindS_def http_request_def liftS_def okS_def Let_def get_header_def)
  qed (simp add: Some acme_request_def bindS_def http_request_def liftS_def Let_def)
qed (simp add: acme_request_def bindS_def liftS_def)

lemma new_chall_response_Inr:
  "new_chall_response A json = Inr c \<longleftrightarrow> chall_from_json A json = Some c \<and> chall_status c = Some ChallengeValid"
proof (cases "chall_from_json A json")
  case (Some x)
  have "new_chall_response A json = Inr c \<longleftrightarrow> x = c \<and> chall_status x = Some ChallengeValid"
  proof (cases "chall_status x")
    case (Some st)
    then show ?thesis
      using \<open>chall_from_json A json = Some x\<close> by (cases st) (simp_all add: new_chall_response_def)
  qed (simp add: new_chall_response_def Some)
  then show ?thesis using Some by (cases "x = c") simp_all
qed (simp add: new_chall_response_def)

lemma triple_any: "triple P m (\<lambda>_ _. True) (\<lambda>_. True)"
  by (simp add: triple_def split: sum.splits)

lemma triple_pure:
  "triple P (liftS r) (\<lambda>_. P) (\<lambda>_. True)" "triple P (acme_step x) (\<lambda>_. P) (\<lambda>_. True)" "triple P (getS f) (\<lambda>_. P) (\<lambda>_. True)"
  by (auto simp: triple_def liftS_def acme_step_def getS_def split: sum.splits)

lemma tripleI: "(\<And>s a s'. P s \<Longrightarrow> m s = (Inr a, s') \<Longrightarrow> Q a s') \<Longrightarrow> triple P m Q (\<lambda>_. True)"
  unfolding triple_def by (auto split: sum.splits)

lemma token_step: "triple (in_order ps) (fetch_backend_access_token L d) (\<lambda>_. in_order (ps @ [got_access_token])) (\<lambda>_. True)"
  by (rule tripleI) (auto simp: hook_Inr got_access_token_def intro: in_order_snoc)

lemma authenticate_step: "triple (in_order ps) (authenticate L i k a t) (\<lambda>_. in_order (ps @ [authenticated])) (\<lambda>_. True)"
  by (rule tripleI) (auto simp: hook_Inr authenticated_def intro: in_order_snoc)

lemma request_step:
  "triple (in_order ps) (acme_request L u jws) (\<lambda>x tr. in_order ps tr
     \<and> (\<forall>c. new_chall_response (acme L) (snd x) = Inr c \<longrightarrow> in_order (ps @ [challenge_validated L]) tr)) (\<lambda>_. True)"
proof (rule tripleI)
  fix tr x tr'
  assume tr: "in_order ps tr" "acme_request L u jws tr = (Inr x, tr')"
  obtain nonce json where x: "x = (nonce, json)" by (cases x)
  obtain b r where r: "tr' = tr @ [HttpEvent HttpPost u jose_headers b (Inr r)]" "json_from_slice L (http_body r) = Some json"
    using tr(2) unfolding x acme_request_Inr by blast
  have "in_order (ps @ [challenge_validated L]) tr'" if "new_chall_response (acme L) json = Inr c" for c
    unfolding r(1) using tr(1) that r(2) by (intro in_order_snoc) (auto simp: challenge_validated_def new_chall_response_Inr)
  then show "in_order ps tr' \<and> (\<forall>c. new_chall_response (acme L) (snd x) = Inr c \<longrightarrow> in_order (ps @ [challenge_validated L]) tr')"
    using tr(1) r(1) x by auto
qed

lemma validated_step:
  "triple (\<lambda>tr. in_order ps tr \<and> (\<forall>c. new_chall_response A json = Inr c \<longrightarrow> in_order qs tr))
     (acme_step (new_chall_response A json)) (\<lambda>_. in_order qs) (\<lambda>_. True)"
  by (rule tripleI) auto

lemma certificate_step:
  "triple (in_order ps) (fetch_certificate L acq finalize nonce) (\<lambda>certs. in_order (ps @ [certificates_received L certs])) (\<lambda>_. True)"
proof (rule tripleI)
  fix tr certs tr'
  assume tr: "in_order ps tr" "fetch_certificate L acq finalize nonce tr = (Inr certs, tr')"
  obtain b r pems where "tr' = tr @ [HttpEvent HttpPost (finalize_certificate finalize) jose_headers b (Inr r)]"
    "parse_pems (acme L) (http_body r) = Some pems" "mapE (\<lambda>pem. ok_or AcmeDerError (cert_from_der (pki L) pem)) pems = Inr certs"
    using tr(2) unfolding fetch_certificate_def bindS_Inr hook_Inr certificate_response_def acme_step_Inr liftS_Inr getS_Inr
    by (auto simp: bindE_eq_Inr ok_or_eq_Inr from_utf8_def split: if_splits)
  then show "in_order (ps @ [certificates_received L certs]) tr'"
    using tr(1) by (auto simp: certificates_received_def intro!: in_order_snoc)
qed

lemma challenge_step:
  assumes "\<And>nonce. triple (in_order (ps @ [challenge_validated L])) (f nonce) Q (\<lambda>_. True)"
  shows "triple (in_order ps) (bindS (acme_request L u jws) (\<lambda>(nonce, response).
    bindS (acme_step (new_chall_response (acme L) response)) (\<lambda>_. f nonce))) Q (\<lambda>_. True)"
  apply (rule triple_bindS[OF request_step], rule triple_prod, unfold snd_conv)
  apply (rule triple_bindS[OF validated_step], rule assms)
  done

lemmas skip_step = triple_bindS[OF triple_any]
lemmas keep_step = triple_bindS[OF triple_pure(1)] triple_bindS[OF triple_pure(2)] triple_bindS[OF triple_pure(3)]

lemma complete_dpop_steps:
  "triple (\<lambda>_. True) (complete_dpop_challenge L acq) (\<lambda>_. in_order [got_access_token, challenge_validated L]) (\<lambda>_. True)"
proof -
  have token: "triple (\<lambda>_. True) (fetch_backend_access_token L d) (\<lambda>_. in_order [got_access_token]) (\<lambda>_. True)" for d
    by (rule triple_pre[OF token_step[of "[]", simplified]]) auto
  show ?thesis
    unfolding complete_dpop_challenge_def Let_def
    apply (rule skip_step, rule triple_prod, rule triple_prod, rule skip_step, rule triple_prod, rule triple_prod)
    apply (rule skip_step, rule skip_step, rule skip_step, rule triple_bindS[OF token], rule keep_step)
    apply (rule challenge_step, rule triple_simple(4), simp)
    done
qed

lemma complete_oidc_steps:
  "triple (in_order ps) (complete_oidc_challenge L env acq)
     (\<lambda>x. in_order (ps @ [authenticated, challenge_validated L, certificates_received L (snd x)])) (\<lambda>_. True)"
proof -
  have keep: "triple (in_order ps) (acme_request L u jws) (\<lambda>_. in_order ps) (\<lambda>_. True)" for ps u jws
    using request_step unfolding triple_def by (fastforce split: sum.splits)
  show ?thesis
    unfolding complete_oidc_challenge_def Let_def
    apply (rule keep_step, rule keep_step, rule triple_bindS[OF authenticate_step], rule keep_step, rule challenge_step)
    apply (rule keep_step, rule keep_step, rule triple_bindS[OF keep], rule triple_prod, rule keep_step)
    apply (rule triple_bindS[OF certificate_step], rule keep_step, rule triple_simple(4), simp)
    done
qed


section \<open>Nonces\<close>

fun is_acme_event :: "hook_event \<Rightarrow> bool" where
  "is_acme_event (HttpEvent m _ _ _ _) = (m \<in> {HttpHead, HttpPost})"
| "is_acme_event _ = False"

fun event_nonce :: "hook_event \<Rightarrow> bytes option" where
  "event_nonce (HttpEvent _ _ _ _ (Inr r)) = first_header r (ascii ''replay-nonce'')"
| "event_nonce _ = None"

text \<open>The nonce in the last answer of the ACME server.\<close>

definition last_nonce :: "hook_event list \<Rightarrow> bytes option" where
  "last_nonce tr = (case filter is_acme_event (rev tr) of [] \<Rightarrow> None | e # _ \<Rightarrow> event_nonce e)"

definition jws_signed :: "'json acme_lib \<Rightarrow> JwsAlgorithm \<Rightarrow> Pem \<Rightarrow> bytes \<Rightarrow> url \<Rightarrow> AcmeJws \<Rightarrow> bool" where
  "jws_signed A alg kp n u jws \<longleftrightarrow> (\<exists>kid payload. acme_jws_new A alg n u kid payload kp = Inr jws)"

definition post_carries :: "('json, 'cert, 'k, 'path) acq_lib \<Rightarrow> JwsAlgorithm \<Rightarrow> Pem \<Rightarrow> bytes option \<Rightarrow> hook_event \<Rightarrow> bool" where
  "post_carries L alg kp nonce e \<longleftrightarrow> (\<forall>u hs b r. e = HttpEvent HttpPost u hs b r \<longrightarrow>
     (\<exists>n jws. nonce = Some n \<and> jws_signed (acme L) alg kp n u jws \<and> jws_to_json L jws = Some b))"

text \<open>Every request to the ACME server is signed with the nonce of the answer before it.\<close>

definition nonces_chained :: "('json, 'cert, 'k, 'path) acq_lib \<Rightarrow> JwsAlgorithm \<Rightarrow> Pem \<Rightarrow> hook_event list \<Rightarrow> bool" where
  "nonces_chained L alg kp tr \<longleftrightarrow> (\<forall>i < length tr. post_carries L alg kp (last_nonce (take i tr)) (tr ! i))"

lemma last_nonce_snoc: "last_nonce (tr @ [e]) = (if is_acme_event e then event_nonce e else last_nonce tr)"
  by (simp add: last_nonce_def)

lemma nonces_chained_snoc:
  "nonces_chained L alg kp (tr @ [e]) \<longleftrightarrow> nonces_chained L alg kp tr \<and> post_carries L alg kp (last_nonce tr) e"
  unfolding nonces_chained_def length_append_singleton All_less_Suc by (auto simp: nth_append)

abbreviation fresh :: "('json, 'cert, 'k, 'path) acq_lib \<Rightarrow> JwsAlgorithm \<Rightarrow> Pem \<Rightarrow> bytes \<Rightarrow> hook_event list \<Rightarrow> bool" where
  "fresh L alg kp n tr \<equiv> nonces_chained L alg kp tr \<and> last_nonce tr = Some n"

lemma request_signed:
  "new_account_request A d alg kp n = Inr jws \<Longrightarrow> jws_signed A alg kp n (new_account d) jws"
  "new_order_request A now dn cid h ex d acc alg kp n = Inr jws \<Longrightarrow> jws_signed A alg kp n (new_order d) jws"
  "new_authz_request A u acc alg kp n = Inr jws \<Longrightarrow> jws_signed A alg kp n u jws"
  "dpop_chall_request A t c acc alg kp n = Inr jws \<Longrightarrow> jws_signed A alg kp n (chall_url c) jws"
  "oidc_chall_request A t c acc alg kp n = Inr jws \<Longrightarrow> jws_signed A alg kp n (chall_url c) jws"
  "finalize_req A now ord acc alg kp skp n = Inr jws \<Longrightarrow> jws_signed A alg kp n (order_finalize ord) jws"
  "certificate_req A f acc alg kp n = Inr jws \<Longrightarrow> jws_signed A alg kp n (finalize_certificate f) jws"
  by (auto simp: jws_signed_def new_account_request_def new_order_request_def new_authz_request_def dpop_chall_request_def
      oidc_chall_request_def finalize_req_def certificate_req_def bindE_eq_Inr Let_def split: if_splits)

lemma other_hooks_chained:
  "triple (nonces_chained L alg kp) (http_request L HttpGet u hs b) (\<lambda>_. nonces_chained L alg kp) (nonces_chained L alg kp)"
  "triple (nonces_chained L alg kp) (http_request L HttpHead u hs b)
     (\<lambda>r tr. nonces_chained L alg kp tr \<and> last_nonce tr = first_header r (ascii ''replay-nonce'')) (nonces_chained L alg kp)"
  "triple (fresh L alg kp n) (get_backend_nonce L) (\<lambda>_. fresh L alg kp n) (nonces_chained L alg kp)"
  "triple (fresh L alg kp n) (fetch_backend_access_token L d) (\<lambda>_. fresh L alg kp n) (nonces_chained L alg kp)"
  "triple (fresh L alg kp n) (authenticate L i k a s) (\<lambda>_. fresh L alg kp n) (nonces_chained L alg kp)"
  by (auto simp: triple_def http_request_def get_backend_nonce_def fetch_backend_access_token_def authenticate_def Let_def map_err_def
      nonces_chained_snoc post_carries_def last_nonce_snoc split: sum.splits)

lemma post_chained:
  assumes "jws_signed (acme L) alg kp n u jws" "jws_to_json L jws = Some b"
  shows "triple (fresh L alg kp n) (http_request L HttpPost u hs b)
    (\<lambda>r tr. nonces_chained L alg kp tr \<and> last_nonce tr = first_header r (ascii ''replay-nonce'')) (nonces_chained L alg kp)"
  using assms by (auto simp: triple_def http_request_def Let_def map_err_def nonces_chained_snoc post_carries_def last_nonce_snoc split: sum.splits)

lemma acme_request_chained:
  assumes "jws_signed (acme L) alg kp n u jws"
  shows "triple (fresh L alg kp n) (acme_request L u jws) (\<lambda>x. fresh L alg kp (fst x)) (nonces_chained L alg kp)"
  unfolding triple_def
proof (intro allI impI)
  fix tr r tr'
  assume tr: "fresh L alg kp n tr" "acme_request L u jws tr = (r, tr')"
  show "case r of Inl e \<Rightarrow> nonces_chained L alg kp tr' | Inr x \<Rightarrow> fresh L alg kp (fst x) tr'"
  proof (cases "jws_to_json L jws")
    case (Some b)
    obtain q tr1 where q: "http_request L HttpPost u jose_headers b tr = (q, tr1)"
      by (cases "http_request L HttpPost u jose_headers b tr")
    then have post: "case q of Inl e \<Rightarrow> nonces_chained L alg kp tr1
        | Inr x \<Rightarrow> nonces_chained L alg kp tr1 \<and> last_nonce tr1 = first_header x (ascii ''replay-nonce'')"
      using post_chained[OF assms Some, of jose_headers] tr(1) unfolding triple_def by blast
    show ?thesis
      using tr(2) q post Some
      by (auto simp: acme_request_def bindS_def liftS_def okS_def get_header_def ok_or_def split: sum.splits option.splits)
  qed (use tr in \<open>auto simp: acme_request_def bindS_def liftS_def\<close>)
qed

lemma lift_chained:
  "triple (fresh L alg kp n) (liftS r) (\<lambda>a tr. r = Inr a \<and> fresh L alg kp n tr) (nonces_chained L alg kp)"
  "triple (fresh L alg kp n) (acme_step x) (\<lambda>a tr. x = Inr a \<and> fresh L alg kp n tr) (nonces_chained L alg kp)"
  by (auto intro: triple_simple(1,2))

lemma triple_assume: "(A \<Longrightarrow> triple P m Q E) \<Longrightarrow> triple (\<lambda>s. A \<and> P s) m Q E"
  by (auto simp: triple_def)

text \<open>A signed request followed by the parsing of its answer.\<close>

lemma signed_step:
  assumes "\<And>jws. r = Inr jws \<Longrightarrow> jws_signed (acme L) alg kp n u jws"
    and "\<And>nonce response. triple (fresh L alg kp nonce) (f nonce response) Q (nonces_chained L alg kp)"
  shows "triple (fresh L alg kp n) (bindS (acme_step r) (\<lambda>jws. bindS (acme_request L u jws) (\<lambda>(nonce, response). f nonce response)))
    Q (nonces_chained L alg kp)"
  apply (rule triple_bindS[OF lift_chained(2)], rule triple_assume)
  apply (rule triple_bindS[OF acme_request_chained[OF assms(1)]], assumption, rule triple_prod, unfold fst_conv, rule assms(2))
  done

lemma pure_step:
  assumes "\<And>a. triple (fresh L alg kp n) (f a) Q (nonces_chained L alg kp)"
  shows "triple (fresh L alg kp n) (bindS (acme_step r) f) Q (nonces_chained L alg kp)"
    "triple (fresh L alg kp n) (bindS (liftS q) f) Q (nonces_chained L alg kp)"
    "triple (fresh L alg kp n) (bindS (getS g) f) Q (nonces_chained L alg kp)"
  by (rule triple_bindS[OF lift_chained(2)], rule triple_assume, rule assms, rule triple_bindS[OF lift_chained(1)], rule triple_assume,
      rule assms, rule triple_bindS[OF triple_simple(3)], rule assms)

lemma fresh_ok: "triple (fresh L alg kp n) (okS (n, a)) (\<lambda>x. fresh L alg kp (fst x)) (nonces_chained L alg kp)"
  by (rule triple_simple(4)) simp

lemma get_challenge_chained:
  "triple (fresh L (sign_alg (config acq)) (acme_kp acq) n) (get_challenge L acq u account n)
     (\<lambda>x. fresh L (sign_alg (config acq)) (acme_kp acq) (fst x)) (nonces_chained L (sign_alg (config acq)) (acme_kp acq))"
  unfolding get_challenge_def
  apply (rule signed_step, erule request_signed)
  apply (rule pure_step(3), rule pure_step(1), rule fresh_ok)
  done

lemma get_challenges_chained:
  "triple (fresh L (sign_alg (config acq)) (acme_kp acq) n) (get_challenges L acq account order n)
     (\<lambda>x. fresh L (sign_alg (config acq)) (acme_kp acq) (fst x)) (nonces_chained L (sign_alg (config acq)) (acme_kp acq))"
  unfolding get_challenges_def
  apply (rule triple_bindS[OF get_challenge_chained], rule triple_prod, unfold fst_conv)
  apply (rule triple_bindS[OF get_challenge_chained], rule triple_prod, unfold fst_conv)
  apply (auto intro: fresh_ok triple_simple(5))
  done

lemma create_order_chained:
  "triple (nonces_chained L (sign_alg (config acq)) (acme_kp acq)) (create_order L acq)
     (\<lambda>x. fresh L (sign_alg (config acq)) (acme_kp acq) (fst x)) (nonces_chained L (sign_alg (config acq)) (acme_kp acq))"
  unfolding create_order_def Let_def
  apply (rule triple_bindS[OF triple_simple(1)], assumption, rule triple_assume)
  apply (rule triple_bindS[OF other_hooks_chained(1)])
  apply (rule triple_bindS[OF triple_simple(1)], assumption, rule triple_assume)
  apply (rule triple_bindS[OF triple_simple(2)], assumption, rule triple_assume)
  apply (rule triple_bindS[OF other_hooks_chained(2)])
  apply (rule triple_bindS[OF triple_simple(1)], simp, rule triple_assume)
  apply (rule triple_pre[of "fresh L (sign_alg (config acq)) (acme_kp acq) n" for n])
   apply (rule signed_step, erule request_signed)
   apply (rule pure_step(1), rule pure_step(3), rule signed_step, erule request_signed)
   apply (rule pure_step(3), rule pure_step(1), rule fresh_ok)
  apply (auto simp: get_header_def ok_or_eq_Inr)
  done

lemma complete_dpop_chained:
  "triple (nonces_chained L (sign_alg (config acq)) (acme_kp acq)) (complete_dpop_challenge L acq)
     (\<lambda>acq' tr. (config acq' = config acq \<and> acme_kp acq' = acme_kp acq)
        \<and> fresh L (sign_alg (config acq)) (acme_kp acq) (acq_nonce (acq_data acq')) tr)
     (nonces_chained L (sign_alg (config acq)) (acme_kp acq))"
  unfolding complete_dpop_challenge_def Let_def
  apply (rule triple_bindS[OF create_order_chained], rule triple_prod, rule triple_prod, unfold fst_conv)
  apply (rule triple_bindS[OF get_challenges_chained], rule triple_prod, rule triple_prod, unfold fst_conv)
  apply (rule triple_bindS[OF other_hooks_chained(3)], rule pure_step(2), rule pure_step(2))
  apply (rule triple_bindS[OF other_hooks_chained(4)], rule signed_step, erule request_signed)
  apply (rule pure_step(1), rule triple_simple(4), simp)
  done

lemma fetch_certificate_chained:
  "triple (fresh L (sign_alg (config acq)) (acme_kp acq) n) (fetch_certificate L acq finalize n)
     (\<lambda>_. nonces_chained L (sign_alg (config acq)) (acme_kp acq)) (nonces_chained L (sign_alg (config acq)) (acme_kp acq))"
  unfolding fetch_certificate_def
  apply (rule triple_bindS[OF lift_chained(2)], rule triple_assume)
  apply (rule triple_bindS[OF lift_chained(1)], rule triple_assume)
  apply (rule triple_bindS[OF post_chained], erule request_signed, simp add: ok_or_eq_Inr)
  apply (rule triple_bindS[OF triple_simple(2)], simp, rule triple_assume)
  apply (rule triple_bindS[OF triple_simple(3)], auto simp: triple_def acme_step_def liftS_def split: sum.splits)
  done

lemma complete_oidc_chained:
  "triple (fresh L (sign_alg (config acq)) (acme_kp acq) (acq_nonce (acq_data acq))) (complete_oidc_challenge L env acq)
     (\<lambda>_. nonces_chained L (sign_alg (config acq)) (acme_kp acq)) (nonces_chained L (sign_alg (config acq)) (acme_kp acq))"
  unfolding complete_oidc_challenge_def Let_def
  apply (rule pure_step(2), rule pure_step(2), rule triple_bindS[OF other_hooks_chained(5)])
  apply (rule signed_step, erule request_signed, rule pure_step(1), rule pure_step(3))
  apply (rule signed_step, erule request_signed, rule pure_step(1), rule triple_bindS[OF fetch_certificate_chained])
  apply (rule triple_bindS[OF triple_simple(1)], assumption, rule triple_assume, rule triple_simple(4), assumption)
  done

text \<open>
  C11: Every request posted to the ACME server is signed with the account key over its URL and the
  nonce of the server's previous answer, however the server answers and wherever the acquisition
  fails.
\<close>

theorem requests_carry_last_nonce:
  "nonces_chained L (sign_alg (config acq)) (acme_kp acq) (snd (acquire L env acq []))"
proof -
  have "triple (\<lambda>tr. (config acq' = config acq \<and> acme_kp acq' = acme_kp acq)
        \<and> fresh L (sign_alg (config acq)) (acme_kp acq) (acq_nonce (acq_data acq')) tr) (complete_oidc_challenge L env acq')
      (\<lambda>_. nonces_chained L (sign_alg (config acq)) (acme_kp acq)) (nonces_chained L (sign_alg (config acq)) (acme_kp acq))" for acq'
    using complete_oidc_chained[of L acq' env] by (rule_tac triple_assume) simp
  from triple_bindS[OF complete_dpop_chained this]
  have "triple (nonces_chained L (sign_alg (config acq)) (acme_kp acq)) (acquire L env acq)
      (\<lambda>_. nonces_chained L (sign_alg (config acq)) (acme_kp acq)) (nonces_chained L (sign_alg (config acq)) (acme_kp acq))"
    unfolding acquire_def .
  moreover have "nonces_chained L (sign_alg (config acq)) (acme_kp acq) []"
    by (simp add: nonces_chained_def)
  ultimately show ?thesis
    unfolding triple_def by (cases "acquire L env acq []") (auto split: sum.splits)
qed

section \<open>Orders\<close>

definition identifies :: "'json acme_lib \<Rightarrow> AcmeIdentifier \<Rightarrow> WireIdentifier option" where
  "identifies A i = (case i of WireappDevice s \<Rightarrow> identifier_from_str A s | WireappUser s \<Rightarrow> identifier_from_str A s)"

lemma to_wire_identifies: "to_wire_identifier A i = ok_or AcmeJsonError (identifies A i)"
  by (cases i) (simp_all add: identifies_def)

text \<open>
  An order is accepted exactly when its two identifiers differ, both parse and agree on handle,
  display name and domain, and the second of the clock lies between its start and both of its ends.
\<close>

theorem order_accepted_iff:
  "order_verify A now order = Inr () \<longleftrightarrow> fst (order_identifiers order) \<noteq> snd (order_identifiers order)
     \<and> (\<exists>a b. identifies A (fst (order_identifiers order)) = Some a \<and> identifies A (snd (order_identifiers order)) = Some b
        \<and> wire_handle a = wire_handle b \<and> wire_display_name a = wire_display_name b \<and> wire_domain a = wire_domain b)
     \<and> is_none_or (order_not_before order) (\<lambda>t. unix_timestamp t \<le> unix_timestamp now)
     \<and> is_none_or (order_not_after order) (\<lambda>t. unix_timestamp now \<le> unix_timestamp t)
     \<and> is_none_or (order_expires order) (\<lambda>t. unix_timestamp now \<le> unix_timestamp t)"
proof (cases "fst (order_identifiers order) = snd (order_identifiers order)")
  case True
  then show ?thesis
    by (cases "identifies A (snd (order_identifiers order))") (simp_all add: order_verify_def to_wire_identifies)
next
  case False
  then show ?thesis
    by (cases "identifies A (fst (order_identifiers order))"; cases "identifies A (snd (order_identifiers order))")
       (auto simp: order_verify_def to_wire_identifies is_none_or_def Let_def split: option.splits if_splits)
qed

section \<open>Examples\<close>

text \<open>
  A server whose answers carry the length of the trace as nonce; the body of an answer is the URL it
  was asked for, whose first byte tells the authorizations apart.
\<close>

definition eg_client :: JwtClientId where
  "eg_client = \<lparr>jwt_user_id = 1, jwt_device_id = 2, jwt_domain = [100]\<rparr>"

definition eg_order :: AcmeOrder where
  "eg_order = \<lparr>order_status = OrderPending, order_finalize = [7], order_identifiers = (WireappDevice [1], WireappUser [2]),
     authorizations = ([2], [1]), order_expires = None, order_not_before = None, order_not_after = None\<rparr>"

definition eg_challenge :: "nat \<Rightarrow> AcmeChallenge" where
  "eg_challenge k = \<lparr>chall_typ = (if k = 1 then WireDpop01 else WireOidc01), chall_url = [3], chall_status = Some ChallengeValid,
     chall_token = replicate 16 0, chall_target = [4]\<rparr>"

definition eg_acme :: "nat acme_lib" where
  "eg_acme = \<lparr>directory_from_json = (\<lambda>_. Some \<lparr>new_nonce = [10], new_account = [11], new_order = [12], revoke_cert = [13]\<rparr>),
     account_from_json = (\<lambda>_. Some \<lparr>account_status = AccountStatusValid, orders = Some [14]\<rparr>),
     order_from_json = (\<lambda>_. Some eg_order),
     authz_from_json = (\<lambda>k. Some \<lparr>authz_status = AuthzStatusPending, authz_expires = None, challenges = eg_challenge k,
       authz_identifier = (if k = 1 then WireappDevice [1] else WireappUser [2])\<rparr>),
     chall_from_json = (\<lambda>k. Some (eg_challenge k)),
     finalize_from_json = (\<lambda>_. Some \<lparr>finalize_certificate = [8], finalize_order = eg_order\<rparr>),
     identifier_to_str = (\<lambda>_. Some []),
     identifier_from_str = (\<lambda>_. Some \<lparr>wire_client_id = Some [1], wire_handle = [1], wire_display_name = [65], wire_domain = [100]\<rparr>),
     last_segment = (\<lambda>_. Some (ascii ''orders'')), pop_segment = Some, base64url_decode = Some, base64url_encode = id,
     generate_jwt = (\<lambda>h _ _ _. Some (header_nonce h @ [46, 1, 46, 2])),
     client_id_to_uri = (\<lambda>_. [1]), handle_to_qualified = (\<lambda>h _. Some h), attribute_value = (\<lambda>_. Some), ia5_string = Some,
     san_to_der = (\<lambda>xs. Some (concat xs)), oid_to_der = (\<lambda>_. Some []), public_key_of = (\<lambda>_ _. Some [9]),
     csr_info_to_der = (\<lambda>_. Some []), sign_csr = (\<lambda>_ _ _. Inr []), csr_to_der = (\<lambda>_ _ _. Some []),
     parse_pems = (\<lambda>_. Some [[5]])\<rparr>"

definition eg_acq_lib :: "(nat, bytes, unit, unit) acq_lib" where
  "eg_acq_lib = \<lparr>acme = eg_acme,
     pki = eg_pki\<lparr>certval_of := \<lambda>_. \<lparr>clock = Some 100, parse_cert = Some, paths_for_target = (\<lambda>_ _. Inr [()]),
       validate_path = (\<lambda>_ _ _. Some Valid), check_revocation = (\<lambda>_ _. Some Valid)\<rparr>\<rparr>,
     http_hook = (\<lambda>tr _ u _ _. Inr \<lparr>http_status = 200, http_headers = [(ascii ''replay-nonce'', [of_nat (length tr)])], http_body = u\<rparr>),
     backend_nonce_hook = (\<lambda>_. Inr [1]), access_token_hook = (\<lambda>_ _. Inr [2]), authenticate_hook = (\<lambda>_ _ _ _ _. Inr [3]),
     time_at = (\<lambda>_. 0), json_from_slice = (\<lambda>b. Some (unat (hd b))), jws_to_json = (\<lambda>j. Some (protected j)), url_parse = Some,
     generate_key = (\<lambda>n _. Some [of_nat n]), public_jwk = (\<lambda>_. Some), jwk_thumbprint = (\<lambda>j _. Some j),
     acq_to_json = (\<lambda>_. Some []), acq_from_json = (\<lambda>_. None), generate_dpop_token = (\<lambda>_ _ _ _ _ _ _. Some [1]),
     cert_spki_alg = (\<lambda>_. (''ID_ED_25519'', None)), cert_public_key = (\<lambda>_. [9]), cert_validity = (\<lambda>_. (0, 1)),
     cert_subject = (\<lambda>_. [[(''ORGANIZATION_NAME'', [100])], [(''COMMON_NAME'', [65])]]),
     cert_extensions = (\<lambda>_. Some [(''ID_CE_SUBJECT_ALT_NAME'', [])]),
     san_from_der = (\<lambda>_. Some [UniformResourceIdentifier [1], UniformResourceIdentifier [2]]),
     client_id_from_uri = (\<lambda>u. if u = [1] then Some eg_client else None), client_id_to_qualified = (\<lambda>_. [1]),
     client_id_from_qualified = (\<lambda>_. Some eg_client), parse_qualified_handle = Some, raw_key_jwk = (\<lambda>_. Some)\<rparr>"

definition eg_acq :: "unit X509CredentialAcquisition" where
  "eg_acq = \<lparr>config = \<lparr>acme_directory_url = [6], sign_alg = Ed25519, hash_alg = SHA256, cfg_display_name = [65],
     cfg_client_id = eg_client, cfg_handle = [2], cfg_domain = [100], team = None, validity_period = 0\<rparr>,
     sign_kp = [20], acme_kp = [21], acme_jwk = [22], acq_data = ()\<rparr>"

lemma eg_acquired:
  obtains acq' tr1 tr2 where "complete_dpop_challenge eg_acq_lib eg_acq [] = (Inr acq', tr1)"
    "complete_oidc_challenge eg_acq_lib eg_pki_env acq' tr1 = (Inr ([20], [[5]]), tr2)"
proof -
  have "fst (acquire eg_acq_lib eg_pki_env eg_acq []) = Inr ([20], [[5]])"
    by code_simp
  then obtain tr2 where "acquire eg_acq_lib eg_pki_env eg_acq [] = (Inr ([20], [[5]]), tr2)"
    by (cases "acquire eg_acq_lib eg_pki_env eg_acq []") simp
  then show ?thesis
    using that unfolding acquire_def bindS_Inr by blast
qed

theorem issued_certificate_matches_witness:
  "\<exists>i. extract_identity eg_acq_lib eg_pki_env SHA256 [5] = Inr i \<and> identity_domain i = [100]"
proof -
  obtain acq' tr1 tr2 where run: "complete_dpop_challenge eg_acq_lib eg_acq [] = (Inr acq', tr1)"
    "complete_oidc_challenge eg_acq_lib eg_pki_env acq' tr1 = (Inr ([20], [[5]]), tr2)"
    by (rule eg_acquired)
  from issued_certificate_matches[OF run] show ?thesis
    by (auto simp: eg_acq_def)
qed


end
