(* ===== verification/Proteus.thy ===== *)
theory Proteus
  imports Transaction_Context Keystore_Mls
begin

text \<open>
  The Proteus client (\<open>crypto/src/proteus\<close>) and its calls in a transaction
  (\<open>crypto/src/transaction_context/proteus.rs\<close>): the identity, prekeys, and the sessions with
  their cache in front of the keystore.  The Proteus protocol itself and the LRU map are parameters;
  freshly generated keys are values of the parameters.  A session handed out as a mutable reference
  is read from the cache and written back.
\<close>

section \<open>Data\<close>

datatype proteus_failure = ProteusDecode | ProteusSessionFailure | ProteusInternal

datatype proteus_error =
    ProteusFailed proteus_failure
  | ProteusKeystore CryptoKeystoreError
  | ProteusConversationNotFound bytes
  | ProteusPanicked string

record 's ProteusConversationSession =
  session_identifier :: bytes
  session :: 's

text \<open>The operations of \<open>schnellru::LruMap\<close>; \<open>cache_store\<close> writes through a mutable reference to a value.\<close>

record ('c, 'v) session_lru =
  cache_new :: "u32 \<Rightarrow> 'c"
  cache_peek :: "bytes \<Rightarrow> 'c \<Rightarrow> 'v option"
  cache_get :: "bytes \<Rightarrow> 'c \<Rightarrow> 'v option \<times> 'c"
  cache_insert :: "bytes \<Rightarrow> 'v \<Rightarrow> 'c \<Rightarrow> 'c"
  cache_store :: "bytes \<Rightarrow> 'v \<Rightarrow> 'c \<Rightarrow> 'c"
  cache_remove :: "bytes \<Rightarrow> 'c \<Rightarrow> 'c"

record ('i, 's, 'p, 'c) proteus_lib =
  new_identity :: 'i
  identity_from_raw :: "bytes \<Rightarrow> bytes \<Rightarrow> proteus_failure + 'i"
  identity_sk_bytes :: "'i \<Rightarrow> bytes"
  identity_pk_bytes :: "'i \<Rightarrow> bytes"
  identity_fingerprint :: "'i \<Rightarrow> bytes"
  new_prekey_of :: "u16 \<Rightarrow> 'p"
  last_resort_of :: 'p
  prekey_serialise :: "'p \<Rightarrow> proteus_failure + bytes"
  prekey_deserialise :: "bytes \<Rightarrow> proteus_failure + 'p"
  bundle_serialise :: "'i \<Rightarrow> 'p \<Rightarrow> proteus_failure + bytes"
  bundle_deserialise :: "bytes \<Rightarrow> proteus_failure + bytes"
  bundle_fingerprint :: "bytes \<Rightarrow> bytes"
  envelope_deserialise :: "bytes \<Rightarrow> proteus_failure + bytes"
  init_from_prekey :: "'i \<Rightarrow> bytes \<Rightarrow> proteus_failure + 's"
  init_from_message :: "'i \<Rightarrow> bytes \<Rightarrow> Database \<Rightarrow> (proteus_failure + 's \<times> bytes) \<times> Database"
  session_encrypt :: "bytes \<Rightarrow> 's \<Rightarrow> (proteus_failure + bytes) \<times> 's"
  session_decrypt :: "bytes \<Rightarrow> Database \<Rightarrow> 's \<Rightarrow> (proteus_failure + bytes) \<times> 's \<times> Database"
  session_serialise :: "'s \<Rightarrow> proteus_failure + bytes"
  session_deserialise :: "'i \<Rightarrow> bytes \<Rightarrow> proteus_failure + 's"
  local_fingerprint :: "'s \<Rightarrow> bytes"
  remote_fingerprint :: "'s \<Rightarrow> bytes"
  sessions_lru :: "('c, 's ProteusConversationSession) session_lru"
  proteus_hs :: hashes

record ('i, 'c) ProteusCentral =
  proteus_identity_keys :: 'i
  proteus_sessions :: 'c

record ('i, 'c) proteus_state =
  central :: "('i, 'c) ProteusCentral"
  keystore :: Database

type_synonym ('i, 'c, 'a) proteus_op = "(('i, 'c) proteus_state, proteus_error, 'a) fallible"

definition on_keystore :: "(Database \<Rightarrow> Database \<times> 'a keystore_result) \<Rightarrow> ('i, 'c, 'a) proteus_op" where
  "on_keystore f s = (case f (keystore s) of (d, r) \<Rightarrow> (map_err ProteusKeystore r, s\<lparr>keystore := d\<rparr>))"

definition protS :: "proteus_failure + 'a \<Rightarrow> ('i, 'c, 'a) proteus_op" where
  "protS r = liftS (map_err ProteusFailed r)"

definition put_sessions :: "('c \<Rightarrow> 'c) \<Rightarrow> ('i, 'c, unit) proteus_op" where
  "put_sessions f = putS (\<lambda>s. s\<lparr>central := (central s)\<lparr>proteus_sessions := f (proteus_sessions (central s))\<rparr>\<rparr>)"

section \<open>Identity\<close>

text \<open>The slices of a release build: a short key panics, a long one is cut (a debug build asserts the length).\<close>

definition sk_raw :: "proteus_identity \<Rightarrow> proteus_error + bytes" where
  "sk_raw i = (if length (identity_sk i) < 64 then Inl (ProteusPanicked ''range end index out of range'')
     else Inr (take 64 (identity_sk i)))"

definition pk_raw :: "proteus_identity \<Rightarrow> proteus_error + bytes" where
  "pk_raw i = (if length (identity_pk i) < 32 then Inl (ProteusPanicked ''range end index out of range'')
     else Inr (take 32 (identity_pk i)))"

definition create_identity :: "('i, 's, 'p, 'c) proteus_lib \<Rightarrow> Database \<Rightarrow> (proteus_error + 'i) \<times> Database" where
  "create_identity P d = (let kp = new_identity P in
     case db_save (proteus_hs P) None (ProteusIdentity \<lparr>identity_sk = identity_sk_bytes P kp, identity_pk = identity_pk_bytes P kp\<rparr>) d of
       (d', Inl e) \<Rightarrow> (Inl (ProteusKeystore e), d') | (d', Inr _) \<Rightarrow> (Inr kp, d'))"

definition load_or_create_identity :: "('i, 's, 'p, 'c) proteus_lib \<Rightarrow> Database \<Rightarrow> (proteus_error + 'i) \<times> Database" where
  "load_or_create_identity P d = (case db_get ProteusIdentityT UnitKey d of
       Inl e \<Rightarrow> (Inl (ProteusKeystore e), d)
     | Inr (Some (ProteusIdentity i)) \<Rightarrow> (bindE (sk_raw i) (\<lambda>sk. bindE (pk_raw i) (\<lambda>pk. map_err ProteusFailed (identity_from_raw P sk pk))), d)
     | Inr _ \<Rightarrow> create_identity P d)"

definition session_cache_new :: "('i, 's, 'p, 'c) proteus_lib \<Rightarrow> 'c" where
  "session_cache_new P = cache_new (sessions_lru P) 200"

definition proteus_try_new :: "('i, 's, 'p, 'c) proteus_lib \<Rightarrow> Database \<Rightarrow> (proteus_error + ('i, 'c) ProteusCentral) \<times> Database" where
  "proteus_try_new P d = (case load_or_create_identity P d of
       (r, d') \<Rightarrow> (mapR (\<lambda>kp. \<lparr>proteus_identity_keys = kp, proteus_sessions = session_cache_new P\<rparr>) r, d'))"

definition fingerprint :: "('i, 's, 'p, 'c) proteus_lib \<Rightarrow> ('i, 'c, bytes) proteus_op" where
  "fingerprint P = getS (\<lambda>s. identity_fingerprint P (proteus_identity_keys (central s)))"

section \<open>Prekeys\<close>

definition new_prekey :: "('i, 's, 'p, 'c) proteus_lib \<Rightarrow> u16 \<Rightarrow> ('i, 'c, bytes) proteus_op" where
  "new_prekey P i =
     bindS (protS (prekey_serialise P (new_prekey_of P i))) (\<lambda>raw.
     bindS (getS (\<lambda>s. proteus_identity_keys (central s))) (\<lambda>keys.
     bindS (protS (bundle_serialise P keys (new_prekey_of P i))) (\<lambda>bundle.
     bindS (on_keystore (db_save (proteus_hs P) None (ProteusPrekey (prekey_from_raw i raw)))) (\<lambda>_. okS bundle))))"

definition new_prekey_auto :: "('i, 's, 'p, 'c) proteus_lib \<Rightarrow> ('i, 'c, u16 \<times> bytes) proteus_op" where
  "new_prekey_auto P =
     bindS (on_keystore (\<lambda>d. (d, get_free_id d))) (\<lambda>i.
     bindS (new_prekey P i) (\<lambda>bundle. okS (i, bundle)))"

definition last_resort_prekey_id :: u16 where
  "last_resort_prekey_id = 65535"

definition last_resort_prekey :: "('i, 's, 'p, 'c) proteus_lib \<Rightarrow> ('i, 'c, bytes) proteus_op" where
  "last_resort_prekey P =
     bindS (on_keystore (\<lambda>d. (d, db_get ProteusPrekeyT (U16Key last_resort_prekey_id) d))) (\<lambda>found.
     bindS (case found of
         Some (ProteusPrekey p) \<Rightarrow> protS (prekey_deserialise P (prekey p))
       | _ \<Rightarrow> bindS (protS (prekey_serialise P (last_resort_of P))) (\<lambda>raw.
              bindS (on_keystore (proteus_store_prekey (proteus_hs P) last_resort_prekey_id raw)) (\<lambda>_.
              okS (last_resort_of P)))) (\<lambda>last_resort.
     bindS (getS (\<lambda>s. proteus_identity_keys (central s))) (\<lambda>keys.
     protS (bundle_serialise P keys last_resort))))"

definition fingerprint_prekeybundle :: "('i, 's, 'p, 'c) proteus_lib \<Rightarrow> bytes \<Rightarrow> proteus_error + bytes" where
  "fingerprint_prekeybundle P bs = mapR (bundle_fingerprint P) (map_err ProteusFailed (bundle_deserialise P bs))"

section \<open>The session cache\<close>

definition get_or_fetch :: "('i, 's, 'p, 'c) proteus_lib \<Rightarrow> bytes \<Rightarrow> ('i, 'c, 's ProteusConversationSession option) proteus_op" where
  "get_or_fetch P i s = (let C = sessions_lru P; c = proteus_sessions (central s) in
     if cache_peek C i c \<noteq> None then
       (case cache_get C i c of (found, c') \<Rightarrow> (Inr found, s\<lparr>central := (central s)\<lparr>proteus_sessions := c'\<rparr>\<rparr>))
     else case db_get ProteusSessionT (StringKey i) (keystore s) of
       Inl e \<Rightarrow> (Inl (ProteusKeystore e), s)
     | Inr (Some (ProteusSession raw)) \<Rightarrow>
         (case session_deserialise P (proteus_identity_keys (central s)) (session_record raw) of
            Inl e \<Rightarrow> (Inl (ProteusFailed e), s)
          | Inr x \<Rightarrow> (case cache_get C (proteus_session_id raw)
                (cache_insert C (proteus_session_id raw) \<lparr>session_identifier = proteus_session_id raw, session = x\<rparr> c) of
              (found, c') \<Rightarrow> (Inr found, s\<lparr>central := (central s)\<lparr>proteus_sessions := c'\<rparr>\<rparr>)))
     | Inr _ \<Rightarrow> (Inr None, s))"

definition session_cache_insert ::
  "('i, 's, 'p, 'c) proteus_lib \<Rightarrow> 's ProteusConversationSession \<Rightarrow> ('i, 'c, 's ProteusConversationSession) proteus_op" where
  "session_cache_insert P x s = (let C = sessions_lru P in
     case cache_get C (session_identifier x) (cache_insert C (session_identifier x) x (proteus_sessions (central s))) of
       (found, c) \<Rightarrow> (ok_or (ProteusPanicked ''the entry we just inserted should still be present'') found,
         s\<lparr>central := (central s)\<lparr>proteus_sessions := c\<rparr>\<rparr>))"

section \<open>Sessions\<close>

definition session_save_by_ref :: "('i, 's, 'p, 'c) proteus_lib \<Rightarrow> 's ProteusConversationSession \<Rightarrow> ('i, 'c, unit) proteus_op" where
  "session_save_by_ref P x =
     bindS (protS (session_serialise P (session x))) (\<lambda>raw.
     bindS (on_keystore (db_save (proteus_hs P) None
       (ProteusSession \<lparr>proteus_session_id = session_identifier x, session_record = raw\<rparr>))) (\<lambda>_. okS ()))"

definition session_from_prekey ::
  "('i, 's, 'p, 'c) proteus_lib \<Rightarrow> bytes \<Rightarrow> bytes \<Rightarrow> ('i, 'c, 's ProteusConversationSession) proteus_op" where
  "session_from_prekey P i key =
     bindS (protS (bundle_deserialise P key)) (\<lambda>bundle.
     bindS (getS (\<lambda>s. proteus_identity_keys (central s))) (\<lambda>keys.
     bindS (protS (init_from_prekey P keys bundle)) (\<lambda>x.
     session_cache_insert P \<lparr>session_identifier = i, session = x\<rparr>)))"

definition session_from_message ::
  "('i, 's, 'p, 'c) proteus_lib \<Rightarrow> bytes \<Rightarrow> bytes \<Rightarrow> ('i, 'c, 's ProteusConversationSession \<times> bytes) proteus_op" where
  "session_from_message P i envelope =
     bindS (protS (envelope_deserialise P envelope)) (\<lambda>msg.
     bindS (\<lambda>s. case init_from_message P (proteus_identity_keys (central s)) msg (keystore s) of
         (r, d) \<Rightarrow> (map_err ProteusFailed r, s\<lparr>keystore := d\<rparr>)) (\<lambda>(x, payload).
     bindS (session_cache_insert P \<lparr>session_identifier = i, session = x\<rparr>) (\<lambda>conversation. okS (conversation, payload))))"

definition session_save :: "('i, 's, 'p, 'c) proteus_lib \<Rightarrow> bytes \<Rightarrow> ('i, 'c, unit) proteus_op" where
  "session_save P i = bindS (get_or_fetch P i) (\<lambda>found.
     case found of None \<Rightarrow> okS () | Some x \<Rightarrow> session_save_by_ref P x)"

definition session_delete :: "('i, 's, 'p, 'c) proteus_lib \<Rightarrow> bytes \<Rightarrow> ('i, 'c, unit) proteus_op" where
  "session_delete P i = bindS (catchS (on_keystore (db_remove ProteusSessionT (StringKey i)))) (\<lambda>r.
     if is_ok r then put_sessions (cache_remove (sessions_lru P) i) else okS ())"

definition session_exists :: "('i, 's, 'p, 'c) proteus_lib \<Rightarrow> bytes \<Rightarrow> ('i, 'c, bool) proteus_op" where
  "session_exists P i = bindS (catchS (get_or_fetch P i)) (\<lambda>r. okS (Option.bind (okay r) id \<noteq> None))"

definition found_session :: "('i, 's, 'p, 'c) proteus_lib \<Rightarrow> bytes \<Rightarrow> ('i, 'c, 's ProteusConversationSession) proteus_op" where
  "found_session P i = bindS (get_or_fetch P i) (\<lambda>found. liftS (ok_or (ProteusConversationNotFound i) found))"

definition fingerprint_local :: "('i, 's, 'p, 'c) proteus_lib \<Rightarrow> bytes \<Rightarrow> ('i, 'c, bytes) proteus_op" where
  "fingerprint_local P i = bindS (found_session P i) (\<lambda>x. okS (local_fingerprint P (session x)))"

definition fingerprint_remote :: "('i, 's, 'p, 'c) proteus_lib \<Rightarrow> bytes \<Rightarrow> ('i, 'c, bytes) proteus_op" where
  "fingerprint_remote P i = bindS (found_session P i) (\<lambda>x. okS (remote_fingerprint P (session x)))"

section \<open>Messages\<close>

definition conversation_encrypt ::
  "('i, 's, 'p, 'c) proteus_lib \<Rightarrow> bytes \<Rightarrow> 's ProteusConversationSession \<Rightarrow> ('i, 'c, bytes \<times> 's ProteusConversationSession) proteus_op" where
  "conversation_encrypt P plaintext x = (case session_encrypt P plaintext (session x) of (r, x') \<Rightarrow>
     bindS (put_sessions (cache_store (sessions_lru P) (session_identifier x) (x\<lparr>session := x'\<rparr>))) (\<lambda>_.
     bindS (protS r) (\<lambda>ciphertext. okS (ciphertext, x\<lparr>session := x'\<rparr>))))"

definition conversation_decrypt ::
  "('i, 's, 'p, 'c) proteus_lib \<Rightarrow> bytes \<Rightarrow> 's ProteusConversationSession \<Rightarrow> ('i, 'c, bytes \<times> 's ProteusConversationSession) proteus_op" where
  "conversation_decrypt P ciphertext x =
     bindS (protS (envelope_deserialise P ciphertext)) (\<lambda>envelope s.
     case session_decrypt P envelope (keystore s) (session x) of (r, x', d) \<Rightarrow>
       bindS (put_sessions (cache_store (sessions_lru P) (session_identifier x) (x\<lparr>session := x'\<rparr>))) (\<lambda>_.
       bindS (protS r) (\<lambda>plaintext. okS (plaintext, x\<lparr>session := x'\<rparr>))) (s\<lparr>keystore := d\<rparr>))"

definition decrypt :: "('i, 's, 'p, 'c) proteus_lib \<Rightarrow> bytes \<Rightarrow> bytes \<Rightarrow> ('i, 'c, bytes) proteus_op" where
  "decrypt P i ciphertext =
     bindS (found_session P i) (\<lambda>x.
     bindS (conversation_decrypt P ciphertext x) (\<lambda>(plaintext, x').
     bindS (session_save_by_ref P x') (\<lambda>_. okS plaintext)))"

definition encrypt :: "('i, 's, 'p, 'c) proteus_lib \<Rightarrow> bytes \<Rightarrow> bytes \<Rightarrow> ('i, 'c, bytes) proteus_op" where
  "encrypt P i plaintext =
     bindS (found_session P i) (\<lambda>x.
     bindS (conversation_encrypt P plaintext x) (\<lambda>(ciphertext, x').
     bindS (session_save_by_ref P x') (\<lambda>_. okS ciphertext)))"

fun encrypt_batched_from ::
  "('i, 's, 'p, 'c) proteus_lib \<Rightarrow> bytes \<Rightarrow> bytes list \<Rightarrow> (bytes \<rightharpoonup> bytes) \<Rightarrow> ('i, 'c, bytes \<rightharpoonup> bytes) proteus_op" where
  "encrypt_batched_from P plaintext [] acc = okS acc"
| "encrypt_batched_from P plaintext (i # sessions) acc =
     bindS (get_or_fetch P i) (\<lambda>found. case found of
         None \<Rightarrow> encrypt_batched_from P plaintext sessions acc
       | Some x \<Rightarrow>
           bindS (conversation_encrypt P plaintext x) (\<lambda>(ciphertext, x').
           bindS (session_save_by_ref P x') (\<lambda>_.
           encrypt_batched_from P plaintext sessions (acc(session_identifier x \<mapsto> ciphertext)))))"

definition encrypt_batched ::
  "('i, 's, 'p, 'c) proteus_lib \<Rightarrow> bytes list \<Rightarrow> bytes \<Rightarrow> ('i, 'c, bytes \<rightharpoonup> bytes) proteus_op" where
  "encrypt_batched P sessions plaintext = encrypt_batched_from P plaintext sessions Map.empty"

section \<open>Calls in a transaction\<close>

record ('i, 'pc, 'g, 'c) core_state =
  core_tx :: "('g, 'c) tx_state"
  core_proteus :: "('i, 'pc) ProteusCentral option"

datatype proteus_call_error = ProteusInvalidContext | ProteusNotInitialized | ProteusRoot proteus_error

text \<open>The calls run on the client of the core, on its keystore.\<close>

definition core_with_proteus ::
  "('i, 'pc, 'a) proteus_op \<Rightarrow> (('i, 'pc, 'g, 'c) core_state, proteus_call_error, 'a) fallible" where
  "core_with_proteus m s = (case core_proteus s of
       None \<Rightarrow> (Inl ProteusNotInitialized, s)
     | Some p \<Rightarrow> (case m \<lparr>central = p, keystore = core_database (core_tx s)\<rparr> of
         (r, s') \<Rightarrow> (map_err ProteusRoot r,
           s\<lparr>core_tx := (core_tx s)\<lparr>core_database := keystore s'\<rparr>, core_proteus := Some (central s')\<rparr>)))"

text \<open>What every call in a transaction checks first.\<close>

definition with_proteus ::
  "('i, 'pc, 'a) proteus_op \<Rightarrow> (('i, 'pc, 'g, 'c) core_state, proteus_call_error, 'a) fallible" where
  "with_proteus m s =
     (if \<not> inner_valid (core_tx s) then (Inl ProteusInvalidContext, s)
      else core_with_proteus m s)"

definition proteus_init ::
  "('i, 's, 'p, 'pc) proteus_lib \<Rightarrow> (('i, 'pc, 'g, 'c) core_state, proteus_call_error, unit) fallible" where
  "proteus_init P s =
     (if \<not> inner_valid (core_tx s) then (Inl ProteusInvalidContext, s)
      else case proteus_try_new P (core_database (core_tx s)) of
        (Inl e, d) \<Rightarrow> (Inl (ProteusRoot e), s\<lparr>core_tx := (core_tx s)\<lparr>core_database := d\<rparr>\<rparr>)
      | (Inr p, d) \<Rightarrow>
          (case last_resort_prekey P \<lparr>central = p, keystore = d\<rparr> of
             (Inl e, s') \<Rightarrow> (Inl (ProteusRoot e), s\<lparr>core_tx := (core_tx s)\<lparr>core_database := keystore s'\<rparr>\<rparr>)
           | (Inr _, s') \<Rightarrow> (Inr (), s\<lparr>core_tx := (core_tx s)\<lparr>core_database := keystore s'\<rparr>, core_proteus := Some (central s')\<rparr>)))"

definition proteus_session_from_prekey ::
  "('i, 's, 'p, 'pc) proteus_lib \<Rightarrow> bytes \<Rightarrow> bytes \<Rightarrow> (('i, 'pc, 'g, 'c) core_state, proteus_call_error, unit) fallible" where
  "proteus_session_from_prekey P i key =
     with_proteus (bindS (session_from_prekey P i key) (session_save_by_ref P))"

definition proteus_session_from_message ::
  "('i, 's, 'p, 'pc) proteus_lib \<Rightarrow> bytes \<Rightarrow> bytes \<Rightarrow> (('i, 'pc, 'g, 'c) core_state, proteus_call_error, bytes) fallible" where
  "proteus_session_from_message P i envelope =
     with_proteus (bindS (session_from_message P i envelope) (\<lambda>(x, msg). bindS (session_save_by_ref P x) (\<lambda>_. okS msg)))"

definition proteus_session_save ::
  "('i, 's, 'p, 'pc) proteus_lib \<Rightarrow> bytes \<Rightarrow> (('i, 'pc, 'g, 'c) core_state, proteus_call_error, unit) fallible" where
  "proteus_session_save P i = with_proteus (session_save P i)"

definition proteus_session_delete ::
  "('i, 's, 'p, 'pc) proteus_lib \<Rightarrow> bytes \<Rightarrow> (('i, 'pc, 'g, 'c) core_state, proteus_call_error, unit) fallible" where
  "proteus_session_delete P i = with_proteus (session_delete P i)"

definition proteus_session_exists ::
  "('i, 's, 'p, 'pc) proteus_lib \<Rightarrow> bytes \<Rightarrow> (('i, 'pc, 'g, 'c) core_state, proteus_call_error, bool) fallible" where
  "proteus_session_exists P i = with_proteus (session_exists P i)"

definition proteus_decrypt ::
  "('i, 's, 'p, 'pc) proteus_lib \<Rightarrow> bytes \<Rightarrow> bytes \<Rightarrow> (('i, 'pc, 'g, 'c) core_state, proteus_call_error, bytes) fallible" where
  "proteus_decrypt P i ciphertext = with_proteus (decrypt P i ciphertext)"

definition proteus_encrypt ::
  "('i, 's, 'p, 'pc) proteus_lib \<Rightarrow> bytes \<Rightarrow> bytes \<Rightarrow> (('i, 'pc, 'g, 'c) core_state, proteus_call_error, bytes) fallible" where
  "proteus_encrypt P i plaintext = with_proteus (encrypt P i plaintext)"

definition proteus_encrypt_batched ::
  "('i, 's, 'p, 'pc) proteus_lib \<Rightarrow> bytes list \<Rightarrow> bytes
   \<Rightarrow> (('i, 'pc, 'g, 'c) core_state, proteus_call_error, bytes \<rightharpoonup> bytes) fallible" where
  "proteus_encrypt_batched P sessions plaintext = with_proteus (encrypt_batched P sessions plaintext)"

definition proteus_new_prekey ::
  "('i, 's, 'p, 'pc) proteus_lib \<Rightarrow> u16 \<Rightarrow> (('i, 'pc, 'g, 'c) core_state, proteus_call_error, bytes) fallible" where
  "proteus_new_prekey P i = with_proteus (new_prekey P i)"

definition proteus_new_prekey_auto ::
  "('i, 's, 'p, 'pc) proteus_lib \<Rightarrow> (('i, 'pc, 'g, 'c) core_state, proteus_call_error, u16 \<times> bytes) fallible" where
  "proteus_new_prekey_auto P = with_proteus (new_prekey_auto P)"

definition proteus_last_resort_prekey ::
  "('i, 's, 'p, 'pc) proteus_lib \<Rightarrow> (('i, 'pc, 'g, 'c) core_state, proteus_call_error, bytes) fallible" where
  "proteus_last_resort_prekey P = with_proteus (last_resort_prekey P)"

definition proteus_fingerprint ::
  "('i, 's, 'p, 'pc) proteus_lib \<Rightarrow> (('i, 'pc, 'g, 'c) core_state, proteus_call_error, bytes) fallible" where
  "proteus_fingerprint P = with_proteus (fingerprint P)"

definition proteus_fingerprint_local ::
  "('i, 's, 'p, 'pc) proteus_lib \<Rightarrow> bytes \<Rightarrow> (('i, 'pc, 'g, 'c) core_state, proteus_call_error, bytes) fallible" where
  "proteus_fingerprint_local P i = with_proteus (fingerprint_local P i)"

definition proteus_fingerprint_remote ::
  "('i, 's, 'p, 'pc) proteus_lib \<Rightarrow> bytes \<Rightarrow> (('i, 'pc, 'g, 'c) core_state, proteus_call_error, bytes) fallible" where
  "proteus_fingerprint_remote P i = with_proteus (fingerprint_remote P i)"

section \<open>Calls outside a transaction\<close>

definition core_proteus_session_exists ::
  "('i, 's, 'p, 'pc) proteus_lib \<Rightarrow> bytes \<Rightarrow> (('i, 'pc, 'g, 'c) core_state, proteus_call_error, bool) fallible" where
  "core_proteus_session_exists P i = core_with_proteus (session_exists P i)"

definition core_proteus_fingerprint ::
  "('i, 's, 'p, 'pc) proteus_lib \<Rightarrow> (('i, 'pc, 'g, 'c) core_state, proteus_call_error, bytes) fallible" where
  "core_proteus_fingerprint P = core_with_proteus (fingerprint P)"

definition core_proteus_fingerprint_local ::
  "('i, 's, 'p, 'pc) proteus_lib \<Rightarrow> bytes \<Rightarrow> (('i, 'pc, 'g, 'c) core_state, proteus_call_error, bytes) fallible" where
  "core_proteus_fingerprint_local P i = core_with_proteus (fingerprint_local P i)"

definition core_proteus_fingerprint_remote ::
  "('i, 's, 'p, 'pc) proteus_lib \<Rightarrow> bytes \<Rightarrow> (('i, 'pc, 'g, 'c) core_state, proteus_call_error, bytes) fallible" where
  "core_proteus_fingerprint_remote P i = core_with_proteus (fingerprint_remote P i)"

end
