(* ===== verification/Proteus_Properties.thy ===== *)
theory Proteus_Properties
  imports Proteus Transaction_Properties
begin

text \<open>
  The session cache of the Proteus client against the keystore behind it: encrypting writes the
  advanced session through to the keystore, a session made in an aborted transaction stays in the
  cache, and a committed session is not found again by a client that starts anew.
\<close>

section \<open>The cache\<close>

text \<open>What \<open>schnellru\<close> documents of a map limited to at least one element.\<close>

definition cache_ok :: "('c, 'v) session_lru \<Rightarrow> bool" where
  "cache_ok C \<longleftrightarrow>
     (\<forall>i. cache_peek C i (cache_new C 200) = None)
     \<and> (\<forall>i v c. cache_peek C i (cache_insert C i v c) = Some v)
     \<and> (\<forall>i c. fst (cache_get C i c) = cache_peek C i c)
     \<and> (\<forall>i j c. cache_peek C j (snd (cache_get C i c)) = cache_peek C j c)
     \<and> (\<forall>i v c. cache_peek C i c \<noteq> None \<longrightarrow> cache_peek C i (cache_store C i v c) = Some v)"

abbreviation cached :: "('i, 's, 'p, 'c) proteus_lib \<Rightarrow> bytes \<Rightarrow> ('i, 'c) ProteusCentral \<Rightarrow> 's ProteusConversationSession option" where
  "cached P i p \<equiv> cache_peek (sessions_lru P) i (proteus_sessions p)"

lemma cache_laws:
  assumes "cache_ok C"
  shows "cache_peek C i (cache_new C 200) = None" "cache_peek C i (cache_insert C i v c) = Some v"
    and "fst (cache_get C i c) = cache_peek C i c" "cache_peek C j (snd (cache_get C i c)) = cache_peek C j c"
    and "cache_peek C i c = Some w \<Longrightarrow> cache_peek C i (cache_store C i v c) = Some v"
  using assms by (auto simp: cache_ok_def)

lemma get_or_fetch_cached:
  assumes "cache_ok (sessions_lru P)" "cached P i (central s) = Some x"
  obtains s' where "get_or_fetch P i s = (Inr (Some x), s')" "keystore s' = keystore s"
    "cached P i (central s') = Some x"
proof -
  obtain r c where g: "cache_get (sessions_lru P) i (proteus_sessions (central s)) = (r, c)"
    by fastforce
  then show thesis
    using that[of "s\<lparr>central := (central s)\<lparr>proteus_sessions := c\<rparr>\<rparr>"] assms(2)
      cache_laws(3)[OF assms(1), where i = i and c = "proteus_sessions (central s)"]
      cache_laws(4)[OF assms(1), where i = i and j = i and c = "proteus_sessions (central s)"]
    by (simp add: get_or_fetch_def Let_def)
qed

lemma get_or_fetch_missing:
  assumes "cached P i (central s) = None" "db_get ProteusSessionT (StringKey i) (keystore s) = Inr None"
  shows "get_or_fetch P i s = (Inr None, s)"
  using assms by (simp add: get_or_fetch_def Let_def)

lemma session_exists_cached:
  assumes "cache_ok (sessions_lru P)" "cached P i (central s) = Some x"
  shows "fst (session_exists P i s) = Inr True"
proof -
  obtain s' where "get_or_fetch P i s = (Inr (Some x), s')"
    using get_or_fetch_cached[OF assms] by blast
  then show ?thesis
    by (simp add: session_exists_def op_simps okay_simps)
qed

lemma session_exists_missing:
  assumes "cached P i (central s) = None" "db_get ProteusSessionT (StringKey i) (keystore s) = Inr None"
  shows "fst (session_exists P i s) = Inr False" "fst (encrypt P i b s) = Inl (ProteusConversationNotFound i)"
  using get_or_fetch_missing[OF assms]
  by (simp_all add: session_exists_def encrypt_def found_session_def bindS_def op_simps okay_simps ok_or_simps)

section \<open>Saving sessions\<close>

lemma on_keystore_Inr:
  "on_keystore f s = (Inr a, s') \<longleftrightarrow> (\<exists>d. f (keystore s) = (d, Inr a) \<and> s' = s\<lparr>keystore := d\<rparr>)"
  by (auto simp: on_keystore_def map_err_def split: prod.splits sum.splits)

lemma keystore_unchanged: "s\<lparr>keystore := keystore s\<rparr> = (s :: ('i, 'c) proteus_state)"
  by simp

lemma protS_Inr: "protS r s = (Inr a, s') \<longleftrightarrow> r = Inr a \<and> s' = s"
  by (auto simp: protS_def liftS_def map_err_def split: sum.splits)

lemma save_by_ref_Inr:
  assumes "session_save_by_ref P x s = (Inr (), s')"
  obtains raw g d where "session_serialise P (session x) = Inr raw" "s' = s\<lparr>keystore := d\<rparr>"
    "db_save (proteus_hs P) None (ProteusSession \<lparr>proteus_session_id = session_identifier x, session_record = raw\<rparr>) (keystore s)
       = (d, Inr g)"
  using assms by (auto simp: session_save_by_ref_def bindS_Inr protS_Inr on_keystore_Inr okS_def)

lemma save_by_ref_reads:
  assumes "session_save_by_ref P x s = (Inr (), s')" "db_inv (proteus_hs P) (keystore s)"
  shows "\<exists>raw. session_serialise P (session x) = Inr raw \<and> central s' = central s
    \<and> db_get ProteusSessionT (StringKey (session_identifier x)) (keystore s')
      = Inr (Some (ProteusSession \<lparr>proteus_session_id = session_identifier x, session_record = raw\<rparr>))"
proof -
  obtain raw g d where r: "session_serialise P (session x) = Inr raw" "s' = s\<lparr>keystore := d\<rparr>"
    and d: "db_save (proteus_hs P) None (ProteusSession \<lparr>proteus_session_id = session_identifier x, session_record = raw\<rparr>) (keystore s)
       = (d, Inr g)"
    using assms(1) by (rule save_by_ref_Inr)
  have "g = None"
    using d by (auto simp: db_save_def tx_save_def Let_def split: option.splits)
  then show ?thesis
    using db_get_after_save[OF assms(2) _ d, of "ProteusSession \<lparr>proteus_session_id = session_identifier x, session_record = raw\<rparr>"] r
    by (simp add: mutation_ok_def is_none_or_def ident_def)
qed

lemma from_prekey_Inr:
  assumes "cache_ok (sessions_lru P)" "session_from_prekey P i key s = (Inr x, s')"
  shows "session_identifier x = i" "cached P i (central s') = Some x" "keystore s' = keystore s"
proof -
  obtain y where y: "session_cache_insert P \<lparr>session_identifier = i, session = y\<rparr> s = (Inr x, s')"
    using assms(2) by (auto simp: session_from_prekey_def bindS_Inr protS_Inr getS_def)
  obtain f c where g: "cache_get (sessions_lru P) i
      (cache_insert (sessions_lru P) i \<lparr>session_identifier = i, session = y\<rparr> (proteus_sessions (central s))) = (f, c)"
    by fastforce
  have "f = Some \<lparr>session_identifier = i, session = y\<rparr>" "cache_peek (sessions_lru P) i c = Some \<lparr>session_identifier = i, session = y\<rparr>"
    using cache_laws(3)[OF assms(1), where i = i and
        c = "cache_insert (sessions_lru P) i \<lparr>session_identifier = i, session = y\<rparr> (proteus_sessions (central s))"]
      cache_laws(4)[OF assms(1), where i = i and j = i and
        c = "cache_insert (sessions_lru P) i \<lparr>session_identifier = i, session = y\<rparr> (proteus_sessions (central s))"]
      cache_laws(2)[OF assms(1)] g by auto
  then show "session_identifier x = i" "cached P i (central s') = Some x" "keystore s' = keystore s"
    using y g by (auto simp: session_cache_insert_def Let_def ok_or_simps)
qed

text \<open>A session made in a transaction is in the cache afterwards; the database was reached by one save.\<close>

lemma tx_from_prekey_Inr:
  assumes "cache_ok (sessions_lru P)" "proteus_session_from_prekey P i key s = (Inr (), s1)"
  obtains p x where "core_proteus s1 = Some p" "cached P i p = Some x" "inner_valid (core_tx s1)"
    "db_reachable (proteus_hs P) (core_database (core_tx s)) \<Longrightarrow> db_reachable (proteus_hs P) (core_database (core_tx s1))"
proof -
  obtain p0 s' where v: "inner_valid (core_tx s)" "core_proteus s = Some p0"
    and m: "bindS (session_from_prekey P i key) (session_save_by_ref P)
        \<lparr>central = p0, keystore = core_database (core_tx s)\<rparr> = (Inr (), s')"
    and s1: "s1 = s\<lparr>core_tx := (core_tx s)\<lparr>core_database := keystore s'\<rparr>, core_proteus := Some (central s')\<rparr>"
    using assms(2)
    by (auto simp: proteus_session_from_prekey_def with_proteus_def core_with_proteus_def map_err_def
        split: if_splits option.splits prod.splits sum.splits)
  obtain x t where t: "session_from_prekey P i key \<lparr>central = p0, keystore = core_database (core_tx s)\<rparr> = (Inr x, t)"
    "session_save_by_ref P x t = (Inr (), s')"
    using m by (auto simp: bindS_Inr)
  note c = from_prekey_Inr[OF assms(1) t(1)]
  obtain raw g d where d: "s' = t\<lparr>keystore := d\<rparr>"
    "db_save (proteus_hs P) None (ProteusSession \<lparr>proteus_session_id = session_identifier x, session_record = raw\<rparr>) (keystore t)
       = (d, Inr g)"
    using t(2) by (rule save_by_ref_Inr)
  show thesis
  proof (rule that[of "central s'" x])
    assume "db_reachable (proteus_hs P) (core_database (core_tx s))"
    from db_reachable.stepped[OF this db_step.mutate_tx[of "Save None (ProteusSession \<lparr>proteus_session_id = session_identifier x, session_record = raw\<rparr>)"]]
    show "db_reachable (proteus_hs P) (core_database (core_tx s1))"
      using d c(3) s1 by (simp add: mutate_def mutation_ok_def is_none_or_def)
  qed (use s1 v c d in simp_all)
qed

section \<open>Starting anew\<close>

definition undisturbed :: "hashes \<Rightarrow> Database \<Rightarrow> Database \<Rightarrow> bool" where
  "undisturbed H d d' \<longleftrightarrow> db_inv H d' \<and> (\<forall>k. db_get ProteusSessionT k d' = db_get ProteusSessionT k d)"

lemma undisturbed_refl: "db_inv H d \<Longrightarrow> undisturbed H d d"
  by (simp add: undisturbed_def)

lemma undisturbed_trans: "undisturbed H d d' \<Longrightarrow> undisturbed H d' d'' \<Longrightarrow> undisturbed H d d''"
  by (simp add: undisturbed_def)

lemma save_undisturbed:
  assumes "db_inv H d" "db_save H None e d = (d', r)" "mutation_ok (Save None e)" "pre_save None e = Inr (None, e)"
    and "type_of e \<noteq> ProteusSessionT"
  shows "undisturbed H d d'"
proof (cases r)
  case (Inl err)
  then have "d' = d"
    using assms(2) by (auto simp: db_save_def split: option.splits sum.splits)
  then show ?thesis
    using assms(1) by (simp add: undisturbed_def)
next
  case (Inr g)
  then have d: "db_save H None e d = (d', Inr None)"
    using assms(2,4) by (auto simp: db_save_def tx_save_def Let_def split: option.splits)
  have "db_inv H d'"
    using mutate_inv[OF assms(1,3)] d by (simp add: mutate_def)
  moreover have "db_get ProteusSessionT k d' = db_get ProteusSessionT k d" for k
    using db_get_after_save[OF assms(1,3) d assms(4), of ProteusSessionT k] assms(5) by (simp add: ident_def)
  ultimately show ?thesis
    by (simp add: undisturbed_def)
qed

lemma try_new_undisturbed:
  assumes "db_inv (proteus_hs P) d" "proteus_try_new P d = (r, d')"
  shows "undisturbed (proteus_hs P) d d'" "r = Inr p \<Longrightarrow> proteus_sessions p = session_cache_new P"
proof -
  obtain q where q: "load_or_create_identity P d = (q, d')" "r = mapR (\<lambda>kp. \<lparr>proteus_identity_keys = kp, proteus_sessions = session_cache_new P\<rparr>) q"
    using assms(2) by (auto simp: proteus_try_new_def split: prod.splits)
  have "create_identity P d = (q, d') \<or> d' = d"
    using q(1) by (auto simp: load_or_create_identity_def split: sum.splits option.splits Entity.splits)
  moreover have "undisturbed (proteus_hs P) d d'" if c: "create_identity P d = (q, d')"
  proof -
    obtain x where "db_save (proteus_hs P) None (ProteusIdentity \<lparr>identity_sk = identity_sk_bytes P (new_identity P),
        identity_pk = identity_pk_bytes P (new_identity P)\<rparr>) d = (d', x)"
      using c by (auto simp: create_identity_def Let_def split: prod.splits sum.splits)
    from save_undisturbed[OF assms(1) this] show ?thesis
      by (simp add: mutation_ok_def is_none_or_def)
  qed
  ultimately show "undisturbed (proteus_hs P) d d'"
    using undisturbed_refl[OF assms(1)] by blast
  show "r = Inr p \<Longrightarrow> proteus_sessions p = session_cache_new P"
    using q(2) by (cases q) (auto simp: mapR_simps)
qed

lemma prekey_cases:
  assumes "(case found of Some (ProteusPrekey p) \<Rightarrow> f p | _ \<Rightarrow> g) s = r"
  obtains p where "f p s = r" | "g s = r"
  using assms by (auto split: option.splits Entity.splits)

lemma last_resort_undisturbed:
  assumes "db_inv (proteus_hs P) (keystore s)" "last_resort_prekey P s = (Inr b, s')"
  shows "undisturbed (proteus_hs P) (keystore s) (keystore s') \<and> central s' = central s"
proof -
  have "s' = s \<or> (\<exists>raw d. proteus_store_prekey (proteus_hs P) last_resort_prekey_id raw (keystore s) = (d, Inr ()) \<and> s' = s\<lparr>keystore := d\<rparr>)"
  proof -
    obtain found k t where "(case found of
           Some (ProteusPrekey p) \<Rightarrow> protS (prekey_deserialise P (prekey p))
         | _ \<Rightarrow> bindS (protS (prekey_serialise P (last_resort_of P))) (\<lambda>raw.
                bindS (on_keystore (proteus_store_prekey (proteus_hs P) last_resort_prekey_id raw)) (\<lambda>_.
                okS (last_resort_of P)))) s = (Inr k, t)" "s' = t"
      using assms(2) unfolding last_resort_prekey_def
      by (auto simp only: bindS_Inr protS_Inr on_keystore_Inr getS_def prod.inject keystore_unchanged)
    then show ?thesis
      by (elim prekey_cases) (auto simp: bindS_Inr protS_Inr on_keystore_Inr okS_def)
  qed
  moreover have "undisturbed (proteus_hs P) (keystore s) d"
    if st: "proteus_store_prekey (proteus_hs P) last_resort_prekey_id raw (keystore s) = (d, Inr ())" for raw d
  proof -
    obtain x where "db_save (proteus_hs P) None (ProteusPrekey (prekey_from_raw last_resort_prekey_id raw)) (keystore s) = (d, x)"
      using st by (cases "db_save (proteus_hs P) None (ProteusPrekey (prekey_from_raw last_resort_prekey_id raw)) (keystore s)")
        (auto simp: proteus_store_prekey_def)
    from save_undisturbed[OF assms(1) this] show ?thesis
      by (simp add: mutation_ok_def is_none_or_def storable_def prekey_from_raw_def)
  qed
  ultimately show ?thesis
    using undisturbed_refl[OF assms(1)] by auto
qed

lemma proteus_init_fresh:
  assumes "cache_ok (sessions_lru P)" "db_inv (proteus_hs P) (core_database (core_tx s))" "proteus_init P s = (Inr (), s')"
  obtains p where "core_proteus s' = Some p" "\<And>i. cached P i p = None" "inner_valid (core_tx s')"
    "undisturbed (proteus_hs P) (core_database (core_tx s)) (core_database (core_tx s'))"
proof -
  obtain p d b t where v: "inner_valid (core_tx s)" and n: "proteus_try_new P (core_database (core_tx s)) = (Inr p, d)"
    and l: "last_resort_prekey P \<lparr>central = p, keystore = d\<rparr> = (Inr b, t)"
    and s': "s' = s\<lparr>core_tx := (core_tx s)\<lparr>core_database := keystore t\<rparr>, core_proteus := Some (central t)\<rparr>"
    using assms(3) by (auto simp: proteus_init_def split: if_splits prod.splits sum.splits)
  note u = try_new_undisturbed[OF assms(2) n]
  have "undisturbed (proteus_hs P) d (keystore t) \<and> central t = p"
    using last_resort_undisturbed[OF _ l] u(1) by (simp add: undisturbed_def)
  then show thesis
    using that[of p] u v s' undisturbed_trans cache_laws(1)[OF assms(1)] by (auto simp: session_cache_new_def)
qed

lemma with_proteus_fst:
  assumes "core_proteus s = Some p"
  shows "fst (core_with_proteus m s) = map_err ProteusRoot (fst (m \<lparr>central = p, keystore = core_database (core_tx s)\<rparr>))"
    and "inner_valid (core_tx s) \<Longrightarrow>
      fst (with_proteus m s) = map_err ProteusRoot (fst (m \<lparr>central = p, keystore = core_database (core_tx s)\<rparr>))"
  using assms by (simp_all add: with_proteus_def core_with_proteus_def split: prod.splits)

lemma fresh_client_misses:
  assumes "cache_ok (sessions_lru P)" "db_inv (proteus_hs P) (core_database (core_tx s))" "proteus_init P s = (Inr (), s')"
    and "db_get ProteusSessionT (StringKey i) (core_database (core_tx s)) = Inr None"
  shows "fst (proteus_session_exists P i s') = Inr False"
    and "fst (proteus_encrypt P i b s') = Inl (ProteusRoot (ProteusConversationNotFound i))"
proof -
  obtain p where p: "core_proteus s' = Some p" "cached P i p = None" "inner_valid (core_tx s')"
    "undisturbed (proteus_hs P) (core_database (core_tx s)) (core_database (core_tx s'))"
    using proteus_init_fresh[OF assms(1-3)] by metis
  let ?s = "\<lparr>central = p, keystore = core_database (core_tx s')\<rparr>"
  have "fst (session_exists P i ?s) = Inr False" "fst (encrypt P i b ?s) = Inl (ProteusConversationNotFound i)"
    using session_exists_missing(1)[of P i ?s] session_exists_missing(2)[of P i ?s b] p assms(4) by (simp_all add: undisturbed_def)
  then show "fst (proteus_session_exists P i s') = Inr False"
    and "fst (proteus_encrypt P i b s') = Inl (ProteusRoot (ProteusConversationNotFound i))"
    using p by (simp_all add: proteus_session_exists_def proteus_encrypt_def with_proteus_fst map_err_simps)
qed

lemma opened_reads:
  assumes "db_reachable H (core_database t)" "tx_new t = Some t'"
  shows "db_inv H (core_database t')" "inner_valid t'"
    and "db_get E k (core_database t') = db_get E k (core_database t)"
proof -
  obtain d r where d: "new_transaction (core_database t) = Some (d, r)" "core_database t' = d" "inner_valid t'"
    using assms(2) by (auto simp: tx_new_def)
  then show "db_inv H (core_database t')" "inner_valid t'"
    using reachable_inv[OF db_reachable.stepped[OF assms(1) db_step.begin_tx]] by auto
  have "transaction (core_database t) = None"
    using d(1) reachable_inv[OF assms(1)] by (auto simp: new_transaction_def db_inv_def split: if_splits option.splits)
  moreover have "core_database t' = (core_database t)\<lparr>permits := permits (core_database t) - 1, transaction := Some new_tx\<rparr>"
    using d by (auto simp: new_transaction_def split: if_splits)
  ultimately show "db_get E k (core_database t') = db_get E k (core_database t)"
    by (simp add: fresh_transaction_reads)
qed

section \<open>Writing through\<close>

text \<open>
  C13: A message encrypted for a cached session advances the session, and the advanced session is
  both what the cache holds and, serialised, what the keystore returns for it.
\<close>

theorem encrypt_writes_through:
  assumes "cache_ok (sessions_lru P)" "db_reachable (proteus_hs P) (keystore s)"
    and "cached P i (central s) = Some x" "session_identifier x = i"
    and "encrypt P i plaintext s = (Inr ciphertext, s')"
  shows "fst (session_encrypt P plaintext (session x)) = Inr ciphertext
    \<and> cached P i (central s') = Some (x\<lparr>session := snd (session_encrypt P plaintext (session x))\<rparr>)
    \<and> (\<exists>raw. session_serialise P (snd (session_encrypt P plaintext (session x))) = Inr raw
        \<and> db_get ProteusSessionT (StringKey i) (keystore s')
          = Inr (Some (ProteusSession \<lparr>proteus_session_id = i, session_record = raw\<rparr>)))"
proof -
  obtain s0 where s0: "get_or_fetch P i s = (Inr (Some x), s0)" "keystore s0 = keystore s" "cached P i (central s0) = Some x"
    using get_or_fetch_cached[OF assms(1,3)] .
  obtain r y where e: "session_encrypt P plaintext (session x) = (r, y)"
    by fastforce
  define s1 where "s1 = s0\<lparr>central := (central s0)\<lparr>proteus_sessions :=
      cache_store (sessions_lru P) i (x\<lparr>session := y\<rparr>) (proteus_sessions (central s0))\<rparr>\<rparr>"
  have c: "cached P i (central s1) = Some (x\<lparr>session := y\<rparr>)"
    using cache_laws(5)[OF assms(1) s0(3)] by (simp add: s1_def)
  have "r = Inr ciphertext" "session_save_by_ref P (x\<lparr>session := y\<rparr>) s1 = (Inr (), s')"
    using assms(5) s0(1) assms(4)
    by (auto simp: encrypt_def found_session_def conversation_encrypt_def e put_sessions_def bindS_Inr protS_Inr
        liftS_def putS_def okS_def ok_or_simps s1_def)
  then show ?thesis
    using save_by_ref_reads[of P "x\<lparr>session := y\<rparr>" s1 s'] reachable_inv[OF assms(2)] c e s0(2) assms(4)
    by (auto simp: s1_def)
qed

section \<open>Sessions across transactions\<close>

text \<open>
  C40: A session created in a transaction that is then aborted still exists for the client, although
  the keystore has none, while a client that is initialised anew in the next transaction has no such
  session: aborting empties the cache of MLS conversations, not the one of Proteus sessions.
\<close>

theorem session_outlives_abort:
  assumes "cache_ok (sessions_lru P)" "db_reachable (proteus_hs P) (core_database (core_tx s))"
    and "proteus_session_from_prekey P i key s = (Inr (), s1)" "abort T (core_tx s1) = (Inr (), t2)"
    and "db_get ProteusSessionT (StringKey i) (core_database t2) = Inr None"
    and "tx_new t2 = Some t3" "proteus_init P (s1\<lparr>core_tx := t3\<rparr>) = (Inr (), s4)"
  shows "fst (core_proteus_session_exists P i (s1\<lparr>core_tx := t2\<rparr>)) = Inr True
    \<and> fst (proteus_session_exists P i (s1\<lparr>core_tx := t3\<rparr>)) = Inr True
    \<and> fst (proteus_session_exists P i s4) = Inr False"
proof -
  obtain p x where p: "core_proteus s1 = Some p" "cached P i p = Some x"
    and re: "db_reachable (proteus_hs P) (core_database (core_tx s1))"
    using tx_from_prekey_Inr[OF assms(1,3)] assms(2) by metis
  have "rollback_transaction (core_database (core_tx s1)) = (core_database t2, Inr ())"
    using assms(4) by (auto simp: abort_def map_err_def split: if_splits prod.splits sum.splits)
  with re have r2: "db_reachable (proteus_hs P) (core_database t2)"
    by (blast intro: db_reachable.stepped db_step.rollback_tx)
  note op = opened_reads[OF r2 assms(6)]
  have "fst (session_exists P i \<lparr>central = p, keystore = d\<rparr>) = Inr True" for d
    using session_exists_cached[OF assms(1)] p(2) by simp
  then have "fst (core_proteus_session_exists P i (s1\<lparr>core_tx := t2\<rparr>)) = Inr True"
    "fst (proteus_session_exists P i (s1\<lparr>core_tx := t3\<rparr>)) = Inr True"
    using p(1) op by (simp_all add: core_proteus_session_exists_def proteus_session_exists_def with_proteus_fst map_err_simps)
  moreover have "fst (proteus_session_exists P i s4) = Inr False"
    using fresh_client_misses(1)[OF assms(1) _ assms(7)] op assms(5) by simp
  ultimately show ?thesis
    by blast
qed

text \<open>
  C39: A session whose transaction was committed is used from the cache as long as the client lives,
  but a client initialised anew does not find it: it does not exist, and nothing can be encrypted
  for it.
\<close>

theorem committed_session_lost:
  assumes "cache_ok (sessions_lru P)" "db_reachable (proteus_hs P) (core_database (core_tx s))"
    and "proteus_hs P = hs (base T)" "permuting (order (base T))"
    and "proteus_session_from_prekey P i key s = (Inr (), s1)" "finish T io (core_tx s1) = (Inr (), t2)"
    and "tx_new t2 = Some t3" "proteus_init P (s1\<lparr>core_tx := t3\<rparr>) = (Inr (), s4)"
  shows "fst (proteus_session_exists P i (s1\<lparr>core_tx := t3\<rparr>)) = Inr True
    \<and> fst (proteus_session_exists P i s4) = Inr False
    \<and> fst (proteus_encrypt P i plaintext s4) = Inl (ProteusRoot (ProteusConversationNotFound i))"
proof -
  obtain p x where p: "core_proteus s1 = Some p" "cached P i p = Some x"
    and re: "db_reachable (proteus_hs P) (core_database (core_tx s1))"
    using tx_from_prekey_Inr[OF assms(1,5)] assms(2) by metis
  have c: "commit_transaction (proteus_hs P) (order (base T)) io (core_database (core_tx s1)) = (core_database t2, Inr ())"
    using assms(6) unfolding assms(3)
    by (auto simp: finish_def Let_def notify_epoch_changed_def map_err_def split: prod.splits option.splits sum.splits if_splits)
  have r2: "db_reachable (proteus_hs P) (core_database t2)"
    using db_reachable.stepped[OF re db_step.commit_tx[OF assms(4) c]] .
  note op = opened_reads[OF r2 assms(7)]
  obtain db where db: "conn (core_database t2) = Some db" "transaction (core_database t2) = None"
    using c by (auto elim!: commit_transaction_Inr simp: drop_transaction_def)
  obtain es where "table_holds (proteus_hs P) db ProteusSessionT es"
    using reachable_inv[OF r2] db(1) by (auto simp: db_inv_def elim: db_okE)
  then have "db_get ProteusSessionT (StringKey i) (core_database t2) = Inr None"
    using text_keyed_get[of "proteus_hs P" db ProteusSessionT es "StringKey i"] db
    by (simp add: db_get_def get_conn_def text_keyed_def)
  moreover have "fst (session_exists P i \<lparr>central = p, keystore = core_database t3\<rparr>) = Inr True"
    using session_exists_cached[OF assms(1)] p(2) by simp
  then have "fst (proteus_session_exists P i (s1\<lparr>core_tx := t3\<rparr>)) = Inr True"
    using p(1) op by (simp add: proteus_session_exists_def with_proteus_fst map_err_simps)
  ultimately show ?thesis
    using fresh_client_misses(1)[OF assms(1) _ assms(8), of i] fresh_client_misses(2)[OF assms(1) _ assms(8), of i plaintext] op by simp
qed

section \<open>A concrete client\<close>

text \<open>Keys and messages are bytes; a session counts the messages it has encrypted.\<close>

definition eg_sessions :: "((bytes \<times> nat ProteusConversationSession) list, nat ProteusConversationSession) session_lru" where
  "eg_sessions = \<lparr>cache_new = (\<lambda>_. []), cache_peek = (\<lambda>i c. map_of c i), cache_get = (\<lambda>i c. (map_of c i, c)),
     cache_insert = AList.update, cache_store = AList.update, cache_remove = AList.delete\<rparr>"

definition eg_proteus :: "(unit, nat, unit, (bytes \<times> nat ProteusConversationSession) list) proteus_lib" where
  "eg_proteus = \<lparr>new_identity = (), identity_from_raw = (\<lambda>_ _. Inr ()), identity_sk_bytes = (\<lambda>_. replicate 64 1),
     identity_pk_bytes = (\<lambda>_. replicate 32 2), identity_fingerprint = (\<lambda>_. [2]), new_prekey_of = (\<lambda>_. ()), last_resort_of = (),
     prekey_serialise = (\<lambda>_. Inr [3]), prekey_deserialise = (\<lambda>_. Inr ()), bundle_serialise = (\<lambda>_ _. Inr [4]),
     bundle_deserialise = Inr, bundle_fingerprint = id, envelope_deserialise = Inr, init_from_prekey = (\<lambda>_ _. Inr 0),
     init_from_message = (\<lambda>_ b d. (Inr (0, b), d)), session_encrypt = (\<lambda>b n. (Inr (word_of_nat n # b), Suc n)),
     session_decrypt = (\<lambda>b d n. (Inr (tl b), n, d)), session_serialise = (\<lambda>n. Inr [word_of_nat n]),
     session_deserialise = (\<lambda>_ b. Inr (unat (hd b))), local_fingerprint = (\<lambda>_. [2]), remote_fingerprint = (\<lambda>_. [5]),
     sessions_lru = eg_sessions, proteus_hs = example_hashes\<rparr>"

definition eg_core :: "(unit, (bytes \<times> nat ProteusConversationSession) list, example_group, (bytes \<times> nat) list) core_state" where
  "eg_core = \<lparr>core_tx = the (tx_new eg_closed), core_proteus = Some \<lparr>proteus_identity_keys = (), proteus_sessions = []\<rparr>\<rparr>"

lemma eg_sessions_ok: "cache_ok (sessions_lru eg_proteus)"
  by (simp add: cache_ok_def eg_proteus_def eg_sessions_def update_conv')

lemma eg_core_reachable: "db_reachable (proteus_hs eg_proteus) (core_database (core_tx eg_core))"
proof -
  have "db_reachable example_hashes (core_database eg_closed)"
    using eg_closed_reachable by (simp add: eg_tx_ok)
  moreover obtain d r where "new_transaction (core_database eg_closed) = Some (d, r)"
    by (simp add: eg_closed_def db_open_def new_transaction_def ALLOWED_CONCURRENT_TRANSACTIONS_COUNT_def)
  ultimately show ?thesis
    using db_reachable.stepped[OF _ db_step.begin_tx] by (simp add: eg_core_def eg_proteus_def tx_new_def)
qed

theorem encrypt_writes_through_witness:
  "cached eg_proteus [9] (central (snd (encrypt eg_proteus [9] [6, 7]
      \<lparr>central = \<lparr>proteus_identity_keys = (), proteus_sessions = [([9], \<lparr>session_identifier = [9], session = 4\<rparr>)]\<rparr>,
       keystore = core_database (core_tx eg_core)\<rparr>))) = Some \<lparr>session_identifier = [9], session = 5\<rparr>"
proof -
  let ?x = "\<lparr>session_identifier = [9], session = 4\<rparr> :: nat ProteusConversationSession"
  let ?s = "\<lparr>central = \<lparr>proteus_identity_keys = (), proteus_sessions = [([9], ?x)]\<rparr>, keystore = core_database (core_tx eg_core)\<rparr>"
  have "fst (encrypt eg_proteus [9] [6, 7] ?s) = Inr [4, 6, 7]"
    by code_simp
  then have "encrypt eg_proteus [9] [6, 7] ?s = (Inr [4, 6, 7], snd (encrypt eg_proteus [9] [6, 7] ?s))"
    by (simp add: prod_eq_iff)
  from encrypt_writes_through[OF eg_sessions_ok _ _ _ this, of ?x] show ?thesis
    using eg_core_reachable by (simp add: eg_proteus_def eg_sessions_def)
qed

theorem session_outlives_abort_witness:
  "\<exists>s1 t2 t3 s4. proteus_session_from_prekey eg_proteus [9] [8] eg_core = (Inr (), s1) \<and> abort eg_tx (core_tx s1) = (Inr (), t2)
    \<and> tx_new t2 = Some t3 \<and> proteus_init eg_proteus (s1\<lparr>core_tx := t3\<rparr>) = (Inr (), s4)
    \<and> fst (core_proteus_session_exists eg_proteus [9] (s1\<lparr>core_tx := t2\<rparr>)) = Inr True
    \<and> fst (proteus_session_exists eg_proteus [9] s4) = Inr False"
proof -
  define s1 where "s1 = snd (proteus_session_from_prekey eg_proteus [9] [8] eg_core)"
  define t2 where "t2 = snd (abort eg_tx (core_tx s1))"
  define t3 where "t3 = the (tx_new t2)"
  define s4 where "s4 = snd (proteus_init eg_proteus (s1\<lparr>core_tx := t3\<rparr>))"
  note defs = s4_def t3_def t2_def s1_def
  have "fst (proteus_session_from_prekey eg_proteus [9] [8] eg_core) = Inr ()" "fst (abort eg_tx (core_tx s1)) = Inr ()"
    "tx_new t2 \<noteq> None" "fst (proteus_init eg_proteus (s1\<lparr>core_tx := t3\<rparr>)) = Inr ()"
    and m: "db_get ProteusSessionT (StringKey [9]) (core_database t2) = Inr None"
    unfolding defs by code_simp+
  then have r: "proteus_session_from_prekey eg_proteus [9] [8] eg_core = (Inr (), s1)" "abort eg_tx (core_tx s1) = (Inr (), t2)"
    "tx_new t2 = Some t3" "proteus_init eg_proteus (s1\<lparr>core_tx := t3\<rparr>) = (Inr (), s4)"
    by (auto simp: prod_eq_iff defs)
  from session_outlives_abort[OF eg_sessions_ok eg_core_reachable r(1,2) m r(3,4)] r show ?thesis
    by blast
qed

theorem committed_session_lost_witness:
  "\<exists>s1 t2 t3 s4. proteus_session_from_prekey eg_proteus [9] [8] eg_core = (Inr (), s1)
    \<and> finish eg_tx (\<lambda>_. None) (core_tx s1) = (Inr (), t2)
    \<and> tx_new t2 = Some t3 \<and> proteus_init eg_proteus (s1\<lparr>core_tx := t3\<rparr>) = (Inr (), s4)
    \<and> fst (proteus_session_exists eg_proteus [9] (s1\<lparr>core_tx := t3\<rparr>)) = Inr True
    \<and> fst (proteus_encrypt eg_proteus [9] [6] s4) = Inl (ProteusRoot (ProteusConversationNotFound [9]))"
proof -
  define s1 where "s1 = snd (proteus_session_from_prekey eg_proteus [9] [8] eg_core)"
  define t2 where "t2 = snd (finish eg_tx (\<lambda>_. None) (core_tx s1))"
  define t3 where "t3 = the (tx_new t2)"
  define s4 where "s4 = snd (proteus_init eg_proteus (s1\<lparr>core_tx := t3\<rparr>))"
  note defs = s4_def t3_def t2_def s1_def
  have "fst (proteus_session_from_prekey eg_proteus [9] [8] eg_core) = Inr ()" "fst (finish eg_tx (\<lambda>_. None) (core_tx s1)) = Inr ()"
    "tx_new t2 \<noteq> None" "fst (proteus_init eg_proteus (s1\<lparr>core_tx := t3\<rparr>)) = Inr ()"
    unfolding defs by code_simp+
  then have r: "proteus_session_from_prekey eg_proteus [9] [8] eg_core = (Inr (), s1)"
    "finish eg_tx (\<lambda>_. None) (core_tx s1) = (Inr (), t2)"
    "tx_new t2 = Some t3" "proteus_init eg_proteus (s1\<lparr>core_tx := t3\<rparr>) = (Inr (), s4)"
    by (auto simp: prod_eq_iff defs)
  have h: "proteus_hs eg_proteus = hs (base eg_tx)" "permuting (order (base eg_tx))"
    using example_params by (simp_all add: eg_proteus_def eg_tx_ok)
  from committed_session_lost[OF eg_sessions_ok eg_core_reachable h r, of "[6]"] r show ?thesis
    by blast
qed

end
