(* ===== verification/E2ei_State.thy ===== *)
theory E2ei_State
  imports Acquisition Credentials
begin

text \<open>
  The state of a conversation regarding end-to-end identity
  (\<open>crypto/src/mls/session/e2e_identity.rs\<close>, \<open>crypto/src/mls/credential/ext.rs\<close>), computed
  from the credentials in the leaves of its ratchet tree.  Verifying a group info and taking its
  ratchet tree, and the validity period of a certificate, are parameters.
\<close>

datatype mls_credential = BasicCredential bytes | X509Certificate "bytes list"

datatype E2eiConversationState = Verified | NotVerified | NotEnabled

datatype e2ei_error = TakingRatchetTree | FindingCredentials cred_error | NoCredentialWithType CredentialType

datatype leaf_error = InvalidIdentity | DecodeX509

record ('info, 'json, 'cert, 'k, 'path) e2ei_lib =
  acquisition :: "('json, 'cert, 'k, 'path) acq_lib"
  is_time_valid :: "'cert \<Rightarrow> bool option"
  e2ei_hash_alg :: "u16 \<Rightarrow> HashAlgorithm"
  info_ciphersuite :: "'info \<Rightarrow> u16"
  take_ratchet_tree :: "'info \<Rightarrow> bool \<Rightarrow> mls_credential option list option"

definition parse_leaf_cert ::
  "('info, 'json, 'cert, 'k, 'path) e2ei_lib \<Rightarrow> mls_credential \<Rightarrow> leaf_error + 'cert option" where
  "parse_leaf_cert S cred = (case cred of
       X509Certificate certificates \<Rightarrow>
         (case certificates of
            [] \<Rightarrow> Inl InvalidIdentity
          | leaf # _ \<Rightarrow> mapR Some (ok_or DecodeX509 (cert_from_der (pki (acquisition S)) leaf)))
     | BasicCredential _ \<Rightarrow> Inr None)"

text \<open>The loop over the credentials, with its two variables.\<close>

fun conversation_state_from ::
  "('info, 'json, 'cert, 'k, 'path) e2ei_lib \<Rightarrow> 'cert pki_env \<Rightarrow> u16 \<Rightarrow> bool \<Rightarrow> E2eiConversationState
   \<Rightarrow> mls_credential list \<Rightarrow> bool \<times> E2eiConversationState" where
  "conversation_state_from S env cs is_e2ei state [] = (is_e2ei, state)"
| "conversation_state_from S env cs is_e2ei state (cred # credentials) =
     (case parse_leaf_cert S cred of
        Inr (Some cert) \<Rightarrow>
          (let invalid_identity = \<not> is_ok (extract_identity (acquisition S) env (e2ei_hash_alg S cs) cert);
               is_time_invalid = \<not> (is_time_valid S cert = Some True);
               is_revoked_or_invalid = \<not> is_ok (pki_validate_cert (pki (acquisition S)) cert env)
           in if invalid_identity \<or> is_time_invalid \<or> is_revoked_or_invalid then (True, NotVerified)
              else conversation_state_from S env cs True state credentials)
      | _ \<Rightarrow> if is_e2ei then (is_e2ei, NotVerified)
             else conversation_state_from S env cs is_e2ei NotVerified credentials)"

definition compute_conversation_state ::
  "('info, 'json, 'cert, 'k, 'path) e2ei_lib \<Rightarrow> 'cert pki_env option \<Rightarrow> u16 \<Rightarrow> mls_credential list \<Rightarrow> E2eiConversationState" where
  "compute_conversation_state S pki_env cs credentials = (case pki_env of
       None \<Rightarrow> NotEnabled
     | Some env \<Rightarrow> (case conversation_state_from S env cs False Verified credentials of
         (is_e2ei, state) \<Rightarrow> if is_e2ei then state else NotEnabled))"

text \<open>Verifying as the sender turns on the hardened verification; a tree that fails it is not an error.\<close>

definition e2ei_verify_group_state ::
  "('info, 'json, 'cert, 'k, 'path) e2ei_lib \<Rightarrow> 'cert pki_env option \<Rightarrow> 'info \<Rightarrow> E2eiConversationState" where
  "e2ei_verify_group_state S pki_env group_info = (case take_ratchet_tree S group_info True of
       None \<Rightarrow> NotVerified
     | Some rt \<Rightarrow> compute_conversation_state S pki_env (info_ciphersuite S group_info) (List.map_filter id rt))"

definition get_credential_in_use ::
  "('info, 'json, 'cert, 'k, 'path) e2ei_lib \<Rightarrow> 'cert pki_env option \<Rightarrow> 'info \<Rightarrow> e2ei_error + E2eiConversationState" where
  "get_credential_in_use S pki_env group_info = mapR (\<lambda>rt.
     compute_conversation_state S pki_env (info_ciphersuite S group_info) (List.map_filter id rt))
     (ok_or TakingRatchetTree (take_ratchet_tree S group_info False))"

definition e2ei_is_enabled ::
  "cred_codecs \<Rightarrow> id_codecs \<Rightarrow> hashes \<Rightarrow> hash_order \<Rightarrow> u16 \<Rightarrow> Database \<Rightarrow> e2ei_error + bool" where
  "e2ei_is_enabled C U H HO cipher_suite d =
     bindE (map_err FindingCredentials (ref_find C U H HO
       \<lparr>ff_client_id = None, ff_public_key_hash = None, ff_cipher_suite = Some cipher_suite, ff_credential_type = None,
        ff_earliest_validity = None\<rparr> d)) (\<lambda>credentials.
     if list_ex (\<lambda>r. ref_type r = X509) credentials then Inr True
     else if credentials \<noteq> [] then Inr False
     else Inl (NoCredentialWithType Basic))"

section \<open>The state as a property of the members\<close>

definition leaf_cert :: "('info, 'json, 'cert, 'k, 'path) e2ei_lib \<Rightarrow> mls_credential \<Rightarrow> 'cert option" where
  "leaf_cert S cred = (case parse_leaf_cert S cred of Inr (Some cert) \<Rightarrow> Some cert | _ \<Rightarrow> None)"

definition verified_member ::
  "('info, 'json, 'cert, 'k, 'path) e2ei_lib \<Rightarrow> 'cert pki_env \<Rightarrow> u16 \<Rightarrow> mls_credential \<Rightarrow> bool" where
  "verified_member S env cs cred = (case leaf_cert S cred of
       None \<Rightarrow> False
     | Some cert \<Rightarrow> is_ok (extract_identity (acquisition S) env (e2ei_hash_alg S cs) cert) \<and> is_time_valid S cert = Some True
         \<and> is_ok (pki_validate_cert (pki (acquisition S)) cert env))"

lemma state_step:
  "conversation_state_from S env cs is_e2ei state (c # credentials) =
     (if leaf_cert S c = None then if is_e2ei then (True, NotVerified) else conversation_state_from S env cs False NotVerified credentials
      else if verified_member S env cs c then conversation_state_from S env cs True state credentials
      else (True, NotVerified))"
  by (auto simp: leaf_cert_def verified_member_def Let_def split: sum.splits option.splits)

lemma state_from_spec:
  "conversation_state_from S env cs is_e2ei state credentials =
     (is_e2ei \<or> (\<exists>c \<in> set credentials. leaf_cert S c \<noteq> None),
      if list_all (verified_member S env cs) credentials then state else NotVerified)"
proof (induction credentials arbitrary: is_e2ei state)
  case (Cons c credentials)
  have "leaf_cert S c = None \<Longrightarrow> \<not> verified_member S env cs c"
    by (simp add: verified_member_def)
  then show ?case
    unfolding state_step using Cons.IH by auto
qed simp

text \<open>
  C14: With a PKI environment, a conversation is verified when every member has a certificate that
  parses, carries an identity, is in its validity period and passes validation with revocation, and
  there is a member; it is not enabled when no member has a certificate that parses; and in between
  it is not verified.  The order of the members does not matter although the loop stops early.
\<close>

theorem conversation_state_characterised:
  "compute_conversation_state S (Some env) cs credentials =
     (if list_all (\<lambda>c. leaf_cert S c = None) credentials then NotEnabled
      else if list_all (verified_member S env cs) credentials then Verified
      else NotVerified)"
  by (auto simp: compute_conversation_state_def state_from_spec list_all_iff)

end
