(* ===== verification/Spec2Isabelle.thy ===== *)
theory Spec2Isabelle
  imports Pending_Entities Decrypt_Outcomes Commit_Properties Credential_Properties Transaction_Properties
    Acquisition_Properties Proteus_Properties E2ei_State
begin

text \<open>
  \<^bold>\<open>A verification library for core-crypto.\<close>

  Core-crypto is a client library for end-to-end encrypted messaging.  It keeps MLS groups
  (through OpenMLS) and Proteus sessions in an encrypted database, and obtains X.509 credentials for
  its clients.  The parts build on each other:

  \<^item> the keystore (\<open>keystore/src\<close>) stores entities in SQL tables, behind a transaction that
    collects saves and deletions in memory until it is committed;
  \<^item> the conversations (\<open>crypto/src/mls/conversation\<close>) wrap an MLS group, write it to the
    keystore after each change, send commits to the delivery service, and buffer messages that
    come too early;
  \<^item> the transaction context (\<open>crypto/src/transaction_context\<close>) opens a keystore
    transaction, hands out conversations from a cache, and finishes or aborts all of it;
  \<^item> the Proteus client (\<open>crypto/src/proteus\<close>) keeps its sessions in a cache in front of
    the same keystore;
  \<^item> end-to-end identity (\<open>e2e-identity/src\<close>) acquires certificates from an ACME server
    and validates them in a PKI environment stored in the keystore.

  \<^bold>\<open>Conventions.\<close>  Rust's \<open>Result\<close> is a sum type whose left side is the error.  A
  method on \<open>&mut self\<close> that may fail is a function from a state to a result and a state, so
  changes made before a failure stay visible.  A \<open>String\<close> is its UTF-8 bytes, machine integers
  are words, a panic is a value of the error type.  Calls run one after the other: every operation
  holds its lock for its whole body.  Logging is left out and debug assertions are those of a
  release build.

  \<^bold>\<open>Theories and sources.\<close>

  \<^item> \<open>Prelude\<close>, \<open>State_Result\<close>: results, loops that stop at an error, byte orders, UTF-8,
    fallible operations on a state and their invariants.
  \<^item> \<open>Key_Type\<close> (\<open>traits/key_type.rs\<close>, \<open>hash.rs\<close>, \<open>error.rs\<close>), \<open>Sql_Store\<close>
    (the SQL statements and the schema), \<open>Entities\<close> and \<open>Dispatch\<close> (\<open>entities\<close>,
    \<open>transaction/dynamic_dispatch\<close>), \<open>Keystore_Transaction\<close> (\<open>transaction/mod.rs\<close>),
    \<open>Database\<close> (\<open>connection/mod.rs\<close>), \<open>Keystore_Mls\<close> (\<open>mls.rs\<close>, \<open>proteus.rs\<close>): the
    keystore.  A table is a list of rows, the database handle a record of connection, permits and
    open transaction; \<open>db_step\<close> is the relation of its calls.
  \<^item> \<open>Client_Id\<close> (\<open>mls/session/id.rs\<close>, \<open>user_id.rs\<close>, legacy forms), \<open>Credentials\<close>
    (\<open>mls/credential\<close>, key packages).
  \<^item> \<open>Group_View\<close> (\<open>mls/conversation/immutable\<close>), \<open>Conversation_Config\<close>,
    \<open>Conversation\<close>, \<open>Commit_Flow\<close>, \<open>Decrypt\<close> (\<open>mls/conversation/mutable\<close>).  The
    state is the group with the database, the epoch changes to announce and the commits sent.
  \<^item> \<open>Transaction_Context\<close> (\<open>transaction_context\<close>, \<open>conversation_cache.rs\<close>,
    \<open>pending.rs\<close>): conversations live in a heap, since guards and cache share them.
  \<^item> \<open>Proteus\<close> (\<open>proteus\<close>, \<open>transaction_context/proteus.rs\<close>).
  \<^item> \<open>X509_Revocation\<close> (\<open>x509_check\<close>), \<open>Pki_Env\<close> (\<open>pki_env\<close>), \<open>Acme\<close>
    (\<open>acme\<close>), \<open>Acquisition\<close> (\<open>acquisition\<close>): end-to-end identity.  An acquisition
    runs on the trace of the hooks it called.
  \<^item> \<open>E2ei_State\<close> (\<open>mls/session/e2e_identity.rs\<close>): the identity state of a conversation.

  \<^bold>\<open>What is shown.\<close>

  \<^item> \<open>Entity_Store\<close>, \<open>Overlay\<close>, \<open>Keystore_Properties\<close>, \<open>Pending_Entities\<close>: the SQL
    statements implement a store of records (\<open>record_store\<close>) and the handle a store with a
    transaction (\<open>transactional_store\<close>); a commit changes no read, when exactly it succeeds, at
    most one transaction is open, searches are filters; and the entities whose reads, deletions or
    order of deletion go wrong.
  \<^item> \<open>Conversation_Store\<close>, \<open>Commit_Invariants\<close>, \<open>Commit_Properties\<close>: every call keeps
    the database reachable (\<open>conversation_invariant\<close>), a success means that the delivery
    service accepted the commit, and a rejected commit is undone, with the exception around history
    clients.
  \<^item> \<open>Decrypt_Invariants\<close>, \<open>Decrypt_Properties\<close>, \<open>Decrypt_Outcomes\<close>: decryption ends
    (\<open>mutation_invariant\<close>, \<open>buffered_commits\<close>), the outcome on each branch, and two ways
    in which the buffers get out of step with the group.
  \<^item> \<open>Group_View\<close>, \<open>Credential_Properties\<close>: commit delays, credentials and key packages.
  \<^item> \<open>Transaction_Properties\<close>: aborting restores the database after any sequence of calls
    (\<open>transaction_invariant\<close>), and what a failed commit or a rejected join leave behind.
  \<^item> \<open>Proteus_Properties\<close>: encrypting writes through to the keystore; sessions across an
    aborted and a committed transaction.
  \<^item> \<open>X509_Properties\<close>, \<open>Pki_Properties\<close>, \<open>Acquisition_Properties\<close>, \<open>E2ei_State\<close>: the
    lookup of revocation lists against a search, changes of the PKI environment that are undone or
    not stored, the checks, steps and nonces of an acquisition, and the state of a conversation in
    terms of its members.
  \<^item> \<open>Example_Group\<close> and the sections on concrete values hold instances of the parameters on
    which the theorems with hypotheses are applied.

  \<^bold>\<open>Bounds and fuel.\<close>  Decryption, restored messages and buffered commits call each other; the
  model gives this recursion fuel 5 and has an error value for running out of it.
  \<open>decrypt_message_terminates\<close> shows that the value is never returned: messages are restored only
  by a commit and never by a restored message, so four nested calls are the most.  The search
  for a free prekey identifier is a loop with a termination proof.  All other loops are structural.

  \<^bold>\<open>Parameters.\<close>  Code outside the repository is a parameter, with what is relied on as a named
  hypothesis: OpenMLS (it changes the database only through its key store interface, \<open>lib_ok\<close>,
  \<open>tx_lib_ok\<close>), the hash functions (\<open>sha256_sized\<close>), the order of hash maps (\<open>permuting\<close>), UUID
  and base64 (\<open>uuid_ok\<close>, \<open>base64_ok\<close>), TLS and certificate codecs, \<open>certval\<close>, the LRU maps
  (\<open>lru_clears\<close>, \<open>cache_ok\<close>), the Proteus protocol, the delivery service, the client's hooks, and
  which statements the database engine fails.

  \<^bold>\<open>Not modelled.\<close>
  The crypto provider, key generation and signing are calls of cryptographic libraries.  Opening,
  encrypting and migrating the database file is I/O and SQL scripts, of which the resulting schema
  is used.  The IndexedDB backend replaces the SQL backend in browsers, and the unified connection
  is not called by any other crate.  The periodic check of all stored credentials, the conversion of
  certificate bundles to credentials, the identity of a basic credential and the creation of
  ephemeral history clients are left out; what they call in the PKI environment and the keystore is
  modelled.  The foreign function interface forwards to the modelled calls.  The derive macros run
  at compile time, and the statements they produce are part of \<open>Entities\<close>.  Error wrappers, trait
  signatures, tools, test support and documentation have no behaviour of their own.
\<close>

end
